(* ===== verification/Prelude.thy ===== *)
theory Prelude
  imports Main
begin

text \<open>
  What every component of the model shares: the errors a JavaScript computation can end
  with, the result type \<open>js_error + 'a\<close> with its sequencing, the collections of
  simplification rules (\<open>js_simps\<close> for the JavaScript library functions,
  \<open>ui_simps\<close> for the rendered views), generic lemmas on lists, and machines whose
  steps are guarded by what is enabled in the current state.
\<close>

named_theorems js_simps "evaluation rules of the JavaScript library model"
named_theorems ui_simps "what a rendered view offers to the user"

section \<open>Results\<close>

text \<open>
  A promise that is rejected, or a call that throws, ends with one of these: a
  \<open>TypeError\<close> or a \<open>SyntaxError\<close> thrown by the language, a failed network request
  (\<open>fetch\<close> rejects), or \<open>new Error(message)\<close> thrown by the program.
\<close>

datatype js_error = TypeErr | SyntaxErr | NetErr | Err string

type_synonym 'a res = "js_error + 'a"

definition bind_res :: "'a res \<Rightarrow> ('a \<Rightarrow> 'b res) \<Rightarrow> 'b res" where
  "bind_res r f = (case r of Inl e \<Rightarrow> Inl e | Inr x \<Rightarrow> f x)"

definition catch_res :: "'a res \<Rightarrow> 'a \<Rightarrow> 'a" where
  "catch_res r d = (case r of Inl _ \<Rightarrow> d | Inr x \<Rightarrow> x)"

lemma bind_res_simps [simp]:
  "bind_res (Inl e) f = Inl e"
  "bind_res (Inr x) f = f x"
  by (simp_all add: bind_res_def)

lemma catch_res_simps [simp]:
  "catch_res (Inl e) d = d"
  "catch_res (Inr x) d = x"
  by (simp_all add: catch_res_def)

lemma bind_res_Inr: "bind_res r f = Inr y \<longleftrightarrow> (\<exists>x. r = Inr x \<and> f x = Inr y)"
  by (cases r) simp_all

text \<open>Mapping a list with a function that may throw: the first error ends the traversal.\<close>

fun map_res :: "('a \<Rightarrow> 'b res) \<Rightarrow> 'a list \<Rightarrow> 'b list res" where
  "map_res f [] = Inr []"
| "map_res f (x # xs) =
     bind_res (f x) (\<lambda>y. bind_res (map_res f xs) (\<lambda>ys. Inr (y # ys)))"

lemma map_res_Inr_map: "(\<And>x. x \<in> set xs \<Longrightarrow> f x = Inr (g x)) \<Longrightarrow> map_res f xs = Inr (map g xs)"
  by (induction xs) simp_all

lemma map_res_Inl: "x \<in> set xs \<Longrightarrow> f x = Inl e \<Longrightarrow> \<exists>e'. map_res f xs = Inl e'"
proof (induction xs)
  case Nil
  then show ?case by simp
next
  case (Cons y ys)
  then show ?case by (cases "f y"; cases "map_res f ys") auto
qed

lemma map_res_mem: "map_res f xs = Inr ys \<Longrightarrow> y \<in> set ys \<Longrightarrow> \<exists>x\<in>set xs. f x = Inr y"
  by (induction xs arbitrary: ys) (auto simp: bind_res_Inr)

lemma map_res_length: "map_res f xs = Inr ys \<Longrightarrow> length ys = length xs"
  by (induction xs arbitrary: ys) (auto simp: bind_res_Inr)

section \<open>Machines with guarded steps\<close>

text \<open>
  A page of the dashboard is a machine: in state \<open>s\<close> an event \<open>e\<close> may happen when
  \<open>en s e\<close> holds (the view offers it, or the environment can deliver it), and the
  handler's effect is \<open>st s e\<close>. The states reachable from \<open>s\<close> are \<open>run en st s\<close>.
\<close>

inductive run :: "('s \<Rightarrow> 'e \<Rightarrow> bool) \<Rightarrow> ('s \<Rightarrow> 'e \<Rightarrow> 's) \<Rightarrow> 's \<Rightarrow> 's \<Rightarrow> bool"
  for en :: "'s \<Rightarrow> 'e \<Rightarrow> bool" and st :: "'s \<Rightarrow> 'e \<Rightarrow> 's" where
  run_refl: "run en st s s"
| run_step: "run en st s t \<Longrightarrow> en t e \<Longrightarrow> run en st s (st t e)"

inductive_cases run_elim: "run en st s t"

text \<open>A whole session as a list of events, each enabled when it happens.\<close>

fun exec_events :: "('s \<Rightarrow> 'e \<Rightarrow> bool) \<Rightarrow> ('s \<Rightarrow> 'e \<Rightarrow> 's) \<Rightarrow> 's \<Rightarrow> 'e list \<Rightarrow> 's option" where
  "exec_events en st s [] = Some s"
| "exec_events en st s (e # es) = (if en s e then exec_events en st (st s e) es else None)"

lemma run_trans: "run en st t u \<Longrightarrow> run en st s t \<Longrightarrow> run en st s u"
  by (induction rule: run.induct) (auto intro: run_step)

lemma exec_events_run: "exec_events en st s es = Some t \<Longrightarrow> run en st s t"
proof (induction es arbitrary: s)
  case Nil
  then show ?case by (simp add: run_refl)
next
  case (Cons e es)
  then have "en s e" and "run en st (st s e) t" by (auto split: if_splits)
  moreover from \<open>en s e\<close> have "run en st s (st s e)"
    by (rule run_step [OF run_refl])
  ultimately show ?case by (blast intro: run_trans)
qed

text \<open>
  The contract between a page and the facts proved about it: an invariant every enabled
  step keeps holds in every reachable state.
\<close>

locale guarded_machine =
  fixes en :: "'s \<Rightarrow> 'e \<Rightarrow> bool" and st :: "'s \<Rightarrow> 'e \<Rightarrow> 's" and inv :: "'s \<Rightarrow> bool"
  assumes step_inv: "inv s \<Longrightarrow> en s e \<Longrightarrow> inv (st s e)"
begin

lemma run_inv: "run en st s t \<Longrightarrow> inv s \<Longrightarrow> inv t"
  by (induction rule: run.induct) (auto intro: step_inv)

lemma exec_inv: "exec_events en st s es = Some t \<Longrightarrow> inv s \<Longrightarrow> inv t"
  by (blast intro: run_inv exec_events_run)

end

text \<open>
  A machine that keeps a log (of the calls it made, of where it sent the router): what the
  invariant says of each entry holds of every entry in every session.
\<close>

locale logged_machine = guarded_machine +
  fixes log :: "'s \<Rightarrow> 'c list" and ok :: "'c \<Rightarrow> bool"
  assumes log_inv: "inv s \<Longrightarrow> list_all ok (log s)"
begin

lemma run_log: "run en st s t \<Longrightarrow> inv s \<Longrightarrow> list_all ok (log t)"
  by (rule log_inv) (rule run_inv)

end

text \<open>
  The contract of a page that shows nothing of some data: erasing the data from the states
  and the events commutes with the steps, so two sessions that differ only there go
  through states that differ only there.
\<close>

locale erasure =
  fixes en :: "'s \<Rightarrow> 'e \<Rightarrow> bool" and st :: "'s \<Rightarrow> 'e \<Rightarrow> 's" and hs :: "'s \<Rightarrow> 's" and he :: "'e \<Rightarrow> 'e"
  assumes enabled_erased: "en (hs s) (he e) = en s e"
    and step_erased: "st (hs s) (he e) = hs (st s e)"
begin

lemma exec_erased: "exec_events en st (hs s) (map he es) = map_option hs (exec_events en st s es)"
  by (induction es arbitrary: s) (simp_all add: enabled_erased step_erased)

lemma same_outside:
  assumes "map he es = map he es'" and "hs s = hs s'" and "exec_events en st s es = Some t"
  shows "\<exists>t'. exec_events en st s' es' = Some t' \<and> hs t' = hs t"
  using exec_erased [of s es] exec_erased [of s' es'] assms by (cases "exec_events en st s' es'") auto

end

section \<open>Lists\<close>

lemma list_ex_map: "list_ex P (map f xs) = list_ex (P \<circ> f) xs"
  by (induction xs) simp_all

lemma list_ex_concat: "list_ex P (concat xss) = list_ex (list_ex P) xss"
  by (induction xss) simp_all

lemma takeWhile_all: "list_all P xs \<Longrightarrow> takeWhile P (xs @ ys) = xs @ takeWhile P ys"
  by (induction xs) simp_all

lemma dropWhile_all: "list_all P xs \<Longrightarrow> dropWhile P (xs @ ys) = dropWhile P ys"
  by (induction xs) simp_all

lemma map_idI_all: "list_all P xs \<Longrightarrow> (\<And>x. P x \<Longrightarrow> f x = x) \<Longrightarrow> map f xs = xs"
  by (induction xs) simp_all

end
