(* ===== verification/JsString.thy ===== *)
theory JsString
  imports Prelude
begin

text \<open>
  The part of JavaScript's \<open>String\<close> that the sources use. A string is HOL's \<open>string\<close>,
  a list of code units below 256: the 8-bit range of UTF-16. Case mapping follows the
  Unicode tables on that range, with one exception: the upper case of the micro sign and
  of y with diaeresis lies outside the range, and \<open>to_upper\<close> leaves them unchanged.
  The last section has the decimal numerals that \<open>parseInt\<close> and template literals use.
\<close>

section \<open>Case mapping\<close>

abbreviation code :: "char \<Rightarrow> nat" where
  "code c \<equiv> of_char c"

definition lower_char :: "char \<Rightarrow> char" where
  "lower_char c = (let n = code c in
     if (65 \<le> n \<and> n \<le> 90) \<or> (192 \<le> n \<and> n \<le> 222 \<and> n \<noteq> 215)
     then char_of (n + 32) else c)"

definition upper_char :: "char \<Rightarrow> string" where
  "upper_char c = (let n = code c in
     if n = 223 then ''SS''
     else if (97 \<le> n \<and> n \<le> 122) \<or> (224 \<le> n \<and> n \<le> 254 \<and> n \<noteq> 247)
     then [char_of (n - 32)] else [c])"

definition to_lower :: "string \<Rightarrow> string" where
  "to_lower s = map lower_char s"

definition to_upper :: "string \<Rightarrow> string" where
  "to_upper s = concat (map upper_char s)"

definition is_lower :: "char \<Rightarrow> bool" where
  "is_lower c \<longleftrightarrow> 97 \<le> code c \<and> code c \<le> 122"

definition is_upper :: "char \<Rightarrow> bool" where
  "is_upper c \<longleftrightarrow> 65 \<le> code c \<and> code c \<le> 90"

definition is_digit :: "char \<Rightarrow> bool" where
  "is_digit c \<longleftrightarrow> 48 \<le> code c \<and> code c \<le> 57"

lemma to_lower_Nil [simp]: "to_lower [] = []"
  by (simp add: to_lower_def)

lemma to_lower_Cons [simp]: "to_lower (c # s) = lower_char c # to_lower s"
  by (simp add: to_lower_def)

lemma to_lower_append [simp]: "to_lower (s @ t) = to_lower s @ to_lower t"
  by (simp add: to_lower_def)

lemma length_to_lower [simp]: "length (to_lower s) = length s"
  by (simp add: to_lower_def)

lemma to_upper_Nil [simp]: "to_upper [] = []"
  by (simp add: to_upper_def)

lemma to_upper_Cons [simp]: "to_upper (c # s) = upper_char c @ to_upper s"
  by (simp add: to_upper_def)

lemma to_upper_append [simp]: "to_upper (s @ t) = to_upper s @ to_upper t"
  by (simp add: to_upper_def)

lemma code_char_of: "n < 256 \<Longrightarrow> code (char_of n) = n"
  by simp

lemma code_lt [simp]: "code c < 256"
  by (metis of_char_mod_256 mod_less_divisor zero_less_numeral)

lemma code_inj: "code c = code d \<longleftrightarrow> c = d"
  by simp

lemma lower_char_id: "\<not> is_upper c \<Longrightarrow> code c < 192 \<Longrightarrow> lower_char c = c"
  by (auto simp: lower_char_def is_upper_def Let_def)

lemma lower_char_idem [simp]: "lower_char (lower_char c) = lower_char c"
  by (simp add: lower_char_def Let_def)

lemma to_lower_idem [simp]: "to_lower (to_lower s) = to_lower s"
  by (simp add: to_lower_def comp_def)

lemma upper_char_lower: "is_lower c \<Longrightarrow> upper_char c = [char_of (code c - 32)]"
  by (simp add: upper_char_def is_lower_def Let_def)

lemma upper_char_id: "\<not> is_lower c \<Longrightarrow> code c < 192 \<Longrightarrow> upper_char c = [c]"
  by (auto simp: upper_char_def is_lower_def Let_def)

lemma lower_upper_char: "is_lower c \<Longrightarrow> lower_char (char_of (code c - 32)) = c"
proof -
  assume c: "is_lower c"
  then have "code c - 32 < 256" by (auto simp: is_lower_def)
  then have "(code c - 32) mod 256 = code c - 32" by (rule mod_less)
  with c show ?thesis by (auto simp: lower_char_def is_lower_def Let_def)
qed

section \<open>Searching, splitting, joining\<close>

definition starts_with :: "string \<Rightarrow> string \<Rightarrow> bool" where
  "starts_with p s \<longleftrightarrow> take (length p) s = p"

fun str_includes :: "string \<Rightarrow> string \<Rightarrow> bool" where
  "str_includes [] n = (n = [])"
| "str_includes (c # s) n = (starts_with n (c # s) \<or> str_includes s n)"

definition replace_if :: "(char \<Rightarrow> bool) \<Rightarrow> char \<Rightarrow> string \<Rightarrow> string" where
  "replace_if P b s = map (\<lambda>c. if P c then b else c) s"

fun split_on :: "char \<Rightarrow> string \<Rightarrow> string list" where
  "split_on d [] = [[]]"
| "split_on d (c # s) =
     (if c = d then [] # split_on d s
      else (case split_on d s of [] \<Rightarrow> [[c]] | w # ws \<Rightarrow> (c # w) # ws))"

fun join_with :: "string \<Rightarrow> string list \<Rightarrow> string" where
  "join_with d [] = []"
| "join_with d [s] = s"
| "join_with d (s # t # ss) = s @ d @ join_with d (t # ss)"

definition slice_from :: "nat \<Rightarrow> string \<Rightarrow> string" where
  "slice_from n s = drop n s"

definition is_ws :: "char \<Rightarrow> bool" where
  "is_ws c \<longleftrightarrow> code c \<in> {9, 10, 11, 12, 13, 32, 160}"

definition trim_start :: "string \<Rightarrow> string" where
  "trim_start s = dropWhile is_ws s"

definition trim :: "string \<Rightarrow> string" where
  "trim s = rev (dropWhile is_ws (rev (trim_start s)))"

lemma starts_with_prefix: "starts_with p s \<longleftrightarrow> (\<exists>t. s = p @ t)"
proof
  assume "starts_with p s"
  then have "s = p @ drop (length p) s"
    by (metis append_take_drop_id starts_with_def)
  then show "\<exists>t. s = p @ t" ..
qed (auto simp: starts_with_def)

lemma starts_with_Nil [simp]: "starts_with [] s"
  by (simp add: starts_with_def)

lemma starts_with_append [simp]: "starts_with p (p @ s)"
  by (simp add: starts_with_def)

lemma starts_with_Cons [simp]:
  "starts_with (c # p) [] = False"
  "starts_with (c # p) (d # s) = (d = c \<and> starts_with p s)"
  by (auto simp: starts_with_def)

lemma includes_iff: "str_includes s n \<longleftrightarrow> (\<exists>u v. s = u @ n @ v)"
proof (induction s n rule: str_includes.induct)
  case (1 n)
  then show ?case by auto
next
  case (2 c s n)
  show ?case
  proof
    assume "str_includes (c # s) n"
    then consider "starts_with n (c # s)" | "str_includes s n" by auto
    then show "\<exists>u v. c # s = u @ n @ v"
    proof cases
      case 1
      then show ?thesis by (metis append_Nil starts_with_prefix)
    next
      case 2
      with "2.IH" show ?thesis by (metis append_Cons)
    qed
  next
    assume "\<exists>u v. c # s = u @ n @ v"
    then obtain u v where uv: "c # s = u @ n @ v" by blast
    show "str_includes (c # s) n"
    proof (cases u)
      case Nil
      with uv have "starts_with n (c # s)" by simp
      then show ?thesis by simp
    next
      case (Cons a u')
      with uv have "s = u' @ n @ v" by simp
      with "2.IH" show ?thesis by auto
    qed
  qed
qed

text \<open>What a search for a text, without regard to case, means.\<close>

definition mentions :: "string \<Rightarrow> string \<Rightarrow> bool" where
  "mentions s t \<longleftrightarrow> (\<exists>u v. to_lower s = u @ to_lower t @ v)"

lemma mentions_includes: "str_includes (to_lower s) (to_lower t) \<longleftrightarrow> mentions s t"
  by (simp add: mentions_def includes_iff)

lemma includes_Nil [simp]: "str_includes s []"
  by (cases s) simp_all

lemma includes_self [simp]: "str_includes s s"
  by (cases s) (simp_all add: starts_with_def)

lemma replace_if_Nil [simp]: "replace_if P b [] = []"
  by (simp add: replace_if_def)

lemma replace_if_Cons [simp]:
  "replace_if P b (c # s) = (if P c then b else c) # replace_if P b s"
  by (simp add: replace_if_def)

lemma replace_if_append [simp]: "replace_if P b (s @ t) = replace_if P b s @ replace_if P b t"
  by (simp add: replace_if_def)

lemma length_replace_if [simp]: "length (replace_if P b s) = length s"
  by (simp add: replace_if_def)

lemma replace_if_id: "list_all (\<lambda>c. \<not> P c) s \<Longrightarrow> replace_if P b s = s"
  by (induction s) simp_all

lemma replace_if_all: "(\<And>c. Q (if P c then b else c)) \<Longrightarrow> list_all Q (replace_if P b s)"
  by (induction s) simp_all

subsection \<open>Splitting and joining are inverse\<close>

lemma split_on_not_Nil [simp]: "split_on d s \<noteq> []"
  by (cases s) (auto split: list.splits)

lemma join_split: "join_with [d] (split_on d s) = s"
proof (induction s)
  case Nil
  then show ?case by simp
next
  case (Cons c s)
  obtain w ws where sw: "split_on d s = w # ws"
    by (cases "split_on d s") simp_all
  with Cons show ?case by (cases ws) auto
qed

lemma split_on_absent: "d \<notin> set s \<Longrightarrow> split_on d s = [s]"
  by (induction s) auto

lemma split_on_append: "d \<notin> set s \<Longrightarrow> split_on d (s @ d # t) = s # split_on d t"
  by (induction s) auto

lemma split_join:
  "ss \<noteq> [] \<Longrightarrow> (\<And>s. s \<in> set ss \<Longrightarrow> d \<notin> set s) \<Longrightarrow> split_on d (join_with [d] ss) = ss"
proof (induction "[d]" ss rule: join_with.induct)
  case 1
  then show ?case by simp
next
  case (2 s)
  then show ?case by (simp add: split_on_absent)
next
  case (3 s t ss)
  then show ?case by (simp add: split_on_append)
qed

lemma split_on_parts: "w \<in> set (split_on d s) \<Longrightarrow> d \<notin> set w"
proof (induction s arbitrary: w)
  case Nil
  then show ?case by simp
next
  case (Cons c s)
  then show ?case by (cases "split_on d s") (auto split: if_splits)
qed

lemma set_join: "c \<in> set (join_with d ss) \<Longrightarrow> c \<in> set d \<or> (\<exists>s\<in>set ss. c \<in> set s)"
  by (induction d ss rule: join_with.induct) auto

lemma set_join_parts: "s \<in> set ss \<Longrightarrow> set s \<subseteq> set (join_with d ss)"
  by (induction d ss rule: join_with.induct) auto

subsection \<open>Trimming\<close>

lemma trim_id: "s \<noteq> [] \<Longrightarrow> \<not> is_ws (hd s) \<Longrightarrow> \<not> is_ws (last s) \<Longrightarrow> trim s = s"
proof -
  assume s: "s \<noteq> []" "\<not> is_ws (hd s)" "\<not> is_ws (last s)"
  then have "trim_start s = s"
    by (simp add: trim_start_def dropWhile_eq_self_iff)
  moreover have "dropWhile is_ws (rev s) = rev s"
    using s by (simp add: dropWhile_eq_self_iff hd_rev)
  ultimately show ?thesis by (simp add: trim_def)
qed

lemma trim_Nil [simp]: "trim [] = []"
  by (simp add: trim_def trim_start_def)

lemma trim_no_ws: "list_all (\<lambda>c. \<not> is_ws c) s \<Longrightarrow> trim s = s"
  by (cases "s = []") (auto intro: trim_id simp: list_all_iff)

section \<open>Decimal numerals\<close>

fun show_nat :: "nat \<Rightarrow> string" where
  "show_nat n = (if n < 10 then [char_of (48 + n)]
     else show_nat (n div 10) @ [char_of (48 + n mod 10)])"

declare show_nat.simps [simp del]

definition show_int :: "int \<Rightarrow> string" where
  "show_int i = (if i < 0 then CHR ''-'' # show_nat (nat (- i)) else show_nat (nat i))"

definition digit_val :: "char \<Rightarrow> nat" where
  "digit_val c = code c - 48"

definition read_digits :: "string \<Rightarrow> nat" where
  "read_digits s = foldl (\<lambda>a c. 10 * a + digit_val c) 0 s"

text \<open>\<open>parseInt(s, 10)\<close>: leading white space, a sign, then the longest run of digits;
  \<open>None\<close> is \<open>NaN\<close>.\<close>

definition parse_int10 :: "string \<Rightarrow> int option" where
  "parse_int10 s =
     (let t = trim_start s;
          neg = starts_with ''-'' t;
          u = (if neg \<or> starts_with ''+'' t then drop 1 t else t);
          ds = takeWhile is_digit u
      in if ds = [] then None
         else Some (if neg then - int (read_digits ds) else int (read_digits ds)))"

lemma char_of_48 [simp]: "char_of (48::nat) = CHR ''0''"
  by code_simp

lemma is_digit_char_of: "(n::nat) < 10 \<Longrightarrow> is_digit (char_of (48 + n))"
  by (simp add: is_digit_def)

lemma digit_val_char_of: "(n::nat) < 10 \<Longrightarrow> digit_val (char_of (48 + n)) = n"
  by (simp add: digit_val_def)

lemma show_nat_digits: "list_all is_digit (show_nat n)"
proof (induction n rule: show_nat.induct)
  case (1 n)
  show ?case
  proof (cases "n < 10")
    case True
    then show ?thesis by (simp add: show_nat.simps [of n] is_digit_char_of)
  next
    case False
    with 1 show ?thesis
      by (simp add: show_nat.simps [of n] is_digit_char_of)
  qed
qed

lemma show_nat_not_Nil [simp]: "show_nat n \<noteq> []"
  by (subst show_nat.simps) simp

lemma read_digits_snoc: "read_digits (s @ [c]) = 10 * read_digits s + digit_val c"
  by (simp add: read_digits_def)

lemma read_show_nat: "read_digits (show_nat n) = n"
proof (induction n rule: show_nat.induct)
  case (1 n)
  show ?case
  proof (cases "n < 10")
    case True
    then show ?thesis
      by (simp add: show_nat.simps [of n] read_digits_def digit_val_char_of)
  next
    case False
    with 1 show ?thesis
      by (simp add: show_nat.simps [of n] read_digits_snoc digit_val_char_of)
  qed
qed

lemma show_nat_inj: "show_nat m = show_nat n \<longleftrightarrow> m = n"
  by (metis read_show_nat)

lemma show_nat_hd: "is_digit (hd (show_nat n))"
  using show_nat_digits [of n] by (cases "show_nat n") simp_all

lemma digit_not_ws: "is_digit c \<Longrightarrow> \<not> is_ws c"
  by (auto simp: is_digit_def is_ws_def)

lemma digit_not_sign: "is_digit c \<Longrightarrow> c \<noteq> CHR ''-'' \<and> c \<noteq> CHR ''+''"
  by (auto simp: is_digit_def)

lemma parse_int10_digits:
  assumes "ds \<noteq> []" and "list_all is_digit ds" and "rest = [] \<or> \<not> is_digit (hd rest)"
  shows "parse_int10 (ds @ rest) = Some (int (read_digits ds))"
proof -
  obtain c ds' where ds: "ds = c # ds'" and c: "is_digit c"
    using assms(1,2) by (cases ds) simp_all
  have tw: "takeWhile is_digit (ds @ rest) = ds"
    using assms(2,3) by (cases rest) (simp_all add: takeWhile_all takeWhile_eq_all_conv list_all_iff)
  show ?thesis
    using digit_not_ws [OF c] digit_not_sign [OF c] tw c
    by (auto simp: parse_int10_def trim_start_def ds Let_def)
qed

lemma parse_int10_minus:
  assumes "ds \<noteq> []" and "list_all is_digit ds" and "rest = [] \<or> \<not> is_digit (hd rest)"
  shows "parse_int10 (CHR ''-'' # ds @ rest) = Some (- int (read_digits ds))"
proof -
  have tw: "takeWhile is_digit (ds @ rest) = ds"
    using assms(2,3) by (cases rest) (simp_all add: takeWhile_all takeWhile_eq_all_conv list_all_iff)
  have "\<not> is_ws CHR ''-''" by (simp add: is_ws_def)
  then show ?thesis
    using tw assms(1) by (simp add: parse_int10_def trim_start_def Let_def)
qed

lemma parse_show_int: "parse_int10 (show_int i) = Some i"
  using parse_int10_digits [OF show_nat_not_Nil show_nat_digits, of "[]" "nat i"]
    parse_int10_minus [OF show_nat_not_Nil show_nat_digits, of "[]" "nat (- i)"]
  by (simp add: show_int_def read_show_nat)

end
