(* ===== verification/JsValue.thy ===== *)
theory JsValue
  imports JsString
begin

text \<open>
  JavaScript values as the sources handle them: what \<open>JSON.parse\<close> can return, plus
  \<open>undefined\<close> and the functions found on a prototype. Objects keep their own
  properties in the order of \<open>OrdinaryOwnPropertyKeys\<close>: array indices first, ascending,
  then the other keys in insertion order. Property reads, \<open>in\<close>, truthiness and
  \<open>String(v)\<close> follow the language's rules, prototype chain included.

  A number is \<open>NaN\<close> or an exact decimal \<open>Dec m e\<close>, that is m times 10 to the e, in
  lowest terms (\<open>dec\<close> normalises). IEEE rounding is not modelled: up to fifteen
  significant digits a double reads and prints exactly like its decimal.
\<close>

section \<open>Numbers\<close>

datatype js_num = NaN | Dec int int

function dec :: "int \<Rightarrow> int \<Rightarrow> js_num" where
  "dec m e = (if m = 0 then Dec 0 0 else if m mod 10 = 0 then dec (m div 10) (e + 1) else Dec m e)"
  by pat_completeness auto
termination
  by (relation "measure (\<lambda>(m, e). nat \<bar>m\<bar>)") auto

declare dec.simps [simp del]

definition num_of_int :: "int \<Rightarrow> js_num" where
  "num_of_int i = dec i 0"

text \<open>The value of an integral number (\<open>None\<close> for \<open>NaN\<close> and for a fraction).\<close>

fun int_of_num :: "js_num \<Rightarrow> int option" where
  "int_of_num NaN = None"
| "int_of_num (Dec m e) = (if 0 \<le> e then Some (m * 10 ^ nat e) else None)"

lemma dec_int: "0 \<le> e \<Longrightarrow> int_of_num (dec m e) = Some (m * 10 ^ nat e)"
proof (induction m e rule: dec.induct)
  case (1 m e)
  show ?case
  proof (cases "m \<noteq> 0 \<and> m mod 10 = 0")
    case True
    then obtain k where k: "m = 10 * k" by (auto elim: dvdE simp: mod_eq_0_iff_dvd)
    have "nat (e + 1) = Suc (nat e)" using "1.prems" by (simp add: nat_add_distrib)
    with True "1.IH" "1.prems" k show ?thesis
      using dec.simps [of m e] by simp
  next
    case False
    with "1.prems" show ?thesis by (auto simp: dec.simps [of m e])
  qed
qed

lemma int_of_num_of_int [simp]: "int_of_num (num_of_int i) = Some i"
  by (simp add: num_of_int_def dec_int)

text \<open>\<open>Number::toString\<close>: digits, point and exponent, by the position of the point.\<close>

definition num_digits :: "string \<Rightarrow> int \<Rightarrow> string" where
  "num_digits ds n =
     (let k = int (length ds)
      in if k \<le> n \<and> n \<le> 21 then ds @ replicate (nat (n - k)) CHR ''0''
         else if 0 < n \<and> n \<le> 21 then take (nat n) ds @ ''.'' @ drop (nat n) ds
         else if -6 < n \<and> n \<le> 0 then ''0.'' @ replicate (nat (- n)) CHR ''0'' @ ds
         else take 1 ds @ (if k = 1 then [] else CHR ''.'' # drop 1 ds) @ ''e''
              @ (if 0 < n then ''+'' else ''-'') @ show_nat (nat \<bar>n - 1\<bar>))"

fun show_num :: "js_num \<Rightarrow> string" where
  "show_num NaN = ''NaN''"
| "show_num (Dec m e) =
     (if m = 0 then ''0''
      else let ds = show_nat (nat \<bar>m\<bar>); body = num_digits ds (int (length ds) + e)
           in if m < 0 then CHR ''-'' # body else body)"

lemma dec_not_NaN [simp]: "dec m e \<noteq> NaN"
  by (induction m e rule: dec.induct) (subst dec.simps, simp)

lemma num_of_int_not_NaN [simp]: "num_of_int i \<noteq> NaN"
  by (simp add: num_of_int_def)

text \<open>An integer of at most 21 digits prints as its plain decimal numeral.\<close>

lemma show_nat_times_10: "0 < n \<Longrightarrow> show_nat (n * 10) = show_nat n @ ''0''"
  using show_nat.simps [of "n * 10"] by simp

lemma show_nat_times_pow: "0 < n \<Longrightarrow> show_nat (n * 10 ^ k) = show_nat n @ replicate k CHR ''0''"
proof (induction k)
  case 0
  then show ?case by simp
next
  case (Suc k)
  have "show_nat (n * 10 ^ Suc k) = show_nat ((n * 10 ^ k) * 10)" by (simp add: ac_simps)
  also have "\<dots> = show_nat (n * 10 ^ k) @ ''0''" using Suc.prems by (intro show_nat_times_10) simp
  finally show ?case using Suc by (simp add: replicate_append_same)
qed

lemma length_show_nat: "n < 10 ^ k \<Longrightarrow> 0 < k \<Longrightarrow> length (show_nat n) \<le> k"
proof (induction k arbitrary: n)
  case 0
  then show ?case by simp
next
  case (Suc k)
  show ?case
  proof (cases "n < 10")
    case True
    then show ?thesis by (simp add: show_nat.simps [of n])
  next
    case False
    then have "0 < k" using Suc.prems by (cases k) auto
    moreover have "n div 10 < 10 ^ k" using Suc.prems by (simp add: less_mult_imp_div_less mult.commute)
    ultimately show ?thesis using Suc.IH False by (simp add: show_nat.simps [of n])
  qed
qed

lemma dec_pos_cases:
  "0 < m \<Longrightarrow> 0 \<le> e \<Longrightarrow> \<exists>a b. dec m e = Dec a b \<and> 0 < a \<and> 0 \<le> b \<and> m * 10 ^ nat e = a * 10 ^ nat b"
proof (induction m e rule: dec.induct)
  case (1 m e)
  show ?case
  proof (cases "m mod 10 = 0")
    case True
    then obtain k where k: "m = 10 * k" by (auto elim: dvdE simp: mod_eq_0_iff_dvd)
    have "nat (e + 1) = Suc (nat e)" using "1.prems" by (simp add: nat_add_distrib)
    with True "1.IH" "1.prems" k show ?thesis using dec.simps [of m e]
      by (simp add: ac_simps)
  next
    case False
    with "1.prems" show ?thesis by (auto simp: dec.simps [of m e])
  qed
qed

lemma dec_uminus: "dec (- m) e = (case dec m e of NaN \<Rightarrow> NaN | Dec a b \<Rightarrow> Dec (- a) b)"
proof (induction m e rule: dec.induct)
  case (1 m e)
  then show ?case
    using dec.simps [of m e] dec.simps [of "- m" e]
    by (auto simp: zmod_zminus1_eq_if zdiv_zminus1_eq_if)
qed

lemma show_pos_int:
  assumes "0 < i" and "i < 10 ^ 21"
  shows "\<exists>a b. num_of_int i = Dec a b \<and> 0 < a
    \<and> num_digits (show_nat (nat a)) (int (length (show_nat (nat a))) + b) = show_nat (nat i)"
proof -
  from assms(1) obtain a b where ab: "dec i 0 = Dec a b" "0 < a" "0 \<le> b" "i = a * 10 ^ nat b"
    using dec_pos_cases [of i 0] by auto
  have ni: "nat i = nat a * 10 ^ nat b" using ab by (simp add: nat_mult_distrib nat_power_eq)
  have sh: "show_nat (nat i) = show_nat (nat a) @ replicate (nat b) CHR ''0''"
    unfolding ni using ab(2) by (intro show_nat_times_pow) simp
  have "nat i < 10 ^ 21" using assms by (simp add: nat_less_iff)
  then have "length (show_nat (nat i)) \<le> 21" by (rule length_show_nat) simp
  then have "int (length (show_nat (nat a))) + b \<le> 21" using ab(3) sh by simp
  then show ?thesis using ab sh by (simp add: num_of_int_def num_digits_def)
qed

lemma show_num_int: "\<bar>i\<bar> < 10 ^ 21 \<Longrightarrow> show_num (num_of_int i) = show_int i"
proof -
  assume i: "\<bar>i\<bar> < 10 ^ 21"
  consider "i = 0" | "0 < i" | "i < 0" by linarith
  then show ?thesis
  proof cases
    case 1
    then show ?thesis by (simp add: num_of_int_def dec.simps show_int_def show_nat.simps)
  next
    case 2
    with i show ?thesis using show_pos_int [of i] by (auto simp: show_int_def Let_def)
  next
    case 3
    with i obtain a b where "num_of_int (- i) = Dec a b" "0 < a"
      "num_digits (show_nat (nat a)) (int (length (show_nat (nat a))) + b) = show_nat (nat (- i))"
      using show_pos_int [of "- i"] by auto
    with 3 show ?thesis using dec_uminus [of "- i" 0]
      by (auto simp: num_of_int_def show_int_def Let_def)
  qed
qed

section \<open>Values and objects\<close>

datatype jsval =
    JUndef
  | JNull
  | JBool bool
  | JNum js_num
  | JStr string
  | JArr "jsval list"
  | JObj "(string \<times> jsval) list"
  | JFun string  \<comment> \<open>a built-in function, by its name\<close>

text \<open>A canonical array index: a decimal numeral without leading zeros, below 2^32 - 1.\<close>

definition array_index :: "string \<Rightarrow> nat option" where
  "array_index k =
     (if k \<noteq> [] \<and> list_all is_digit k \<and> (k = ''0'' \<or> hd k \<noteq> CHR ''0'')
         \<and> read_digits k < 4294967295
      then Some (read_digits k) else None)"

text \<open>Creating or overwriting an own property.\<close>

fun put_index :: "string \<Rightarrow> nat \<Rightarrow> 'v \<Rightarrow> (string \<times> 'v) list \<Rightarrow> (string \<times> 'v) list" where
  "put_index k i v [] = [(k, v)]"
| "put_index k i v ((l, w) # ps) =
     (case array_index l of
        None \<Rightarrow> (k, v) # (l, w) # ps
      | Some j \<Rightarrow> if i < j then (k, v) # (l, w) # ps else (l, w) # put_index k i v ps)"

definition put_new :: "string \<Rightarrow> 'v \<Rightarrow> (string \<times> 'v) list \<Rightarrow> (string \<times> 'v) list" where
  "put_new k v ps = (case array_index k of None \<Rightarrow> ps @ [(k, v)] | Some i \<Rightarrow> put_index k i v ps)"

definition obj_put :: "string \<Rightarrow> 'v \<Rightarrow> (string \<times> 'v) list \<Rightarrow> (string \<times> 'v) list" where
  "obj_put k v ps =
     (if k \<in> fst ` set ps then map (\<lambda>(l, w). if l = k then (l, v) else (l, w)) ps
      else put_new k v ps)"

definition obj_of_list :: "(string \<times> 'v) list \<Rightarrow> (string \<times> 'v) list" where
  "obj_of_list ps = foldl (\<lambda>o' (k, v). obj_put k v o') [] ps"

text \<open>The keys found on the prototypes of objects and arrays (beside the own ones).\<close>

definition object_prototype :: "string list" where
  "object_prototype =
     [''constructor'', ''__defineGetter__'', ''__defineSetter__'', ''hasOwnProperty'',
      ''__lookupGetter__'', ''__lookupSetter__'', ''isPrototypeOf'',
      ''propertyIsEnumerable'', ''toString'', ''valueOf'', ''__proto__'', ''toLocaleString'']"

definition array_prototype :: "string list" where
  "array_prototype =
     [''at'', ''concat'', ''copyWithin'', ''fill'', ''find'', ''findIndex'', ''findLast'',
      ''findLastIndex'', ''lastIndexOf'', ''pop'', ''push'', ''reverse'', ''shift'',
      ''unshift'', ''slice'', ''sort'', ''splice'', ''includes'', ''indexOf'', ''join'',
      ''keys'', ''entries'', ''values'', ''forEach'', ''filter'', ''flat'', ''flatMap'',
      ''map'', ''every'', ''some'', ''reduce'', ''reduceRight'', ''toReversed'',
      ''toSorted'', ''toSpliced'', ''with'']"

definition proto_member :: "string \<Rightarrow> string \<Rightarrow> jsval" where
  "proto_member ctor k =
     (if k = ''constructor'' then JFun ctor else if k = ''__proto__'' then JObj [] else JFun k)"

text \<open>\<open>k in v\<close>: a \<open>TypeError\<close> unless \<open>v\<close> is an object.\<close>

fun js_in :: "string \<Rightarrow> jsval \<Rightarrow> bool res" where
  "js_in k (JObj ps) = Inr (k \<in> fst ` set ps \<or> k \<in> set object_prototype)"
| "js_in k (JArr vs) =
     Inr (k = ''length'' \<or> k \<in> set array_prototype \<or> k \<in> set object_prototype
          \<or> (case array_index k of None \<Rightarrow> False | Some i \<Rightarrow> i < length vs))"
| "js_in k v = Inl TypeErr"

text \<open>\<open>v[k]\<close>: a \<open>TypeError\<close> on \<open>undefined\<close> and \<open>null\<close>; the members of the
  wrapper prototypes of strings, numbers and booleans are not modelled.\<close>

fun js_get :: "string \<Rightarrow> jsval \<Rightarrow> jsval res" where
  "js_get k (JObj ps) =
     Inr (case map_of ps k of
            Some v \<Rightarrow> v
          | None \<Rightarrow> if k \<in> set object_prototype then proto_member ''Object'' k else JUndef)"
| "js_get k (JArr vs) =
     Inr (case array_index k of
            Some i \<Rightarrow> if i < length vs then vs ! i else JUndef
          | None \<Rightarrow>
              if k = ''length'' then JNum (num_of_int (int (length vs)))
              else if k \<in> set array_prototype \<or> k \<in> set object_prototype
                   then proto_member ''Array'' k else JUndef)"
| "js_get k JUndef = Inl TypeErr"
| "js_get k JNull = Inl TypeErr"
| "js_get k v = Inr JUndef"

fun truthy :: "jsval \<Rightarrow> bool" where
  "truthy JUndef = False"
| "truthy JNull = False"
| "truthy (JBool b) = b"
| "truthy (JNum n) = (n \<noteq> NaN \<and> n \<noteq> Dec 0 0)"
| "truthy (JStr s) = (s \<noteq> [])"
| "truthy v = True"

text \<open>
  \<open>String(v)\<close>. An array joins its elements, with the empty string for \<open>null\<close> and
  \<open>undefined\<close>. A plain object gives its tag, unless it has an own property that
  hides \<open>toString\<close>: then \<open>ToPrimitive\<close> finds nothing callable that yields a
  primitive and throws.
\<close>

fun to_str :: "jsval \<Rightarrow> string res"
  and arr_strs :: "jsval list \<Rightarrow> string list res" where
  "to_str JUndef = Inr ''undefined''"
| "to_str JNull = Inr ''null''"
| "to_str (JBool b) = Inr (if b then ''true'' else ''false'')"
| "to_str (JNum n) = Inr (show_num n)"
| "to_str (JStr s) = Inr s"
| "to_str (JArr vs) = bind_res (arr_strs vs) (\<lambda>ss. Inr (join_with '','' ss))"
| "to_str (JObj ps) =
     (if ''toString'' \<in> fst ` set ps then Inl TypeErr else Inr ''[object Object]'')"
| "to_str (JFun f) = Inr (''function '' @ f @ ''() { [native code] }'')"
| "arr_strs [] = Inr []"
| "arr_strs (v # vs) =
     bind_res (case v of JUndef \<Rightarrow> Inr [] | JNull \<Rightarrow> Inr [] | _ \<Rightarrow> to_str v)
       (\<lambda>s. bind_res (arr_strs vs) (\<lambda>ss. Inr (s # ss)))"

text \<open>\<open>a || b\<close>, and the default of a destructured or optional string.\<close>

definition js_or :: "jsval \<Rightarrow> jsval \<Rightarrow> jsval" where
  "js_or a b = (if truthy a then a else b)"

definition or_str :: "string \<Rightarrow> string \<Rightarrow> string" where
  "or_str s d = (if s = [] then d else s)"

definition opt_str :: "string option \<Rightarrow> string \<Rightarrow> string" where
  "opt_str s d = or_str (case s of None \<Rightarrow> [] | Some t \<Rightarrow> t) d"

section \<open>Keys of an object are distinct\<close>

lemma fst_put_index: "fst ` set (put_index k i v ps) = insert k (fst ` set ps)"
  by (induction k i v ps rule: put_index.induct) (auto split: option.split)

lemma distinct_put_index:
  "k \<notin> fst ` set ps \<Longrightarrow> distinct (map fst ps) \<Longrightarrow> distinct (map fst (put_index k i v ps))"
  by (induction k i v ps rule: put_index.induct) (auto simp: fst_put_index split: option.split)

lemma distinct_obj_put: "distinct (map fst ps) \<Longrightarrow> distinct (map fst (obj_put k v ps))"
proof (cases "k \<in> fst ` set ps")
  case True
  assume "distinct (map fst ps)"
  moreover have "map fst (map (\<lambda>(l, w). if l = k then (l, v) else (l, w)) ps) = map fst ps"
    unfolding map_map by (rule map_cong) auto
  ultimately show ?thesis using True by (simp add: obj_put_def del: map_map)
next
  case False
  assume "distinct (map fst ps)"
  with False show ?thesis
    by (auto simp: obj_put_def put_new_def distinct_put_index split: option.split)
qed

lemma distinct_obj_of_list: "distinct (map fst (obj_of_list ps))"
proof -
  have "distinct (map fst o') \<Longrightarrow> distinct (map fst (foldl (\<lambda>o' (k, v). obj_put k v o') o' ps))" for o'
    by (induction ps arbitrary: o') (auto simp: distinct_obj_put)
  then show ?thesis by (simp add: obj_of_list_def)
qed

end
