(* ===== verification/Json.thy ===== *)
theory Json
  imports JsValue
begin

text \<open>
  \<open>JSON.stringify\<close> and \<open>JSON.parse\<close>. The printer skips members that are
  \<open>undefined\<close> (or functions), as the language does. The parser is a recursive descent
  over the character list with a fuel argument; \<open>p_value_fuel\<close> shows that
  \<open>2 * length s + 1\<close> units are enough for every input, so \<open>json_parse\<close> never fails
  for lack of fuel. The main result is \<open>json_roundtrip\<close>: what is printed parses back.
  Escapes above \<open>u00FF\<close> name code units outside the modelled range; the parser
  rejects them.
\<close>

section \<open>Printing\<close>

definition hex_char :: "nat \<Rightarrow> char" where
  "hex_char n = (if n < 10 then char_of (48 + n) else char_of (87 + n))"

definition esc_char :: "char \<Rightarrow> string" where
  "esc_char c =
     (if c = CHR 0x22 then [CHR 0x5C, CHR 0x22]
      else if c = CHR 0x5C then [CHR 0x5C, CHR 0x5C]
      else if c = CHR 0x08 then [CHR 0x5C, CHR ''b'']
      else if c = CHR 0x0C then [CHR 0x5C, CHR ''f'']
      else if c = CHR 0x0A then [CHR 0x5C, CHR ''n'']
      else if c = CHR 0x0D then [CHR 0x5C, CHR ''r'']
      else if c = CHR 0x09 then [CHR 0x5C, CHR ''t'']
      else if code c < 32
        then [CHR 0x5C, CHR ''u'', CHR ''0'', CHR ''0'',
              hex_char (code c div 16), hex_char (code c mod 16)]
      else [c])"

definition esc_str :: "string \<Rightarrow> string" where
  "esc_str s = concat (map esc_char s)"

definition json_quote :: "string \<Rightarrow> string" where
  "json_quote s = CHR 0x22 # esc_str s @ [CHR 0x22]"

text \<open>\<open>None\<close> is the result \<open>undefined\<close>.\<close>

fun json_stringify :: "jsval \<Rightarrow> string option"
  and json_elems :: "jsval list \<Rightarrow> string list"
  and json_members :: "(string \<times> jsval) list \<Rightarrow> string list" where
  "json_stringify JUndef = None"
| "json_stringify (JFun f) = None"
| "json_stringify JNull = Some ''null''"
| "json_stringify (JBool b) = Some (if b then ''true'' else ''false'')"
| "json_stringify (JNum n) = Some (if n = NaN then ''null'' else show_num n)"
| "json_stringify (JStr s) = Some (json_quote s)"
| "json_stringify (JArr vs) = Some (''['' @ join_with '','' (json_elems vs) @ '']'')"
| "json_stringify (JObj ps) = Some (''{'' @ join_with '','' (json_members ps) @ ''}'')"
| "json_elems [] = []"
| "json_elems (v # vs) =
     (case json_stringify v of None \<Rightarrow> ''null'' | Some s \<Rightarrow> s) # json_elems vs"
| "json_members [] = []"
| "json_members ((k, v) # ps) =
     (case json_stringify v of
        None \<Rightarrow> json_members ps
      | Some s \<Rightarrow> (json_quote k @ '':'' @ s) # json_members ps)"

section \<open>Parsing\<close>

definition is_json_ws :: "char \<Rightarrow> bool" where
  "is_json_ws c \<longleftrightarrow> code c \<in> {9, 10, 13, 32}"

definition skip_ws :: "string \<Rightarrow> string" where
  "skip_ws s = dropWhile is_json_ws s"

definition hex_val :: "char \<Rightarrow> nat option" where
  "hex_val c = (let n = code c in
     if 48 \<le> n \<and> n \<le> 57 then Some (n - 48)
     else if 97 \<le> n \<and> n \<le> 102 then Some (n - 87)
     else if 65 \<le> n \<and> n \<le> 70 then Some (n - 55) else None)"

definition hex4 :: "char \<Rightarrow> char \<Rightarrow> char \<Rightarrow> char \<Rightarrow> nat option" where
  "hex4 a b c d =
     (case (hex_val a, hex_val b, hex_val c, hex_val d) of
        (Some w, Some x, Some y, Some z) \<Rightarrow> Some (((w * 16 + x) * 16 + y) * 16 + z)
      | _ \<Rightarrow> None)"

definition unesc_char :: "char \<Rightarrow> char option" where
  "unesc_char c =
     (if c = CHR 0x22 then Some CHR 0x22
      else if c = CHR 0x5C then Some CHR 0x5C
      else if c = CHR ''/'' then Some CHR ''/''
      else if c = CHR ''b'' then Some CHR 0x08
      else if c = CHR ''f'' then Some CHR 0x0C
      else if c = CHR ''n'' then Some CHR 0x0A
      else if c = CHR ''r'' then Some CHR 0x0D
      else if c = CHR ''t'' then Some CHR 0x09
      else None)"

definition cons_fst :: "'c \<Rightarrow> ('c list \<times> 'r) option \<Rightarrow> ('c list \<times> 'r) option" where
  "cons_fst x p = (case p of None \<Rightarrow> None | Some (xs, r) \<Rightarrow> Some (x # xs, r))"

fun p_string :: "string \<Rightarrow> (string \<times> string) option" where
  "p_string [] = None"
| "p_string (c # r) =
     (if c = CHR 0x22 then Some ([], r)
      else if c = CHR 0x5C then
        (case r of
           [] \<Rightarrow> None
         | d # r1 \<Rightarrow>
             if d = CHR ''u'' then
               (case r1 of
                  h1 # h2 # h3 # h4 # r2 \<Rightarrow>
                    (case hex4 h1 h2 h3 h4 of
                       None \<Rightarrow> None
                     | Some n \<Rightarrow> if n < 256 then cons_fst (char_of n) (p_string r2) else None)
                | _ \<Rightarrow> None)
             else
               (case unesc_char d of
                  None \<Rightarrow> None
                | Some x \<Rightarrow> cons_fst x (p_string r1)))
      else if code c < 32 then None
      else cons_fst c (p_string r))"

text \<open>A number: sign, integer part without leading zeros, fraction, exponent.\<close>

definition p_frac :: "string \<Rightarrow> (string \<times> string) option" where
  "p_frac s =
     (if starts_with ''.'' s
      then (let ds = takeWhile is_digit (drop 1 s)
            in if ds = [] then None else Some (ds, drop (length ds) (drop 1 s)))
      else Some ([], s))"

definition p_exp :: "string \<Rightarrow> (int \<times> string) option" where
  "p_exp s =
     (if starts_with ''e'' s \<or> starts_with ''E'' s
      then (let t = drop 1 s;
                neg = starts_with ''-'' t;
                u = (if neg \<or> starts_with ''+'' t then drop 1 t else t);
                ds = takeWhile is_digit u
            in if ds = [] then None
               else Some (if neg then - int (read_digits ds) else int (read_digits ds),
                          drop (length ds) u))
      else Some (0, s))"

definition p_int :: "string \<Rightarrow> (string \<times> string) option" where
  "p_int s =
     (if starts_with ''0'' s then Some (''0'', drop 1 s)
      else (let ds = takeWhile is_digit s
            in if ds = [] then None else Some (ds, drop (length ds) s)))"

definition p_number :: "string \<Rightarrow> (jsval \<times> string) option" where
  "p_number s =
     (let neg = starts_with ''-'' s
      in case p_int (if neg then drop 1 s else s) of
           None \<Rightarrow> None
         | Some (ds, r0) \<Rightarrow>
             (case p_frac r0 of
                None \<Rightarrow> None
              | Some (fs, r1) \<Rightarrow>
                  (case p_exp r1 of
                     None \<Rightarrow> None
                   | Some (x, r2) \<Rightarrow>
                       let m = int (read_digits (ds @ fs))
                       in Some (JNum (dec (if neg then - m else m) (x - int (length fs))), r2))))"

fun p_value :: "nat \<Rightarrow> string \<Rightarrow> (jsval \<times> string) option"
  and p_elems :: "nat \<Rightarrow> string \<Rightarrow> (jsval list \<times> string) option"
  and p_members :: "nat \<Rightarrow> string \<Rightarrow> ((string \<times> jsval) list \<times> string) option" where
  "p_value 0 s = None"
| "p_value (Suc f) s =
     (case skip_ws s of
        [] \<Rightarrow> None
      | c # r \<Rightarrow>
          if c = CHR 0x22 then map_option (\<lambda>(x, r1). (JStr x, r1)) (p_string r)
          else if c = CHR ''['' then
            (if starts_with '']'' (skip_ws r) then Some (JArr [], drop 1 (skip_ws r))
             else map_option (\<lambda>(vs, r1). (JArr vs, r1)) (p_elems f r))
          else if c = CHR ''{'' then
            (if starts_with ''}'' (skip_ws r) then Some (JObj [], drop 1 (skip_ws r))
             else map_option (\<lambda>(ps, r1). (JObj (obj_of_list ps), r1)) (p_members f r))
          else if starts_with ''true'' (c # r) then Some (JBool True, drop 3 r)
          else if starts_with ''false'' (c # r) then Some (JBool False, drop 4 r)
          else if starts_with ''null'' (c # r) then Some (JNull, drop 3 r)
          else p_number (c # r))"
| "p_elems 0 s = None"
| "p_elems (Suc f) s =
     (case p_value f s of
        None \<Rightarrow> None
      | Some (v, r) \<Rightarrow>
          (case skip_ws r of
             [] \<Rightarrow> None
           | c # r1 \<Rightarrow>
               if c = CHR '','' then cons_fst v (p_elems f r1)
               else if c = CHR '']'' then Some ([v], r1)
               else None))"
| "p_members 0 s = None"
| "p_members (Suc f) s =
     (case skip_ws s of
        [] \<Rightarrow> None
      | c # r \<Rightarrow>
          if c \<noteq> CHR 0x22 then None
          else (case p_string r of
             None \<Rightarrow> None
           | Some (k, r1) \<Rightarrow>
               (case skip_ws r1 of
                  [] \<Rightarrow> None
                | c1 # r2 \<Rightarrow>
                    if c1 \<noteq> CHR '':'' then None
                    else (case p_value f r2 of
                       None \<Rightarrow> None
                     | Some (v, r3) \<Rightarrow>
                         (case skip_ws r3 of
                            [] \<Rightarrow> None
                          | c2 # r4 \<Rightarrow>
                              if c2 = CHR '','' then cons_fst (k, v) (p_members f r4)
                              else if c2 = CHR ''}'' then Some ([(k, v)], r4)
                              else None)))))"

definition json_parse :: "string \<Rightarrow> jsval res" where
  "json_parse s =
     (case p_value (Suc (2 * length s)) s of
        None \<Rightarrow> Inl SyntaxErr
      | Some (v, r) \<Rightarrow> if skip_ws r = [] then Inr v else Inl SyntaxErr)"

section \<open>Enough fuel\<close>

lemma skip_ws_length: "length (skip_ws s) \<le> length s"
  by (simp add: skip_ws_def length_dropWhile_le)

lemma cons_fst_Some: "cons_fst x p = Some (ys, r) \<longleftrightarrow> (\<exists>xs. p = Some (xs, r) \<and> ys = x # xs)"
  by (auto simp: cons_fst_def split: option.splits)

lemma p_string_length: "p_string s = Some (x, r) \<Longrightarrow> length r < length s"
proof (induction s arbitrary: x r rule: p_string.induct)
  case 1
  then show ?case by simp
next
  case (2 c s)
  show ?case
    using "2.prems" "2.IH"
    by (force split: if_splits list.splits option.splits simp: cons_fst_Some)
qed

lemma p_frac_length: "p_frac s = Some (x, r) \<Longrightarrow> length r \<le> length s"
  by (auto simp: p_frac_def Let_def split: if_splits)

lemma p_exp_length: "p_exp s = Some (x, r) \<Longrightarrow> length r \<le> length s"
  by (auto simp: p_exp_def Let_def split: if_splits)

lemma p_int_length: "p_int s = Some (x, r) \<Longrightarrow> length r < length s"
  by (cases s) (auto simp: p_int_def Let_def split: if_splits)

lemma p_number_length: "p_number s = Some (x, r) \<Longrightarrow> length r < length s"
proof -
  assume p: "p_number s = Some (x, r)"
  define t where "t = (if starts_with ''-'' s then drop 1 s else s)"
  from p obtain ds r0 fs r1 y where
    "p_int t = Some (ds, r0)" "p_frac r0 = Some (fs, r1)" "p_exp r1 = Some (y, r)"
    by (auto simp: p_number_def Let_def t_def [symmetric] split: option.splits)
  moreover have "length t \<le> length s" by (simp add: t_def)
  ultimately show ?thesis
    using p_int_length p_frac_length p_exp_length by fastforce
qed

lemma skip_ws_Cons: "skip_ws s = c # r \<Longrightarrow> length r < length s"
  using skip_ws_length [of s] by simp

lemma p_value_SucE:
  assumes "p_value (Suc f) s = Some (v, r)"
  obtains (str) x r0 where "skip_ws s = CHR 0x22 # r0" "p_string r0 = Some (x, r)" "v = JStr x"
  | (arr) vs r0 where "skip_ws s = CHR ''['' # r0" "p_elems f r0 = Some (vs, r)" "v = JArr vs"
  | (obj) ps r0 where "skip_ws s = CHR ''{'' # r0" "p_members f r0 = Some (ps, r)"
      "v = JObj (obj_of_list ps)"
  | (empty) r0 where "length r0 < length s" "r = drop 1 (skip_ws r0)"
  | (word) c r0 n where "skip_ws s = c # r0" "r = drop n r0"
  | (num) "p_number (skip_ws s) = Some (v, r)"
  using assms
  by (auto split: list.splits if_splits option.splits prod.splits dest: skip_ws_Cons)

lemma p_elems_SucE:
  assumes "p_elems (Suc f) s = Some (vs, r)"
  obtains (more) v us r0 r1 where "p_value f s = Some (v, r0)" "skip_ws r0 = CHR '','' # r1"
      "p_elems f r1 = Some (us, r)" "vs = v # us"
  | (last) v r0 where "p_value f s = Some (v, r0)" "skip_ws r0 = CHR '']'' # r" "vs = [v]"
  using assms
  by (auto split: list.splits if_splits option.splits prod.splits simp: cons_fst_Some)

lemma p_members_SucE:
  assumes "p_members (Suc f) s = Some (ps, r)"
  obtains (more) k v r0 r1 r2 r3 r4 qs where "skip_ws s = CHR 0x22 # r0" "p_string r0 = Some (k, r1)"
      "skip_ws r1 = CHR '':'' # r2" "p_value f r2 = Some (v, r3)" "skip_ws r3 = CHR '','' # r4"
      "p_members f r4 = Some (qs, r)" "ps = (k, v) # qs"
  | (last) k v r0 r1 r2 r3 where "skip_ws s = CHR 0x22 # r0" "p_string r0 = Some (k, r1)"
      "skip_ws r1 = CHR '':'' # r2" "p_value f r2 = Some (v, r3)" "skip_ws r3 = CHR ''}'' # r"
      "ps = [(k, v)]"
  using assms
  by (auto split: list.splits if_splits option.splits prod.splits simp: cons_fst_Some)

lemma p_lengths:
  "(p_value f s = Some (v, r) \<longrightarrow> length r < length s) \<and>
   (p_elems f s = Some (vs, r) \<longrightarrow> length r < length s) \<and>
   (p_members f s = Some (ps, r) \<longrightarrow> length r < length s)"
proof (induction f arbitrary: s v r vs ps)
  case 0
  then show ?case by simp
next
  case (Suc f)
  have V: "length r < length s" if "p_value (Suc f) s = Some (v, r)" for s v r
    using that
  proof (cases rule: p_value_SucE)
    case (str x r0)
    then show ?thesis using p_string_length skip_ws_Cons by fastforce
  next
    case (arr vs r0)
    then show ?thesis using Suc.IH skip_ws_Cons by (meson order.strict_trans)
  next
    case (obj ps r0)
    then show ?thesis using Suc.IH skip_ws_Cons by (meson order.strict_trans)
  next
    case (empty r0)
    then show ?thesis using skip_ws_length [of r0] by simp
  next
    case (word c r0 n)
    then show ?thesis using skip_ws_Cons [of s c r0] by simp
  next
    case num
    then show ?thesis using p_number_length skip_ws_length by (meson order.strict_trans2)
  qed
  have E: "length r < length s" if "p_elems (Suc f) s = Some (vs, r)" for s vs r
    using that
  proof (cases rule: p_elems_SucE)
    case (more v us r0 r1)
    then have "length r < length r1" "length r0 < length s" using Suc.IH by blast+
    then show ?thesis using skip_ws_Cons [OF more(2)] by simp
  next
    case (last v r0)
    then have "length r0 < length s" using Suc.IH by blast
    then show ?thesis using skip_ws_Cons [OF last(2)] by simp
  qed
  have M: "length r < length s" if "p_members (Suc f) s = Some (ps, r)" for s ps r
    using that
  proof (cases rule: p_members_SucE)
    case (more k v r0 r1 r2 r3 r4 qs)
    then have "length r < length r4" "length r3 < length r2" using Suc.IH by blast+
    then show ?thesis
      using skip_ws_Cons [OF more(1)] p_string_length [OF more(2)] skip_ws_Cons [OF more(3)]
        skip_ws_Cons [OF more(5)] by linarith
  next
    case (last k v r0 r1 r2 r3)
    then have "length r3 < length r2" using Suc.IH by blast
    then show ?thesis
      using skip_ws_Cons [OF last(1)] p_string_length [OF last(2)] skip_ws_Cons [OF last(3)]
        skip_ws_Cons [OF last(5)] by linarith
  qed
  show ?case using V E M by blast
qed

text \<open>Above the bound, the result does not depend on the fuel.\<close>

lemma p_fuel:
  "(2 * length s < f \<longrightarrow> 2 * length s < g \<longrightarrow> p_value f s = p_value g s) \<and>
   (Suc (2 * length s) < f \<longrightarrow> Suc (2 * length s) < g \<longrightarrow> p_elems f s = p_elems g s) \<and>
   (Suc (2 * length s) < f \<longrightarrow> Suc (2 * length s) < g \<longrightarrow> p_members f s = p_members g s)"
proof (induction f arbitrary: s g)
  case 0
  then show ?case by simp
next
  case (Suc f)
  show ?case
  proof (cases g)
    case 0
    then show ?thesis by simp
  next
    case g: (Suc g')
    have V: "p_value (Suc f) s = p_value (Suc g') s" if "2 * length s < Suc f" "2 * length s < Suc g'" for s
    proof -
      have "p_elems f r = p_elems g' r" "p_members f r = p_members g' r"
        if "skip_ws s = c # r" for c r
        using Suc.IH [of r g'] skip_ws_Cons [OF that] \<open>2 * length s < Suc f\<close> \<open>2 * length s < Suc g'\<close>
        by auto
      then show ?thesis by (auto split: list.splits)
    qed
    have E: "p_elems (Suc f) s = p_elems (Suc g') s"
      if h: "Suc (2 * length s) < Suc f" "Suc (2 * length s) < Suc g'" for s
    proof -
      have v: "p_value f s = p_value g' s" using Suc.IH [of s g'] h by simp
      have e: "p_elems f r1 = p_elems g' r1" if "p_value g' s = Some (v, r)" "skip_ws r = c # r1"
        for v r c r1
        using Suc.IH [of r1 g'] h p_lengths [of g' s v r] that skip_ws_Cons [OF that(2)] by auto
      show ?thesis by (auto simp: v e split: option.splits list.splits)
    qed
    have M: "p_members (Suc f) s = p_members (Suc g') s"
      if h: "Suc (2 * length s) < Suc f" "Suc (2 * length s) < Suc g'" for s
    proof -
      have v: "p_value f r2 = p_value g' r2"
        if "skip_ws s = c # r" "p_string r = Some (k, r1)" "skip_ws r1 = c1 # r2" for c r k r1 c1 r2
        using Suc.IH [of r2 g'] h skip_ws_Cons [OF that(1)] p_string_length [OF that(2)]
          skip_ws_Cons [OF that(3)] by auto
      have e: "p_members f r4 = p_members g' r4"
        if "skip_ws s = c # r" "p_string r = Some (k, r1)" "skip_ws r1 = c1 # r2"
          "p_value g' r2 = Some (w, r3)" "skip_ws r3 = c2 # r4" for c r k r1 c1 r2 w r3 c2 r4
        using Suc.IH [of r4 g'] h skip_ws_Cons [OF that(1)] p_string_length [OF that(2)]
          skip_ws_Cons [OF that(3)] p_lengths [of g' r2 w r3] that(4) skip_ws_Cons [OF that(5)]
        by auto
      show ?thesis by (auto simp: v e split: option.splits list.splits)
    qed
    show ?thesis using V E M g by blast
  qed
qed

lemma p_value_fuel: "2 * length s < f \<Longrightarrow> p_value f s = p_value (Suc (2 * length s)) s"
  using p_fuel [of s f "Suc (2 * length s)"] by simp

section \<open>Round trip\<close>

fun json_ok :: "jsval \<Rightarrow> bool" where
  "json_ok JUndef = False"
| "json_ok (JFun f) = False"
| "json_ok JNull = True"
| "json_ok (JBool b) = True"
| "json_ok (JNum n) =
     (case int_of_num n of
        None \<Rightarrow> False
      | Some i \<Rightarrow> \<bar>i\<bar> < 10 ^ 21 \<and> n = num_of_int i)"
| "json_ok (JStr s) = True"
| "json_ok (JArr vs) = list_all json_ok vs"
| "json_ok (JObj ps) = (obj_of_list ps = ps \<and> list_all (\<lambda>(k, v). json_ok v) ps)"

lemma hex_val_char: "n < 16 \<Longrightarrow> hex_val (hex_char n) = Some n"
  by (auto simp: hex_val_def hex_char_def Let_def)

lemma p_string_esc: "p_string (esc_char c @ r) = cons_fst c (p_string r)"
proof -
  have h: "code c < 32 \<Longrightarrow> hex4 CHR ''0'' CHR ''0'' (hex_char (code c div 16)) (hex_char (code c mod 16)) = Some (code c)"
    by (simp add: hex4_def hex_val_char) (simp add: hex_val_def)
  show ?thesis
    using h
    by (auto simp: esc_char_def Let_def unesc_char_def)
qed

lemma p_string_quote: "p_string (esc_str s @ CHR 0x22 # r) = Some (s, r)"
  by (induction s) (simp_all add: esc_str_def p_string_esc cons_fst_def)


fun no_num_start :: "string \<Rightarrow> bool" where
  "no_num_start [] = True"
| "no_num_start (c # r) = (\<not> is_digit c \<and> c \<noteq> CHR ''.'' \<and> c \<noteq> CHR ''e'' \<and> c \<noteq> CHR ''E'')"

lemma show_nat_lead: "0 < n \<Longrightarrow> hd (show_nat n) \<noteq> CHR ''0''"
proof (induction n rule: show_nat.induct)
  case (1 n)
  show ?case
  proof (cases "n < 10")
    case True
    have "code (char_of (48 + n)) \<noteq> code CHR ''0''" using True "1.prems" by (simp only: of_char_of) simp
    then have "char_of (48 + n) \<noteq> CHR ''0''" by metis
    with True show ?thesis by (simp add: show_nat.simps [of n])
  next
    case False
    then have "0 < n div 10" by simp
    with 1 False show ?thesis by (simp add: show_nat.simps [of n])
  qed
qed

lemma p_int_show: "no_num_start r \<Longrightarrow> p_int (show_nat n @ r) = Some (show_nat n, r)"
proof -
  assume r: "no_num_start r"
  have tw: "takeWhile is_digit (show_nat n @ r) = show_nat n"
    using r show_nat_digits [of n] by (cases r) (simp_all add: takeWhile_all takeWhile_eq_all_conv list_all_iff)
  show ?thesis
  proof (cases "n = 0")
    case True
    then show ?thesis by (simp add: p_int_def show_nat.simps)
  next
    case False
    then have "\<not> starts_with ''0'' (show_nat n @ r)"
      using show_nat_lead [of n] by (cases "show_nat n") simp_all
    with tw show ?thesis by (simp add: p_int_def)
  qed
qed

lemma p_number_show: "no_num_start r \<Longrightarrow> p_number (show_int i @ r) = Some (JNum (num_of_int i), r)"
proof -
  assume r: "no_num_start r"
  then have fr: "p_frac r = Some ([], r)" and ex: "p_exp r = Some (0, r)"
    by (cases r; simp add: p_frac_def p_exp_def)+
  have "\<not> starts_with ''-'' (show_nat n @ r)" for n
    using show_nat_hd [of n] digit_not_sign by (cases "show_nat n") auto
  then show ?thesis
    using p_int_show [OF r] fr ex
    by (simp add: p_number_def show_int_def read_show_nat num_of_int_def)
qed


lemma show_int_start:
  obtains c u where "show_int i = c # u" "c = CHR ''-'' \<or> is_digit c"
proof (cases "i < 0")
  case True
  then show ?thesis using that by (simp add: show_int_def)
next
  case False
  then show ?thesis
    using that show_nat_hd [of "nat i"] by (cases "show_nat (nat i)") (auto simp: show_int_def)
qed

lemma num_start_other:
  "c = CHR ''-'' \<or> is_digit c \<Longrightarrow>
    \<not> is_json_ws c \<and> c \<noteq> CHR 0x22 \<and> c \<noteq> CHR ''['' \<and> c \<noteq> CHR ''{'' \<and>
    c \<noteq> CHR ''t'' \<and> c \<noteq> CHR ''f'' \<and> c \<noteq> CHR ''n'' \<and> c \<noteq> CHR '']''"
  by (auto simp: is_json_ws_def is_digit_def)

lemma p_value_number:
  "no_num_start r \<Longrightarrow> p_value (Suc f) (show_int i @ r) = Some (JNum (num_of_int i), r)"
proof -
  assume r: "no_num_start r"
  obtain c u where cu: "show_int i = c # u" "c = CHR ''-'' \<or> is_digit c"
    by (rule show_int_start)
  then show ?thesis
    using num_start_other [OF cu(2)] p_number_show [OF r, of i] by (simp add: skip_ws_def)
qed

text \<open>The first character of a printed value: never white space and never a bracket that
  closes an array.\<close>

definition value_start :: "string \<Rightarrow> bool" where
  "value_start s \<longleftrightarrow> (\<exists>c u. s = c # u \<and> \<not> is_json_ws c \<and> c \<noteq> CHR '']'')"

lemma value_startI: "\<not> is_json_ws c \<Longrightarrow> c \<noteq> CHR '']'' \<Longrightarrow> value_start (c # u)"
  by (simp add: value_start_def)

lemma value_start_stringify: "json_ok v \<Longrightarrow> json_stringify v = Some s \<Longrightarrow> value_start s"
proof (cases v)
  case (JNum n)
  assume "json_ok v" "json_stringify v = Some s"
  with JNum obtain i where "s = show_int i" by (auto simp: show_num_int split: option.splits)
  then show ?thesis
    using num_start_other by (metis show_int_start value_startI)
qed (auto simp: json_quote_def is_json_ws_def intro!: value_startI)

lemma no_num_start_close: "c = CHR '','' \<or> c = CHR '']'' \<or> c = CHR ''}'' \<Longrightarrow> no_num_start (c # r)"
  by (auto simp: is_digit_def)

text \<open>Facts that hold from some amount of fuel on.\<close>

definition with_fuel :: "(nat \<Rightarrow> bool) \<Rightarrow> bool" where
  "with_fuel P \<longleftrightarrow> (\<exists>f0. \<forall>f\<ge>f0. P f)"

lemma with_fuel_Suc: "(\<And>f. P (Suc f)) \<Longrightarrow> with_fuel P"
  unfolding with_fuel_def by (metis One_nat_def Suc_le_D)

lemma with_fuel_step:
  assumes "with_fuel P" and "\<And>f. P f \<Longrightarrow> Q (Suc f)"
  shows "with_fuel Q"
proof -
  from assms(1) obtain f0 where "\<forall>f\<ge>f0. P f" by (auto simp: with_fuel_def)
  then have "\<forall>f\<ge>Suc f0. Q f" using assms(2) by (metis Suc_le_D Suc_le_mono)
  then show ?thesis by (auto simp: with_fuel_def)
qed

lemma with_fuel_conj: "with_fuel P \<Longrightarrow> with_fuel Q \<Longrightarrow> with_fuel (\<lambda>f. P f \<and> Q f)"
  unfolding with_fuel_def by (metis nat_le_linear order.trans)

definition parses :: "string \<Rightarrow> jsval \<Rightarrow> bool" where
  "parses s v \<longleftrightarrow> (\<forall>r. no_num_start r \<longrightarrow> with_fuel (\<lambda>f. p_value f (s @ r) = Some (v, r)))"

lemma parsesI: "(\<And>f r. no_num_start r \<Longrightarrow> p_value (Suc f) (s @ r) = Some (v, r)) \<Longrightarrow> parses s v"
  by (auto simp: parses_def intro: with_fuel_Suc)

lemma skip_ws_comma [simp]: "skip_ws (CHR '','' # r) = CHR '','' # r"
  and skip_ws_brack [simp]: "skip_ws (CHR '']'' # r) = CHR '']'' # r"
  and skip_ws_brace [simp]: "skip_ws (CHR ''}'' # r) = CHR ''}'' # r"
  and skip_ws_colon [simp]: "skip_ws (CHR '':'' # r) = CHR '':'' # r"
  and skip_ws_open_brack [simp]: "skip_ws (CHR ''['' # r) = CHR ''['' # r"
  and skip_ws_open_brace [simp]: "skip_ws (CHR ''{'' # r) = CHR ''{'' # r"
  and skip_ws_quote [simp]: "skip_ws (CHR 0x22 # r) = CHR 0x22 # r"
  by (simp_all add: skip_ws_def is_json_ws_def)

lemma elems_parse:
  assumes "\<And>v. v \<in> set vs \<Longrightarrow> \<exists>s. json_stringify v = Some s \<and> parses s v" and "vs \<noteq> []"
  shows "with_fuel (\<lambda>f. p_elems f (join_with '','' (json_elems vs) @ CHR '']'' # r) = Some (vs, r))"
  using assms
proof (induction vs)
  case Nil
  then show ?case by simp
next
  case (Cons v vs)
  obtain s where s: "json_stringify v = Some s" "parses s v" using Cons.prems(1) by auto
  show ?case
  proof (cases vs)
    case Nil
    have "with_fuel (\<lambda>f. p_value f (s @ CHR '']'' # r) = Some (v, CHR '']'' # r))"
      using s(2) no_num_start_close by (simp add: parses_def)
    then have "with_fuel (\<lambda>f. p_elems f (s @ CHR '']'' # r) = Some ([v], r))"
      by (rule with_fuel_step) simp
    with Nil s(1) show ?thesis by simp
  next
    case c: (Cons v' vs')
    let ?t = "join_with '','' (json_elems vs) @ CHR '']'' # r"
    have "with_fuel (\<lambda>f. p_value f (s @ CHR '','' # ?t) = Some (v, CHR '','' # ?t))"
      using s(2) no_num_start_close by (simp add: parses_def)
    moreover have "with_fuel (\<lambda>f. p_elems f ?t = Some (vs, r))"
      using Cons.IH Cons.prems(1) c by simp
    ultimately have "with_fuel (\<lambda>f. p_value f (s @ CHR '','' # ?t) = Some (v, CHR '','' # ?t)
        \<and> p_elems f ?t = Some (vs, r))"
      by (rule with_fuel_conj)
    then have "with_fuel (\<lambda>f. p_elems f (s @ CHR '','' # ?t) = Some (v # vs, r))"
      by (rule with_fuel_step) (simp add: cons_fst_def)
    moreover have "join_with '','' (json_elems (v # vs)) @ CHR '']'' # r = s @ CHR '','' # ?t"
      using s(1) c by simp
    ultimately show ?thesis by simp
  qed
qed

lemma members_parse:
  assumes "\<And>k v. (k, v) \<in> set ps \<Longrightarrow> \<exists>s. json_stringify v = Some s \<and> parses s v" and "ps \<noteq> []"
  shows "with_fuel (\<lambda>f. p_members f (join_with '','' (json_members ps) @ CHR ''}'' # r) = Some (ps, r))"
  using assms
proof (induction ps)
  case Nil
  then show ?case by simp
next
  case (Cons p ps)
  obtain k v where p: "p = (k, v)" by (cases p)
  obtain s where s: "json_stringify v = Some s" "parses s v" using Cons.prems(1) p by auto
  show ?case
  proof (cases ps)
    case Nil
    have "with_fuel (\<lambda>f. p_value f (s @ CHR ''}'' # r) = Some (v, CHR ''}'' # r))"
      using s(2) no_num_start_close by (simp add: parses_def)
    then have "with_fuel (\<lambda>f. p_members f (json_quote k @ '':'' @ s @ CHR ''}'' # r) = Some ([(k, v)], r))"
      by (rule with_fuel_step) (simp add: json_quote_def p_string_quote)
    with Nil p s(1) show ?thesis by simp
  next
    case c: (Cons p' ps')
    let ?t = "join_with '','' (json_members ps) @ CHR ''}'' # r"
    have "with_fuel (\<lambda>f. p_value f (s @ CHR '','' # ?t) = Some (v, CHR '','' # ?t))"
      using s(2) no_num_start_close by (simp add: parses_def)
    moreover have "with_fuel (\<lambda>f. p_members f ?t = Some (ps, r))"
    proof (rule Cons.IH)
      show "\<exists>s. json_stringify v = Some s \<and> parses s v" if "(k, v) \<in> set ps" for k v
        using that by (intro Cons.prems(1) [of k v]) simp
    qed (simp add: c)
    ultimately have "with_fuel (\<lambda>f. p_value f (s @ CHR '','' # ?t) = Some (v, CHR '','' # ?t)
        \<and> p_members f ?t = Some (ps, r))"
      by (rule with_fuel_conj)
    then have "with_fuel (\<lambda>f. p_members f (json_quote k @ '':'' @ s @ CHR '','' # ?t) = Some (p # ps, r))"
      by (rule with_fuel_step) (simp add: json_quote_def p_string_quote cons_fst_def p)
    moreover have "json_members ps \<noteq> []"
      using Cons.prems(1) c by (cases p') force
    then have "join_with '','' (json_members (p # ps)) @ CHR ''}'' # r
        = json_quote k @ '':'' @ s @ CHR '','' # ?t"
      using s(1) p by (cases "json_members ps") simp_all
    ultimately show ?thesis by simp
  qed
qed


lemma skip_ws_value: "value_start s \<Longrightarrow> skip_ws (s @ r) = s @ r \<and> \<not> starts_with '']'' (s @ r)"
  by (auto simp: value_start_def skip_ws_def)

lemma json_elems_start:
  assumes "vs \<noteq> []" and "\<And>v. v \<in> set vs \<Longrightarrow> \<exists>s. json_stringify v = Some s \<and> value_start s"
  shows "value_start (join_with '','' (json_elems vs) @ r)"
  using assms by (cases "(vs, json_elems (tl vs))" rule: prod.exhaust)
    (cases vs; cases "json_elems (tl vs)"; force simp: value_start_def)

lemma p_value_arr:
  "p_elems f b = Some (vs, r) \<Longrightarrow> skip_ws b = b \<Longrightarrow> \<not> starts_with '']'' b
    \<Longrightarrow> p_value (Suc f) (CHR ''['' # b) = Some (JArr vs, r)"
  by simp

lemma stringify_parses: "json_ok v \<Longrightarrow> \<exists>s. json_stringify v = Some s \<and> parses s v"
proof (induction v)
  case (JArr vs)
  have vs: "\<exists>s. json_stringify v = Some s \<and> parses s v" if "v \<in> set vs" for v
    using JArr that by (auto simp: list_all_iff)
  show ?case
  proof (cases "vs = []")
    case True
    then show ?thesis by (auto intro!: parsesI simp: skip_ws_def is_json_ws_def)
  next
    case False
    have st: "value_start (join_with '','' (json_elems vs) @ r)" for r
      using JArr.prems vs value_start_stringify
      by (intro json_elems_start [OF False]) (fastforce simp: list_all_iff)
    have "with_fuel (\<lambda>f. p_value f (CHR ''['' # join_with '','' (json_elems vs) @ CHR '']'' # r)
        = Some (JArr vs, r))" for r
      using elems_parse [where r = r, OF vs False]
      using skip_ws_value [OF st [of "CHR '']'' # r"], of "[]"]
      by (auto elim!: with_fuel_step intro: p_value_arr)
    then show ?thesis by (simp add: parses_def)
  qed
next
  case (JObj ps)
  have ps: "\<exists>s. json_stringify v = Some s \<and> parses s v" if "(k, v) \<in> set ps" for k v
    using JObj.IH [OF that, of v] JObj.prems that by (auto simp: list_all_iff)
  show ?case
  proof (cases "ps = []")
    case True
    then show ?thesis by (auto intro!: parsesI simp: skip_ws_def is_json_ws_def)
  next
    case False
    then obtain k v qs where q: "ps = (k, v) # qs" by (metis list.exhaust surj_pair)
    obtain s where s: "json_stringify v = Some s" using ps [of k v] q by auto
    have st: "\<exists>u. join_with '','' (json_members ps) @ r = CHR 0x22 # u" for r
      using s q by (cases "json_members qs") (auto simp: json_quote_def)
    have "with_fuel (\<lambda>f. p_value f (CHR ''{'' # join_with '','' (json_members ps) @ CHR ''}'' # r)
        = Some (JObj ps, r))" for r
      using members_parse [where r = r, OF ps False]
      by (rule with_fuel_step)
        (use st [of "CHR ''}'' # r"] JObj.prems in \<open>auto simp: skip_ws_def is_json_ws_def\<close>)
    then show ?thesis by (simp add: parses_def)
  qed
next
  case (JNum n)
  then obtain i where "\<bar>i\<bar> < 10 ^ 21" "n = num_of_int i" by (auto split: option.splits)
  then show ?case by (auto simp: show_num_int intro!: parsesI p_value_number)
qed (auto intro!: parsesI simp: skip_ws_def is_json_ws_def json_quote_def p_string_quote)

lemma json_roundtrip:
  assumes "json_ok v" and "json_stringify v = Some s"
  shows "json_parse s = Inr v"
proof -
  have "parses s v" using stringify_parses [OF assms(1)] assms(2) by simp
  then have "with_fuel (\<lambda>f. p_value f (s @ []) = Some (v, []))"
    unfolding parses_def by (rule allE [of _ "[]"]) simp
  then obtain f0 where "\<forall>f\<ge>f0. p_value f s = Some (v, [])" by (auto simp: with_fuel_def)
  then have "p_value (Suc (max f0 (2 * length s))) s = Some (v, [])"
    by (rule allE [of _ "Suc (max f0 (2 * length s))"]) linarith
  then have "p_value (Suc (2 * length s)) s = Some (v, [])"
    using p_value_fuel [of s "Suc (max f0 (2 * length s))"] by simp
  then show ?thesis by (simp add: json_parse_def skip_ws_def)
qed

text \<open>
  What a document keeps of a value: members that are \<open>undefined\<close> are left out, such
  elements of an array (and \<open>NaN\<close>) become \<open>null\<close>.
\<close>

definition absent :: "jsval \<Rightarrow> bool" where
  "absent v \<longleftrightarrow> json_stringify v = None"

fun json_clean :: "jsval \<Rightarrow> jsval"
  and clean_elems :: "jsval list \<Rightarrow> jsval list"
  and clean_members :: "(string \<times> jsval) list \<Rightarrow> (string \<times> jsval) list" where
  "json_clean (JArr vs) = JArr (clean_elems vs)"
| "json_clean (JObj ps) = JObj (clean_members ps)"
| "json_clean (JNum n) = (if n = NaN then JNull else JNum n)"
| "json_clean v = v"
| "clean_elems [] = []"
| "clean_elems (v # vs) = (if absent v then JNull else json_clean v) # clean_elems vs"
| "clean_members [] = []"
| "clean_members ((k, v) # ps) =
     (if absent v then clean_members ps else (k, json_clean v) # clean_members ps)"

lemma stringify_clean:
  "json_stringify (json_clean v) = json_stringify v"
  "json_elems (clean_elems vs) = json_elems vs"
  "json_members (clean_members ps) = json_members ps"
  by (induction v and vs and ps rule: json_clean_clean_elems_clean_members.induct)
    (auto simp: absent_def split: option.splits)

lemma json_body:
  assumes "json_ok (json_clean v)" and "json_stringify v = Some s"
  shows "json_parse s = Inr (json_clean v)"
  using json_roundtrip [OF assms(1)] assms(2) by (simp add: stringify_clean)

text \<open>A parsed object has distinct keys, and a failed parse is a syntax error.\<close>

lemma json_parse_distinct: "json_parse s = Inr (JObj ps) \<Longrightarrow> distinct (map fst ps)"
proof -
  assume "json_parse s = Inr (JObj ps)"
  then obtain r where p: "p_value (Suc (2 * length s)) s = Some (JObj ps, r)"
    by (auto simp only: json_parse_def split: option.splits prod.splits if_splits)
  have "p_number t \<noteq> Some (JObj ps, r)" for t r
    by (auto simp: p_number_def Let_def split: option.splits)
  with p show ?thesis
    by (auto split: list.splits if_splits option.splits prod.splits simp: distinct_obj_of_list)
qed

lemma json_parse_error: "json_parse s = Inl e \<Longrightarrow> e = SyntaxErr"
  by (auto simp: json_parse_def split: option.splits if_splits)

end
