(* ===== verification/Http.thy ===== *)
theory Http
  imports Json
begin

text \<open>
  What the web application uses of the browser: \<open>fetch\<close> with its requests and
  responses, \<open>localStorage\<close>, and the serialisation of \<open>URLSearchParams\<close>. The
  network is an argument of the model (type \<open>network\<close>); a request that fails is
  \<open>Inl NetErr\<close>. The last section reads a query string the way the URL standard
  prescribes, as the specification of what a serialised query means.
\<close>

section \<open>Requests and responses\<close>

record http_request =
  rq_url :: string
  rq_method :: string
  rq_headers :: "(string \<times> string) list"
  rq_body :: "string option"

record http_response =
  rs_status :: nat
  rs_status_text :: string
  rs_type :: "string option"   \<comment> \<open>the \<open>Content-Type\<close> header\<close>
  rs_body :: string

type_synonym network = "http_request \<Rightarrow> http_response res"

text \<open>\<open>res.ok\<close>\<close>

definition resp_ok :: "nat \<Rightarrow> bool" where
  "resp_ok status \<longleftrightarrow> 200 \<le> status \<and> status \<le> 299"

text \<open>The last argument of \<open>fetch\<close>: what a caller may set.\<close>

record request_init =
  in_method :: "string option"
  in_headers :: "(string \<times> string) list option"
  in_body :: "string option"

definition no_init :: request_init where
  "no_init = \<lparr>in_method = None, in_headers = None, in_body = None\<rparr>"

text \<open>A body given as the result of \<open>JSON.stringify\<close> (absent for \<open>undefined\<close>).\<close>

definition json_init :: "string \<Rightarrow> jsval \<Rightarrow> request_init" where
  "json_init meth v = \<lparr>in_method = Some meth, in_headers = None, in_body = json_stringify v\<rparr>"

definition method_init :: "string \<Rightarrow> request_init" where
  "method_init meth = no_init\<lparr>in_method := Some meth\<rparr>"

section \<open>Local storage\<close>

type_synonym storage = "(string \<times> string) list"

definition ls_get :: "string \<Rightarrow> storage \<Rightarrow> string option" where
  "ls_get k st = map_of st k"

definition ls_set :: "string \<Rightarrow> string \<Rightarrow> storage \<Rightarrow> storage" where
  "ls_set k v st = (k, v) # filter (\<lambda>(l, _). l \<noteq> k) st"

definition ls_remove :: "string \<Rightarrow> storage \<Rightarrow> storage" where
  "ls_remove k st = filter (\<lambda>(l, _). l \<noteq> k) st"

text \<open>The laws of a store of strings by key, and what they give a client with two keys.\<close>

locale key_store =
  fixes get :: "string \<Rightarrow> 's \<Rightarrow> string option"
    and put :: "string \<Rightarrow> string \<Rightarrow> 's \<Rightarrow> 's"
    and del :: "string \<Rightarrow> 's \<Rightarrow> 's"
  assumes get_put: "get k (put l v s) = (if k = l then Some v else get k s)"
    and get_del: "get k (del l s) = (if k = l then None else get k s)"
begin

lemma put_two:
  "k \<noteq> l \<Longrightarrow> get k (put l w (put k v s)) = Some v"
  "get l (put l w (put k v s)) = Some w"
  "m \<noteq> k \<Longrightarrow> m \<noteq> l \<Longrightarrow> get m (put l w (put k v s)) = get m s"
  by (simp_all add: get_put)

lemma del_two:
  "get k (del l (del k s)) = None"
  "get l (del l (del k s)) = None"
  "m \<noteq> k \<Longrightarrow> m \<noteq> l \<Longrightarrow> get m (del l (del k s)) = get m s"
  by (simp_all add: get_del)

end

lemma map_of_filter_key: "map_of (filter (\<lambda>(l, _). l \<noteq> k) st) m = (if m = k then None else map_of st m)"
  by (induction st) auto

interpretation ls: key_store ls_get ls_set ls_remove
  by unfold_locales (simp_all add: ls_get_def ls_set_def ls_remove_def map_of_filter_key)

section \<open>Query strings\<close>

text \<open>\<open>URLSearchParams.set\<close> and the form-urlencoded serialisation.\<close>

definition params_set :: "string \<Rightarrow> string \<Rightarrow> (string \<times> string) list \<Rightarrow> (string \<times> string) list" where
  "params_set k v ps =
     (if k \<in> fst ` set ps
      then takeWhile (\<lambda>(l, _). l \<noteq> k) ps @ (k, v) #
           filter (\<lambda>(l, _). l \<noteq> k) (dropWhile (\<lambda>(l, _). l \<noteq> k) ps)
      else ps @ [(k, v)])"

definition utf8 :: "char \<Rightarrow> nat list" where
  "utf8 c = (let n = code c in if n < 128 then [n] else [192 + n div 64, 128 + n mod 64])"

definition hex_upper :: "nat \<Rightarrow> char" where
  "hex_upper n = (if n < 10 then char_of (48 + n) else char_of (55 + n))"

definition percent :: "nat \<Rightarrow> string" where
  "percent n = [CHR 0x25, hex_upper (n div 16), hex_upper (n mod 16)]"

definition form_plain :: "char \<Rightarrow> bool" where
  "form_plain c \<longleftrightarrow> is_lower c \<or> is_upper c \<or> is_digit c \<or> c \<in> set ''*-._''"

definition form_char :: "char \<Rightarrow> string" where
  "form_char c =
     (if form_plain c then [c] else if c = CHR '' '' then ''+'' else concat (map percent (utf8 c)))"

definition form_encode :: "string \<Rightarrow> string" where
  "form_encode s = concat (map form_char s)"

definition params_string :: "(string \<times> string) list \<Rightarrow> string" where
  "params_string ps = join_with ''&'' (map (\<lambda>(k, v). form_encode k @ ''='' @ form_encode v) ps)"

section \<open>Reading a query string\<close>

text \<open>Bytes of a form-urlencoded text; a stray percent sign stands for itself.\<close>

fun form_bytes :: "string \<Rightarrow> nat list" where
  "form_bytes [] = []"
| "form_bytes (c # s) =
     (if c = CHR ''+'' then 32 # form_bytes s
      else if c = CHR 0x25
        then (case s of
                a # b # r \<Rightarrow>
                  (case (hex_val a, hex_val b) of
                     (Some x, Some y) \<Rightarrow> (x * 16 + y) # form_bytes r
                   | _ \<Rightarrow> 37 # form_bytes s)
              | _ \<Rightarrow> 37 # form_bytes s)
      else utf8 c @ form_bytes s)"

text \<open>UTF-8 for the code units below 256; \<open>None\<close> for bytes that name no such unit.\<close>

fun utf8_decode :: "nat list \<Rightarrow> string option" where
  "utf8_decode [] = Some []"
| "utf8_decode (n # ns) =
     (if n < 128 then map_option ((#) (char_of n)) (utf8_decode ns)
      else if n = 194 \<or> n = 195
        then (case ns of
                m # ms \<Rightarrow> if 128 \<le> m \<and> m < 192
                          then map_option ((#) (char_of ((n - 192) * 64 + (m - 128)))) (utf8_decode ms)
                          else None
              | [] \<Rightarrow> None)
      else None)"

definition form_decode :: "string \<Rightarrow> string option" where
  "form_decode s = utf8_decode (form_bytes s)"

text \<open>Key and value of one piece of a query: split at the first equals sign.\<close>

definition cut_pair :: "string \<Rightarrow> string \<times> string" where
  "cut_pair s = (takeWhile (\<lambda>c. c \<noteq> CHR ''='') s, drop 1 (dropWhile (\<lambda>c. c \<noteq> CHR ''='') s))"

definition query_pairs :: "string \<Rightarrow> (string option \<times> string option) list" where
  "query_pairs q =
     map (\<lambda>s. (form_decode (fst (cut_pair s)), form_decode (snd (cut_pair s))))
       (filter (\<lambda>s. s \<noteq> []) (split_on CHR ''&'' q))"

text \<open>The path and the query of a request target, the fragment cut off.\<close>

definition target_path :: "string \<Rightarrow> string" where
  "target_path u = takeWhile (\<lambda>c. c \<noteq> CHR ''?'') (takeWhile (\<lambda>c. c \<noteq> CHR 0x23) u)"

definition target_query :: "string \<Rightarrow> string" where
  "target_query u = drop 1 (dropWhile (\<lambda>c. c \<noteq> CHR ''?'') (takeWhile (\<lambda>c. c \<noteq> CHR 0x23) u))"

subsection \<open>A serialised query reads back\<close>

lemma hex_val_upper: "n < 16 \<Longrightarrow> hex_val (hex_upper n) = Some n"
  by (auto simp: hex_val_def hex_upper_def Let_def)

lemma form_bytes_percent: "n < 256 \<Longrightarrow> form_bytes (percent n @ s) = n # form_bytes s"
proof -
  assume n: "n < 256"
  then have "n div 16 < 16" "n mod 16 < 16" by auto
  moreover have "n div 16 * 16 + n mod 16 = n" by simp
  ultimately show ?thesis by (simp add: percent_def hex_val_upper)
qed

lemma form_plain_char:
  "form_plain c \<Longrightarrow> c \<noteq> CHR ''+'' \<and> c \<noteq> CHR 0x25 \<and> c \<noteq> CHR ''&'' \<and> c \<noteq> CHR ''=''
     \<and> c \<noteq> CHR 0x23 \<and> c \<noteq> CHR ''?'' \<and> code c < 128"
  by (auto simp: form_plain_def is_lower_def is_upper_def is_digit_def)

lemma utf8_bytes: "b \<in> set (utf8 c) \<Longrightarrow> b < 256"
proof -
  assume b: "b \<in> set (utf8 c)"
  have "code c div 64 < 4" using code_lt [of c] by linarith
  with b show ?thesis by (auto simp: utf8_def Let_def split: if_splits)
qed

lemma form_bytes_percents: "(\<And>b. b \<in> set bs \<Longrightarrow> b < 256) \<Longrightarrow> form_bytes (concat (map percent bs) @ s) = bs @ form_bytes s"
  by (induction bs) (simp_all add: form_bytes_percent del: form_bytes.simps)

lemma form_bytes_char: "form_bytes (form_char c @ s) = utf8 c @ form_bytes s"
proof (cases "form_plain c")
  case True
  then show ?thesis using form_plain_char [OF True] by (simp add: form_char_def)
next
  case False
  then show ?thesis
    using form_bytes_percents [of "utf8 c" s] utf8_bytes [of _ c]
    by (auto simp: form_char_def utf8_def)
qed

lemma utf8_decode_char: "utf8_decode (utf8 c @ bs) = map_option ((#) c) (utf8_decode bs)"
proof (cases "code c < 128")
  case True
  then show ?thesis by (simp add: utf8_def)
next
  case False
  have "code c div 64 = 2 \<or> code c div 64 = 3" using False code_lt [of c] by linarith
  moreover have "code c mod 64 < 64" by simp
  moreover have "code c div 64 = k \<Longrightarrow> char_of (64 * k + code c mod 64) = c" for k
    using div_mult_mod_eq [of "code c" 64] by (metis char_of_char mult.commute)
  from this [of 2] this [of 3] have "code c div 64 = 2 \<Longrightarrow> char_of (128 + code c mod 64) = c"
    "code c div 64 = 3 \<Longrightarrow> char_of (192 + code c mod 64) = c" by simp_all
  ultimately show ?thesis using False by (auto simp: utf8_def)
qed

lemma form_decode_encode: "form_decode (form_encode s) = Some s"
proof -
  have "utf8_decode (form_bytes (form_encode s)) = Some s"
    by (induction s) (simp_all add: form_encode_def form_bytes_char utf8_decode_char)
  then show ?thesis by (simp add: form_decode_def)
qed

lemma hex_upper_plain: "n < 16 \<Longrightarrow> form_plain (hex_upper n)"
  by (auto simp: form_plain_def hex_upper_def is_upper_def is_digit_def)

lemma form_encode_chars: "d \<in> set (form_encode s) \<Longrightarrow> form_plain d \<or> d = CHR ''+'' \<or> d = CHR 0x25"
proof -
  have p: "d \<in> set (percent b) \<Longrightarrow> b < 256 \<Longrightarrow> form_plain d \<or> d = CHR 0x25" for b
    by (auto simp: percent_def intro!: hex_upper_plain)
  assume "d \<in> set (form_encode s)"
  then obtain c where "d \<in> set (form_char c)" by (auto simp: form_encode_def)
  then show ?thesis
    using p utf8_bytes [of _ c] by (auto simp: form_char_def split: if_splits)
qed

lemma form_encode_safe:
  "d \<in> set (form_encode s) \<Longrightarrow> d \<noteq> CHR ''&'' \<and> d \<noteq> CHR ''='' \<and> d \<noteq> CHR 0x23 \<and> d \<noteq> CHR ''?''"
  using form_encode_chars [of d s] form_plain_char [of d] by auto

lemma cut_pair_eq: "CHR ''='' \<notin> set k \<Longrightarrow> cut_pair (k @ CHR ''='' # v) = (k, v)"
  by (auto simp: cut_pair_def takeWhile_append dropWhile_append)

lemma query_pairs_params: "query_pairs (params_string ps) = map (\<lambda>(k, v). (Some k, Some v)) ps"
proof (cases "ps = []")
  case True
  then show ?thesis by (simp add: query_pairs_def params_string_def)
next
  case False
  let ?f = "\<lambda>(k, v). form_encode k @ CHR ''='' # form_encode v"
  have "split_on CHR ''&'' (params_string ps) = map ?f ps"
    unfolding params_string_def using False form_encode_safe [of "CHR ''&''"] by (subst split_join) auto
  moreover have "filter (\<lambda>s. s \<noteq> []) (map ?f ps) = map ?f ps" by (auto simp: filter_id_conv)
  moreover have "cut_pair (?f p) = (form_encode (fst p), form_encode (snd p))" for p
  proof -
    have "CHR ''='' \<notin> set (form_encode (fst p))" using form_encode_safe by blast
    then show ?thesis by (simp add: split_def cut_pair_eq)
  qed
  ultimately show ?thesis
    by (simp add: query_pairs_def form_decode_encode split_def)
qed

lemma params_string_chars: "d \<in> set (params_string ps) \<Longrightarrow> d \<noteq> CHR 0x23"
  using form_encode_safe [of d] by (auto simp: params_string_def dest!: set_join)

lemma target_query_append:
  assumes "CHR ''?'' \<notin> set p" and "CHR 0x23 \<notin> set p" and "CHR 0x23 \<notin> set q"
  shows "target_path (p @ CHR ''?'' # q) = p" and "target_query (p @ CHR ''?'' # q) = q"
    and "target_path p = p" and "target_query p = []"
proof -
  have h: "takeWhile (\<lambda>c. c \<noteq> CHR 0x23) (p @ CHR ''?'' # q) = p @ CHR ''?'' # q"
    "takeWhile (\<lambda>c. c \<noteq> CHR 0x23) p = p"
    using assms by (auto simp: takeWhile_eq_all_conv)
  have "takeWhile (\<lambda>c. c \<noteq> CHR ''?'') (p @ t) = p @ takeWhile (\<lambda>c. c \<noteq> CHR ''?'') t"
    "dropWhile (\<lambda>c. c \<noteq> CHR ''?'') (p @ t) = dropWhile (\<lambda>c. c \<noteq> CHR ''?'') t" for t
    using assms(1) by (induction p) auto
  note f = this
  have d: "dropWhile (\<lambda>c. c \<noteq> CHR ''?'') p = []"
    using assms(1) by (auto simp: dropWhile_eq_Nil_conv)
  show "target_path (p @ CHR ''?'' # q) = p" "target_query (p @ CHR ''?'' # q) = q"
    "target_path p = p" "target_query p = []"
    using f [of "CHR ''?'' # q"] f [of "[]"]
    by (simp_all only: target_path_def target_query_def h) (simp_all add: d)
qed

end
