(* ===== verification/NodeSdk.thy ===== *)
theory NodeSdk
  imports Http
begin

text \<open>
  The Node.js SDK, \<open>sdks/node/src/index.ts\<close>: class \<open>Client\<close> with its three
  providers. What the SDK reads of its surroundings (\<open>process.env\<close>, the file system,
  the answers to \<open>fetch\<close>) is a record of type \<open>node_env\<close>; the methods are functions
  of that record, of the client and of their arguments. A promise that rejects is an
  \<open>Inl\<close>. \<open>getFlag\<close> returns a JavaScript value, because the sidecar's answer is cast
  to \<open>Flag\<close> without a check.
\<close>

section \<open>The runtime the SDK reads\<close>

datatype fs_node =
    FsFile string         \<comment> \<open>a readable file and its text\<close>
  | FsDir "string list"   \<comment> \<open>a directory and the names in it\<close>
  | FsDenied              \<comment> \<open>something that exists and cannot be read\<close>

datatype http_answer = NetFail | Answer nat string

record node_env =
  process_env :: "(string \<times> string) list"
  fs :: "string \<Rightarrow> fs_node option"
  http_get :: "string \<Rightarrow> http_answer"

definition read_file :: "node_env \<Rightarrow> string \<Rightarrow> string res" where
  "read_file E p = (case fs E p of Some (FsFile s) \<Rightarrow> Inr s | _ \<Rightarrow> Inl (Err ''fs''))"

text \<open>\<open>path.join(a, b)\<close> of \<open>node:path\<close> (POSIX).\<close>

fun norm_segs :: "bool \<Rightarrow> string list \<Rightarrow> string list \<Rightarrow> string list" where
  "norm_segs up st [] = rev st"
| "norm_segs up st (s # ss) =
     (if s = [] \<or> s = ''.'' then norm_segs up st ss
      else if s = ''..'' then
        (case st of
           t # st' \<Rightarrow> if t = ''..'' then norm_segs up (s # st) ss else norm_segs up st' ss
         | [] \<Rightarrow> if up then norm_segs up [s] ss else norm_segs up [] ss)
      else norm_segs up (s # st) ss)"

definition path_normalize :: "string \<Rightarrow> string" where
  "path_normalize p =
     (if p = [] then ''.''
      else let absolute = (hd p = CHR ''/'');
               trail = (last p = CHR ''/'');
               body = join_with ''/'' (norm_segs (\<not> absolute) [] (split_on CHR ''/'' p))
           in if body = [] then (if absolute then ''/'' else if trail then ''./'' else ''.'')
              else (if absolute then ''/'' else []) @ body @ (if trail then ''/'' else []))"

definition path_join :: "string \<Rightarrow> string \<Rightarrow> string" where
  "path_join a b =
     path_normalize (if a = [] then b else if b = [] then a else a @ ''/'' @ b)"

text \<open>\<open>Object.entries(v)\<close>.\<close>

fun obj_entries :: "jsval \<Rightarrow> (string \<times> jsval) list res" where
  "obj_entries JUndef = Inl TypeErr"
| "obj_entries JNull = Inl TypeErr"
| "obj_entries (JObj ps) = Inr ps"
| "obj_entries (JArr vs) = Inr (zip (map show_nat [0..<length vs]) vs)"
| "obj_entries (JStr s) = Inr (zip (map show_nat [0..<length s]) (map (\<lambda>c. JStr [c]) s))"
| "obj_entries v = Inr []"

section \<open>Client\<close>

text \<open>\<open>interface Flag\<close>, as the object the SDK itself builds.\<close>

definition flag_obj :: "string \<Rightarrow> string \<Rightarrow> jsval" where
  "flag_obj name value =
     JObj [(''name'', JStr name), (''type'', JStr ''string''), (''value'', JStr value),
           (''disabled'', JBool False)]"

record client_options =
  o_provider :: string
  o_address :: "string option"
  o_path :: "string option"

record client =
  provider :: string
  address :: string
  configPath :: string

definition new_client :: "client_options \<Rightarrow> client" where
  "new_client opts =
     (let a = opt_str (o_address opts) ''http://localhost:8514''
      in \<lparr>provider = o_provider opts,
          address = (if starts_with ''http'' a then a else ''http://'' @ a),
          configPath = opt_str (o_path opts) ''/etc/vexil''\<rparr>)"

subsection \<open>Environment variables\<close>

definition env_name :: "string \<Rightarrow> string" where
  "env_name name = ''FLAG_'' @ replace_if (\<lambda>c. c = CHR ''-'') CHR ''_'' (to_upper name)"

definition getEnv :: "node_env \<Rightarrow> string \<Rightarrow> jsval" where
  "getEnv E name =
     (case map_of (process_env E) (env_name name) of
        None \<Rightarrow> JNull
      | Some value \<Rightarrow> flag_obj name value)"

definition env_flag_name :: "string \<Rightarrow> string" where
  "env_flag_name key = replace_if (\<lambda>c. c = CHR ''_'') CHR ''-'' (to_lower (slice_from 5 key))"

definition allEnv :: "node_env \<Rightarrow> jsval list" where
  "allEnv E =
     map (\<lambda>(key, value). flag_obj (env_flag_name key) (or_str value []))
       (filter (\<lambda>(key, value). starts_with ''FLAG_'' key) (process_env E))"

subsection \<open>Sidecar\<close>

definition getSidecar :: "node_env \<Rightarrow> client \<Rightarrow> string \<Rightarrow> jsval" where
  "getSidecar E c name =
     (case http_get E (address c @ ''/flags/'' @ name) of
        NetFail \<Rightarrow> JNull
      | Answer status body \<Rightarrow>
          if \<not> resp_ok status then JNull else catch_res (json_parse body) JNull)"

definition allSidecar :: "node_env \<Rightarrow> client \<Rightarrow> jsval" where
  "allSidecar E c =
     (case http_get E (address c @ ''/flags'') of
        NetFail \<Rightarrow> JArr []
      | Answer status body \<Rightarrow>
          if \<not> resp_ok status then JArr [] else catch_res (json_parse body) (JArr []))"

subsection \<open>ConfigMap\<close>

definition config_dir_flag :: "node_env \<Rightarrow> client \<Rightarrow> string \<Rightarrow> jsval res" where
  "config_dir_flag E c name =
     (let filePath = path_join (configPath c) name
      in if fs E filePath = None then Inr JNull
         else bind_res (read_file E filePath) (\<lambda>text. Inr (flag_obj name (trim text))))"

definition config_file_flag :: "node_env \<Rightarrow> client \<Rightarrow> string \<Rightarrow> jsval res" where
  "config_file_flag E c name =
     bind_res (read_file E (configPath c)) (\<lambda>text.
     bind_res (json_parse text) (\<lambda>data.
     bind_res (js_in name data) (\<lambda>found.
       if \<not> found then Inr JNull
       else bind_res (js_get name data) (\<lambda>v.
            bind_res (to_str v) (\<lambda>s. Inr (flag_obj name s))))))"

definition getConfigMap :: "node_env \<Rightarrow> client \<Rightarrow> string \<Rightarrow> jsval" where
  "getConfigMap E c name =
     (case fs E (configPath c) of
        None \<Rightarrow> JNull
      | Some (FsDir _) \<Rightarrow> catch_res (config_dir_flag E c name) JNull
      | Some _ \<Rightarrow> catch_res (config_file_flag E c name) JNull)"

definition config_dir_all :: "node_env \<Rightarrow> client \<Rightarrow> string list \<Rightarrow> jsval list res" where
  "config_dir_all E c names =
     map_res (\<lambda>f. bind_res (read_file E (path_join (configPath c) f))
                    (\<lambda>text. Inr (flag_obj f (trim text))))
       (filter (\<lambda>f. \<not> starts_with ''.'' f) names)"

definition config_file_all :: "node_env \<Rightarrow> client \<Rightarrow> jsval list res" where
  "config_file_all E c =
     bind_res (read_file E (configPath c)) (\<lambda>text.
     bind_res (json_parse text) (\<lambda>data.
     bind_res (obj_entries data) (\<lambda>kvs.
       map_res (\<lambda>(k, v). bind_res (to_str v) (\<lambda>s. Inr (flag_obj k s))) kvs)))"

definition allConfigMap :: "node_env \<Rightarrow> client \<Rightarrow> jsval list" where
  "allConfigMap E c =
     (case fs E (configPath c) of
        None \<Rightarrow> []
      | Some (FsDir names) \<Rightarrow> catch_res (config_dir_all E c names) []
      | Some _ \<Rightarrow> catch_res (config_file_all E c) [])"

subsection \<open>The public methods\<close>

definition getFlag :: "node_env \<Rightarrow> client \<Rightarrow> string \<Rightarrow> jsval" where
  "getFlag E c name =
     (if provider c = ''env'' then getEnv E name
      else if provider c = ''sidecar'' then getSidecar E c name
      else if provider c = ''configmap'' then getConfigMap E c name
      else JNull)"

definition allFlags :: "node_env \<Rightarrow> client \<Rightarrow> jsval" where
  "allFlags E c =
     (if provider c = ''env'' then JArr (allEnv E)
      else if provider c = ''sidecar'' then allSidecar E c
      else if provider c = ''configmap'' then JArr (allConfigMap E c)
      else JArr [])"

text \<open>
  The typed getters share their first lines: \<open>if (!flag || flag.disabled) return d\<close>.
  A flag that is truthy has properties, so reading \<open>disabled\<close> and \<open>value\<close> does not
  throw; using a \<open>value\<close> of the wrong type may.
\<close>

definition enabled_value :: "jsval \<Rightarrow> jsval option res" where
  "enabled_value flag =
     (if \<not> truthy flag then Inr None
      else bind_res (js_get ''disabled'' flag) (\<lambda>d.
           if truthy d then Inr None
           else bind_res (js_get ''value'' flag) (\<lambda>v. Inr (Some v))))"

fun lower_value :: "jsval \<Rightarrow> string res" where
  "lower_value (JStr s) = Inr (to_lower s)"
| "lower_value v = Inl TypeErr"

definition flag_bool :: "jsval \<Rightarrow> bool \<Rightarrow> bool res" where
  "flag_bool flag defaultVal =
     bind_res (enabled_value flag) (\<lambda>ov.
       case ov of
         None \<Rightarrow> Inr defaultVal
       | Some v \<Rightarrow> bind_res (lower_value v)
                     (\<lambda>s. Inr (s \<in> set [''true'', ''1'', ''yes''])))"

definition flag_string :: "jsval \<Rightarrow> string \<Rightarrow> jsval res" where
  "flag_string flag defaultVal =
     bind_res (enabled_value flag) (\<lambda>ov.
       case ov of None \<Rightarrow> Inr (JStr defaultVal) | Some v \<Rightarrow> Inr v)"

definition flag_int :: "jsval \<Rightarrow> js_num \<Rightarrow> js_num res" where
  "flag_int flag defaultVal =
     bind_res (enabled_value flag) (\<lambda>ov.
       case ov of
         None \<Rightarrow> Inr defaultVal
       | Some v \<Rightarrow> bind_res (to_str v) (\<lambda>s.
           case parse_int10 s of
             None \<Rightarrow> Inr defaultVal
           | Some i \<Rightarrow> Inr (num_of_int i)))"

definition flag_json :: "jsval \<Rightarrow> jsval res" where
  "flag_json flag =
     bind_res (enabled_value flag) (\<lambda>ov.
       case ov of None \<Rightarrow> Inr JNull | Some v \<Rightarrow> bind_res (to_str v) json_parse)"

definition client_bool :: "node_env \<Rightarrow> client \<Rightarrow> string \<Rightarrow> bool \<Rightarrow> bool res" where
  "client_bool E c name defaultVal = flag_bool (getFlag E c name) defaultVal"

definition client_string :: "node_env \<Rightarrow> client \<Rightarrow> string \<Rightarrow> string \<Rightarrow> jsval res" where
  "client_string E c name defaultVal = flag_string (getFlag E c name) defaultVal"

definition client_int :: "node_env \<Rightarrow> client \<Rightarrow> string \<Rightarrow> js_num \<Rightarrow> js_num res" where
  "client_int E c name defaultVal = flag_int (getFlag E c name) defaultVal"

definition client_json :: "node_env \<Rightarrow> client \<Rightarrow> string \<Rightarrow> jsval res" where
  "client_json E c name = flag_json (getFlag E c name)"

section \<open>Environment variable names\<close>

definition flag_char :: "char \<Rightarrow> bool" where
  "flag_char c \<longleftrightarrow> is_lower c \<or> is_digit c \<or> c = CHR ''-''"

definition env_char :: "char \<Rightarrow> bool" where
  "env_char c \<longleftrightarrow> is_upper c \<or> is_digit c \<or> c = CHR ''_''"

abbreviation flag_name :: "string \<Rightarrow> bool" where
  "flag_name n \<equiv> list_all flag_char n"

definition canonical_env :: "(string \<times> string) list \<Rightarrow> bool" where
  "canonical_env env \<longleftrightarrow> distinct (map fst env) \<and>
     (\<forall>(k, v) \<in> set env. starts_with ''FLAG_'' k \<longrightarrow> list_all env_char (drop 5 k))"

lemma letter_not_sep:
  "is_upper c \<Longrightarrow> c \<noteq> CHR ''-'' \<and> c \<noteq> CHR ''_''"
  "is_lower c \<Longrightarrow> c \<noteq> CHR ''-'' \<and> c \<noteq> CHR ''_''"
  "is_digit c \<Longrightarrow> c \<noteq> CHR ''-'' \<and> c \<noteq> CHR ''_''"
  by (auto simp: is_upper_def is_lower_def is_digit_def)

lemma upper_flag_char:
  "flag_char c \<Longrightarrow> \<exists>d. replace_if (\<lambda>c. c = CHR ''-'') CHR ''_'' (upper_char c) = [d]
     \<and> env_char d \<and> (if lower_char d = CHR ''_'' then CHR ''-'' else lower_char d) = c"
proof -
  assume "flag_char c"
  then consider "is_lower c" | "is_digit c" | "c = CHR ''-''" by (auto simp: flag_char_def)
  then show ?thesis
  proof cases
    case 1
    let ?d = "char_of (code c - 32) :: char"
    have cd: "code ?d = code c - 32" using 1 by (auto simp: is_lower_def intro: mod_less)
    then have u: "is_upper ?d" using 1 by (auto simp: is_upper_def is_lower_def)
    then have "?d \<noteq> CHR ''-''" by (simp only: letter_not_sep simp_thms)
    moreover have "c \<noteq> CHR ''_''" using 1 by (simp only: letter_not_sep simp_thms)
    ultimately show ?thesis
      using 1 u by (simp add: upper_char_lower lower_upper_char env_char_def)
  next
    case 2
    then have "upper_char c = [c]" by (intro upper_char_id) (auto simp: is_digit_def is_lower_def)
    moreover have "lower_char c = c" using 2 by (intro lower_char_id) (auto simp: is_digit_def is_upper_def)
    moreover have "c \<noteq> CHR ''-''" "c \<noteq> CHR ''_''" using 2 by (auto simp: is_digit_def)
    ultimately show ?thesis using 2 by (simp add: env_char_def)
  next
    case 3
    then show ?thesis by (auto simp: upper_char_def lower_char_def env_char_def Let_def)
  qed
qed

lemma env_flag_name_env_name: "flag_name n \<Longrightarrow> env_flag_name (env_name n) = n"
proof -
  assume n: "flag_name n"
  have "replace_if (\<lambda>c. c = CHR ''_'') CHR ''-''
      (to_lower (replace_if (\<lambda>c. c = CHR ''-'') CHR ''_'' (to_upper n))) = n"
    using n
  proof (induction n)
    case Nil
    then show ?case by simp
  next
    case (Cons c n)
    then have "flag_char c" by simp
    then obtain d where "replace_if (\<lambda>c. c = CHR ''-'') CHR ''_'' (upper_char c) = [d]"
      "(if lower_char d = CHR ''_'' then CHR ''-'' else lower_char d) = c"
      using upper_flag_char by metis
    with Cons show ?case by auto
  qed
  then show ?thesis by (simp add: env_flag_name_def env_name_def slice_from_def)
qed

lemma env_name_canonical: "flag_name n \<Longrightarrow> list_all env_char (drop 5 (env_name n))"
proof (induction n)
  case Nil
  then show ?case by (simp add: env_name_def)
next
  case (Cons c n)
  then have "flag_char c" by simp
  then obtain d where "replace_if (\<lambda>c. c = CHR ''-'') CHR ''_'' (upper_char c) = [d]" "env_char d"
    using upper_flag_char by metis
  with Cons show ?case by (simp add: env_name_def)
qed

lemma lower_env_char:
  "env_char d \<Longrightarrow> \<exists>c. (if lower_char d = CHR ''_'' then CHR ''-'' else lower_char d) = c
     \<and> replace_if (\<lambda>c. c = CHR ''-'') CHR ''_'' (upper_char c) = [d]"
proof -
  assume "env_char d"
  then consider "is_upper d" | "is_digit d" | "d = CHR ''_''" by (auto simp: env_char_def)
  then show ?thesis
  proof cases
    case 1
    let ?c = "char_of (code d + 32) :: char"
    have l: "lower_char d = ?c" using 1 by (simp add: lower_char_def is_upper_def Let_def)
    have cd: "code ?c = code d + 32" using 1 by (auto simp: is_upper_def intro: mod_less)
    then have low: "is_lower ?c" using 1 by (auto simp: is_upper_def is_lower_def)
    then have "?c \<noteq> CHR ''_''" by (simp only: letter_not_sep simp_thms)
    moreover have "upper_char ?c = [d]" using upper_char_lower [OF low] cd by simp
    moreover have "d \<noteq> CHR ''-''" using 1 by (auto simp: is_upper_def)
    ultimately show ?thesis using l by simp
  next
    case 2
    then have "lower_char d = d" by (intro lower_char_id) (auto simp: is_digit_def is_upper_def)
    moreover have "upper_char d = [d]" using 2 by (intro upper_char_id) (auto simp: is_digit_def is_lower_def)
    moreover have "d \<noteq> CHR ''-''" "d \<noteq> CHR ''_''" using 2 by (auto simp: is_digit_def)
    ultimately show ?thesis by simp
  next
    case 3
    then show ?thesis by (auto simp: upper_char_def lower_char_def Let_def)
  qed
qed

lemma env_name_env_flag_name:
  assumes "starts_with ''FLAG_'' k" and "list_all env_char (drop 5 k)"
  shows "env_name (env_flag_name k) = k"
proof -
  from assms(1) obtain t where k: "k = ''FLAG_'' @ t" by (auto simp: starts_with_prefix)
  then have "list_all env_char t" using assms(2) by simp
  then have "replace_if (\<lambda>c. c = CHR ''-'') CHR ''_''
      (to_upper (replace_if (\<lambda>c. c = CHR ''_'') CHR ''-'' (to_lower t))) = t"
  proof (induction t)
    case Nil
    then show ?case by simp
  next
    case (Cons d t)
    then show ?case using lower_env_char [of d] by auto
  qed
  with k show ?thesis by (simp add: env_flag_name_def env_name_def slice_from_def)
qed

lemma env_name_inj: "flag_name m \<Longrightarrow> flag_name n \<Longrightarrow> env_name m = env_name n \<Longrightarrow> m = n"
  by (metis env_flag_name_env_name)

section \<open>What the typed getters promise of a flag source\<close>

text \<open>
  The interface between the typed getters and a provider that builds its flags itself:
  looking a name up gives \<open>null\<close> or an enabled flag of that name whose value is a
  string. The environment and the ConfigMap providers satisfy it; the sidecar provider,
  which passes on whatever JSON it receives, does not.
\<close>

locale flag_source =
  fixes lookup :: "string \<Rightarrow> jsval"
  assumes lookup_flag: "lookup n = JNull \<or> (\<exists>v. lookup n = flag_obj n v)"
begin

lemma missing_default:
  "lookup n = JNull \<Longrightarrow> flag_bool (lookup n) b = Inr b"
  "lookup n = JNull \<Longrightarrow> flag_string (lookup n) s = Inr (JStr s)"
  "lookup n = JNull \<Longrightarrow> flag_int (lookup n) k = Inr k"
  "lookup n = JNull \<Longrightarrow> flag_json (lookup n) = Inr JNull"
  by (simp_all add: flag_bool_def flag_string_def flag_int_def flag_json_def enabled_value_def)

lemma found_value: "lookup n = flag_obj n v \<Longrightarrow> enabled_value (lookup n) = Inr (Some (JStr v))"
  by (simp add: enabled_value_def flag_obj_def)

lemma found_typed:
  "lookup n = flag_obj n v \<Longrightarrow> flag_bool (lookup n) b = Inr (to_lower v \<in> set [''true'', ''1'', ''yes''])"
  "lookup n = flag_obj n v \<Longrightarrow> flag_string (lookup n) s = Inr (JStr v)"
  "lookup n = flag_obj n v \<Longrightarrow> flag_int (lookup n) k
     = Inr (case parse_int10 v of None \<Rightarrow> k | Some i \<Rightarrow> num_of_int i)"
  "lookup n = flag_obj n v \<Longrightarrow> flag_json (lookup n) = json_parse v"
  using found_value [of n v]
  by (simp_all add: flag_bool_def flag_string_def flag_int_def flag_json_def split: option.split)

lemma never_throws:
  "(\<exists>b'. flag_bool (lookup n) b = Inr b') \<and> (\<exists>s'. flag_string (lookup n) s = Inr (JStr s'))
   \<and> (\<exists>k'. flag_int (lookup n) k = Inr k')
   \<and> ((\<exists>j. flag_json (lookup n) = Inr j) \<or> flag_json (lookup n) = Inl SyntaxErr)"
proof (cases "lookup n = JNull")
  case True
  then show ?thesis using missing_default [OF True] by simp
next
  case False
  then obtain v where v: "lookup n = flag_obj n v" using lookup_flag by blast
  show ?thesis
    using found_typed [OF v] json_parse_error [of v]
    by (cases "json_parse v") (auto split: option.splits)
qed

end

interpretation env_src: flag_source "getEnv E" for E
  by unfold_locales (auto simp: getEnv_def split: option.split)

lemma config_dir_flag_shape:
  "config_dir_flag E c n = Inr f \<Longrightarrow> f = JNull \<or> (\<exists>v. f = flag_obj n v)"
  by (auto simp: config_dir_flag_def Let_def bind_res_Inr split: if_splits)

lemma config_file_flag_shape:
  "config_file_flag E c n = Inr f \<Longrightarrow> f = JNull \<or> (\<exists>v. f = flag_obj n v)"
  by (auto simp: config_file_flag_def bind_res_Inr split: if_splits)

interpretation config_src: flag_source "getConfigMap E c" for E c
proof unfold_locales
  fix n
  show "getConfigMap E c n = JNull \<or> (\<exists>v. getConfigMap E c n = flag_obj n v)"
    using config_dir_flag_shape [of E c n] config_file_flag_shape [of E c n]
    by (cases "config_dir_flag E c n"; cases "config_file_flag E c n")
      (auto simp: getConfigMap_def split: option.split fs_node.split)
qed

interpretation null_src: flag_source "\<lambda>n. JNull"
  by unfold_locales simp

lemmas client_defs = client_bool_def client_string_def client_int_def client_json_def

lemma getFlag_provider [js_simps]:
  "provider c = ''env'' \<Longrightarrow> getFlag E c n = getEnv E n"
  "provider c = ''sidecar'' \<Longrightarrow> getFlag E c n = getSidecar E c n"
  "provider c = ''configmap'' \<Longrightarrow> getFlag E c n = getConfigMap E c n"
  by (simp_all add: getFlag_def)

end
