(* ===== verification/NodeSdkProps.thy ===== *)
theory NodeSdkProps
  imports NodeSdk
begin

text \<open>
  Properties of the SDK's public methods: what the typed getters return with each
  provider, that listing and looking up agree, how failures turn into defaults, and
  which file of a mounted ConfigMap a flag name is read from. The section on paths
  follows \<open>path.join\<close> on absolute directories.
\<close>

text \<open>A runtime with the given environment, no files and no network (for examples).\<close>

definition sdk_env :: "(string \<times> string) list \<Rightarrow> node_env" where
  "sdk_env env = \<lparr>process_env = env, fs = (\<lambda>_. None), http_get = (\<lambda>_. NetFail)\<rparr>"

section \<open>Getters and the environment provider\<close>

text \<open>C20 (local_getters_never_throw). With the environment or the ConfigMap provider (or an unknown provider name) the typed getters never reject: \<open>bool\<close>, \<open>string\<close> and \<open>int\<close> always produce a result of their type, and \<open>json\<close> either a value or the syntax error of the flag's own text.\<close>

theorem local_getters_never_throw:
  assumes "provider c \<noteq> ''sidecar''"
  shows "(\<exists>b'. client_bool E c n b = Inr b') \<and> (\<exists>s'. client_string E c n s = Inr (JStr s'))
    \<and> (\<exists>k'. client_int E c n k = Inr k')
    \<and> ((\<exists>j. client_json E c n = Inr j) \<or> client_json E c n = Inl SyntaxErr)"
  using assms env_src.never_throws [of E n b s k] config_src.never_throws [of E c n b s k]
    null_src.never_throws [of b s k]
  by (simp add: client_defs getFlag_def)

theorem local_getters_never_throw_witness:
  "\<exists>s'. client_string (sdk_env [(''FLAG_A'', ''x'')])
      \<lparr>provider = ''env'', address = [], configPath = []\<rparr> ''a'' ''d'' = Inr (JStr s')"
  using local_getters_never_throw [of "\<lparr>provider = ''env'', address = [], configPath = []\<rparr>"
      "sdk_env [(''FLAG_A'', ''x'')]" "''a''" _ "''d''"]
  by simp

text \<open>C6 (env_list_get_agree). In an environment whose \<open>FLAG_\<close> variables have canonical names, \<open>allFlags\<close> and \<open>getFlag\<close> agree: a flag with a name of lower-case letters, digits and hyphens is listed with a value exactly when looking it up gives that value.\<close>

theorem env_list_get_agree:
  assumes "canonical_env (process_env E)" and "flag_name n"
  shows "flag_obj n v \<in> set (allEnv E) \<longleftrightarrow> getEnv E n = flag_obj n v"
proof -
  have d: "distinct (map fst (process_env E))" using assms(1) by (simp add: canonical_env_def)
  have "flag_obj n v \<in> set (allEnv E) \<longleftrightarrow>
      (\<exists>k. (k, v) \<in> set (process_env E) \<and> starts_with ''FLAG_'' k \<and> env_flag_name k = n)"
    by (force simp: allEnv_def flag_obj_def or_str_def)
  also have "\<dots> \<longleftrightarrow> (env_name n, v) \<in> set (process_env E)"
    using assms env_name_env_flag_name env_flag_name_env_name [OF assms(2)]
    by (force simp: canonical_env_def env_name_def)
  also have "\<dots> \<longleftrightarrow> getEnv E n = flag_obj n v"
    using d by (auto simp: getEnv_def flag_obj_def split: option.split dest: map_of_SomeD
        eq_key_imp_eq_value)
  finally show ?thesis .
qed

theorem env_list_get_agree_witness:
  "let E = (sdk_env [(''PATH'', ''/bin''), (''FLAG_DARK_MODE'', ''on'')])
   in flag_obj ''dark-mode'' ''on'' \<in> set (allEnv E) \<and> getEnv E ''dark-mode'' = flag_obj ''dark-mode'' ''on''"
proof -
  let ?E = "(sdk_env [(''PATH'', ''/bin''), (''FLAG_DARK_MODE'', ''on'')])"
  have c: "canonical_env (process_env ?E)"
    by (simp add: canonical_env_def env_char_def is_upper_def sdk_env_def)
  have n: "flag_name ''dark-mode''"
    by (simp add: flag_char_def is_lower_def)
  have "getEnv ?E ''dark-mode'' = flag_obj ''dark-mode'' ''on''"
    by code_simp
  then show ?thesis using env_list_get_agree [OF c n] by simp
qed

text \<open>Two different flag names of lower-case letters, digits and hyphens never read the same environment variable.\<close>

theorem env_names_distinct:
  assumes "flag_name m" and "flag_name n"
  shows "env_name m = env_name n \<longleftrightarrow> m = n"
  using assms env_name_inj by blast

theorem env_names_distinct_witness: "env_name ''a-b'' \<noteq> env_name ''ab''"
  using env_names_distinct [of "''a-b''" "''ab''"]
  by (simp add: flag_char_def is_lower_def)




section \<open>Sidecar\<close>

definition sidecar_fails :: "http_answer \<Rightarrow> bool" where
  "sidecar_fails a \<longleftrightarrow>
     (case a of NetFail \<Rightarrow> True
      | Answer status body \<Rightarrow> \<not> resp_ok status \<or> json_parse body = Inl SyntaxErr)"

lemma getSidecar_fails:
  "sidecar_fails (http_get E (address c @ ''/flags/'' @ n)) \<Longrightarrow> getSidecar E c n = JNull"
  by (auto simp: sidecar_fails_def getSidecar_def split: http_answer.splits)

text \<open>C35 (sidecar_failure_defaults). When the sidecar cannot be reached, answers outside the 2xx range or sends something that is not JSON, every typed getter returns the caller's default.\<close>

theorem sidecar_failure_defaults:
  assumes "provider c = ''sidecar''"
    and "sidecar_fails (http_get E (address c @ ''/flags/'' @ n))"
  shows "client_bool E c n b = Inr b \<and> client_string E c n d = Inr (JStr d)
    \<and> client_int E c n k = Inr k \<and> client_json E c n = Inr JNull"
  using null_src.missing_default
  by (simp add: client_defs js_simps assms(1) getSidecar_fails [OF assms(2)])

theorem sidecar_failure_defaults_witness:
  "let c = new_client \<lparr>o_provider = ''sidecar'', o_address = Some ''localhost:8514'', o_path = None\<rparr>;
       E = (sdk_env [])\<lparr>http_get := (\<lambda>u. Answer 404 ''nope'')\<rparr>
   in client_bool E c ''x'' True = Inr True"
proof -
  let ?c = "new_client \<lparr>o_provider = ''sidecar'', o_address = Some ''localhost:8514'', o_path = None\<rparr>"
  let ?E = "(sdk_env [])\<lparr>http_get := (\<lambda>u. Answer 404 ''nope'')\<rparr>"
  have "provider ?c = ''sidecar''" by (simp add: new_client_def Let_def)
  moreover have "sidecar_fails (http_get ?E (address ?c @ ''/flags/'' @ ''x''))"
    by (simp add: sidecar_fails_def resp_ok_def)
  ultimately show ?thesis using sidecar_failure_defaults by (simp add: Let_def)
qed

text \<open>When the sidecar answers with a flag object, the getters return the typed reading of its value, or the default if the flag is disabled.\<close>

theorem sidecar_flag_value:
  assumes "provider c = ''sidecar''"
    and "http_get E (address c @ ''/flags/'' @ n) = Answer status body" and "resp_ok status"
    and "json_parse body = Inr (JObj ps)"
    and "map_of ps ''value'' = Some (JStr v)" and "map_of ps ''disabled'' = Some (JBool off)"
  shows "client_bool E c n b = Inr (if off then b else to_lower v \<in> {''true'', ''1'', ''yes''})
    \<and> client_string E c n d = Inr (JStr (if off then d else v))
    \<and> client_int E c n k =
        Inr (if off then k else case parse_int10 v of None \<Rightarrow> k | Some i \<Rightarrow> num_of_int i)"
proof -
  have "getFlag E c n = JObj ps" using assms by (simp add: js_simps getSidecar_def)
  moreover have "enabled_value (JObj ps) = Inr (if off then None else Some (JStr v))"
    using assms by (simp add: enabled_value_def)
  ultimately show ?thesis
    by (simp add: client_defs flag_bool_def flag_string_def flag_int_def split: option.split)
qed

theorem sidecar_flag_value_witness:
  "let c = new_client \<lparr>o_provider = ''sidecar'', o_address = None, o_path = None\<rparr>;
       body = the (json_stringify (JObj [(''name'', JStr ''x''), (''value'', JStr ''7''), (''disabled'', JBool False)]));
       E = (sdk_env [])\<lparr>http_get := (\<lambda>u. Answer 200 body)\<rparr>
   in client_string E c ''x'' ''d'' = Inr (JStr ''7'')"
proof -
  let ?c = "new_client \<lparr>o_provider = ''sidecar'', o_address = None, o_path = None\<rparr>"
  let ?ps = "[(''name'', JStr ''x''), (''value'', JStr ''7''), (''disabled'', JBool False)]"
  let ?body = "the (json_stringify (JObj ?ps))"
  let ?E = "(sdk_env [])\<lparr>http_get := (\<lambda>u. Answer 200 ?body)\<rparr>"
  have "provider ?c = ''sidecar''" by (simp add: new_client_def Let_def)
  moreover have "json_parse ?body = Inr (JObj ?ps)" by (rule json_roundtrip) (simp_all, code_simp)
  moreover have "resp_ok 200" by (simp add: resp_ok_def)
  ultimately show ?thesis
    using sidecar_flag_value [of ?c ?E "''x''" 200 ?body ?ps "''7''" False _ "''d''"]
    by (simp add: Let_def)
qed

section \<open>ConfigMap listings\<close>

definition visible :: "string list \<Rightarrow> string list" where
  "visible names = filter (\<lambda>f. \<not> starts_with ''.'' f) names"

definition readable :: "node_env \<Rightarrow> string \<Rightarrow> bool" where
  "readable E p \<longleftrightarrow> (case fs E p of Some (FsFile _) \<Rightarrow> True | _ \<Rightarrow> False)"

lemma readableE: "readable E p \<Longrightarrow> \<exists>s. fs E p = Some (FsFile s)"
  by (auto simp: readable_def split: option.splits fs_node.splits)

lemma not_readable: "\<not> readable E p \<Longrightarrow> \<exists>e. read_file E p = Inl e"
  by (auto simp: readable_def read_file_def split: option.splits fs_node.splits)

text \<open>On a mounted directory \<open>allFlags\<close> lists exactly the flags that \<open>getFlag\<close> finds for the names not starting with a dot, in directory order; but a single entry that cannot be read empties the whole list.\<close>

theorem config_dir_listing:
  assumes "fs E (configPath c) = Some (FsDir names)"
  shows "allConfigMap E c =
     (if \<forall>f\<in>set (visible names). readable E (path_join (configPath c) f)
      then map (getConfigMap E c) (visible names) else [])"
proof (cases "\<forall>f\<in>set (visible names). readable E (path_join (configPath c) f)")
  case True
  have "bind_res (read_file E (path_join (configPath c) f)) (\<lambda>text. Inr (flag_obj f (trim text)))
      = Inr (getConfigMap E c f)" if "f \<in> set (visible names)" for f
    using True that assms readableE [of E "path_join (configPath c) f"]
    by (auto simp: getConfigMap_def config_dir_flag_def read_file_def Let_def)
  then have "config_dir_all E c names = Inr (map (getConfigMap E c) (visible names))"
    unfolding config_dir_all_def visible_def [symmetric] by (rule map_res_Inr_map)
  with True assms show ?thesis by (simp add: allConfigMap_def)
next
  case False
  then obtain f e where "f \<in> set (visible names)" "read_file E (path_join (configPath c) f) = Inl e"
    using not_readable by blast
  then obtain e' where "config_dir_all E c names = Inl e'"
    using map_res_Inl [of f "visible names"
        "\<lambda>f. bind_res (read_file E (path_join (configPath c) f)) (\<lambda>text. Inr (flag_obj f (trim text)))" e]
    by (auto simp: config_dir_all_def visible_def)
  with False assms show ?thesis by (auto simp: allConfigMap_def)
qed

definition demo_files :: "string \<Rightarrow> fs_node option" where
  "demo_files = map_of
     [(''/etc/vexil'', FsDir [''..data'', ''dark-mode'', ''limit'']),
      (''/etc/vexil/dark-mode'', FsFile '' true ''), (''/etc/vexil/limit'', FsFile ''7''),
      (''/etc/secret'', FsFile ''top'')]"

definition demo_client :: client where
  "demo_client = \<lparr>provider = ''configmap'', address = [], configPath = ''/etc/vexil''\<rparr>"

theorem config_dir_listing_witness:
  "allConfigMap ((sdk_env [])\<lparr>fs := demo_files\<rparr>) demo_client
     = [flag_obj ''dark-mode'' ''true'', flag_obj ''limit'' ''7'']"
proof -
  let ?E = "(sdk_env [])\<lparr>fs := demo_files\<rparr>"
  have d: "fs ?E (configPath demo_client) = Some (FsDir [''..data'', ''dark-mode'', ''limit''])"
    by (simp add: demo_files_def demo_client_def)
  have v: "visible [''..data'', ''dark-mode'', ''limit''] = [''dark-mode'', ''limit'']"
    by (simp add: visible_def)
  have j: "path_join (configPath demo_client) ''dark-mode'' = ''/etc/vexil/dark-mode''"
    "path_join (configPath demo_client) ''limit'' = ''/etc/vexil/limit''"
    by code_simp+
  have g: "getConfigMap ?E demo_client ''dark-mode'' = flag_obj ''dark-mode'' ''true''"
    "getConfigMap ?E demo_client ''limit'' = flag_obj ''limit'' ''7''"
    by code_simp+
  have r: "readable ?E ''/etc/vexil/dark-mode''" "readable ?E ''/etc/vexil/limit''"
    by code_simp+
  show ?thesis
    using config_dir_listing [OF d] by (simp add: v j g r)
qed

text \<open>On a JSON file holding an object \<open>allFlags\<close> lists, in key order, exactly what \<open>getFlag\<close> returns for each key.\<close>

theorem config_file_listing:
  assumes "fs E (configPath c) = Some (FsFile text)" and "json_parse text = Inr (JObj ps)"
    and "\<forall>(k, v)\<in>set ps. \<exists>s. to_str v = Inr s"
  shows "allConfigMap E c = map (getConfigMap E c) (map fst ps)"
proof -
  have d: "distinct (map fst ps)" using json_parse_distinct [OF assms(2)] .
  have "bind_res (to_str v) (\<lambda>s. Inr (flag_obj k s)) = Inr (getConfigMap E c k)"
    if kv: "(k, v) \<in> set ps" for k v
  proof -
    obtain s where s: "to_str v = Inr s" using assms(3) kv by auto
    have "k \<in> fst ` set ps" using kv by force
    moreover have "map_of ps k = Some v" using d kv by simp
    ultimately show ?thesis
      using assms(1,2) s by (simp add: getConfigMap_def config_file_flag_def read_file_def)
  qed
  then have "map_res (\<lambda>(k, v). bind_res (to_str v) (\<lambda>s. Inr (flag_obj k s))) ps
      = Inr (map (\<lambda>(k, v). getConfigMap E c k) ps)"
    by (intro map_res_Inr_map) auto
  with assms(1,2) show ?thesis
    by (simp add: allConfigMap_def config_file_all_def read_file_def case_prod_beta comp_def)
qed

theorem config_file_listing_witness:
  "let E = (sdk_env [])\<lparr>fs := map_of [(''/f.json'', FsFile (the (json_stringify (JObj [(''a'', JStr ''x''), (''b'', JNum (num_of_int 12))]))))]\<rparr>;
       c = \<lparr>provider = ''configmap'', address = [], configPath = ''/f.json''\<rparr>
   in allConfigMap E c = [flag_obj ''a'' ''x'', flag_obj ''b'' ''12'']"
proof -
  let ?ps = "[(''a'', JStr ''x''), (''b'', JNum (num_of_int 12))]"
  let ?t = "the (json_stringify (JObj ?ps))"
  let ?E = "(sdk_env [])\<lparr>fs := map_of [(''/f.json'', FsFile ?t)]\<rparr>"
  let ?c = "\<lparr>provider = ''configmap'', address = [], configPath = ''/f.json''\<rparr>"
  have p: "json_parse ?t = Inr (JObj ?ps)" by (rule json_roundtrip)
      (simp_all add: obj_of_list_def obj_put_def put_new_def array_index_def is_digit_def)
  have n: "to_str (JNum (num_of_int 12)) = Inr ''12''"
    by (simp add: show_num_int) code_simp
  have f: "fs ?E (configPath ?c) = Some (FsFile ?t)" by simp
  have g: "getConfigMap ?E ?c ''a'' = flag_obj ''a'' ''x''" "getConfigMap ?E ?c ''b'' = flag_obj ''b'' ''12''"
    using p n
    by (simp_all add: getConfigMap_def config_file_flag_def read_file_def del: json_stringify.simps to_str.simps(4))
  have "allConfigMap ?E ?c = map (getConfigMap ?E ?c) (map fst ?ps)"
    by (rule config_file_listing [OF f p]) (simp add: n)
  with g show ?thesis by (simp add: Let_def)
qed

text \<open>On a JSON file \<open>getFlag\<close> finds every name that \<open>Object.prototype\<close> has (\<open>constructor\<close>, \<open>valueOf\<close>, ...), although the file does not define it and \<open>allFlags\<close> does not list it.\<close>

theorem config_file_prototype:
  assumes "fs E (configPath c) = Some (FsFile text)" and "json_parse text = Inr (JObj ps)"
    and "n \<in> set object_prototype" and "n \<notin> fst ` set ps"
  shows "(\<exists>v. getConfigMap E c n = flag_obj n v) \<and> (\<forall>v. flag_obj n v \<notin> set (allConfigMap E c))"
proof
  have "map_of ps n = None" using assms(4) by (simp add: map_of_eq_None_iff)
  moreover have "\<exists>s. to_str (proto_member ''Object'' n) = Inr s"
    by (simp add: proto_member_def)
  ultimately show "\<exists>v. getConfigMap E c n = flag_obj n v"
    using assms by (auto simp: getConfigMap_def config_file_flag_def read_file_def)
  show "\<forall>v. flag_obj n v \<notin> set (allConfigMap E c)"
  proof (cases "config_file_all E c")
    case (Inl e)
    with assms(1) show ?thesis by (simp add: allConfigMap_def)
  next
    case (Inr fl)
    then have m: "map_res (\<lambda>(k, v). bind_res (to_str v) (\<lambda>s. Inr (flag_obj k s))) ps = Inr fl"
      using assms(1,2) by (simp add: config_file_all_def read_file_def)
    have "flag_obj n v \<notin> set fl" for v
    proof
      assume "flag_obj n v \<in> set fl"
      with m obtain k w where "(k, w) \<in> set ps" "bind_res (to_str w) (\<lambda>s. Inr (flag_obj k s)) = Inr (flag_obj n v)"
        using map_res_mem by fastforce
      with assms(4) show False by (force simp: bind_res_Inr flag_obj_def)
    qed
    with Inr assms(1) show ?thesis by (simp add: allConfigMap_def)
  qed
qed


theorem config_file_prototype_witness:
  "let E = (sdk_env [])\<lparr>fs := map_of [(''/f.json'', FsFile ''{}'')]\<rparr>;
       c = \<lparr>provider = ''configmap'', address = [], configPath = ''/f.json''\<rparr>
   in \<exists>v. getConfigMap E c ''constructor'' = flag_obj ''constructor'' v"
proof -
  have "json_parse ''{}'' = Inr (JObj [])" 
    by (rule json_roundtrip) (simp_all add: obj_of_list_def)
  then show ?thesis
    using config_file_prototype [of "(sdk_env [])\<lparr>fs := map_of [(''/f.json'', FsFile ''{}'')]\<rparr>"
        "\<lparr>provider = ''configmap'', address = [], configPath = ''/f.json''\<rparr>" "''{}''" "[]" "''constructor''"]
    by (simp add: object_prototype_def Let_def)
qed

section \<open>Paths\<close>

definition plain_seg :: "string \<Rightarrow> bool" where
  "plain_seg s \<longleftrightarrow> s \<noteq> [] \<and> s \<noteq> ''.'' \<and> s \<noteq> ''..'' \<and> CHR ''/'' \<notin> set s"

lemma plain_no_slash: "plain_seg s \<Longrightarrow> CHR ''/'' \<notin> set s"
  by (simp add: plain_seg_def)

definition abs_path :: "string list \<Rightarrow> string" where
  "abs_path segs = CHR ''/'' # join_with ''/'' segs"

lemma norm_segs_plain: "list_all plain_seg ss \<Longrightarrow> norm_segs up st (ss @ ts) = norm_segs up (rev ss @ st) ts"
  by (induction ss arbitrary: st) (auto simp: plain_seg_def)

lemma join_with_append: "ss \<noteq> [] \<Longrightarrow> ts \<noteq> [] \<Longrightarrow> join_with d (ss @ ts) = join_with d ss @ d @ join_with d ts"
proof (induction ss rule: join_with.induct [of _ d])
  case (1 d)
  then show ?case by simp
next
  case (2 d s)
  then show ?case by (cases ts) simp_all
qed simp_all

lemma last_join: "ss \<noteq> [] \<Longrightarrow> last ss \<noteq> [] \<Longrightarrow> join_with d ss \<noteq> [] \<and> last (join_with d ss) = last (last ss)"
  by (induction d ss rule: join_with.induct) auto

lemma split_abs: "list_all plain_seg ss \<Longrightarrow> ss \<noteq> [] \<Longrightarrow> split_on CHR ''/'' (abs_path ss) = [] # ss"
  by (simp add: abs_path_def split_join list_all_iff plain_seg_def)

lemma join_plain_Nil: "list_all plain_seg ss \<Longrightarrow> join_with ''/'' ss = [] \<longleftrightarrow> ss = []"
  by (cases ss rule: list.exhaust; cases "tl ss") (auto simp: plain_seg_def)

lemma norm_segs_nonempty:
  "list_all (\<lambda>s. s \<noteq> []) st \<Longrightarrow> list_all (\<lambda>s. s \<noteq> []) (norm_segs up st ss)"
proof (induction ss arbitrary: st)
  case Nil
  then show ?case by (simp add: list_all_iff)
next
  case (Cons s ss)
  then show ?case by (cases st; cases up) simp_all
qed

lemma join_nonempty: "list_all (\<lambda>s. s \<noteq> []) ss \<Longrightarrow> ss \<noteq> [] \<Longrightarrow> join_with d ss \<noteq> []"
  by (induction d ss rule: join_with.induct) auto

lemma abs_path_plain_join:
  assumes "list_all plain_seg segs" and "segs \<noteq> []" and "f \<noteq> []" and "CHR ''/'' \<notin> set f"
  shows "path_join (abs_path segs) f = (case norm_segs False (rev segs) [f] of
     [] \<Rightarrow> ''/'' | ss \<Rightarrow> abs_path ss)"
proof -
  have j: "abs_path segs @ CHR ''/'' # f = CHR ''/'' # join_with ''/'' (segs @ [f])"
    using assms(2) by (simp add: abs_path_def join_with_append)
  have "split_on CHR ''/'' (join_with ''/'' (segs @ [f])) = segs @ [f]"
    using assms by (intro split_join) (auto simp: list_all_iff plain_seg_def)
  then have sp: "split_on CHR ''/'' (CHR ''/'' # join_with ''/'' (segs @ [f])) = [] # segs @ [f]"
    by simp
  have l: "last (join_with ''/'' (segs @ [f])) \<noteq> CHR ''/''" "join_with ''/'' (segs @ [f]) \<noteq> []"
    using last_join [of "segs @ [f]" "''/''"] assms(3,4) by (auto dest: last_in_set)
  have ns: "norm_segs False [] ([] # segs @ [f]) = norm_segs False (rev segs) [f]"
    using norm_segs_plain [OF assms(1), of False "[]" "[f]"] by simp
  have "join_with ''/'' ss \<noteq> []" if "norm_segs False (rev segs) [f] = ss" "ss \<noteq> []" for ss
  proof -
    have "list_all (\<lambda>s. s \<noteq> []) (rev segs)"
      using assms(1) by (simp add: list_all_iff plain_seg_def)
    then have "list_all (\<lambda>s. s \<noteq> []) ss" using that(1) norm_segs_nonempty by blast
    then show ?thesis using that(2) by (rule join_nonempty)
  qed
  then show ?thesis
    using assms(3) j sp ns l
    by (cases "norm_segs False (rev segs) [f]")
      (auto simp: path_join_def path_normalize_def abs_path_def Let_def simp del: norm_segs.simps split_on.simps)
qed

lemma path_join_plain:
  "list_all plain_seg segs \<Longrightarrow> segs \<noteq> [] \<Longrightarrow> plain_seg f
    \<Longrightarrow> path_join (abs_path segs) f = abs_path (segs @ [f])"
  using abs_path_plain_join [of segs f] by (cases segs) (auto simp: plain_seg_def)


lemma path_join_up:
  assumes "list_all plain_seg segs" and "segs \<noteq> []" and "plain_seg d" and "plain_seg f"
  shows "path_join (abs_path (segs @ [d])) (''../'' @ f) = abs_path (segs @ [f])"
proof -
  have j: "abs_path (segs @ [d]) @ ''/../'' @ f = CHR ''/'' # join_with ''/'' (segs @ [d, ''..'', f])"
    using assms(2) by (simp add: abs_path_def join_with_append)
  have "CHR ''/'' \<notin> set s" if "s \<in> set (segs @ [d, ''..'', f])" for s
    using that assms plain_no_slash by (auto simp: list_all_iff)
  then have "split_on CHR ''/'' (join_with ''/'' (segs @ [d, ''..'', f])) = segs @ [d, ''..'', f]"
    by (intro split_join) simp_all
  then have sp: "split_on CHR ''/'' (CHR ''/'' # join_with ''/'' (segs @ [d, ''..'', f])) = [] # segs @ [d, ''..'', f]"
    by simp
  have l: "last (join_with ''/'' (segs @ [d, ''..'', f])) \<noteq> CHR ''/''"
    "join_with ''/'' (segs @ [d, ''..'', f]) \<noteq> []"
    using last_join [of "segs @ [d, ''..'', f]" "''/''"] assms(4) by (auto simp: plain_seg_def dest: last_in_set)
  have "norm_segs False [] ([] # segs @ [d, ''..'', f]) = segs @ [f]"
    using norm_segs_plain [OF assms(1), of False "[]" "[d, ''..'', f]"] assms(3,4)
    by (simp add: plain_seg_def)
  moreover have "join_with ''/'' (segs @ [f]) \<noteq> []"
    using assms(1,4) by (intro join_nonempty) (simp_all add: list_all_iff plain_seg_def)
  ultimately show ?thesis
    using j sp l
    by (simp add: path_join_def path_normalize_def abs_path_def Let_def
        del: norm_segs.simps split_on.simps)
qed

text \<open>On a mounted directory a plain name is read from exactly that file of the directory; a name that starts with two dots and a slash is read from outside it.\<close>

theorem config_dir_lookup:
  assumes "configPath c = abs_path (segs @ [d])" and "list_all plain_seg (segs @ [d])" and "plain_seg f"
    and "fs E (configPath c) = Some (FsDir names)" and "provider c = ''configmap''" and "segs \<noteq> []"
  shows "getFlag E c f = (case fs E (abs_path (segs @ [d, f])) of
      Some (FsFile text) \<Rightarrow> flag_obj f (trim text) | _ \<Rightarrow> JNull)
    \<and> getFlag E c (''../'' @ f) = (case fs E (abs_path (segs @ [f])) of
      Some (FsFile text) \<Rightarrow> flag_obj (''../'' @ f) (trim text) | _ \<Rightarrow> JNull)"
proof -
  have "path_join (configPath c) f = abs_path (segs @ [d, f])"
    using path_join_plain [of "segs @ [d]" f] assms by simp
  moreover have "path_join (configPath c) (''../'' @ f) = abs_path (segs @ [f])"
    using path_join_up [of segs d f] assms by simp
  ultimately show ?thesis
    using assms(4,5)
    by (auto simp: js_simps getConfigMap_def config_dir_flag_def read_file_def Let_def
        split: option.splits fs_node.splits)
qed

theorem config_dir_lookup_witness:
  "let E = (sdk_env [])\<lparr>fs := demo_files\<rparr>
   in getFlag E demo_client ''limit'' = flag_obj ''limit'' ''7''
      \<and> getFlag E demo_client ''../secret'' = flag_obj ''../secret'' ''top''"
proof -
  let ?E = "(sdk_env [])\<lparr>fs := demo_files\<rparr>"
  have h: "configPath demo_client = abs_path ([''etc''] @ [''vexil''])"
    "list_all plain_seg ([''etc''] @ [''vexil''])" "plain_seg ''limit''" "plain_seg ''secret''"
    "fs ?E (configPath demo_client) = Some (FsDir [''..data'', ''dark-mode'', ''limit''])"
    "provider demo_client = ''configmap''"
    by (simp_all add: demo_client_def demo_files_def abs_path_def plain_seg_def)
  have f: "fs ?E (abs_path [''etc'', ''vexil'', ''limit'']) = Some (FsFile ''7'')"
    "fs ?E (abs_path [''etc'', ''secret'']) = Some (FsFile ''top'')"
    by (simp_all add: demo_files_def abs_path_def)
  have t: "trim ''7'' = ''7''" "trim ''top'' = ''top''"
    by (rule trim_no_ws, simp add: is_ws_def)+
  show ?thesis
    using config_dir_lookup [OF h(1,2,3,5,6)] config_dir_lookup [OF h(1,2,4,5,6)] f t
    by (simp add: Let_def)
qed

end
