(* ===== verification/Proxy.thy ===== *)
theory Proxy
  imports Http
begin

text \<open>
  The route handler that forwards the browser's API calls to the Go server,
  \<open>web/src/app/api/v1/[...path]/route.ts\<close>. \<open>NextResponse\<close> belongs to Next.js: it is
  an argument of the model (record \<open>next_lib\<close>); \<open>standard_next\<close> states that it
  behaves as the \<open>Response\<close> class of the Fetch standard, which it extends.
\<close>

section \<open>Next.js\<close>

record next_lib =
  new_response :: "string \<Rightarrow> nat \<Rightarrow> string \<Rightarrow> http_response res"  \<comment> \<open>body, status, Content-Type\<close>
  json_response :: "jsval \<Rightarrow> nat \<Rightarrow> http_response"

record next_request =
  nr_search :: string                     \<comment> \<open>\<open>new URL(request.url).search\<close>\<close>
  nr_method :: string
  nr_authorization :: "string option"
  nr_text :: string

definition null_body_status :: "nat \<Rightarrow> bool" where
  "null_body_status n \<longleftrightarrow> n \<in> {101, 103, 204, 205, 304}"

definition std_new_response :: "string \<Rightarrow> nat \<Rightarrow> string \<Rightarrow> http_response res" where
  "std_new_response body status ctype =
     (if status < 200 \<or> 599 < status then Inl TypeErr
      else if null_body_status status then Inl TypeErr
      else Inr \<lparr>rs_status = status, rs_status_text = [], rs_type = Some ctype, rs_body = body\<rparr>)"

definition std_json_response :: "jsval \<Rightarrow> nat \<Rightarrow> http_response" where
  "std_json_response v status =
     \<lparr>rs_status = status, rs_status_text = [], rs_type = Some ''application/json'',
      rs_body = (case json_stringify v of None \<Rightarrow> [] | Some s \<Rightarrow> s)\<rparr>"

definition standard_next :: "next_lib \<Rightarrow> bool" where
  "standard_next N \<longleftrightarrow> new_response N = std_new_response \<and> json_response N = std_json_response"

definition std_next :: next_lib where
  "std_next = \<lparr>new_response = std_new_response, json_response = std_json_response\<rparr>"

lemma std_next_standard: "standard_next std_next"
  by (simp add: standard_next_def std_next_def)

section \<open>The handler\<close>

definition getBackendUrl :: "string option \<Rightarrow> string" where
  "getBackendUrl vexil_api_url = opt_str vexil_api_url ''http://localhost:8090''"

definition backend_request :: "string option \<Rightarrow> next_request \<Rightarrow> string list \<Rightarrow> http_request" where
  "backend_request vexil_api_url req path =
     \<lparr>rq_url = getBackendUrl vexil_api_url @ ''/api/v1/'' @ join_with ''/'' path @ nr_search req,
      rq_method = nr_method req,
      rq_headers = (let auth = opt_str (nr_authorization req) [] in
        (''Content-Type'', ''application/json'') # (if auth = [] then [] else [(''Authorization'', auth)])),
      rq_body = (if nr_method req \<noteq> ''GET'' \<and> nr_method req \<noteq> ''HEAD'' \<and> nr_text req \<noteq> []
                 then Some (nr_text req) else None)\<rparr>"

definition proxyRequest ::
  "next_lib \<Rightarrow> network \<Rightarrow> string option \<Rightarrow> next_request \<Rightarrow> string list \<Rightarrow> http_response" where
  "proxyRequest N backend vexil_api_url req path =
     catch_res
       (bind_res (backend (backend_request vexil_api_url req path)) (\<lambda>response.
          new_response N (rs_body response) (rs_status response)
            (opt_str (rs_type response) ''application/json'')))
       (json_response N (JObj [(''error'', JStr ''Failed to connect to API server'')]) 502)"

text \<open>The exported handlers \<open>GET\<close>, \<open>POST\<close>, \<open>PUT\<close>, \<open>DELETE\<close>, \<open>PATCH\<close>: \<open>None\<close> for other methods.\<close>

definition route_handler ::
  "next_lib \<Rightarrow> network \<Rightarrow> string option \<Rightarrow> next_request \<Rightarrow> string list \<Rightarrow> http_response option" where
  "route_handler N backend vexil_api_url req path =
     (if nr_method req \<in> set [''GET'', ''POST'', ''PUT'', ''DELETE'', ''PATCH'']
      then Some (proxyRequest N backend vexil_api_url req path) else None)"

section \<open>Outcomes\<close>

lemma proxy_down:
  "backend (backend_request u req path) = Inl e
   \<Longrightarrow> proxyRequest N backend u req path
       = json_response N (JObj [(''error'', JStr ''Failed to connect to API server'')]) 502"
  by (simp add: proxyRequest_def)

lemma proxy_answer:
  assumes "standard_next N" and "backend (backend_request u req path) = Inr res"
    and "200 \<le> rs_status res" and "rs_status res \<le> 599"
  shows "proxyRequest N backend u req path =
    (if null_body_status (rs_status res)
     then std_json_response (JObj [(''error'', JStr ''Failed to connect to API server'')]) 502
     else res\<lparr>rs_status_text := [], rs_type := Some (opt_str (rs_type res) ''application/json'')\<rparr>)"
  using assms by (simp add: proxyRequest_def standard_next_def std_new_response_def)

text \<open>For every answer of the API server whose status allows a body, the proxy returns the same status and body, and the request it forwarded carries the caller's method, query, body and \<open>Authorization\<close> header under the same path.\<close>

theorem proxy_faithful:
  assumes "standard_next N" and "backend (backend_request u req path) = Inr res"
    and "200 \<le> rs_status res" and "rs_status res \<le> 599" and "\<not> null_body_status (rs_status res)"
    and "nr_method req \<in> {''POST'', ''PUT'', ''DELETE'', ''PATCH''}"
    and "nr_authorization req = Some a" and "a \<noteq> []" and "nr_text req \<noteq> []"
  shows "(\<exists>out. route_handler N backend u req path = Some out
        \<and> rs_status out = rs_status res \<and> rs_body out = rs_body res)
    \<and> backend_request u req path =
        \<lparr>rq_url = getBackendUrl u @ ''/api/v1/'' @ join_with ''/'' path @ nr_search req,
         rq_method = nr_method req,
         rq_headers = [(''Content-Type'', ''application/json''), (''Authorization'', a)],
         rq_body = Some (nr_text req)\<rparr>"
proof -
  have "opt_str (nr_authorization req) [] = a" using assms(7) by (simp add: opt_str_def or_str_def)
  then show ?thesis
    using assms proxy_answer [of N backend u req path res]
    by (auto simp: route_handler_def backend_request_def)
qed

definition demo_request :: next_request where
  "demo_request = \<lparr>nr_search = ''?clusterId=local'', nr_method = ''PUT'',
     nr_authorization = Some ''Bearer t'', nr_text = ''{}''\<rparr>"

definition demo_answer :: "nat \<Rightarrow> string \<Rightarrow> http_response" where
  "demo_answer st body = \<lparr>rs_status = st, rs_status_text = ''OK'', rs_type = None, rs_body = body\<rparr>"

theorem proxy_faithful_witness:
  "\<exists>out. route_handler std_next (\<lambda>_. Inr (demo_answer 200 ''{}'')) None demo_request [''flags'', ''a'', ''b'']
     = Some out \<and> rs_body out = ''{}''"
  using std_next_standard proxy_faithful [of std_next "\<lambda>_. Inr (demo_answer 200 ''{}'')" None demo_request
      "[''flags'', ''a'', ''b'']" "demo_answer 200 ''{}''" "''Bearer t''"]
  by (auto simp: demo_answer_def demo_request_def null_body_status_def)

text \<open>When the API server answers 204 (as it does to every deletion), the proxy cannot build the answer, because an empty string is still a body, and reports 502 although the server has carried out the request.\<close>

theorem proxy_empty_success_fails:
  assumes "standard_next N" and "backend (backend_request u req path) = Inr res"
    and "rs_status res = 204"
  shows "proxyRequest N backend u req path
    = std_json_response (JObj [(''error'', JStr ''Failed to connect to API server'')]) 502"
  using assms proxy_answer [of N backend u req path res] by (simp add: null_body_status_def)

theorem proxy_empty_success_fails_witness:
  "rs_status (proxyRequest std_next (\<lambda>_. Inr (demo_answer 204 [])) None demo_request [''flags'']) = 502"
  using std_next_standard proxy_empty_success_fails [of std_next "\<lambda>_. Inr (demo_answer 204 [])" None demo_request "[''flags'']" "demo_answer 204 []"]
  by (simp add: demo_answer_def std_json_response_def)

end
