(* ===== verification/ApiClient.thy ===== *)
theory ApiClient
  imports Http
begin

text \<open>
  The client of the REST interface, \<open>web/src/lib/api-client.ts\<close>. \<open>request\<close> is the
  shared function: it adds the token kept in local storage, ends the session on a 401,
  turns other failures into errors and decodes the answer. The objects \<open>flagsApi\<close>,
  \<open>clustersApi\<close> and so on are one definition per method. An API call reads and writes
  the browser state; its result is a value or a thrown error.
\<close>

section \<open>The browser\<close>

record web_env =
  public_api_url :: "string option"   \<comment> \<open>\<open>process.env.NEXT_PUBLIC_API_URL\<close>\<close>
  has_window :: bool                  \<comment> \<open>\<open>typeof window !== 'undefined'\<close>\<close>
  fetch :: network
  engine_message :: "js_error \<Rightarrow> string"  \<comment> \<open>the message of an error the engine throws\<close>

record browser =
  storage :: storage
  href :: string

type_synonym 'a api = "browser \<Rightarrow> browser \<times> 'a res"

definition api_base :: "web_env \<Rightarrow> string" where
  "api_base W = opt_str (public_api_url W) ''/api/v1''"

text \<open>\<open>err.message\<close> of a caught error.\<close>

definition err_message :: "web_env \<Rightarrow> js_error \<Rightarrow> string" where
  "err_message W e = (case e of Err m \<Rightarrow> m | _ \<Rightarrow> engine_message W e)"

section \<open>The shared request function\<close>

definition stored_token :: "web_env \<Rightarrow> browser \<Rightarrow> string option" where
  "stored_token W B = (if has_window W then ls_get ''vexil-token'' (storage B) else None)"

text \<open>\<open>token ? {Authorization: ...} : {}\<close>\<close>

definition auth_headers :: "string option \<Rightarrow> (string \<times> string) list" where
  "auth_headers token =
     (case token of
        Some t \<Rightarrow> if t = [] then [] else [(''Authorization'', ''Bearer '' @ t)]
      | None \<Rightarrow> [])"

text \<open>
  The options are spread after \<open>headers\<close>, so headers given by the caller replace the
  merged ones.
\<close>

definition build_request :: "web_env \<Rightarrow> string \<Rightarrow> request_init \<Rightarrow> browser \<Rightarrow> http_request" where
  "build_request W path options B =
     \<lparr>rq_url = api_base W @ path,
      rq_method = (case in_method options of None \<Rightarrow> ''GET'' | Some m \<Rightarrow> m),
      rq_headers = (case in_headers options of
          None \<Rightarrow> obj_of_list ((''Content-Type'', ''application/json'') # auth_headers (stored_token W B))
        | Some hs \<Rightarrow> hs),
      rq_body = in_body options\<rparr>"

text \<open>\<open>await res.json().catch(() => fallback)\<close>, and \<open>new Error(err.error || dflt)\<close>.\<close>

definition error_of :: "string \<Rightarrow> jsval \<Rightarrow> http_response \<Rightarrow> js_error" where
  "error_of dflt fallback res =
     (case bind_res (js_get ''error'' (catch_res (json_parse (rs_body res)) fallback))
             (\<lambda>m. to_str (js_or m (JStr dflt))) of
        Inl e \<Rightarrow> e
      | Inr msg \<Rightarrow> Err msg)"

definition end_session :: "browser \<Rightarrow> browser" where
  "end_session B =
     B\<lparr>storage := ls_remove ''vexil-user'' (ls_remove ''vexil-token'' (storage B)),
       href := ''/login''\<rparr>"

definition request :: "web_env \<Rightarrow> string \<Rightarrow> request_init \<Rightarrow> jsval api" where
  "request W path options B =
     (case fetch W (build_request W path options B) of
        Inl e \<Rightarrow> (B, Inl e)
      | Inr res \<Rightarrow>
          if rs_status res = 401 \<and> has_window W
          then (end_session B, Inl (Err ''Unauthorized''))
          else if \<not> resp_ok (rs_status res)
          then (B, Inl (error_of ''Request failed'' (JObj [(''error'', JStr (rs_status_text res))]) res))
          else if rs_status res = 204 then (B, Inr JUndef)
          else (B, json_parse (rs_body res)))"

section \<open>Authentication\<close>

definition authApi_login :: "web_env \<Rightarrow> string \<Rightarrow> string \<Rightarrow> jsval res" where
  "authApi_login W username password =
     bind_res (fetch W \<lparr>rq_url = api_base W @ ''/auth/login'', rq_method = ''POST'',
          rq_headers = [(''Content-Type'', ''application/json'')],
          rq_body = json_stringify (JObj [(''username'', JStr username), (''password'', JStr password)])\<rparr>)
       (\<lambda>res.
          if \<not> resp_ok (rs_status res)
          then Inl (error_of ''Login failed'' (JObj [(''error'', JStr ''Login failed'')]) res)
          else json_parse (rs_body res))"

text \<open>The request \<open>authApi.logout\<close> sends; its outcome is ignored.\<close>

definition authApi_logout :: "web_env \<Rightarrow> string \<Rightarrow> http_request" where
  "authApi_logout W token =
     \<lparr>rq_url = api_base W @ ''/auth/logout'', rq_method = ''POST'',
      rq_headers = [(''Authorization'', ''Bearer '' @ token)], rq_body = None\<rparr>"

section \<open>Flags\<close>

text \<open>\<open>if (v) search.set(k, v)\<close>\<close>

definition set_given :: "string \<Rightarrow> string option \<Rightarrow> (string \<times> string) list \<Rightarrow> (string \<times> string) list" where
  "set_given k v ps = (if opt_str v [] = [] then ps else params_set k (opt_str v []) ps)"

definition with_query :: "string \<Rightarrow> (string \<times> string) list \<Rightarrow> string" where
  "with_query path search =
     (let qs = params_string search in path @ (if qs = [] then [] else ''?'' @ qs))"

definition flags_list_path :: "string option \<Rightarrow> string option \<Rightarrow> string" where
  "flags_list_path clusterId namespace =
     with_query ''/flags'' (set_given ''namespace'' namespace (set_given ''clusterId'' clusterId []))"

definition flagsApi_list :: "web_env \<Rightarrow> string option \<Rightarrow> string option \<Rightarrow> jsval api" where
  "flagsApi_list W clusterId namespace = request W (flags_list_path clusterId namespace) no_init"

definition flag_path :: "string \<Rightarrow> string \<Rightarrow> string \<Rightarrow> string" where
  "flag_path namespace name clusterId =
     ''/flags/'' @ namespace @ ''/'' @ name @ ''?clusterId='' @ clusterId"

definition flagsApi_get :: "web_env \<Rightarrow> string \<Rightarrow> string \<Rightarrow> string \<Rightarrow> jsval api" where
  "flagsApi_get W namespace name clusterId = request W (flag_path namespace name clusterId) no_init"

definition flagsApi_create :: "web_env \<Rightarrow> jsval \<Rightarrow> jsval api" where
  "flagsApi_create W data = request W ''/flags'' (json_init ''POST'' data)"

definition flagsApi_update :: "web_env \<Rightarrow> string \<Rightarrow> string \<Rightarrow> string \<Rightarrow> jsval \<Rightarrow> jsval api" where
  "flagsApi_update W namespace name clusterId data =
     request W (flag_path namespace name clusterId) (json_init ''PUT'' data)"

definition flagsApi_delete :: "web_env \<Rightarrow> string \<Rightarrow> string \<Rightarrow> string \<Rightarrow> jsval api" where
  "flagsApi_delete W namespace name clusterId =
     request W (flag_path namespace name clusterId) (method_init ''DELETE'')"

definition flagsApi_toggle :: "web_env \<Rightarrow> string \<Rightarrow> string \<Rightarrow> string \<Rightarrow> jsval api" where
  "flagsApi_toggle W namespace name clusterId =
     request W (''/flags/'' @ namespace @ ''/'' @ name @ ''/toggle?clusterId='' @ clusterId)
       (method_init ''POST'')"

section \<open>Clusters, workloads, users, audit\<close>

definition clustersApi_list :: "web_env \<Rightarrow> jsval api" where
  "clustersApi_list W = request W ''/clusters'' no_init"

definition clustersApi_get :: "web_env \<Rightarrow> string \<Rightarrow> jsval api" where
  "clustersApi_get W cid = request W (''/clusters/'' @ cid) no_init"

definition clustersApi_register :: "web_env \<Rightarrow> jsval \<Rightarrow> jsval api" where
  "clustersApi_register W data = request W ''/clusters'' (json_init ''POST'' data)"

definition clustersApi_remove :: "web_env \<Rightarrow> string \<Rightarrow> jsval api" where
  "clustersApi_remove W cid = request W (''/clusters/'' @ cid) (method_init ''DELETE'')"

definition workloadsApi_list :: "web_env \<Rightarrow> string \<Rightarrow> string option \<Rightarrow> jsval api" where
  "workloadsApi_list W clusterId namespace =
     (let qs = (if opt_str namespace [] = [] then [] else ''?namespace='' @ opt_str namespace [])
      in request W (''/clusters/'' @ clusterId @ ''/workloads'' @ qs) no_init)"

definition workloadsApi_get :: "web_env \<Rightarrow> string \<Rightarrow> string \<Rightarrow> string \<Rightarrow> jsval api" where
  "workloadsApi_get W clusterId namespace name =
     request W (''/clusters/'' @ clusterId @ ''/workloads/'' @ namespace @ ''/'' @ name) no_init"

definition usersApi_list :: "web_env \<Rightarrow> jsval api" where
  "usersApi_list W = request W ''/users'' no_init"

definition usersApi_create :: "web_env \<Rightarrow> jsval \<Rightarrow> jsval api" where
  "usersApi_create W data = request W ''/users'' (json_init ''POST'' data)"

definition usersApi_update :: "web_env \<Rightarrow> string \<Rightarrow> jsval \<Rightarrow> jsval api" where
  "usersApi_update W username data = request W (''/users/'' @ username) (json_init ''PUT'' data)"

definition usersApi_delete :: "web_env \<Rightarrow> string \<Rightarrow> jsval api" where
  "usersApi_delete W username = request W (''/users/'' @ username) (method_init ''DELETE'')"

definition audit_list_path :: "string option \<Rightarrow> string option \<Rightarrow> string option \<Rightarrow> string" where
  "audit_list_path resource action cluster =
     with_query ''/audit''
       (set_given ''cluster'' cluster (set_given ''action'' action (set_given ''resource'' resource [])))"

definition auditApi_list :: "web_env \<Rightarrow> string option \<Rightarrow> string option \<Rightarrow> string option \<Rightarrow> jsval api" where
  "auditApi_list W resource action cluster = request W (audit_list_path resource action cluster) no_init"

section \<open>Every outcome of a request\<close>

lemma fst_request:
  "fst (request W path options B) =
     (case fetch W (build_request W path options B) of
        Inr res \<Rightarrow> if rs_status res = 401 \<and> has_window W then end_session B else B
      | Inl _ \<Rightarrow> B)"
  by (simp add: request_def split: sum.split)

text \<open>The browser state after any call: unchanged, or the session is over.\<close>

lemma request_browser: "fst (request W path options B) = B \<or> fst (request W path options B) = end_session B"
  by (simp add: fst_request split: sum.split)

lemmas api_defs =
  flagsApi_list_def flagsApi_get_def flagsApi_create_def flagsApi_update_def flagsApi_delete_def
  flagsApi_toggle_def clustersApi_list_def clustersApi_get_def clustersApi_register_def
  clustersApi_remove_def workloadsApi_list_def workloadsApi_get_def usersApi_list_def
  usersApi_create_def usersApi_update_def usersApi_delete_def auditApi_list_def Let_def

section \<open>Properties\<close>

text \<open>C21 (session_ends_only_on_401). An API call changes local storage only when the server answers 401 in a browser: then the token and the user are gone, every other key is untouched and the browser is sent to the login page; in every other case the browser state is unchanged.\<close>

theorem session_ends_only_on_401:
  "ls_get k (storage (fst (request W path options B))) =
     (if (\<exists>res. fetch W (build_request W path options B) = Inr res \<and> rs_status res = 401)
         \<and> has_window W \<and> k \<in> {''vexil-token'', ''vexil-user''}
      then None else ls_get k (storage B))
   \<and> href (fst (request W path options B)) =
     (if (\<exists>res. fetch W (build_request W path options B) = Inr res \<and> rs_status res = 401) \<and> has_window W
      then ''/login'' else href B)"
  using ls.del_two [of "''vexil-token''" "''vexil-user''"]
  by (auto simp: fst_request end_session_def ls.get_del split: sum.split)

text \<open>When the server refuses a call with a JSON object that names an error, exactly that text is thrown; when the refusal is not JSON, the status text, or \<open>Request failed\<close> where there is none.\<close>

theorem request_error_message:
  assumes "fetch W (build_request W path options B) = Inr res"
    and "\<not> resp_ok (rs_status res)" and "rs_status res \<noteq> 401"
  shows "(json_parse (rs_body res) = Inr (JObj ps) \<and> map_of ps ''error'' = Some (JStr msg) \<and> msg \<noteq> []
      \<longrightarrow> request W path options B = (B, Inl (Err msg)))
    \<and> (json_parse (rs_body res) = Inl e
      \<longrightarrow> request W path options B = (B, Inl (Err (or_str (rs_status_text res) ''Request failed''))))"
  using assms by (auto simp: request_def error_of_def js_or_def or_str_def)

definition demo_env :: "http_response \<Rightarrow> web_env" where
  "demo_env res = \<lparr>public_api_url = None, has_window = True, fetch = (\<lambda>_. Inr res),
     engine_message = (\<lambda>_. ''engine error'')\<rparr>"

definition quiet_env :: web_env where
  "quiet_env = demo_env \<lparr>rs_status = 204, rs_status_text = ''No Content'', rs_type = None, rs_body = []\<rparr>"

definition new_browser :: browser where
  "new_browser = \<lparr>storage = [], href = ''/''\<rparr>"

theorem request_error_message_witness:
  "let res = \<lparr>rs_status = 409, rs_status_text = ''Conflict'', rs_type = None,
              rs_body = the (json_stringify (JObj [(''error'', JStr ''flag exists'')]))\<rparr>
   in request (demo_env res) ''/flags'' no_init new_browser = (new_browser, Inl (Err ''flag exists''))"
proof -
  let ?ps = "[(''error'', JStr ''flag exists'')]"
  let ?res = "\<lparr>rs_status = 409, rs_status_text = ''Conflict'', rs_type = None,
              rs_body = the (json_stringify (JObj ?ps))\<rparr>"
  have "json_parse (rs_body ?res) = Inr (JObj ?ps)"
    unfolding http_response.simps
    by (rule json_roundtrip) (simp_all add: obj_of_list_def obj_put_def put_new_def array_index_def is_digit_def)
  then show ?thesis
    using request_error_message [of "demo_env ?res" "''/flags''" no_init new_browser ?res ?ps "''flag exists''"]
    by (simp add: demo_env_def resp_ok_def Let_def)
qed

definition given_params :: "(string \<times> string option) list \<Rightarrow> (string option \<times> string option) list" where
  "given_params ps = map (\<lambda>(k, v). (Some k, v)) (filter (\<lambda>(k, v). opt_str v [] \<noteq> []) ps)"

lemma with_query_reads:
  assumes "CHR ''?'' \<notin> set p" and "CHR 0x23 \<notin> set p"
  shows "target_path (with_query p ps) = p"
    and "query_pairs (target_query (with_query p ps)) = map (\<lambda>(k, v). (Some k, Some v)) ps"
proof -
  have h: "CHR 0x23 \<notin> set (params_string ps)" using params_string_chars by blast
  show "target_path (with_query p ps) = p"
    using target_query_append [OF assms h] by (simp add: with_query_def Let_def)
  have "target_query (with_query p ps) = params_string ps"
    using target_query_append [OF assms h] by (simp add: with_query_def Let_def)
  then show "query_pairs (target_query (with_query p ps)) = map (\<lambda>(k, v). (Some k, Some v)) ps"
    by (simp add: query_pairs_params)
qed

definition given :: "string \<Rightarrow> string option \<Rightarrow> (string \<times> string) list" where
  "given k v = (if opt_str v [] = [] then [] else [(k, opt_str v [])])"

lemma set_given_new: "k \<notin> fst ` set ps \<Longrightarrow> set_given k v ps = ps @ given k v"
  by (simp add: set_given_def params_set_def given_def)

lemma fst_given: "fst ` set (given k v) \<subseteq> {k}"
  by (simp add: given_def)

lemma given_params_Cons: "given_params ((k, v) # ps) = map (\<lambda>(k, v). (Some k, Some v)) (given k v) @ given_params ps"
  by (cases v) (simp_all add: given_params_def given_def opt_str_def or_str_def)

lemma given_params_Nil: "given_params [] = []"
  by (simp add: given_params_def)


text \<open>Text that passes through a URL unchanged.\<close>

definition url_plain :: "string \<Rightarrow> bool" where
  "url_plain s \<longleftrightarrow> list_all form_plain s"

lemma url_plain_chars:
  "url_plain s \<Longrightarrow> c \<in> {CHR ''?'', CHR 0x23, CHR ''&'', CHR ''='', CHR ''/''} \<Longrightarrow> c \<notin> set s"
  by (auto simp: url_plain_def list_all_iff form_plain_def is_lower_def is_upper_def is_digit_def)

lemma form_encode_plain: "url_plain s \<Longrightarrow> form_encode s = s"
  by (induction s) (auto simp: url_plain_def form_encode_def form_char_def)

lemma plain_key: "url_plain ''clusterId''"
  by (simp add: url_plain_def form_plain_def is_lower_def is_upper_def)

lemma form_decode_plain: "url_plain s \<Longrightarrow> form_decode s = Some s"
  using form_decode_encode [of s] form_encode_plain [of s] by simp

text \<open>For a namespace, a name and a cluster identifier of letters, digits, hyphens, dots, underscores and stars, the target of the flag calls has the path segments \<open>flags\<close>, namespace, name and the single parameter \<open>clusterId\<close>. A cluster identifier (a free text field) that contains an ampersand is read as two parameters, so the call addresses another cluster.\<close>

theorem flag_path_reads_back:
  assumes "url_plain namespace" and "url_plain name" and "url_plain clusterId"
    and "url_plain k" and "url_plain v"
  shows "split_on CHR ''/'' (target_path (flag_path namespace name clusterId)) = [[], ''flags'', namespace, name]
    \<and> query_pairs (target_query (flag_path namespace name clusterId)) = [(Some ''clusterId'', Some clusterId)]
    \<and> query_pairs (target_query (flag_path namespace name (clusterId @ ''&'' @ k @ ''='' @ v)))
      = [(Some ''clusterId'', Some clusterId), (Some k, Some v)]"
proof -
  let ?p = "''/flags/'' @ namespace @ ''/'' @ name"
  have n: "CHR ''?'' \<notin> set ?p" "CHR 0x23 \<notin> set ?p"
    using url_plain_chars [OF assms(1)] url_plain_chars [OF assms(2)] by simp_all
  have t: "target_path (flag_path namespace name c) = ?p"
    "target_query (flag_path namespace name c) = ''clusterId='' @ c" if "CHR 0x23 \<notin> set c" for c
    using target_query_append [OF n, of "''clusterId='' @ c"] that
    by (simp_all add: flag_path_def)
  have sp: "split_on CHR ''/'' ?p = [[], ''flags'', namespace, name]"
  proof -
    have "CHR ''/'' \<notin> set namespace" "CHR ''/'' \<notin> set name"
      using assms url_plain_chars by blast+
    then show ?thesis by (simp add: split_on_append split_on_absent)
  qed
  have q: "query_pairs (''clusterId='' @ c) = [(Some ''clusterId'', Some c)]" if "url_plain c" for c
    using query_pairs_params [of "[(''clusterId'', c)]"] form_encode_plain [OF that]
      form_encode_plain [OF plain_key]
    by (simp add: params_string_def plain_key form_encode_plain)
  have q2: "query_pairs (''clusterId='' @ clusterId @ ''&'' @ k @ ''='' @ v)
      = [(Some ''clusterId'', Some clusterId), (Some k, Some v)]"
    using query_pairs_params [of "[(''clusterId'', clusterId), (k, v)]"] assms
      form_encode_plain [of clusterId] form_encode_plain [of k] form_encode_plain [of v]
      form_encode_plain [OF plain_key]
    by (simp add: params_string_def plain_key form_encode_plain)
  have h: "CHR 0x23 \<notin> set clusterId" "CHR 0x23 \<notin> set (clusterId @ ''&'' @ k @ ''='' @ v)"
    using url_plain_chars [OF assms(3)] url_plain_chars [OF assms(4)] url_plain_chars [OF assms(5)]
    by simp_all
  show ?thesis
    using t [OF h(1)] t [OF h(2)] sp q [OF assms(3)] q2 by simp
qed

theorem flag_path_reads_back_witness:
  "query_pairs (target_query (flag_path ''default'' ''dark-mode'' ''eu&clusterId=us''))
     = [(Some ''clusterId'', Some ''eu''), (Some ''clusterId'', Some ''us'')]"
  using flag_path_reads_back [of "''default''" "''dark-mode''" "''eu''" "''clusterId''" "''us''"]
  by (simp add: url_plain_def form_plain_def is_lower_def is_upper_def)

end
