(* ===== verification/Types.thy ===== *)
theory Types
  imports JsValue
begin

text \<open>
  The data types of \<open>web/src/lib/types.ts\<close>, in the order of the file. A union of string
  literals is a datatype, with the literal each constructor stands for; an optional
  property is an \<open>option\<close>. The phase is an option as well: the pages treat the empty
  string, which the server sends for a flag the operator has not reconciled yet, as
  absent. The lists and the replicas of a workload are options too: the workloads page
  reads each with a default for \<open>null\<close>. Objects used as dictionaries are association
  lists in property order.
\<close>

datatype FlagType = Boolean | StringT | Integer | JsonT

fun flag_type_str :: "FlagType \<Rightarrow> string" where
  "flag_type_str Boolean = ''boolean''"
| "flag_type_str StringT = ''string''"
| "flag_type_str Integer = ''integer''"
| "flag_type_str JsonT = ''json''"

datatype FlagPhase = Pending | Active | RollingOut | Failed | Disabled

fun flag_phase_str :: "FlagPhase \<Rightarrow> string" where
  "flag_phase_str Pending = ''Pending''"
| "flag_phase_str Active = ''Active''"
| "flag_phase_str RollingOut = ''RollingOut''"
| "flag_phase_str Failed = ''Failed''"
| "flag_phase_str Disabled = ''Disabled''"

datatype FlagLifecycle = LifeActive | Deprecated | Archived

type_synonym dict = "(string \<times> string) list"

record LabelSelector =
  matchLabels :: "dict option"

record EnvVarDelivery =
  ev_name :: "string option"
  ev_selector :: LabelSelector

record ConfigMapDelivery =
  cm_configMapName :: string
  cm_key :: string
  cm_selector :: LabelSelector

record SidecarDelivery =
  sc_port :: "int option"
  sc_selector :: LabelSelector

record DeliverySpec =
  envVar :: "EnvVarDelivery option"
  configMap :: "ConfigMapDelivery option"
  sidecar :: "SidecarDelivery option"

datatype Operator = Op_eq | Op_neq | Op_in | Op_notin | Op_matches

fun operator_str :: "Operator \<Rightarrow> string" where
  "operator_str Op_eq = ''eq''"
| "operator_str Op_neq = ''neq''"
| "operator_str Op_in = ''in''"
| "operator_str Op_notin = ''notin''"
| "operator_str Op_matches = ''matches''"

record Condition =
  attribute :: string
  operator :: Operator
  cond_values :: "string list"

record TargetingRule =
  rule_name :: string
  conditions :: "Condition list"
  rule_value :: string
  percentage :: "int option"

record FeatureFlag =
  ff_name :: string
  ff_namespace :: string
  ff_clusterId :: string
  ff_description :: "string option"
  ff_type :: FlagType
  ff_defaultValue :: string
  ff_currentValue :: string
  ff_phase :: "FlagPhase option"
  ff_disabled :: bool
  ff_targetedWorkloads :: int
  ff_lifecycle :: FlagLifecycle
  ff_delivery :: "DeliverySpec option"
  ff_rules :: "TargetingRule list option"
  ff_createdAt :: string
  ff_updatedAt :: "string option"

datatype ClusterStatus = Connected | Disconnected | StatusError

fun cluster_status_str :: "ClusterStatus \<Rightarrow> string" where
  "cluster_status_str Connected = ''Connected''"
| "cluster_status_str Disconnected = ''Disconnected''"
| "cluster_status_str StatusError = ''Error''"

record Cluster =
  cl_id :: string
  cl_displayName :: string
  cl_apiServer :: string
  cl_status :: ClusterStatus
  cl_kubernetesVersion :: "string option"
  cl_discoveredWorkloads :: int

record EnvVarInfo =
  env_info_name :: string
  env_info_value :: "string option"
  env_info_source :: "string option"
  isMasked :: bool
  isFlag :: bool
  flagName :: "string option"

record KeyRef =
  ref_name :: string
  ref_key :: "string option"

record ContainerInfo =
  ci_name :: string
  ci_image :: string
  envVars :: "EnvVarInfo list option"
  configMapRefs :: "KeyRef list option"
  secretRefs :: "KeyRef list option"

datatype WorkloadKind = Deployment | StatefulSet | DaemonSet

fun workload_kind_str :: "WorkloadKind \<Rightarrow> string" where
  "workload_kind_str Deployment = ''Deployment''"
| "workload_kind_str StatefulSet = ''StatefulSet''"
| "workload_kind_str DaemonSet = ''DaemonSet''"

record DiscoveredWorkload =
  dw_cluster :: string
  dw_namespace :: string
  dw_name :: string
  dw_kind :: WorkloadKind
  dw_replicas :: "int option"
  dw_labels :: dict
  dw_containers :: "ContainerInfo list option"
  dw_matchingFlags :: "string list option"

record AuditEvent =
  ae_id :: string
  ae_timestamp :: string
  ae_actor :: "string option"
  ae_action :: string
  ae_resource :: string
  ae_resourceId :: string
  ae_cluster :: "string option"

section \<open>Literals determine their constructors\<close>

lemma flag_type_str_inj: "flag_type_str a = flag_type_str b \<longleftrightarrow> a = b"
  by (cases a; cases b) simp_all

lemma flag_phase_str_inj: "flag_phase_str a = flag_phase_str b \<longleftrightarrow> a = b"
  by (cases a; cases b) simp_all

lemma operator_str_inj: "operator_str a = operator_str b \<longleftrightarrow> a = b"
  by (cases a; cases b) simp_all

lemma literal_not_Nil [simp]:
  "flag_type_str t \<noteq> []" "flag_phase_str p \<noteq> []" "operator_str x \<noteq> []"
  by (cases t, simp_all) (cases p, simp_all, cases x, simp_all)

end
