(* ===== verification/Delivery.thy ===== *)
theory Delivery
  imports Types Json
begin

text \<open>
  The delivery part of a flag as the two modals build it from their form fields
  (\<open>CreateFlagModal.tsx\<close> and \<open>EditFlagModal.tsx\<close> contain the same code): the selector
  text, a comma-separated list of \<open>key=value\<close>, becomes an object of labels, and the
  delivery method decides which member the delivery gets. The lemmas say for which texts
  the labels are the intended ones.
\<close>

datatype DeliveryMethod = M_envVar | M_configMap | M_sidecar | M_none

fun method_str :: "DeliveryMethod \<Rightarrow> string" where
  "method_str M_envVar = ''envVar''"
| "method_str M_configMap = ''configMap''"
| "method_str M_sidecar = ''sidecar''"
| "method_str M_none = ''none''"

section \<open>Labels\<close>

text \<open>
  One piece of the selector, \<open>l.trim().split('=')\<close>, as the key and value that
  \<open>Object.fromEntries\<close> takes from it: the first two parts, \<open>undefined\<close> if there is no
  second.
\<close>

definition label_entry :: "string \<Rightarrow> string \<times> jsval" where
  "label_entry l =
     (case split_on CHR ''='' (trim l) of
        [] \<Rightarrow> ([], JUndef)
      | [k] \<Rightarrow> (k, JUndef)
      | k # v # _ \<Rightarrow> (k, JStr v))"

definition parse_labels :: "string \<Rightarrow> (string \<times> jsval) list" where
  "parse_labels s = obj_of_list (map label_entry (split_on CHR '','' s))"

text \<open>The text the edit modal starts from: \<open>Object.entries(...).map(...).join(',')\<close>.\<close>

definition format_labels :: "dict \<Rightarrow> string" where
  "format_labels ls = join_with '','' (map (\<lambda>(k, v). k @ ''='' @ v) ls)"

section \<open>Delivery\<close>

definition selector_json :: "(string \<times> jsval) list \<Rightarrow> jsval" where
  "selector_json labels = JObj [(''matchLabels'', JObj labels)]"

text \<open>The members given to the object \<open>delivery\<close>; the last argument is the flag's name.\<close>

definition delivery_members ::
  "DeliveryMethod \<Rightarrow> string \<Rightarrow> string \<Rightarrow> string \<Rightarrow> string \<Rightarrow> string \<Rightarrow> (string \<times> jsval) list" where
  "delivery_members deliveryMethod selectorLabels envVarName configMapName configMapKey name =
     (if deliveryMethod = M_envVar \<and> selectorLabels \<noteq> []
      then [(''envVar'', JObj [(''name'', if envVarName = [] then JUndef else JStr envVarName),
                               (''selector'', selector_json (parse_labels selectorLabels))])]
      else if deliveryMethod = M_configMap \<and> configMapName \<noteq> []
      then [(''configMap'', JObj [(''configMapName'', JStr configMapName),
                                  (''key'', JStr (or_str configMapKey name)),
                                  (''selector'', selector_json
                                     (if selectorLabels = [] then [] else parse_labels selectorLabels))])]
      else if deliveryMethod = M_sidecar \<and> selectorLabels \<noteq> []
      then [(''sidecar'', JObj [(''selector'', selector_json (parse_labels selectorLabels))])]
      else [])"

text \<open>\<open>Object.keys(delivery).length > 0 ? delivery : undefined\<close>\<close>

definition delivery_or_undefined :: "(string \<times> jsval) list \<Rightarrow> jsval" where
  "delivery_or_undefined ms = (if ms = [] then JUndef else JObj ms)"

section \<open>Which labels are sent\<close>

text \<open>The characters of Kubernetes label keys and values.\<close>

definition label_char :: "char \<Rightarrow> bool" where
  "label_char c \<longleftrightarrow> is_lower c \<or> is_upper c \<or> is_digit c \<or> c \<in> set ''-_./''"

definition label_dict :: "dict \<Rightarrow> bool" where
  "label_dict ls \<longleftrightarrow> ls \<noteq> [] \<and> obj_of_list ls = ls
     \<and> list_all (\<lambda>(k, v). k \<noteq> [] \<and> list_all label_char k \<and> list_all label_char v) ls"

lemma label_char_props: "label_char c \<Longrightarrow> c \<noteq> CHR '','' \<and> c \<noteq> CHR ''='' \<and> \<not> is_ws c"
  by (auto simp: label_char_def is_lower_def is_upper_def is_digit_def is_ws_def)

lemma label_chars: "list_all label_char s \<Longrightarrow> CHR '','' \<notin> set s \<and> CHR ''='' \<notin> set s \<and> list_all (\<lambda>c. \<not> is_ws c) s"
  by (induction s) (auto dest: label_char_props)

lemma label_entry_pair:
  assumes "list_all label_char k" and "list_all label_char v"
  shows "label_entry (k @ ''='' @ v) = (k, JStr v)"
proof -
  have "trim (k @ ''='' @ v) = k @ ''='' @ v"
    using label_chars [OF assms(1)] label_chars [OF assms(2)]
    by (intro trim_no_ws) (simp add: is_ws_def)
  moreover have "split_on CHR ''='' (k @ CHR ''='' # v) = [k, v]"
    using label_chars [OF assms(1)] label_chars [OF assms(2)]
    by (simp add: split_on_append split_on_absent)
  ultimately show ?thesis by (simp add: label_entry_def)
qed

lemma put_index_map: "put_index k i (f v) (map (map_prod id f) ps) = map (map_prod id f) (put_index k i v ps)"
  by (induction ps) (auto split: option.split)

lemma obj_put_map: "obj_put k (f v) (map (map_prod id f) ps) = map (map_prod id f) (obj_put k v ps)"
  by (auto simp: obj_put_def put_new_def put_index_map image_image split: option.split)

lemma obj_of_list_map: "obj_of_list (map (map_prod id f) ps) = map (map_prod id f) (obj_of_list ps)"
proof -
  have "foldl (\<lambda>o' (k, v). obj_put k v o') (map (map_prod id f) acc) (map (map_prod id f) ps)
      = map (map_prod id f) (foldl (\<lambda>o' (k, v). obj_put k v o') acc ps)" for acc
    by (induction ps arbitrary: acc) (auto simp: obj_put_map)
  from this [of "[]"] show ?thesis by (simp add: obj_of_list_def)
qed

text \<open>The labels as the JSON object that carries them.\<close>

definition labels_json :: "dict \<Rightarrow> (string \<times> jsval) list" where
  "labels_json ls = map (map_prod id JStr) ls"

lemma parse_format_labels:
  assumes "label_dict ls"
  shows "parse_labels (format_labels ls) = labels_json ls"
proof -
  let ?t = "map (\<lambda>(k, v). k @ ''='' @ v) ls"
  have ok: "list_all label_char k" "list_all label_char v" if "(k, v) \<in> set ls" for k v
    using assms that by (auto simp: label_dict_def list_all_iff)
  have c: "CHR '','' \<notin> set k" "CHR '','' \<notin> set v" if "(k, v) \<in> set ls" for k v
    using label_chars [OF ok(1) [OF that]] label_chars [OF ok(2) [OF that]] by simp_all
  have "split_on CHR '','' (format_labels ls) = ?t"
    unfolding format_labels_def using assms c by (intro split_join) (auto simp: label_dict_def)
  moreover have "map label_entry ?t = labels_json ls"
    using label_entry_pair ok by (auto simp: labels_json_def)
  ultimately have "parse_labels (format_labels ls) = obj_of_list (labels_json ls)"
    by (simp only: parse_labels_def)
  then show ?thesis using assms by (simp add: labels_json_def obj_of_list_map label_dict_def)
qed

lemma format_labels_not_Nil: "label_dict ls \<Longrightarrow> format_labels ls \<noteq> []"
  by (cases ls; cases "tl ls") (auto simp: label_dict_def format_labels_def)

text \<open>A piece without an equals sign contributes no label to the request.\<close>

lemma trim_subset: "set (trim s) \<subseteq> set s"
  unfolding trim_def trim_start_def
  by (auto dest!: set_dropWhileD)

lemma label_entry_no_eq: "CHR ''='' \<notin> set l \<Longrightarrow> snd (label_entry l) = JUndef"
proof -
  assume "CHR ''='' \<notin> set l"
  then have "split_on CHR ''='' (trim l) = [trim l]" using trim_subset by (intro split_on_absent) blast
  then show ?thesis by (simp add: label_entry_def)
qed

lemma clean_undefined: "snd ` set ps \<subseteq> {JUndef} \<Longrightarrow> clean_members ps = []"
  by (induction ps) (auto simp: absent_def)

lemma snd_put_index: "snd ` set (put_index k i w ps) \<subseteq> insert w (snd ` set ps)"
proof (induction ps)
  case Nil
  then show ?case by simp
next
  case (Cons p ps)
  then show ?case by (cases p) (auto split: option.splits)
qed

lemma snd_obj_put: "snd ` set (obj_put k w ps) \<subseteq> insert w (snd ` set ps)"
proof (cases "k \<in> fst ` set ps")
  case True
  then show ?thesis by (auto simp: obj_put_def split: if_splits)
next
  case False
  then show ?thesis
    using snd_put_index [of k _ w ps]
    by (cases "array_index k") (auto simp: obj_put_def put_new_def)
qed

lemma snd_obj_of_list: "snd ` set (obj_of_list ps) \<subseteq> snd ` set ps"
proof -
  have "snd ` set (foldl (\<lambda>o' (k, v). obj_put k v o') acc ps) \<subseteq> snd ` set acc \<union> snd ` set ps" for acc
  proof (induction ps arbitrary: acc)
    case Nil
    then show ?case by simp
  next
    case (Cons p ps)
    show ?case
      using Cons.IH [of "obj_put (fst p) (snd p) acc"] snd_obj_put [of "fst p" "snd p" acc]
      by (cases p) auto
  qed
  from this [of "[]"] show ?thesis by (simp add: obj_of_list_def)
qed

lemma parse_labels_no_eq: "CHR ''='' \<notin> set s \<Longrightarrow> json_clean (JObj (parse_labels s)) = JObj []"
proof -
  assume s: "CHR ''='' \<notin> set s"
  have "snd (label_entry l) = JUndef" if l: "l \<in> set (split_on CHR '','' s)" for l
  proof -
    have "set l \<subseteq> set s" using set_join_parts [OF l, of "'',''"] by (simp add: join_split)
    then show ?thesis using s by (intro label_entry_no_eq) blast
  qed
  then have "snd ` set (map label_entry (split_on CHR '','' s)) \<subseteq> {JUndef}" by auto
  then have "snd ` set (parse_labels s) \<subseteq> {JUndef}"
    unfolding parse_labels_def using snd_obj_of_list by (rule subset_trans [rotated])
  then show ?thesis by (simp add: clean_undefined)
qed

section \<open>Labels in a request body\<close>

lemma absent_simps [simp]:
  "absent JUndef" "\<not> absent (JStr t)" "\<not> absent (JObj ps)"
  by (simp_all add: absent_def)

lemma obj_of_labels: "label_dict ls \<Longrightarrow> obj_of_list (labels_json ls) = labels_json ls"
  by (simp add: labels_json_def obj_of_list_map label_dict_def)

lemma clean_labels: "clean_members (labels_json ls) = labels_json ls"
  by (induction ls) (auto simp: labels_json_def absent_def)

lemma labels_ok: "list_all (\<lambda>(k, v). json_ok v) (labels_json ls)"
  by (induction ls) (auto simp: labels_json_def)

lemmas obj_eval = obj_of_list_def obj_put_def put_new_def array_index_def is_digit_def

text \<open>The delivery as a body carries it, for a label text that lists labels (or is empty).\<close>

lemma delivery_ok:
  assumes "ls = [] \<or> label_dict ls" and "t = format_labels ls"
  shows "json_ok (JObj (clean_members (delivery_members m t e c k n)))"
proof -
  have "parse_labels t = labels_json ls" if "t \<noteq> []"
    using assms that parse_format_labels [of ls] by (auto simp: format_labels_def)
  moreover have "json_ok (JObj (labels_json ls))" "json_ok (JObj [])"
    using assms labels_ok obj_of_labels [of ls] by (auto simp: labels_json_def obj_of_list_def)
  ultimately show ?thesis
    by (auto simp: delivery_members_def selector_json_def clean_labels obj_eval split: if_splits)
qed

end
