(* ===== verification/Ui.thy ===== *)
theory Ui
  imports JsString
begin

text \<open>
  Rendered views. A component's JSX becomes a tree of type \<open>'h ui\<close>, where \<open>'h\<close> names the
  component's event handlers; style classes, icons and placeholders are left out.
  \<open>offers v a\<close> says that the user can perform the action \<open>a\<close> on the view \<open>v\<close>: click
  an enabled button, type into an input, choose another option of a select, tick a box,
  submit a form whose required fields are filled, follow a link. \<open>displays v t\<close> says that
  the text \<open>t\<close> is on display.
\<close>

datatype 'h ui =
    Txt string
  | El "'h ui list"                                \<comment> \<open>an element without a handler\<close>
  | Clk 'h "'h ui list"                            \<comment> \<open>an element with \<open>onClick\<close>\<close>
  | Btn bool 'h "'h ui list"                       \<comment> \<open>a button: disabled, \<open>onClick\<close>\<close>
  | Inp bool string 'h                             \<comment> \<open>a text input: required, value\<close>
  | Area string 'h                                 \<comment> \<open>a textarea: value\<close>
  | Sel string "(string \<times> string) list" 'h         \<comment> \<open>a select: value, options\<close>
  | Chk bool 'h                                    \<comment> \<open>a checkbox: checked\<close>
  | Form 'h "'h ui list"                           \<comment> \<open>a form: \<open>onSubmit\<close>\<close>
  | SubmitBtn bool "'h ui list"                    \<comment> \<open>its submit button: disabled\<close>
  | Lnk string "'h ui list"                        \<comment> \<open>a link: \<open>href\<close>\<close>

datatype 'h act =
    Click 'h | Enter 'h string | Choose 'h string | Tick 'h bool | Submit 'h | Follow string

text \<open>A child that is rendered only when a condition holds: \<open>{cond && ...}\<close>.\<close>

abbreviation show_if :: "bool \<Rightarrow> 'h ui list \<Rightarrow> 'h ui list" where
  "show_if b us \<equiv> (if b then us else [])"

text \<open>The option a select displays: the one that matches its value, else the first.\<close>

definition shown_option :: "string \<Rightarrow> (string \<times> string) list \<Rightarrow> string option" where
  "shown_option v opts =
     (if v \<in> fst ` set opts then Some v
      else case opts of [] \<Rightarrow> None | (w, _) # _ \<Rightarrow> Some w)"

fun filled :: "'h ui \<Rightarrow> bool" where
  "filled (Inp req v h) = (req \<longrightarrow> v \<noteq> [])"
| "filled (El us) = list_all filled us"
| "filled (Clk h us) = list_all filled us"
| "filled u = True"

fun can_submit :: "'h ui \<Rightarrow> bool" where
  "can_submit (SubmitBtn dis us) = (\<not> dis)"
| "can_submit (El us) = list_ex can_submit us"
| "can_submit u = False"

fun offers :: "'h ui \<Rightarrow> 'h act \<Rightarrow> bool" where
  "offers (Txt t) a = False"
| "offers (El us) a = list_ex (\<lambda>u. offers u a) us"
| "offers (Clk h us) a = (a = Click h \<or> list_ex (\<lambda>u. offers u a) us)"
| "offers (Btn dis h us) a = (\<not> dis \<and> a = Click h)"
| "offers (Inp req v h) a = (case a of Enter k s \<Rightarrow> k = h | _ \<Rightarrow> False)"
| "offers (Area v h) a = (case a of Enter k s \<Rightarrow> k = h | _ \<Rightarrow> False)"
| "offers (Sel v opts h) a =
     (case a of Choose k w \<Rightarrow> k = h \<and> w \<in> fst ` set opts \<and> shown_option v opts \<noteq> Some w | _ \<Rightarrow> False)"
| "offers (Chk c h) a = (a = Tick h (\<not> c))"
| "offers (Form h us) a =
     ((a = Submit h \<and> list_ex can_submit us \<and> list_all filled us) \<or> list_ex (\<lambda>u. offers u a) us)"
| "offers (SubmitBtn dis us) a = False"
| "offers (Lnk p us) a = (a = Follow p)"

fun displays :: "'h ui \<Rightarrow> string \<Rightarrow> bool" where
  "displays (Txt t) s = (s = t)"
| "displays (El us) s = list_ex (\<lambda>u. displays u s) us"
| "displays (Clk h us) s = list_ex (\<lambda>u. displays u s) us"
| "displays (Btn dis h us) s = list_ex (\<lambda>u. displays u s) us"
| "displays (Form h us) s = list_ex (\<lambda>u. displays u s) us"
| "displays (SubmitBtn dis us) s = list_ex (\<lambda>u. displays u s) us"
| "displays (Lnk p us) s = list_ex (\<lambda>u. displays u s) us"
| "displays u s = False"

text \<open>The state of a React Query mutation.\<close>

datatype mutation = MutIdle | MutPending | MutError string | MutDone

text \<open>The data of a query: not there yet, the JSON value \<open>null\<close>, or a value.\<close>

datatype 'a query = QUndef | QNull | QData 'a

text \<open>\<open>const { data: xs = [] }\<close>: the default replaces \<open>undefined\<close> only; \<open>None\<close> is \<open>null\<close>.\<close>

fun query_list :: "'a list query \<Rightarrow> 'a list option" where
  "query_list QUndef = Some []"
| "query_list QNull = None"
| "query_list (QData xs) = Some xs"

definition or_nil :: "'a list option \<Rightarrow> 'a list" where
  "or_nil q = (case q of None \<Rightarrow> [] | Some xs \<Rightarrow> xs)"

lemmas [ui_simps] = list_ex_map list_ex_concat comp_def

lemma list_ex_if [ui_simps]: "list_ex P (if b then us else vs) = (if b then list_ex P us else list_ex P vs)"
  by simp

lemma list_ex_map_set: "list_ex P (map f xs) \<longleftrightarrow> (\<exists>x\<in>set xs. P (f x))"
  by (induction xs) auto

section \<open>Views of child components\<close>

text \<open>
  A parent renders a child with handlers of its own: the child's view is mapped to the
  parent's handlers, and what it offers is mapped with it.
\<close>

lemma ball_if_list_ex: "list_ex P xs \<longleftrightarrow> (\<exists>x\<in>set xs. P x)"
  by (induction xs) auto

lemma filled_map_ui [ui_simps]: "filled (map_ui f u) = filled u"
  by (induction u) (auto simp: list_all_iff)

lemma can_submit_map_ui [ui_simps]: "can_submit (map_ui f u) = can_submit u"
  by (induction u) (auto simp: ball_if_list_ex)

lemma displays_map_ui [ui_simps]: "displays (map_ui f u) t = displays u t"
  by (induction u) (auto simp: ball_if_list_ex)

lemma offers_input:
  "offers (Inp req v h) a \<longleftrightarrow> (\<exists>s. a = Enter h s)"
  "offers (Area v h) a \<longleftrightarrow> (\<exists>s. a = Enter h s)"
  "offers (Sel v opts h) a \<longleftrightarrow> (\<exists>w\<in>fst ` set opts. a = Choose h w \<and> shown_option v opts \<noteq> Some w)"
  by (cases a; auto)+

lemma offers_map_ui [ui_simps]: "offers (map_ui f u) a \<longleftrightarrow> (\<exists>b. a = map_act f b \<and> offers u b)"
proof (induction u)
  case (El us)
  then show ?case by (auto simp: ball_if_list_ex)
next
  case (Clk h us)
  then show ?case by (auto simp: ball_if_list_ex conj_disj_distribL ex_disj_distrib)
next
  case (Inp req v h)
  then show ?case
    unfolding ui.map offers_input by (metis act.map)
next
  case (Area v h)
  then show ?case
    unfolding ui.map offers_input by (metis act.map)
next
  case (Sel v opts h)
  then show ?case
    unfolding ui.map offers_input by (metis act.map)
next
  case (Form h us)
  then show ?case
    by (auto simp: ball_if_list_ex list_all_iff filled_map_ui can_submit_map_ui
        conj_disj_distribL ex_disj_distrib)
qed auto

text \<open>Only handlers that occur in a view are ever called.\<close>

lemma offers_set_ui: "offers u a \<Longrightarrow> set_act a \<subseteq> set_ui u"
proof (induction u)
  case (Inp r v h)
  then show ?case unfolding offers_input by auto
next
  case (Area v h)
  then show ?case unfolding offers_input by auto
next
  case (Sel v opts h)
  then show ?case unfolding offers_input by auto
qed (auto simp: ball_if_list_ex)

end
