(* ===== verification/CreateFlag.thy ===== *)
theory CreateFlag
  imports ApiClient Delivery Ui
begin

text \<open>
  The wizard that creates a flag, \<open>web/src/components/flags/CreateFlagModal.tsx\<close>: its
  state, the sanitising of what is typed, the request it sends, its rendered steps, and
  the machine of a session in which the user acts on what is displayed while query results
  and the outcome of the request arrive. The ghost field \<open>cr_sent\<close> collects the forms of the
  requests sent, the last one first.
\<close>

section \<open>State\<close>

record create_form =
  cf_name :: string
  cf_namespace :: string
  cf_clusterId :: string
  cf_type :: FlagType
  cf_defaultValue :: string
  cf_description :: string
  cf_deliveryMethod :: DeliveryMethod
  cf_envVarName :: string
  cf_selectorLabels :: string
  cf_configMapName :: string
  cf_configMapKey :: string

record create =
  cr_step :: nat
  cr_form :: create_form
  cr_clusters :: "Cluster list option"                 \<comment> \<open>query data; \<open>None\<close> is \<open>undefined\<close>\<close>
  cr_namespaces :: "(string \<times> string list) list"         \<comment> \<open>namespaces by cluster, as cached\<close>
  cr_mutation :: mutation
  cr_clipboard :: "string option"
  cr_closed :: bool                                    \<comment> \<open>\<open>onClose\<close> was called\<close>
  cr_sent :: "create_form list"

definition empty_form :: create_form where
  "empty_form =
     \<lparr>cf_name = [], cf_namespace = ''default'', cf_clusterId = [], cf_type = Boolean,
      cf_defaultValue = ''false'', cf_description = [], cf_deliveryMethod = M_envVar, cf_envVarName = [],
      cf_selectorLabels = [], cf_configMapName = [], cf_configMapKey = []\<rparr>"

definition create_init :: create where
  "create_init =
     \<lparr>cr_step = 1, cr_form = empty_form, cr_clusters = None, cr_namespaces = [], cr_mutation = MutIdle,
      cr_clipboard = None, cr_closed = False, cr_sent = []\<rparr>"

definition cluster_list :: "create \<Rightarrow> Cluster list" where
  "cluster_list s = (case cr_clusters s of None \<Rightarrow> [] | Some cs \<Rightarrow> cs)"

definition namespaces :: "create \<Rightarrow> string list" where
  "namespaces s =
     (case map_of (cr_namespaces s) (cf_clusterId (cr_form s)) of None \<Rightarrow> [''default''] | Some ns \<Rightarrow> ns)"

text \<open>
  The query function for the namespaces. It calls \<open>fetch\<close> itself, without the headers
  that \<open>request\<close> adds.
\<close>

definition fetchNamespaces :: "web_env \<Rightarrow> string \<Rightarrow> jsval res" where
  "fetchNamespaces W cid =
     bind_res (fetch W \<lparr>rq_url = ''/api/v1/clusters/'' @ cid @ ''/namespaces'', rq_method = ''GET'',
                        rq_headers = [], rq_body = None\<rparr>) (\<lambda>res.
       if \<not> resp_ok (rs_status res) then Inr (JArr [JStr ''default''])
       else bind_res (json_parse (rs_body res)) (\<lambda>data.
            bind_res (js_get ''length'' data) (\<lambda>len.
              Inr (case len of
                     JNum (Dec m e) \<Rightarrow> if 0 < m then data else JArr [JStr ''default'']
                   | _ \<Rightarrow> JArr [JStr ''default'']))))"

text \<open>The effect that selects the only cluster.\<close>

definition auto_select :: "create \<Rightarrow> create" where
  "auto_select s =
     (case cluster_list s of
        [c] \<Rightarrow> if cf_clusterId (cr_form s) = [] then s\<lparr>cr_form := (cr_form s)\<lparr>cf_clusterId := cl_id c\<rparr>\<rparr> else s
      | _ \<Rightarrow> s)"

section \<open>Sanitising\<close>

definition name_char :: "char \<Rightarrow> bool" where
  "name_char c \<longleftrightarrow> is_lower c \<or> is_digit c \<or> c = CHR ''-''"

definition sanitize_name :: "string \<Rightarrow> string" where
  "sanitize_name v = replace_if (\<lambda>c. \<not> name_char c) CHR ''-'' (to_lower v)"

definition env_var_char :: "char \<Rightarrow> bool" where
  "env_var_char c \<longleftrightarrow> is_upper c \<or> is_digit c \<or> c = CHR ''_''"

definition sanitize_env :: "string \<Rightarrow> string" where
  "sanitize_env v = replace_if (\<lambda>c. \<not> env_var_char c) CHR ''_'' (to_upper v)"

definition computedEnvVar :: "create_form \<Rightarrow> string" where
  "computedEnvVar f =
     or_str (cf_envVarName f)
       (''FLAG_'' @ replace_if (\<lambda>c. \<not> (is_upper c \<or> is_digit c)) CHR ''_'' (to_upper (cf_name f)))"

definition type_default :: "FlagType \<Rightarrow> string" where
  "type_default t =
     (case t of Boolean \<Rightarrow> ''false'' | StringT \<Rightarrow> [] | Integer \<Rightarrow> ''0'' | JsonT \<Rightarrow> ''{}'')"

definition flag_type_of :: "string \<Rightarrow> FlagType" where
  "flag_type_of v =
     (if v = ''boolean'' then Boolean else if v = ''string'' then StringT
      else if v = ''integer'' then Integer else JsonT)"

section \<open>The request\<close>

definition form_delivery :: "create_form \<Rightarrow> (string \<times> jsval) list" where
  "form_delivery f =
     delivery_members (cf_deliveryMethod f) (cf_selectorLabels f) (cf_envVarName f) (cf_configMapName f)
       (cf_configMapKey f) (cf_name f)"

definition create_payload :: "create_form \<Rightarrow> jsval" where
  "create_payload f =
     JObj [(''name'', JStr (cf_name f)),
           (''namespace'', JStr (cf_namespace f)),
           (''clusterId'', JStr (cf_clusterId f)),
           (''type'', JStr (flag_type_str (cf_type f))),
           (''defaultValue'', JStr (cf_defaultValue f)),
           (''description'', if cf_description f = [] then JUndef else JStr (cf_description f)),
           (''delivery'', delivery_or_undefined (form_delivery f))]"

definition send_create :: "web_env \<Rightarrow> create_form \<Rightarrow> jsval api" where
  "send_create W f = flagsApi_create W (create_payload f)"

definition canProceedStep1 :: "create_form \<Rightarrow> bool" where
  "canProceedStep1 f \<longleftrightarrow> cf_name f \<noteq> [] \<and> cf_namespace f \<noteq> [] \<and> cf_clusterId f \<noteq> []"

definition canProceedStep2 :: "create_form \<Rightarrow> bool" where
  "canProceedStep2 f \<longleftrightarrow>
     (if cf_deliveryMethod f = M_sidecar then cf_selectorLabels f \<noteq> []
      else if cf_deliveryMethod f = M_envVar then cf_selectorLabels f \<noteq> []
      else if cf_deliveryMethod f = M_configMap then cf_configMapName f \<noteq> [] \<and> cf_selectorLabels f \<noteq> []
      else True)"

section \<open>The view\<close>

datatype create_h =
    HClose | HCluster | HName | HNamespace | HType | HDefault | HDescription
  | HMethod DeliveryMethod | HSelector | HEnvVar | HCmName | HCmKey
  | HBack | HNext | HCreate | HDone | HCopy string

definition CodeSnippet :: "string \<Rightarrow> string \<Rightarrow> create_h ui" where
  "CodeSnippet lang snippet = El [Txt lang, Btn False (HCopy snippet) [], Txt snippet]"

definition create_header :: "create \<Rightarrow> create_h ui" where
  "create_header s =
     El ([Txt (if cr_step s = 4 then ''Flag Created'' else ''New Feature Flag'')]
         @ show_if (cr_step s < 4)
             [Txt (if cr_step s = 1 then ''Define'' else if cr_step s = 2 then ''Deliver'' else ''Review'')]
         @ [Btn False HClose []])"

definition create_step1 :: "create \<Rightarrow> create_h ui" where
  "create_step1 s =
     (let f = cr_form s in
      El ([Txt ''A feature flag controls a behavior in your application. Define what it is and where it lives.'']
          @ show_if (1 < length (cluster_list s))
              [Txt ''Cluster'',
               Sel (cf_clusterId f)
                 (([], ''Select cluster...'') # map (\<lambda>c. (cl_id c, cl_displayName c)) (cluster_list s))
                 HCluster]
          @ [Txt ''Flag name'', Inp True (cf_name f) HName,
             Txt ''Lowercase, hyphens allowed. This becomes a Kubernetes CRD resource.'',
             Txt ''Namespace'', Sel (cf_namespace f) (map (\<lambda>ns. (ns, ns)) (namespaces s)) HNamespace,
             Txt ''The flag will only target workloads in this namespace.'',
             Txt ''Type'',
             Sel (flag_type_str (cf_type f))
               [(''boolean'', ''Boolean (on/off)''), (''string'', ''String''), (''integer'', ''Integer''),
                (''json'', ''JSON'')] HType,
             Txt ''Initial value'',
             (if cf_type f = Boolean
              then Sel (cf_defaultValue f) [(''false'', ''false (off)''), (''true'', ''true (on)'')] HDefault
              else Inp False (cf_defaultValue f) HDefault),
             Txt ''Description'', Txt ''(optional)'', Inp False (cf_description f) HDescription]))"

definition method_choice :: "DeliveryMethod \<Rightarrow> string \<Rightarrow> string \<Rightarrow> create_h ui" where
  "method_choice m lbl desc = Btn False (HMethod m) [Txt lbl, Txt desc]"

definition create_step2 :: "create \<Rightarrow> create_h ui" where
  "create_step2 s =
     (let f = cr_form s in
      El ([Txt ''How should your application receive this flag? Vexil injects the value automatically into your pods.'',
           Txt ''Delivery method'',
           method_choice M_envVar ''Environment Variable''
             (''Injects '' @ computedEnvVar f @ ''='' @ cf_defaultValue f @ '' into matching pods. Simplest option.''),
           method_choice M_configMap ''ConfigMap''
             ''Writes the flag value to a ConfigMap key. Good for config files or shared flags.'',
           method_choice M_sidecar ''Sidecar API''
             ''Exposes flags via HTTP on port 8514 with real-time SSE streaming. Best for dynamic flags.'',
           Txt ''Target workloads by labels'', Inp False (cf_selectorLabels f) HSelector,
           El [Txt ''Comma-separated key=value pairs. Only Deployments/StatefulSets/DaemonSets with'', Txt ''all'',
               Txt ''these labels in namespace'', Txt (cf_namespace f), Txt ''will receive the flag.'']]
          @ show_if (cf_deliveryMethod f = M_envVar)
              [Txt ''Env var name'', Txt ''(auto-generated if empty)'', Inp False (cf_envVarName f) HEnvVar]
          @ show_if (cf_deliveryMethod f = M_configMap)
              [Txt ''ConfigMap name'', Inp False (cf_configMapName f) HCmName,
               Txt ''Key'', Inp False (cf_configMapKey f) HCmKey]))"

definition create_step3 :: "create \<Rightarrow> create_h ui" where
  "create_step3 s =
     (let f = cr_form s in
      El ([Txt ''Review your flag before creating it. This will create a FeatureFlag CRD in your cluster.'',
           Txt ''Name'', Txt (cf_name f), Txt ''Namespace'', Txt (cf_namespace f),
           Txt ''Type'', Txt (flag_type_str (cf_type f)), Txt ''Initial value'', Txt (cf_defaultValue f),
           Txt ''Delivery'',
           Txt (if cf_deliveryMethod f = M_envVar then ''Env var: '' @ computedEnvVar f
                else if cf_deliveryMethod f = M_configMap
                then ''ConfigMap: '' @ cf_configMapName f @ ''/'' @ or_str (cf_configMapKey f) (cf_name f)
                else ''Sidecar API (port 8514)'')]
          @ show_if (cf_selectorLabels f \<noteq> []) [Txt ''Targets'', Txt (cf_selectorLabels f)]
          @ show_if (cf_description f \<noteq> []) [Txt ''Description'', Txt (cf_description f)]
          @ [Txt ''What happens next?'',
             El [Txt ''The operator will find workloads with labels'', Txt (or_str (cf_selectorLabels f) ''(none)''),
                 Txt ''and inject the flag value. Affected pods will restart to pick up the new env var.'']]))"

definition env_snippets :: "create_form \<Rightarrow> create_h ui list" where
  "env_snippets f =
     (let v = computedEnvVar f; q = [CHR 0x22] in
      [CodeSnippet ''Go'' (''darkMode := os.Getenv('' @ q @ v @ q @ '') == '' @ q @ ''true'' @ q),
       CodeSnippet ''Python''
         (''dark_mode = os.environ.get('' @ q @ v @ q @ '', '' @ q @ ''false'' @ q @ '') == '' @ q @ ''true'' @ q),
       CodeSnippet ''Node.js''
         (''const darkMode = process.env.'' @ v @ '' === '' @ q @ ''true'' @ q @ '';''),
       CodeSnippet ''C#''
         (''var darkMode = Environment.GetEnvironmentVariable('' @ q @ v @ q @ '') == '' @ q @ ''true'' @ q @ '';'')])"

definition config_snippets :: "create_form \<Rightarrow> create_h ui list" where
  "config_snippets f =
     (let nl = [CHR 0x0A] in
      [CodeSnippet ''Mount in pod''
         (join_with nl
            [''# In your Deployment spec:'', ''volumes:'', ''  - name: flags'', ''    configMap:'',
             ''      name: '' @ cf_configMapName f, ''containers:'', ''  - volumeMounts:'',
             ''      - name: flags'', ''        mountPath: /etc/flags'']),
       CodeSnippet ''Read as env''
         (join_with nl
            [''# Or reference in env:'', ''env:'', ''  - name: '' @ computedEnvVar f, ''    valueFrom:'',
             ''      configMapKeyRef:'', ''        name: '' @ cf_configMapName f,
             ''        key: '' @ or_str (cf_configMapKey f) (cf_name f)])])"

definition sidecar_snippets :: "create_form \<Rightarrow> create_h ui list" where
  "sidecar_snippets f =
     [CodeSnippet ''HTTP''
        (''curl localhost:8514/flags/'' @ cf_name f @ ''/value'' @ [CHR 0x0A] @ ''# -> '' @ cf_defaultValue f),
      CodeSnippet ''SSE stream''
        (''curl localhost:8514/flags/stream'' @ [CHR 0x0A] @ ''# Real-time updates via Server-Sent Events'')]"

definition create_step4 :: "create \<Rightarrow> create_h ui" where
  "create_step4 s =
     (let f = cr_form s in
      El ([Txt ''Flag created successfully'',
           El [Txt (cf_name f), Txt ''is now active in'', Txt (cf_namespace f)],
           Txt ''Read the flag in your application'']
          @ show_if (cf_deliveryMethod f = M_envVar) (env_snippets f)
          @ show_if (cf_deliveryMethod f = M_configMap) (config_snippets f)
          @ show_if (cf_deliveryMethod f = M_sidecar) (sidecar_snippets f)
          @ show_if (cf_deliveryMethod f = M_envVar)
              [El [Txt ''Or use a'', Txt ''Vexil SDK'', Txt ''for type-safe access with defaults:''],
               Txt (''client, _ := vexil.New(vexil.WithEnvProvider())'' @ [CHR 0x0A]
                    @ ''darkMode := client.Bool('' @ [CHR 0x22] @ cf_name f @ [CHR 0x22] @ '', false)'')]))"

definition create_nav :: "create \<Rightarrow> create_h ui" where
  "create_nav s =
     (if cr_step s = 4 then El [Btn False HDone [Txt ''Done'']]
      else El [Btn False HBack [Txt (if 1 < cr_step s then ''Back'' else ''Cancel'')],
               (if cr_step s < 3
                then Btn (if cr_step s = 1 then \<not> canProceedStep1 (cr_form s) else \<not> canProceedStep2 (cr_form s))
                       HNext [Txt ''Next'']
                else Btn (cr_mutation s = MutPending) HCreate
                       [Txt (if cr_mutation s = MutPending then ''Creating...'' else ''Create Flag'')])])"

definition create_view :: "create \<Rightarrow> create_h ui" where
  "create_view s =
     El ([create_header s]
         @ show_if (cr_step s = 1) [create_step1 s]
         @ show_if (cr_step s = 2) [create_step2 s]
         @ show_if (cr_step s = 3) [create_step3 s]
         @ show_if (cr_step s = 4) [create_step4 s]
         @ (case cr_mutation s of MutError msg \<Rightarrow> [Txt msg] | _ \<Rightarrow> [])
         @ [create_nav s])"

section \<open>Handlers\<close>

definition upd_form :: "(create_form \<Rightarrow> create_form) \<Rightarrow> create \<Rightarrow> create" where
  "upd_form u s = s\<lparr>cr_form := u (cr_form s)\<rparr>"

definition create_handle :: "create_h act \<Rightarrow> create \<Rightarrow> create" where
  "create_handle a s =
     (case a of
        Click HClose \<Rightarrow> s\<lparr>cr_closed := True\<rparr>
      | Choose HCluster v \<Rightarrow> upd_form (\<lambda>f. f\<lparr>cf_clusterId := v\<rparr>) s
      | Enter HName v \<Rightarrow> upd_form (\<lambda>f. f\<lparr>cf_name := sanitize_name v\<rparr>) s
      | Choose HNamespace v \<Rightarrow> upd_form (\<lambda>f. f\<lparr>cf_namespace := v\<rparr>) s
      | Choose HType v \<Rightarrow>
          upd_form (\<lambda>f. f\<lparr>cf_type := flag_type_of v, cf_defaultValue := type_default (flag_type_of v)\<rparr>) s
      | Choose HDefault v \<Rightarrow> upd_form (\<lambda>f. f\<lparr>cf_defaultValue := v\<rparr>) s
      | Enter HDefault v \<Rightarrow> upd_form (\<lambda>f. f\<lparr>cf_defaultValue := v\<rparr>) s
      | Enter HDescription v \<Rightarrow> upd_form (\<lambda>f. f\<lparr>cf_description := v\<rparr>) s
      | Click (HMethod m) \<Rightarrow> upd_form (\<lambda>f. f\<lparr>cf_deliveryMethod := m\<rparr>) s
      | Enter HSelector v \<Rightarrow> upd_form (\<lambda>f. f\<lparr>cf_selectorLabels := v\<rparr>) s
      | Enter HEnvVar v \<Rightarrow> upd_form (\<lambda>f. f\<lparr>cf_envVarName := sanitize_env v\<rparr>) s
      | Enter HCmName v \<Rightarrow> upd_form (\<lambda>f. f\<lparr>cf_configMapName := v\<rparr>) s
      | Enter HCmKey v \<Rightarrow> upd_form (\<lambda>f. f\<lparr>cf_configMapKey := v\<rparr>) s
      | Click HBack \<Rightarrow> if 1 < cr_step s then s\<lparr>cr_step := cr_step s - 1\<rparr> else s\<lparr>cr_closed := True\<rparr>
      | Click HNext \<Rightarrow> s\<lparr>cr_step := cr_step s + 1\<rparr>
      | Click HCreate \<Rightarrow> s\<lparr>cr_mutation := MutPending, cr_sent := cr_form s # cr_sent s\<rparr>
      | Click HDone \<Rightarrow> s\<lparr>cr_closed := True\<rparr>
      | Click (HCopy c) \<Rightarrow> s\<lparr>cr_clipboard := Some c\<rparr>
      | _ \<Rightarrow> s)"

text \<open>The outcome of the request: \<open>onSuccess\<close>, or the error of the mutation.\<close>

definition create_result :: "web_env \<Rightarrow> jsval res \<Rightarrow> create \<Rightarrow> create" where
  "create_result W r s =
     (case r of
        Inl e \<Rightarrow> s\<lparr>cr_mutation := MutError (err_message W e)\<rparr>
      | Inr _ \<Rightarrow> s\<lparr>cr_mutation := MutDone, cr_step := 4\<rparr>)"

datatype create_event =
    CUser "create_h act"
  | CClusters "Cluster list"
  | CNamespaces string "string list"
  | CResult "jsval res"

definition create_enabled :: "create \<Rightarrow> create_event \<Rightarrow> bool" where
  "create_enabled s e \<longleftrightarrow> \<not> cr_closed s \<and>
     (case e of
        CUser a \<Rightarrow> offers (create_view s) a
      | CClusters cs \<Rightarrow> True
      | CNamespaces cid ns \<Rightarrow> cid \<noteq> []
      | CResult r \<Rightarrow> cr_mutation s = MutPending)"

definition create_step :: "web_env \<Rightarrow> create \<Rightarrow> create_event \<Rightarrow> create" where
  "create_step W s e =
     auto_select
       (case e of
          CUser a \<Rightarrow> create_handle a s
        | CClusters cs \<Rightarrow> s\<lparr>cr_clusters := Some cs\<rparr>
        | CNamespaces cid ns \<Rightarrow> s\<lparr>cr_namespaces := (cid, ns) # cr_namespaces s\<rparr>
        | CResult r \<Rightarrow> create_result W r s)"

section \<open>What each part of the view offers\<close>

lemma header_offers [ui_simps]: "offers (create_header s) a \<longleftrightarrow> a = Click HClose"
  by (simp add: create_header_def)

lemma snippet_offers [ui_simps]: "offers (CodeSnippet l c) a \<longleftrightarrow> a = Click (HCopy c)"
  by (simp add: CodeSnippet_def)

lemma step1_offers:
  "offers (create_step1 s) a \<Longrightarrow>
     (\<exists>v. a = Choose HCluster v) \<or> (\<exists>v. a = Enter HName v) \<or> (\<exists>v. a = Choose HNamespace v)
     \<or> (\<exists>v. a = Choose HType v) \<or> (\<exists>v. a = Enter HDefault v \<and> cf_type (cr_form s) \<noteq> Boolean)
     \<or> (\<exists>v. a = Choose HDefault v \<and> v \<in> {''false'', ''true''}) \<or> (\<exists>v. a = Enter HDescription v)"
  by (cases a) (auto simp: create_step1_def Let_def split: if_splits)

lemma step2_offers:
  "offers (create_step2 s) a \<Longrightarrow>
     (\<exists>m. a = Click (HMethod m) \<and> m \<noteq> M_none) \<or> (\<exists>v. a = Enter HSelector v) \<or> (\<exists>v. a = Enter HEnvVar v)
     \<or> (\<exists>v. a = Enter HCmName v) \<or> (\<exists>v. a = Enter HCmKey v)"
  by (cases a) (auto simp: create_step2_def method_choice_def Let_def split: if_splits)

lemma step3_offers [ui_simps]: "\<not> offers (create_step3 s) a"
  by (simp add: create_step3_def Let_def)

lemma step4_offers: "offers (create_step4 s) a \<Longrightarrow> \<exists>c. a = Click (HCopy c)"
  by (auto simp: create_step4_def env_snippets_def config_snippets_def sidecar_snippets_def
      snippet_offers Let_def split: if_splits)

lemma nav_offers [ui_simps]:
  "offers (create_nav s) a \<longleftrightarrow>
     (if cr_step s = 4 then a = Click HDone
      else a = Click HBack
        \<or> (a = Click HNext \<and> cr_step s < 3
             \<and> (if cr_step s = 1 then canProceedStep1 (cr_form s) else canProceedStep2 (cr_form s)))
        \<or> (a = Click HCreate \<and> \<not> cr_step s < 3 \<and> cr_mutation s \<noteq> MutPending))"
  by (simp add: create_nav_def) blast

lemma create_offers:
  "offers (create_view s) a \<longleftrightarrow>
     a = Click HClose \<or> (cr_step s = 1 \<and> offers (create_step1 s) a)
     \<or> (cr_step s = 2 \<and> offers (create_step2 s) a) \<or> (cr_step s = 4 \<and> offers (create_step4 s) a)
     \<or> offers (create_nav s) a"
  by (auto simp: create_view_def header_offers step3_offers split: mutation.splits if_splits)

section \<open>Invariant\<close>

definition form_ok :: "create_form \<Rightarrow> bool" where
  "form_ok f \<longleftrightarrow> list_all name_char (cf_name f) \<and> list_all env_var_char (cf_envVarName f)
     \<and> (cf_type f = Boolean \<longrightarrow> cf_defaultValue f \<in> {''false'', ''true''}) \<and> cf_deliveryMethod f \<noteq> M_none"

definition sendable :: "create_form \<Rightarrow> bool" where
  "sendable f \<longleftrightarrow> form_ok f \<and> canProceedStep1 f \<and> canProceedStep2 f"

definition create_inv :: "create \<Rightarrow> bool" where
  "create_inv s \<longleftrightarrow>
     1 \<le> cr_step s \<and> cr_step s \<le> 4 \<and> form_ok (cr_form s)
     \<and> (cr_step s \<in> {2, 3} \<longrightarrow> canProceedStep1 (cr_form s))
     \<and> (cr_step s = 3 \<longrightarrow> canProceedStep2 (cr_form s))
     \<and> list_all sendable (cr_sent s)
     \<and> (cr_mutation s = MutPending \<longrightarrow> cr_sent s \<noteq> [])
     \<and> (cr_step s = 4 \<longleftrightarrow> cr_mutation s = MutDone) \<and> (cr_step s = 4 \<longrightarrow> cr_sent s \<noteq> [])"

lemma create_inv_frame [simp]:
  "create_inv (s\<lparr>cr_clusters := x\<rparr>) = create_inv s"
  "create_inv (s\<lparr>cr_namespaces := y\<rparr>) = create_inv s"
  "create_inv (s\<lparr>cr_clipboard := z\<rparr>) = create_inv s"
  "create_inv (s\<lparr>cr_closed := w\<rparr>) = create_inv s"
  by (simp_all add: create_inv_def)

lemma inv_steps:
  "create_inv s \<Longrightarrow> cr_step s = 1 \<or> cr_step s = 2 \<or> cr_step s = 3 \<or> cr_step s = 4"
  by (auto simp: create_inv_def)

lemma sanitize_name_chars: "list_all name_char (sanitize_name v)"
  by (auto simp: sanitize_name_def name_char_def intro!: replace_if_all)

lemma sanitize_env_chars: "list_all env_var_char (sanitize_env v)"
  by (auto simp: sanitize_env_def env_var_char_def intro!: replace_if_all)

lemma auto_select_cases:
  "auto_select s = s \<or>
     (cf_clusterId (cr_form s) = [] \<and> (\<exists>c. auto_select s = s\<lparr>cr_form := (cr_form s)\<lparr>cf_clusterId := c\<rparr>\<rparr>))"
  by (auto simp: auto_select_def split: list.split)

lemma auto_select_inv: "create_inv s \<Longrightarrow> create_inv (auto_select s)"
  using auto_select_cases [of s]
  by (elim disjE exE conjE) (simp_all add: create_inv_def form_ok_def canProceedStep1_def)

lemma inv_form1: "create_inv s \<Longrightarrow> cr_step s = 1 \<Longrightarrow> form_ok f \<Longrightarrow> create_inv (s\<lparr>cr_form := f\<rparr>)"
  by (simp add: create_inv_def)

lemma inv_form2:
  "create_inv s \<Longrightarrow> cr_step s = 2 \<Longrightarrow> form_ok f \<Longrightarrow> canProceedStep1 f \<Longrightarrow> create_inv (s\<lparr>cr_form := f\<rparr>)"
  by (simp add: create_inv_def)

lemma inv_form_ok: "create_inv s \<Longrightarrow> form_ok (cr_form s)"
  by (simp add: create_inv_def)

lemma inv_can1: "create_inv s \<Longrightarrow> cr_step s = 2 \<Longrightarrow> canProceedStep1 (cr_form s)"
  by (simp add: create_inv_def)

lemma step1_handle_inv:
  assumes "create_inv s" and "cr_step s = 1" and "offers (create_step1 s) a"
  shows "create_inv (create_handle a s)"
  using step1_offers [OF assms(3)] inv_form_ok [OF assms(1)] sanitize_name_chars
  by (elim disjE exE conjE)
    (simp_all add: create_handle_def upd_form_def inv_form1 [OF assms(1,2)] form_ok_def type_default_def
      split: FlagType.split)

lemma step2_handle_inv:
  assumes "create_inv s" and "cr_step s = 2" and "offers (create_step2 s) a"
  shows "create_inv (create_handle a s)"
  using step2_offers [OF assms(3)] inv_form_ok [OF assms(1)] inv_can1 [OF assms(1,2)] sanitize_env_chars
  by (elim disjE exE conjE)
    (simp_all add: create_handle_def upd_form_def inv_form2 [OF assms(1,2)] form_ok_def canProceedStep1_def)

lemma inv_back:
  assumes "create_inv s"
  shows "create_inv (create_handle (Click HBack) s) \<or> cr_step s = 4"
  using inv_steps [OF assms] assms
  by (elim disjE) (simp_all add: create_inv_def create_handle_def)

lemma inv_next:
  assumes "create_inv s" and "cr_step s < 3"
    and "if cr_step s = 1 then canProceedStep1 (cr_form s) else canProceedStep2 (cr_form s)"
  shows "create_inv (create_handle (Click HNext) s)"
proof -
  have "cr_step s = 1 \<or> cr_step s = 2" using assms(1,2) by (auto simp: create_inv_def)
  then show ?thesis using assms by (elim disjE) (simp_all add: create_inv_def create_handle_def)
qed

lemma inv_create:
  assumes "create_inv s" and "\<not> cr_step s < 3" and "cr_step s \<noteq> 4"
  shows "create_inv (create_handle (Click HCreate) s)"
proof -
  have "cr_step s = 3" using assms by (auto simp: create_inv_def)
  then show ?thesis using assms(1) by (simp add: create_inv_def create_handle_def sendable_def)
qed

lemma nav_handle_inv:
  assumes "create_inv s" and "offers (create_nav s) a"
  shows "create_inv (create_handle a s)"
proof (cases "cr_step s = 4")
  case True
  then show ?thesis using assms by (simp add: nav_offers create_inv_def create_handle_def)
next
  case False
  then show ?thesis
    using assms inv_back inv_next inv_create by (auto simp only: nav_offers if_False)
qed

lemma create_handle_inv:
  assumes "create_inv s" and "offers (create_view s) a"
  shows "create_inv (create_handle a s)"
proof -
  have "create_inv (create_handle (Click HClose) s)" "create_inv (create_handle (Click (HCopy c)) s)" for c
    using assms(1) by (simp_all add: create_handle_def)
  then show ?thesis
    using assms create_offers [of s a] step1_handle_inv step2_handle_inv nav_handle_inv step4_offers [of s a]
    by metis
qed

interpretation create_m: guarded_machine create_enabled "create_step W" create_inv for W
proof
  fix s e
  assume i: "create_inv s" and en: "create_enabled s e"
  show "create_inv (create_step W s e)"
  proof (cases e)
    case (CUser a)
    then show ?thesis
      using i en create_handle_inv auto_select_inv by (simp add: create_step_def create_enabled_def)
  next
    case (CClusters cs)
    then show ?thesis
      using i by (simp add: create_step_def auto_select_inv)
  next
    case (CNamespaces cid ns)
    then show ?thesis
      using i by (simp add: create_step_def auto_select_inv)
  next
    case (CResult r)
    have "create_inv (create_result W r s)"
      using i en CResult
      by (cases r) (simp_all add: create_inv_def create_result_def create_enabled_def)
    then show ?thesis using CResult by (simp add: create_step_def auto_select_inv)
  qed
qed

lemma create_init_inv: "create_inv create_init"
  by (simp add: create_inv_def create_init_def form_ok_def empty_form_def)

end
