(* ===== verification/CreateFlagProps.thy ===== *)
theory CreateFlagProps
  imports CreateFlag
begin

text \<open>
  Properties of the wizard's sessions: what it can send, what the server receives for a
  label text, that the success step displays the form and not what was sent, and that the
  namespace cannot be chosen when the query for the namespaces is refused.
\<close>

interpretation create_log: logged_machine create_enabled "create_step W" create_inv cr_sent sendable for W
  by unfold_locales (simp add: create_inv_def)

section \<open>Properties\<close>

lemma sendable_delivery: "sendable f \<Longrightarrow> form_delivery f \<noteq> []"
  by (cases "cf_deliveryMethod f")
    (auto simp: sendable_def form_ok_def canProceedStep2_def form_delivery_def delivery_members_def)

text \<open>C5 (create_requests_valid). Whatever the user does in the wizard and however queries and requests end, every request it sends has a non-empty name of lower-case letters, digits and hyphens, a namespace, a cluster, a non-empty label text, a delivery, and for a boolean flag the value \<open>true\<close> or \<open>false\<close>; the button that sends it is offered only for such a form and never while a request is under way.\<close>

theorem create_requests_valid:
  assumes "run create_enabled (create_step W) create_init s"
  shows "(\<forall>f\<in>set (cr_sent s). cf_name f \<noteq> [] \<and> list_all name_char (cf_name f)
        \<and> cf_namespace f \<noteq> [] \<and> cf_clusterId f \<noteq> [] \<and> cf_selectorLabels f \<noteq> []
        \<and> delivery_or_undefined (form_delivery f) \<noteq> JUndef
        \<and> (cf_type f = Boolean \<longrightarrow> cf_defaultValue f \<in> {''false'', ''true''}))
    \<and> (offers (create_view s) (Click HCreate) \<longrightarrow>
        sendable (cr_form s) \<and> cr_mutation s \<noteq> MutPending)"
proof -
  have i: "create_inv s" using create_m.run_inv [OF assms create_init_inv] .
  have "cf_name f \<noteq> [] \<and> list_all name_char (cf_name f)
        \<and> cf_namespace f \<noteq> [] \<and> cf_clusterId f \<noteq> [] \<and> cf_selectorLabels f \<noteq> []
        \<and> delivery_or_undefined (form_delivery f) \<noteq> JUndef
        \<and> (cf_type f = Boolean \<longrightarrow> cf_defaultValue f \<in> {''false'', ''true''})" if "sendable f" for f
    using that sendable_delivery [OF that]
    by (cases "cf_deliveryMethod f")
      (simp_all add: sendable_def form_ok_def canProceedStep1_def canProceedStep2_def delivery_or_undefined_def)
  moreover have "\<forall>f\<in>set (cr_sent s). sendable f"
    using create_log.run_log [OF assms create_init_inv] by (simp add: list_all_iff)
  moreover have "cr_step s = 3 \<and> cr_mutation s \<noteq> MutPending" if "offers (create_view s) (Click HCreate)"
    using that inv_steps [OF i] step1_offers [of s "Click HCreate"] step2_offers [of s "Click HCreate"]
      step4_offers [of s "Click HCreate"]
    by (auto simp: create_offers nav_offers split: if_splits)
  then have "offers (create_view s) (Click HCreate) \<longrightarrow> sendable (cr_form s) \<and> cr_mutation s \<noteq> MutPending"
    using i by (auto simp: create_inv_def sendable_def)
  ultimately show ?thesis by blast
qed

definition demo_cluster :: Cluster where
  "demo_cluster = \<lparr>cl_id = ''local'', cl_displayName = ''Local'', cl_apiServer = [], cl_status = Connected,
     cl_kubernetesVersion = None, cl_discoveredWorkloads = 3\<rparr>"

definition wizard_session :: "create_event list" where
  "wizard_session =
     [CClusters [demo_cluster], CUser (Enter HName ''dark mode''), CUser (Click HNext),
      CUser (Enter HSelector ''app=web''), CUser (Click HNext), CUser (Click HCreate)]"

definition wizard_form :: create_form where
  "wizard_form = empty_form\<lparr>cf_clusterId := ''local'', cf_name := ''dark-mode'', cf_selectorLabels := ''app=web''\<rparr>"

definition wizard_pending :: create where
  "wizard_pending = create_init\<lparr>cr_clusters := Some [demo_cluster], cr_form := wizard_form, cr_step := 3,
     cr_mutation := MutPending, cr_sent := [wizard_form]\<rparr>"

lemma wizard_session_runs:
  "exec_events create_enabled (create_step W) create_init wizard_session = Some wizard_pending"
  by code_simp

theorem create_requests_valid_witness:
  "\<exists>s. exec_events create_enabled (create_step quiet_env) create_init wizard_session = Some s
     \<and> map cf_name (cr_sent s) = [''dark-mode''] \<and> cf_clusterId (hd (cr_sent s)) \<noteq> []"
  using create_requests_valid [OF exec_events_run [OF wizard_session_runs [of quiet_env]]] wizard_session_runs [of quiet_env]
  by (auto simp: wizard_pending_def wizard_form_def)

lemma displays_step4: "cr_step s = 4 \<Longrightarrow> displays (create_step4 s) t \<Longrightarrow> displays (create_view s) t"
  by (simp add: create_view_def)

lemma success_displays:
  assumes "cr_step s = 4"
  shows "displays (create_view s) ''Flag created successfully''" and "displays (create_view s) (cf_name (cr_form s))"
  by (rule displays_step4 [OF assms], simp add: create_step4_def Let_def)+

text \<open>The success step can name a flag that was never sent: \<open>Back\<close> is offered while the request is under way, the name can be changed, and the answer then jumps to the success step, which displays the form and not what was created.\<close>

theorem create_success_other_name:
  "\<exists>s. exec_events create_enabled (create_step W) create_init
        (wizard_session @ [CUser (Click HBack), CUser (Click HBack), CUser (Enter HName ''light''),
                           CResult (Inr JUndef)]) = Some s
     \<and> displays (create_view s) ''Flag created successfully'' \<and> displays (create_view s) ''light''
     \<and> map cf_name (cr_sent s) = [''dark-mode'']"
proof -
  let ?s = "wizard_pending\<lparr>cr_step := 4, cr_mutation := MutDone, cr_form := wizard_form\<lparr>cf_name := ''light''\<rparr>\<rparr>"
  have r: "exec_events create_enabled (create_step W) create_init
        (wizard_session @ [CUser (Click HBack), CUser (Click HBack), CUser (Enter HName ''light''),
                           CResult (Inr JUndef)]) = Some ?s"
    by code_simp
  have d: "displays (create_view ?s) ''Flag created successfully'' \<and> displays (create_view ?s) ''light''
     \<and> map cf_name (cr_sent ?s) = [''dark-mode'']"
    using success_displays [of ?s] by (simp add: wizard_pending_def wizard_form_def)
  show ?thesis by (rule exI [of _ ?s], rule conjI [OF r d])
qed

section \<open>What the server receives\<close>

definition sent_delivery :: "create_form \<Rightarrow> (string \<times> jsval) list \<Rightarrow> (string \<times> jsval) list" where
  "sent_delivery f labels =
     (let sel = (''selector'', JObj [(''matchLabels'', JObj labels)]) in
      case cf_deliveryMethod f of
        M_envVar \<Rightarrow> [(''envVar'', JObj ((if cf_envVarName f = [] then [] else [(''name'', JStr (cf_envVarName f))]) @ [sel]))]
      | M_configMap \<Rightarrow> [(''configMap'', JObj [(''configMapName'', JStr (cf_configMapName f)),
                          (''key'', JStr (or_str (cf_configMapKey f) (cf_name f))), sel])]
      | _ \<Rightarrow> [(''sidecar'', JObj [sel])])"

definition sent_flag :: "create_form \<Rightarrow> (string \<times> jsval) list \<Rightarrow> jsval" where
  "sent_flag f labels =
     JObj ([(''name'', JStr (cf_name f)), (''namespace'', JStr (cf_namespace f)),
            (''clusterId'', JStr (cf_clusterId f)), (''type'', JStr (flag_type_str (cf_type f))),
            (''defaultValue'', JStr (cf_defaultValue f))]
           @ (if cf_description f = [] then [] else [(''description'', JStr (cf_description f))])
           @ [(''delivery'', JObj (sent_delivery f labels))])"

lemma clean_delivery:
  assumes "sendable f"
  shows "json_clean (delivery_or_undefined (form_delivery f))
    = JObj (sent_delivery f (clean_members (parse_labels (cf_selectorLabels f))))"
    and "\<not> absent (delivery_or_undefined (form_delivery f))"
  using assms
  by (cases "cf_deliveryMethod f";
      auto simp: sendable_def form_ok_def canProceedStep2_def form_delivery_def delivery_members_def
        sent_delivery_def delivery_or_undefined_def selector_json_def absent_def Let_def)+

lemma clean_payload:
  "sendable f \<Longrightarrow> json_clean (create_payload f) = sent_flag f (clean_members (parse_labels (cf_selectorLabels f)))"
  by (simp add: create_payload_def sent_flag_def clean_delivery)

lemma sent_flag_ok:
  assumes "json_ok (JObj labels)"
  shows "json_ok (sent_flag f labels)"
proof -
  have "json_ok (JObj (sent_delivery f labels))"
    using assms by (cases "cf_deliveryMethod f") (simp_all add: sent_delivery_def Let_def obj_eval)
  then show ?thesis by (simp add: sent_flag_def obj_eval)
qed

lemma wizard_body_parses:
  assumes "sendable f" and "label_dict ls" and "cf_selectorLabels f = format_labels ls"
  shows "\<exists>body. in_body (json_init ''POST'' (create_payload f)) = Some body
     \<and> json_parse body = Inr (sent_flag f (labels_json ls))"
proof -
  have "clean_members (parse_labels (cf_selectorLabels f)) = labels_json ls"
    using parse_format_labels [OF assms(2)] assms(3) clean_labels by simp
  then have c: "json_clean (create_payload f) = sent_flag f (labels_json ls)"
    using clean_payload [OF assms(1)] by simp
  have "json_ok (JObj (labels_json ls))" using labels_ok obj_of_labels [OF assms(2)] by simp
  then have ok: "json_ok (json_clean (create_payload f))" unfolding c by (rule sent_flag_ok)
  obtain body where b: "json_stringify (create_payload f) = Some body"
    by (simp add: create_payload_def)
  then show ?thesis using json_body [OF ok b] c by (simp add: json_init_def)
qed

text \<open>For a form the wizard can send whose label text lists Kubernetes labels as \<open>key=value\<close>, the body of the request parses to an object with exactly the fields of the form, the labels as typed, and the chosen delivery only; an empty description and an empty variable name are left out.\<close>

theorem create_body_labels:
  assumes "sendable f" and "label_dict ls" and "cf_selectorLabels f = format_labels ls"
  shows "\<exists>body. in_body (json_init ''POST'' (create_payload f)) = Some body
     \<and> json_parse body = Inr (sent_flag f (labels_json ls))"
  using assms by (rule wizard_body_parses)

lemma demo_labels: "label_dict [(''app'', ''web'')]" "sendable wizard_form"
  by code_simp+

theorem create_body_labels_witness:
  "\<exists>body. in_body (json_init ''POST'' (create_payload wizard_form)) = Some body
     \<and> json_parse body = Inr (sent_flag wizard_form (labels_json [(''app'', ''web'')]))"
  by (rule create_body_labels [OF demo_labels(2,1)]) code_simp

text \<open>A label text without an equals sign passes the wizard's checks, but the request then carries an empty label selector, which in Kubernetes matches every workload of the namespace.\<close>

theorem labels_without_equals:
  assumes "CHR ''='' \<notin> set (cf_selectorLabels f)" and "sendable f"
  shows "\<exists>body. in_body (json_init ''POST'' (create_payload f)) = Some body
     \<and> json_parse body = Inr (sent_flag f [])"
proof -
  have "clean_members (parse_labels (cf_selectorLabels f)) = []"
    using parse_labels_no_eq [OF assms(1)] by simp
  then have c: "json_clean (create_payload f) = sent_flag f []"
    using clean_payload [OF assms(2)] by simp
  have ok: "json_ok (json_clean (create_payload f))"
    unfolding c by (rule sent_flag_ok) (simp add: obj_of_list_def)
  obtain body where b: "json_stringify (create_payload f) = Some body"
    by (simp add: create_payload_def)
  then show ?thesis using json_body [OF ok b] c by (simp add: json_init_def)
qed

theorem labels_without_equals_witness:
  "let f = wizard_form\<lparr>cf_selectorLabels := ''frontend''\<rparr>
   in \<exists>body. in_body (json_init ''POST'' (create_payload f)) = Some body \<and> json_parse body = Inr (sent_flag f [])"
proof -
  have "sendable (wizard_form\<lparr>cf_selectorLabels := ''frontend''\<rparr>)" by code_simp
  then show ?thesis
    using labels_without_equals [of "wizard_form\<lparr>cf_selectorLabels := ''frontend''\<rparr>"] by (simp add: Let_def)
qed

section \<open>Namespaces\<close>

lemma namespaces_refused:
  assumes "\<And>rq. ''Authorization'' \<notin> fst ` set (rq_headers rq)
      \<Longrightarrow> \<exists>res. fetch W rq = Inr res \<and> rs_status res = 401"
  shows "fetchNamespaces W cid = Inr (JArr [JStr ''default''])"
proof -
  let ?rq = "\<lparr>rq_url = ''/api/v1/clusters/'' @ cid @ ''/namespaces'', rq_method = ''GET'',
              rq_headers = [], rq_body = None\<rparr>"
  obtain res where "fetch W ?rq = Inr res" "rs_status res = 401" using assms [of ?rq] by auto
  then show ?thesis by (simp add: fetchNamespaces_def resp_ok_def)
qed

text \<open>The wizard in front of a server whose answers to that query are all the fallback.\<close>

definition refused_enabled :: "create \<Rightarrow> create_event \<Rightarrow> bool" where
  "refused_enabled s e \<longleftrightarrow> create_enabled s e
     \<and> (case e of CNamespaces cid ns \<Rightarrow> ns = [''default''] | _ \<Rightarrow> True)"

definition default_inv :: "create \<Rightarrow> bool" where
  "default_inv s \<longleftrightarrow> cf_namespace (cr_form s) = ''default''
     \<and> snd ` set (cr_namespaces s) \<subseteq> {[''default'']}
     \<and> list_all (\<lambda>f. cf_namespace f = ''default'') (cr_sent s)"

lemma default_namespaces: "default_inv s \<Longrightarrow> namespaces s = [''default'']"
  by (auto simp: default_inv_def namespaces_def split: option.split dest!: map_of_SomeD)

lemma default_no_choice: "default_inv s \<Longrightarrow> \<not> offers (create_view s) (Choose HNamespace v)"
proof
  assume d: "default_inv s" and "offers (create_view s) (Choose HNamespace v)"
  then have "offers (create_step1 s) (Choose HNamespace v)"
    using step2_offers [of s "Choose HNamespace v"] step4_offers [of s "Choose HNamespace v"]
    by (auto simp: create_offers nav_offers split: if_splits)
  then show False
    using default_namespaces [OF d] d
    by (auto simp: create_step1_def Let_def shown_option_def default_inv_def split: if_splits)
qed

lemma handle_namespace:
  "(\<forall>v. a \<noteq> Choose HNamespace v) \<Longrightarrow> cf_namespace (cr_form (create_handle a s)) = cf_namespace (cr_form s)
     \<and> cr_namespaces (create_handle a s) = cr_namespaces s
     \<and> (cr_sent (create_handle a s) = cr_sent s \<or> cr_sent (create_handle a s) = cr_form s # cr_sent s)"
  by (auto simp: create_handle_def upd_form_def split: act.split create_h.split)

lemma auto_select_namespace:
  "cf_namespace (cr_form (auto_select s)) = cf_namespace (cr_form s)"
  "cr_namespaces (auto_select s) = cr_namespaces s" "cr_sent (auto_select s) = cr_sent s"
  by (simp_all add: auto_select_def split: list.split)

interpretation refused_m: guarded_machine refused_enabled "create_step W" default_inv for W
proof
  fix s e
  assume i: "default_inv s" and en: "refused_enabled s e"
  have ns: "cf_namespace (cr_form s) = ''default''" using i by (simp add: default_inv_def)
  show "default_inv (create_step W s e)"
  proof (cases e)
    case (CUser a)
    then have "offers (create_view s) a" using en by (simp add: refused_enabled_def create_enabled_def)
    then have "\<forall>v. a \<noteq> Choose HNamespace v" using default_no_choice [OF i] by blast
    then show ?thesis
      using i CUser handle_namespace [of a s] ns
      by (auto simp: create_step_def default_inv_def auto_select_namespace)
  next
    case (CResult r)
    then show ?thesis
      using i by (cases r) (simp_all add: create_step_def create_result_def default_inv_def auto_select_namespace)
  qed (use i en in \<open>auto simp: create_step_def default_inv_def auto_select_namespace refused_enabled_def\<close>)
qed

text \<open>The query for the namespaces carries no token, so a server that demands one (as the API server does) refuses it and the answer is always the fallback; in every session of the wizard in which all these queries end that way, every request it sends is for the namespace \<open>default\<close>.\<close>

theorem only_default_namespace:
  assumes "\<And>rq. ''Authorization'' \<notin> fst ` set (rq_headers rq)
      \<Longrightarrow> \<exists>res. fetch W rq = Inr res \<and> rs_status res = 401"
    and "run refused_enabled (create_step W) create_init s"
  shows "fetchNamespaces W cid = Inr (JArr [JStr ''default''])
    \<and> list_all (\<lambda>f. cf_namespace f = ''default'') (cr_sent s)"
proof -
  have "default_inv create_init" by (simp add: default_inv_def create_init_def empty_form_def)
  then have "default_inv s" using refused_m.run_inv [OF assms(2)] by blast
  then show ?thesis using namespaces_refused [OF assms(1)] by (simp add: default_inv_def)
qed

theorem only_default_namespace_witness:
  "fetchNamespaces (demo_env (\<lparr>rs_status = 401, rs_status_text = [], rs_type = None, rs_body = []\<rparr>)) ''local''
     = Inr (JArr [JStr ''default''])"
  using only_default_namespace
    [of "demo_env (\<lparr>rs_status = 401, rs_status_text = [], rs_type = None, rs_body = []\<rparr>)", OF _ run_refl]
  by (simp add: demo_env_def)

end
