(* ===== verification/Confirm.thy ===== *)
theory Confirm
  imports Ui
begin

text \<open>
  The confirmation dialog, \<open>web/src/components/ui/ConfirmModal.tsx\<close>. Its two callbacks
  are the handlers \<open>CM_Confirm\<close> and \<open>CM_Cancel\<close>; a click on the backdrop or on the
  cross cancels, a click inside the panel does not reach the backdrop. The variant only
  chooses colours.
\<close>

datatype confirm_h = CM_Confirm | CM_Cancel

definition ConfirmModal :: "string \<Rightarrow> string \<Rightarrow> string option \<Rightarrow> string option \<Rightarrow> confirm_h ui" where
  "ConfirmModal title message confirmLabel cancelLabel =
     Clk CM_Cancel
       [El [Txt title, Txt message, Btn False CM_Cancel []],
        El [Btn False CM_Cancel [Txt (case cancelLabel of None \<Rightarrow> ''Cancel'' | Some l \<Rightarrow> l)],
            Btn False CM_Confirm [Txt (case confirmLabel of None \<Rightarrow> ''Confirm'' | Some l \<Rightarrow> l)]]]"

lemma confirm_offers [ui_simps]:
  "offers (ConfirmModal t m c d) a \<longleftrightarrow> a = Click CM_Cancel \<or> a = Click CM_Confirm"
  by (auto simp: ConfirmModal_def)

lemma confirm_displays: "displays (ConfirmModal t m c d) t" "displays (ConfirmModal t m c d) m"
  by (simp_all add: ConfirmModal_def)

lemma confirm_filled: "\<not> can_submit (ConfirmModal t m c d)" "filled (ConfirmModal t m c d)"
  by (simp_all add: ConfirmModal_def)

end
