(* ===== verification/EditFlag.thy ===== *)
theory EditFlag
  imports ApiClient Delivery Confirm
begin

text \<open>
  The modal that edits a flag, \<open>web/src/components/flags/EditFlagModal.tsx\<close>. Its targeting
  rules are objects shared with the flag in the query cache: the handlers copy the outer
  array and then assign to the rule objects in it. The model therefore keeps the rule
  objects in a store (\<open>ed_store\<close>) with their addresses in two arrays, the cached flag's
  (\<open>ed_cache\<close>) and the modal's (\<open>ed_rules\<close>). The conditions of a rule and their array are
  reachable through that rule object only, so the store holds them by value.
\<close>

section \<open>State\<close>

record edit_form =
  ef_description :: string
  ef_defaultValue :: string
  ef_disabled :: bool
  ef_deliveryMethod :: DeliveryMethod
  ef_envVarName :: string
  ef_selectorLabels :: string
  ef_configMapName :: string
  ef_configMapKey :: string

record edit =
  ed_flag :: FeatureFlag              \<comment> \<open>the prop, but for its rules\<close>
  ed_form :: edit_form
  ed_store :: "TargetingRule list"    \<comment> \<open>the rule objects by address\<close>
  ed_cache :: "nat list"              \<comment> \<open>\<open>flag.rules\<close>\<close>
  ed_rules :: "nat list"              \<comment> \<open>the state variable \<open>rules\<close>\<close>
  ed_confirm :: bool                  \<comment> \<open>\<open>showSaveConfirm\<close>\<close>
  ed_expanded :: "nat option"
  ed_help :: bool
  ed_mutation :: mutation
  ed_closed :: bool
  ed_sent :: "jsval list"             \<comment> \<open>the data of the requests sent, the last one first\<close>

definition opt_delivery :: "(DeliverySpec \<Rightarrow> 'a option) \<Rightarrow> FeatureFlag \<Rightarrow> 'a option" where
  "opt_delivery part flag = Option.bind (ff_delivery flag) part"

definition initial_method :: "FeatureFlag \<Rightarrow> DeliveryMethod" where
  "initial_method flag =
     (if opt_delivery envVar flag \<noteq> None then M_envVar
      else if opt_delivery configMap flag \<noteq> None then M_configMap
      else if opt_delivery sidecar flag \<noteq> None then M_sidecar
      else M_none)"

definition initial_labels :: "FeatureFlag \<Rightarrow> string" where
  "initial_labels flag =
     (case Option.bind (opt_delivery envVar flag) (\<lambda>d. matchLabels (ev_selector d)) of
        Some ls \<Rightarrow> format_labels ls
      | None \<Rightarrow>
          (case Option.bind (opt_delivery configMap flag) (\<lambda>d. matchLabels (cm_selector d)) of
             Some ls \<Rightarrow> format_labels ls
           | None \<Rightarrow> []))"

definition initial_form :: "FeatureFlag \<Rightarrow> edit_form" where
  "initial_form flag =
     \<lparr>ef_description = opt_str (ff_description flag) [],
      ef_defaultValue = ff_defaultValue flag,
      ef_disabled = ff_disabled flag,
      ef_deliveryMethod = initial_method flag,
      ef_envVarName = opt_str (Option.bind (opt_delivery envVar flag) ev_name) [],
      ef_selectorLabels = initial_labels flag,
      ef_configMapName = opt_str (map_option cm_configMapName (opt_delivery configMap flag)) [],
      ef_configMapKey = opt_str (map_option cm_key (opt_delivery configMap flag)) []\<rparr>"

definition flag_rules :: "FeatureFlag \<Rightarrow> TargetingRule list" where
  "flag_rules flag = (case ff_rules flag of None \<Rightarrow> [] | Some rs \<Rightarrow> rs)"

definition edit_init :: "FeatureFlag \<Rightarrow> edit" where
  "edit_init flag =
     (let n = length (flag_rules flag) in
      \<lparr>ed_flag = flag, ed_form = initial_form flag, ed_store = flag_rules flag,
       ed_cache = [0..<n], ed_rules = [0..<n], ed_confirm = False,
       ed_expanded = (if 0 < n then Some 0 else None), ed_help = False, ed_mutation = MutIdle,
       ed_closed = False, ed_sent = []\<rparr>)"

text \<open>The rule objects the modal and the cache refer to.\<close>

definition edit_rules :: "edit \<Rightarrow> TargetingRule list" where
  "edit_rules s = map ((!) (ed_store s)) (ed_rules s)"

definition cached_rules :: "edit \<Rightarrow> TargetingRule list" where
  "cached_rules s = map ((!) (ed_store s)) (ed_cache s)"

section \<open>The request\<close>

definition condition_json :: "Condition \<Rightarrow> jsval" where
  "condition_json c =
     JObj [(''attribute'', JStr (attribute c)), (''operator'', JStr (operator_str (operator c))),
           (''values'', JArr (map JStr (cond_values c)))]"

definition rule_json :: "TargetingRule \<Rightarrow> jsval" where
  "rule_json r =
     JObj [(''name'', JStr (rule_name r)), (''conditions'', JArr (map condition_json (conditions r))),
           (''value'', JStr (rule_value r)),
           (''percentage'', case percentage r of None \<Rightarrow> JUndef | Some p \<Rightarrow> JNum (num_of_int p))]"

definition edit_delivery :: "string \<Rightarrow> edit_form \<Rightarrow> (string \<times> jsval) list" where
  "edit_delivery flag_name f =
     delivery_members (ef_deliveryMethod f) (ef_selectorLabels f) (ef_envVarName f)
       (ef_configMapName f) (ef_configMapKey f) flag_name"

definition update_payload :: "string \<Rightarrow> edit_form \<Rightarrow> TargetingRule list \<Rightarrow> jsval" where
  "update_payload flag_name f rules =
     JObj [(''description'', if ef_description f = [] then JUndef else JStr (ef_description f)),
           (''defaultValue'', JStr (ef_defaultValue f)),
           (''disabled'', JBool (ef_disabled f)),
           (''delivery'', delivery_or_undefined (edit_delivery flag_name f)),
           (''rules'', if rules = [] then JUndef else JArr (map rule_json rules))]"

definition send_update :: "web_env \<Rightarrow> FeatureFlag \<Rightarrow> jsval \<Rightarrow> jsval api" where
  "send_update W flag data = flagsApi_update W (ff_namespace flag) (ff_name flag) (ff_clusterId flag) data"

section \<open>Editing the rules\<close>

definition new_condition :: "string \<Rightarrow> Condition" where
  "new_condition attr = \<lparr>attribute = attr, operator = Op_eq, cond_values = [[]]\<rparr>"

definition addRule :: "edit \<Rightarrow> edit" where
  "addRule s =
     (let newIdx = length (ed_rules s);
          r = \<lparr>rule_name = ''Rule '' @ show_nat (newIdx + 1), conditions = [new_condition ''label:tier''],
               rule_value = (if ff_type (ed_flag s) = Boolean then ''true'' else []), percentage = None\<rparr>
      in s\<lparr>ed_store := ed_store s @ [r], ed_rules := ed_rules s @ [length (ed_store s)],
           ed_expanded := Some newIdx\<rparr>)"

definition drop_nth :: "nat \<Rightarrow> 'a list \<Rightarrow> 'a list" where
  "drop_nth i xs = take i xs @ drop (Suc i) xs"

definition removeRule :: "nat \<Rightarrow> edit \<Rightarrow> edit" where
  "removeRule i s = s\<lparr>ed_rules := drop_nth i (ed_rules s), ed_expanded := None\<rparr>"

text \<open>\<open>updated[index][field] = value\<close>: an assignment to the rule object itself.\<close>

definition updateRule :: "nat \<Rightarrow> (TargetingRule \<Rightarrow> TargetingRule) \<Rightarrow> edit \<Rightarrow> edit" where
  "updateRule i u s =
     (let a = ed_rules s ! i in s\<lparr>ed_store := (ed_store s)[a := u (ed_store s ! a)]\<rparr>)"

definition updateCondition :: "nat \<Rightarrow> nat \<Rightarrow> (Condition \<Rightarrow> Condition) \<Rightarrow> edit \<Rightarrow> edit" where
  "updateCondition i j u s =
     updateRule i (\<lambda>r. r\<lparr>conditions := (conditions r)[j := u (conditions r ! j)]\<rparr>) s"

definition addCondition :: "nat \<Rightarrow> edit \<Rightarrow> edit" where
  "addCondition i s = updateRule i (\<lambda>r. r\<lparr>conditions := conditions r @ [new_condition []]\<rparr>) s"

definition removeCondition :: "nat \<Rightarrow> nat \<Rightarrow> edit \<Rightarrow> edit" where
  "removeCondition i j s = updateRule i (\<lambda>r. r\<lparr>conditions := drop_nth j (conditions r)\<rparr>) s"

section \<open>The view\<close>

datatype edit_h =
    E_Close | E_Save | E_Default | E_Disabled | E_Description | E_Method | E_Selector | E_EnvVar
  | E_CmName | E_CmKey | E_Help | E_AddRule | E_Expand nat | E_RuleName nat | E_AddCondition nat
  | E_Attribute nat nat | E_Operator nat nat | E_Values nat nat | E_RemoveCondition nat nat
  | E_RuleValue nat | E_RemoveRule nat | E_Confirm confirm_h

definition operatorLabels :: "(Operator \<times> string) list" where
  "operatorLabels =
     [(Op_eq, ''equals''), (Op_neq, ''not equals''), (Op_in, ''is one of''), (Op_notin, ''is not one of''),
      (Op_matches, ''matches regex'')]"

definition operator_label :: "Operator \<Rightarrow> string" where
  "operator_label x = (case map_of operatorLabels x of None \<Rightarrow> operator_str x | Some l \<Rightarrow> l)"

definition attributeExamples :: "(string \<times> string) list" where
  "attributeExamples =
     [(''label:tier'', ''Workload label '' @ [CHR 0x22] @ ''tier'' @ [CHR 0x22]),
      (''label:env'', ''Workload label '' @ [CHR 0x22] @ ''env'' @ [CHR 0x22]),
      (''label:app'', ''Workload label '' @ [CHR 0x22] @ ''app'' @ [CHR 0x22]),
      (''namespace'', ''Namespace name''),
      (''workload-name'', ''Name of the Deployment/StatefulSet'')]"

definition edit_header :: "edit \<Rightarrow> edit_h ui" where
  "edit_header s =
     (let flag = ed_flag s in
      El [Txt (''Edit: '' @ ff_name flag),
          Txt (ff_namespace flag @ '' / '' @ ff_clusterId flag @ '' / '' @ flag_type_str (ff_type flag)),
          Btn False E_Close []])"

definition value_input :: "FlagType \<Rightarrow> string \<Rightarrow> (string \<times> string) list \<Rightarrow> 'h \<Rightarrow> 'h ui" where
  "value_input t v opts h = (if t = Boolean then Sel v opts h else Inp False v h)"

definition edit_value_view :: "edit \<Rightarrow> edit_h ui" where
  "edit_value_view s =
     (let f = ed_form s in
      El [Txt ''Value & Status'', Txt ''Default value'',
          value_input (ff_type (ed_flag s)) (ef_defaultValue f)
            [(''false'', ''false (off)''), (''true'', ''true (on)'')] E_Default,
          Txt ''Workloads that don't match any rule get this value.'',
          Chk (ef_disabled f) E_Disabled, Txt ''Kill switch'',
          Txt ''Disable this flag globally. No workload receives it.'',
          Txt ''Description'', Inp False (ef_description f) E_Description])"

definition edit_delivery_view :: "edit \<Rightarrow> edit_h ui" where
  "edit_delivery_view s =
     (let f = ed_form s in
      El ([Txt ''Delivery'', Txt ''Method'',
           Sel (method_str (ef_deliveryMethod f))
             [(''envVar'', ''Environment Variable''), (''configMap'', ''ConfigMap''),
              (''sidecar'', ''Sidecar API''), (''none'', ''None (manual)'')] E_Method]
          @ show_if (ef_deliveryMethod f \<noteq> M_none)
              [Txt ''Target workloads by labels'', Inp False (ef_selectorLabels f) E_Selector,
               El [Txt ''Workloads in'', Txt (ff_namespace (ed_flag s)),
                   Txt ''with these labels will receive the flag.'']]
          @ show_if (ef_deliveryMethod f = M_envVar)
              [Txt ''Env var name'', Txt ''(auto if empty)'', Inp False (ef_envVarName f) E_EnvVar]
          @ show_if (ef_deliveryMethod f = M_configMap)
              [Txt ''ConfigMap name'', Inp False (ef_configMapName f) E_CmName,
               Txt ''Key'', Inp False (ef_configMapKey f) E_CmKey]))"

definition rules_help :: "edit_h ui" where
  "rules_help =
     El [Txt ''What are targeting rules?'',
         El [Txt ''Rules let you return'', Txt ''different values'',
             Txt ''of this flag depending on workload properties (labels, namespace, name). Without rules, every workload gets the default value. Rules are evaluated top-to-bottom -'',
             Txt ''first match wins''],
         El [Txt ''Example 1: Different rate limits by tier'',
             Txt ''Flag: api-rate-limit (integer, default: 100)'',
             Txt ''1. If label:tier equals premium -> 1000'', Txt ''2. If label:tier equals free -> 10'',
             Txt ''Otherwise -> 100''],
         El [Txt ''Example 2: Enable feature only in staging'',
             Txt ''Flag: new-checkout (boolean, default: false)'',
             Txt ''1. If label:env equals staging -> true'', Txt ''Otherwise -> false (disabled in prod)''],
         El [Txt ''Example 3: Multiple conditions (AND)'',
             Txt ''Flag: debug-mode (boolean, default: false)'',
             Txt ''1. If label:env is one of dev, staging'', Txt ''AND label:team equals backend'',
             Txt ''-> true'', Txt ''Otherwise -> false''],
         El [Txt ''Example 4: Config by workload name'',
             Txt ''Flag: log-level (string, default: info)'',
             Txt ''1. If workload-name matches regex .*-gateway -> debug'',
             Txt ''2. If namespace equals production -> warn'', Txt ''Otherwise -> info''],
         El (Txt ''Available attributes:''
             # concat (map (\<lambda>(v, d). [Txt v, Txt d]) attributeExamples)
             @ [Txt ''label:<key>'', Txt ''Any custom label on the workload'',
                Txt ''annotation:<key>'', Txt ''Any annotation on the workload''])]"

definition conditionSummary :: "TargetingRule \<Rightarrow> string" where
  "conditionSummary r =
     join_with '' AND ''
       (map (\<lambda>c. or_str (attribute c) ''?'' @ '' '' @ operator_label (operator c) @ '' ''
                  @ or_str (join_with '', '' (filter (\<lambda>v. v \<noteq> []) (cond_values c))) ''?'')
          (conditions r))"

definition condition_view :: "nat \<Rightarrow> nat \<Rightarrow> nat \<Rightarrow> Condition \<Rightarrow> edit_h ui" where
  "condition_view i j n c =
     El (show_if (0 < j) [Txt ''AND'']
         @ [Txt ''Check this property'',
            Sel (attribute c)
              (([], ''Select...'') # map (\<lambda>(v, d). (v, v @ '' - '' @ d)) attributeExamples
               @ (if attribute c \<noteq> [] \<and> attribute c \<notin> fst ` set attributeExamples
                  then [(attribute c, attribute c @ '' (custom)'')] else []))
              (E_Attribute i j),
            Txt ''Operator'',
            Sel (operator_str (operator c)) (map (\<lambda>(x, l). (operator_str x, l)) operatorLabels) (E_Operator i j),
            Txt (if operator c = Op_in \<or> operator c = Op_notin then ''Values (comma-separated)'' else ''Value''),
            Inp False (join_with '','' (cond_values c)) (E_Values i j)]
         @ show_if (1 < n) [Btn False (E_RemoveCondition i j) []])"

definition rule_body :: "FlagType \<Rightarrow> nat \<Rightarrow> TargetingRule \<Rightarrow> edit_h ui" where
  "rule_body t i r =
     El ([Txt ''Rule name'', Inp False (rule_name r) (E_RuleName i),
          Txt ''Conditions'', Txt ''(all must match)'']
         @ show_if (conditions r \<noteq> []) [Btn False (E_AddCondition i) [Txt ''+ Add condition'']]
         @ map (\<lambda>j. condition_view i j (length (conditions r)) (conditions r ! j)) [0..<length (conditions r)]
         @ [Txt ''Then return this value'',
            value_input t (rule_value r) [(''true'', ''true (on)''), (''false'', ''false (off)'')] (E_RuleValue i),
            Btn False (E_RemoveRule i) [Txt ''Remove rule'']])"

definition rule_view :: "edit \<Rightarrow> nat \<Rightarrow> TargetingRule \<Rightarrow> edit_h ui" where
  "rule_view s i r =
     (let isExpanded = (ed_expanded s = Some i) in
      El ([Btn False (E_Expand i)
             ([Txt (show_nat (i + 1)), Txt (or_str (rule_name r) (''Rule '' @ show_nat (i + 1)))]
              @ show_if (\<not> isExpanded)
                  [Txt (''If '' @ or_str (conditionSummary r) ''...'' @ '' -> '' @ or_str (rule_value r) ''?'')])]
          @ show_if isExpanded [rule_body (ff_type (ed_flag s)) i r]))"

definition edit_rules_view :: "edit \<Rightarrow> edit_h ui" where
  "edit_rules_view s =
     (let rules = edit_rules s in
      El ([Txt ''Targeting Rules'', Txt ''(optional)'', Btn False E_Help []]
          @ show_if (ed_help s) [rules_help]
          @ (if rules = []
             then [El [Txt ''No rules - all workloads get the default value'', Txt (ef_defaultValue (ed_form s))],
                   Btn False E_AddRule [Txt ''Add a targeting rule'']]
             else map (\<lambda>i. rule_view s i (rules ! i)) [0..<length rules]
                  @ [Btn False E_AddRule [Txt ''Add another rule''],
                     Txt ''Evaluation order:'']
                  @ map (\<lambda>i. Txt (show_nat (i + 1) @ ''. '' @ or_str (rule_name (rules ! i)) (''Rule '' @ show_nat (i + 1))
                                  @ '' -> '' @ or_str (rule_value (rules ! i)) ''?'')) [0..<length rules]
                  @ [Txt (''Otherwise -> '' @ ef_defaultValue (ed_form s) @ '' (default)'')])))"

definition save_message :: "edit \<Rightarrow> string" where
  "save_message s =
     (let n = length (ed_rules s) in
      ''Apply changes to '' @ [CHR 0x22] @ ff_name (ed_flag s) @ [CHR 0x22]
      @ ''? This will update the flag across all targeted workloads''
      @ (if 0 < n then '' with '' @ show_nat n @ '' targeting rule'' @ (if 1 < n then ''s'' else []) else [])
      @ ''.'')"

definition edit_view :: "edit \<Rightarrow> edit_h ui" where
  "edit_view s =
     El ([edit_header s,
          Form E_Save
            ([edit_value_view s, edit_delivery_view s, edit_rules_view s]
             @ (case ed_mutation s of MutError msg \<Rightarrow> [Txt msg] | _ \<Rightarrow> [])
             @ [El [Btn False E_Close [Txt ''Cancel''],
                    SubmitBtn (ed_mutation s = MutPending)
                      [Txt (if ed_mutation s = MutPending then ''Saving...'' else ''Save Changes'')]]])]
         @ show_if (ed_confirm s)
             [map_ui E_Confirm (ConfirmModal ''Save Changes'' (save_message s) (Some ''Save Changes'') None)])"

section \<open>Handlers\<close>

definition method_of :: "string \<Rightarrow> DeliveryMethod" where
  "method_of v =
     (if v = ''envVar'' then M_envVar else if v = ''configMap'' then M_configMap
      else if v = ''sidecar'' then M_sidecar else M_none)"

definition operator_of :: "string \<Rightarrow> Operator" where
  "operator_of v =
     (if v = ''eq'' then Op_eq else if v = ''neq'' then Op_neq else if v = ''in'' then Op_in
      else if v = ''notin'' then Op_notin else Op_matches)"

definition upd_edit :: "(edit_form \<Rightarrow> edit_form) \<Rightarrow> edit \<Rightarrow> edit" where
  "upd_edit u s = s\<lparr>ed_form := u (ed_form s)\<rparr>"

definition edit_save :: "edit \<Rightarrow> edit" where
  "edit_save s =
     s\<lparr>ed_confirm := False, ed_mutation := MutPending,
       ed_sent := update_payload (ff_name (ed_flag s)) (ed_form s) (edit_rules s) # ed_sent s\<rparr>"

definition edit_handle :: "edit_h act \<Rightarrow> edit \<Rightarrow> edit" where
  "edit_handle a s =
     (case a of
        Click E_Close \<Rightarrow> s\<lparr>ed_closed := True\<rparr>
      | Submit E_Save \<Rightarrow> s\<lparr>ed_confirm := True\<rparr>
      | Choose E_Default v \<Rightarrow> upd_edit (\<lambda>f. f\<lparr>ef_defaultValue := v\<rparr>) s
      | Enter E_Default v \<Rightarrow> upd_edit (\<lambda>f. f\<lparr>ef_defaultValue := v\<rparr>) s
      | Tick E_Disabled b \<Rightarrow> upd_edit (\<lambda>f. f\<lparr>ef_disabled := b\<rparr>) s
      | Enter E_Description v \<Rightarrow> upd_edit (\<lambda>f. f\<lparr>ef_description := v\<rparr>) s
      | Choose E_Method v \<Rightarrow> upd_edit (\<lambda>f. f\<lparr>ef_deliveryMethod := method_of v\<rparr>) s
      | Enter E_Selector v \<Rightarrow> upd_edit (\<lambda>f. f\<lparr>ef_selectorLabels := v\<rparr>) s
      | Enter E_EnvVar v \<Rightarrow> upd_edit (\<lambda>f. f\<lparr>ef_envVarName := v\<rparr>) s
      | Enter E_CmName v \<Rightarrow> upd_edit (\<lambda>f. f\<lparr>ef_configMapName := v\<rparr>) s
      | Enter E_CmKey v \<Rightarrow> upd_edit (\<lambda>f. f\<lparr>ef_configMapKey := v\<rparr>) s
      | Click E_Help \<Rightarrow> s\<lparr>ed_help := \<not> ed_help s\<rparr>
      | Click E_AddRule \<Rightarrow> addRule s
      | Click (E_Expand i) \<Rightarrow> s\<lparr>ed_expanded := (if ed_expanded s = Some i then None else Some i)\<rparr>
      | Enter (E_RuleName i) v \<Rightarrow> updateRule i (\<lambda>r. r\<lparr>rule_name := v\<rparr>) s
      | Click (E_AddCondition i) \<Rightarrow> addCondition i s
      | Choose (E_Attribute i j) v \<Rightarrow> updateCondition i j (\<lambda>c. c\<lparr>attribute := v\<rparr>) s
      | Choose (E_Operator i j) v \<Rightarrow> updateCondition i j (\<lambda>c. c\<lparr>operator := operator_of v\<rparr>) s
      | Enter (E_Values i j) v \<Rightarrow> updateCondition i j (\<lambda>c. c\<lparr>cond_values := split_on CHR '','' v\<rparr>) s
      | Click (E_RemoveCondition i j) \<Rightarrow> removeCondition i j s
      | Choose (E_RuleValue i) v \<Rightarrow> updateRule i (\<lambda>r. r\<lparr>rule_value := v\<rparr>) s
      | Enter (E_RuleValue i) v \<Rightarrow> updateRule i (\<lambda>r. r\<lparr>rule_value := v\<rparr>) s
      | Click (E_RemoveRule i) \<Rightarrow> removeRule i s
      | Click (E_Confirm CM_Cancel) \<Rightarrow> s\<lparr>ed_confirm := False\<rparr>
      | Click (E_Confirm CM_Confirm) \<Rightarrow> edit_save s
      | _ \<Rightarrow> s)"

definition edit_result :: "web_env \<Rightarrow> jsval res \<Rightarrow> edit \<Rightarrow> edit" where
  "edit_result W r s =
     (case r of
        Inl e \<Rightarrow> s\<lparr>ed_mutation := MutError (err_message W e)\<rparr>
      | Inr _ \<Rightarrow> s\<lparr>ed_mutation := MutDone, ed_closed := True\<rparr>)"

datatype edit_event = EUser "edit_h act" | EResult "jsval res"

definition edit_enabled :: "edit \<Rightarrow> edit_event \<Rightarrow> bool" where
  "edit_enabled s e \<longleftrightarrow> \<not> ed_closed s \<and>
     (case e of EUser a \<Rightarrow> offers (edit_view s) a | EResult r \<Rightarrow> ed_mutation s = MutPending)"

definition edit_step :: "web_env \<Rightarrow> edit \<Rightarrow> edit_event \<Rightarrow> edit" where
  "edit_step W s e = (case e of EUser a \<Rightarrow> edit_handle a s | EResult r \<Rightarrow> edit_result W r s)"

end
