(* ===== verification/EditFlagProps.thy ===== *)
theory EditFlagProps
  imports EditFlag
begin

text \<open>
  Properties of the edit modal: the rule editor on shared objects against its
  specification on lists, what is sent and when, what the server keeps after a save, and
  that cancelling does not undo changes to the rules.
\<close>

section \<open>The rules as values\<close>

text \<open>
  The specification of the rule editor: a list of rules, one of them replaced, a new one
  added at the end, one removed. The operations on the shared store implement it as long
  as the addresses are distinct and in the store.
\<close>

definition edit_inv :: "edit \<Rightarrow> bool" where
  "edit_inv s \<longleftrightarrow> distinct (ed_rules s) \<and> set (ed_rules s) \<subseteq> {..<length (ed_store s)}
     \<and> set (ed_cache s) \<subseteq> {..<length (ed_store s)}
     \<and> \<not> (ed_confirm s \<and> ed_mutation s = MutPending)"

lemma distinct_drop_nth: "distinct xs \<Longrightarrow> distinct (drop_nth i xs)"
  using set_take_disj_set_drop_if_distinct [of xs i "Suc i"] by (simp add: drop_nth_def)

lemma set_drop_nth: "set (drop_nth i xs) \<subseteq> set xs"
  by (auto simp: drop_nth_def dest: in_set_takeD in_set_dropD)

lemma map_drop_nth: "map f (drop_nth i xs) = drop_nth i (map f xs)"
  by (simp add: drop_nth_def take_map drop_map)

lemma update_rule_value:
  assumes "edit_inv s" and "i < length (ed_rules s)"
  shows "edit_rules (updateRule i u s) = (edit_rules s)[i := u (edit_rules s ! i)]"
proof (rule nth_equalityI)
  show "length (edit_rules (updateRule i u s)) = length ((edit_rules s)[i := u (edit_rules s ! i)])"
    by (simp add: edit_rules_def updateRule_def Let_def)
  fix k assume "k < length (edit_rules (updateRule i u s))"
  then have k: "k < length (ed_rules s)" by (simp add: edit_rules_def updateRule_def Let_def)
  have lt: "ed_rules s ! i < length (ed_store s)"
    using assms nth_mem [OF assms(2)] by (auto simp: edit_inv_def simp del: nth_mem)
  show "edit_rules (updateRule i u s) ! k = (edit_rules s)[i := u (edit_rules s ! i)] ! k"
  proof (cases "k = i")
    case True
    then show ?thesis using k lt by (simp add: edit_rules_def updateRule_def Let_def)
  next
    case False
    then have "ed_rules s ! i \<noteq> ed_rules s ! k"
      using assms k by (auto simp: edit_inv_def nth_eq_iff_index_eq)
    with False k show ?thesis by (simp add: edit_rules_def updateRule_def Let_def)
  qed
qed

lemma add_rule_value:
  assumes "edit_inv s"
  shows "\<exists>r. edit_rules (addRule s) = edit_rules s @ [r]
    \<and> conditions r = [new_condition ''label:tier''] \<and> cached_rules (addRule s) = cached_rules s"
proof -
  have "map ((!) (ed_store s @ [r])) (ed_rules s) = map ((!) (ed_store s)) (ed_rules s)"
    "map ((!) (ed_store s @ [r])) (ed_cache s) = map ((!) (ed_store s)) (ed_cache s)" for r
    using assms by (auto simp: edit_inv_def nth_append subset_iff)
  then show ?thesis by (auto simp: edit_rules_def cached_rules_def addRule_def Let_def)
qed

lemma remove_rule_value: "edit_rules (removeRule i s) = drop_nth i (edit_rules s)"
  by (simp add: edit_rules_def removeRule_def map_drop_nth)

section \<open>Invariant\<close>

lemma edit_inv_frame [simp]:
  "edit_inv (s\<lparr>ed_form := x\<rparr>) = edit_inv s" "edit_inv (s\<lparr>ed_expanded := y\<rparr>) = edit_inv s"
  "edit_inv (s\<lparr>ed_help := z\<rparr>) = edit_inv s" "edit_inv (s\<lparr>ed_closed := w\<rparr>) = edit_inv s"
  "edit_inv (s\<lparr>ed_sent := v\<rparr>) = edit_inv s"
  by (simp_all add: edit_inv_def)

lemma inv_rules:
  assumes "edit_inv s"
  shows "edit_inv (addRule s)" and "edit_inv (removeRule i s)" and "edit_inv (updateRule i u s)"
    and "edit_inv (upd_edit v s)"
proof -
  show "edit_inv (addRule s)"
    using assms by (auto simp: edit_inv_def addRule_def Let_def)
  show "edit_inv (removeRule i s)"
    using assms set_drop_nth [of i "ed_rules s"] distinct_drop_nth
    by (auto simp: edit_inv_def removeRule_def)
  show "edit_inv (updateRule i u s)"
    using assms by (simp add: edit_inv_def updateRule_def Let_def)
  show "edit_inv (upd_edit v s)"
    using assms by (simp add: upd_edit_def)
qed

lemma inv_conditions:
  assumes "edit_inv s"
  shows "edit_inv (updateCondition i j w s)" and "edit_inv (addCondition i s)" and "edit_inv (removeCondition i j s)"
  using assms by (simp_all add: updateCondition_def addCondition_def removeCondition_def inv_rules)

text \<open>Which parts of the view can save.\<close>

lemma value_input_simps [simp]:
  "set_ui (value_input t v opts h) = {h}" "\<not> can_submit (value_input t v opts h)"
  by (simp_all add: value_input_def)

lemma condition_view_ui:
  "E_Confirm h \<notin> set_ui (condition_view i j n c)" "E_Save \<notin> set_ui (condition_view i j n c)"
  "\<not> can_submit (condition_view i j n c)"
  by (simp_all add: condition_view_def)

lemma rule_view_ui:
  "E_Confirm h \<notin> set_ui (rule_view s i r)" "E_Save \<notin> set_ui (rule_view s i r)" "\<not> can_submit (rule_view s i r)"
  by (auto simp: rule_view_def rule_body_def Let_def condition_view_ui ball_if_list_ex)

lemma edit_parts_ui:
  "E_Confirm h \<notin> set_ui (edit_rules_view s)" "E_Save \<notin> set_ui (edit_rules_view s)"
  "\<not> can_submit (edit_rules_view s)"
  "E_Confirm h \<notin> set_ui (edit_delivery_view s)" "E_Save \<notin> set_ui (edit_delivery_view s)"
  "\<not> can_submit (edit_delivery_view s)"
  "E_Confirm h \<notin> set_ui (edit_value_view s)" "E_Save \<notin> set_ui (edit_value_view s)"
  "\<not> can_submit (edit_value_view s)"
  by (auto simp: edit_rules_view_def rules_help_def Let_def rule_view_ui ball_if_list_ex
      edit_delivery_view_def edit_value_view_def)

lemma parts_offer:
  "\<not> offers (edit_rules_view s) (Click (E_Confirm h))" "\<not> offers (edit_rules_view s) (Submit E_Save)"
  "\<not> offers (edit_delivery_view s) (Click (E_Confirm h))" "\<not> offers (edit_delivery_view s) (Submit E_Save)"
  "\<not> offers (edit_value_view s) (Click (E_Confirm h))" "\<not> offers (edit_value_view s) (Submit E_Save)"
  by (auto dest!: offers_set_ui simp: edit_parts_ui)

lemma edit_submit: "offers (edit_view s) (Submit E_Save) \<Longrightarrow> ed_mutation s \<noteq> MutPending"
  by (auto simp: edit_view_def edit_header_def Let_def parts_offer edit_parts_ui offers_map_ui confirm_offers
      split: if_splits mutation.splits)

lemma edit_confirm_offered: "offers (edit_view s) (Click (E_Confirm h)) \<Longrightarrow> ed_confirm s"
  by (auto simp: edit_view_def edit_header_def Let_def parts_offer offers_map_ui confirm_offers
      split: if_splits mutation.splits)

lemma edit_handle_inv:
  assumes "edit_inv s" and "offers (edit_view s) a"
  shows "edit_inv (edit_handle a s)"
proof -
  have "edit_inv (s\<lparr>ed_confirm := True\<rparr>)" if "a = Submit E_Save"
    using assms edit_submit that by (simp add: edit_inv_def)
  moreover have "edit_inv (s\<lparr>ed_confirm := False\<rparr>)" "edit_inv (edit_save s)"
    using assms(1) by (simp_all add: edit_inv_def edit_save_def)
  ultimately show ?thesis
    using assms(1) inv_rules inv_conditions
    by (simp add: edit_handle_def split: act.split edit_h.split confirm_h.split)
qed

interpretation edit_m: guarded_machine edit_enabled "edit_step W" edit_inv for W
proof
  fix s e
  assume i: "edit_inv s" and en: "edit_enabled s e"
  show "edit_inv (edit_step W s e)"
  proof (cases e)
    case (EUser a)
    then show ?thesis using i en edit_handle_inv by (simp add: edit_step_def edit_enabled_def)
  next
    case (EResult r)
    then show ?thesis
      using i by (cases r) (simp_all add: edit_step_def edit_result_def edit_inv_def)
  qed
qed

lemma edit_init_inv: "edit_inv (edit_init flag)"
  by (auto simp: edit_inv_def edit_init_def Let_def)


definition demo_rule :: TargetingRule where
  "demo_rule = \<lparr>rule_name = ''premium'', conditions = [new_condition ''label:tier''], rule_value = ''true'',
     percentage = None\<rparr>"

definition demo_flag :: FeatureFlag where
  "demo_flag = \<lparr>ff_name = ''dark-mode'', ff_namespace = ''default'', ff_clusterId = ''local'',
     ff_description = None, ff_type = Boolean, ff_defaultValue = ''false'', ff_currentValue = ''false'',
     ff_phase = Some Active, ff_disabled = False, ff_targetedWorkloads = 2, ff_lifecycle = LifeActive,
     ff_delivery = Some \<lparr>envVar = Some \<lparr>ev_name = None, ev_selector = \<lparr>matchLabels = Some [(''app'', ''web'')]\<rparr>\<rparr>,
                         configMap = None, sidecar = None\<rparr>,
     ff_rules = Some [demo_rule], ff_createdAt = ''2024-01-01'', ff_updatedAt = None\<rparr>"


text \<open>C29 (edit_saves_confirmed). In every session of the modal a request is sent only when the user confirms the dialog, which is open only while no request is under way, and it carries the form and the rules as they are then.\<close>

theorem edit_saves_confirmed:
  assumes "run edit_enabled (edit_step W) (edit_init flag) s" and "edit_enabled s e"
    and "ed_sent (edit_step W s e) \<noteq> ed_sent s"
  shows "e = EUser (Click (E_Confirm CM_Confirm)) \<and> ed_confirm s \<and> ed_mutation s \<noteq> MutPending
    \<and> ed_sent (edit_step W s e)
      = update_payload (ff_name (ed_flag s)) (ed_form s) (edit_rules s) # ed_sent s"
proof -
  have i: "edit_inv s" using edit_m.run_inv [OF assms(1) edit_init_inv] .
  have "ed_sent (updateRule k u s) = ed_sent s" "ed_sent (addRule s) = ed_sent s"
    "ed_sent (removeRule k s) = ed_sent s" for k u
    by (simp_all add: updateRule_def addRule_def removeRule_def Let_def)
  then have "a = Click (E_Confirm CM_Confirm)" if "ed_sent (edit_handle a s) \<noteq> ed_sent s" for a
    using that
    by (auto simp: edit_handle_def upd_edit_def updateCondition_def addCondition_def removeCondition_def
        split: act.splits edit_h.splits confirm_h.splits)
  then have e: "e = EUser (Click (E_Confirm CM_Confirm))"
    using assms(3) by (cases e) (auto simp: edit_step_def edit_result_def split: sum.splits)
  then have "offers (edit_view s) (Click (E_Confirm CM_Confirm))" using assms(2) by (simp add: edit_enabled_def)
  then have "ed_confirm s" by (rule edit_confirm_offered)
  then show ?thesis
    using e i by (simp add: edit_step_def edit_handle_def edit_save_def edit_inv_def)
qed

theorem edit_saves_confirmed_witness:
  "\<exists>s. exec_events edit_enabled (edit_step quiet_env) (edit_init demo_flag) [EUser (Submit E_Save)] = Some s
     \<and> ed_sent (edit_step quiet_env s (EUser (Click (E_Confirm CM_Confirm))))
        = [update_payload ''dark-mode'' (initial_form demo_flag) [demo_rule]]"
proof -
  let ?s = "(edit_init demo_flag)\<lparr>ed_confirm := True\<rparr>"
  let ?e = "EUser (Click (E_Confirm CM_Confirm)) :: edit_event"
  have r: "exec_events edit_enabled (edit_step quiet_env) (edit_init demo_flag) [EUser (Submit E_Save)] = Some ?s"
    by code_simp
  have en: "edit_enabled ?s ?e" by code_simp
  have n: "ed_sent ?s = []" "edit_rules ?s = [demo_rule]" "ff_name (ed_flag ?s) = ''dark-mode''"
    "ed_form ?s = initial_form demo_flag"
    by (simp_all add: edit_rules_def edit_init_def demo_flag_def flag_rules_def Let_def)
  have c: "ed_sent (edit_step quiet_env ?s ?e) \<noteq> ed_sent ?s"
    by (simp add: edit_step_def edit_handle_def edit_save_def)
  have d: "ed_sent (edit_step quiet_env ?s ?e) = [update_payload ''dark-mode'' (initial_form demo_flag) [demo_rule]]"
    using edit_saves_confirmed [OF exec_events_run [OF r] en c] n by simp
  show ?thesis by (rule exI [of _ ?s], rule conjI [OF r d])
qed

text \<open>Cancelling does not discard the changes made to the rules: in this session the user renames a rule and cancels, nothing is ever sent, and the flag in the query cache has the new name.\<close>

theorem edit_cancel_leaks:
  "\<exists>s. exec_events edit_enabled (edit_step W) (edit_init demo_flag)
        [EUser (Enter (E_RuleName 0) ''vip''), EUser (Click E_Close)] = Some s
     \<and> ed_closed s \<and> ed_sent s = [] \<and> map rule_name (cached_rules s) = [''vip'']
     \<and> map rule_name (cached_rules (edit_init demo_flag)) = [''premium'']"
proof -
  let ?s = "(edit_init demo_flag)\<lparr>ed_store := [demo_rule\<lparr>rule_name := ''vip''\<rparr>], ed_closed := True\<rparr>"
  have r: "exec_events edit_enabled (edit_step W) (edit_init demo_flag)
        [EUser (Enter (E_RuleName 0) ''vip''), EUser (Click E_Close)] = Some ?s"
    by code_simp
  have d: "ed_closed ?s \<and> ed_sent ?s = [] \<and> map rule_name (cached_rules ?s) = [''vip'']
     \<and> map rule_name (cached_rules (edit_init demo_flag)) = [''premium'']"
    by code_simp
  show ?thesis by (rule exI [of _ ?s], rule conjI [OF r d])
qed

section \<open>What the server keeps after a save\<close>

text \<open>
  The specification of a flag as the API server stores it, and how its \<open>Update\<close> handler
  (\<open>internal/apiserver/handlers/flags.go\<close>) merges a decoded body: a member that is
  absent or \<open>null\<close> leaves the stored field alone.
\<close>

record server_flag =
  sv_description :: string
  sv_defaultValue :: string
  sv_disabled :: bool
  sv_delivery :: jsval
  sv_rules :: jsval

definition given_member :: "string \<Rightarrow> (string \<times> jsval) list \<Rightarrow> jsval option" where
  "given_member k body =
     (case map_of body k of None \<Rightarrow> None | Some v \<Rightarrow> if v = JNull then None else Some v)"

definition merge_update :: "(string \<times> jsval) list \<Rightarrow> server_flag \<Rightarrow> server_flag" where
  "merge_update body flag =
     \<lparr>sv_description = (case given_member ''description'' body of Some (JStr d) \<Rightarrow> d | _ \<Rightarrow> sv_description flag),
      sv_defaultValue = (case given_member ''defaultValue'' body of Some (JStr v) \<Rightarrow> v | _ \<Rightarrow> sv_defaultValue flag),
      sv_disabled = (case given_member ''disabled'' body of Some (JBool b) \<Rightarrow> b | _ \<Rightarrow> sv_disabled flag),
      sv_delivery = (case given_member ''delivery'' body of Some v \<Rightarrow> v | None \<Rightarrow> sv_delivery flag),
      sv_rules = (case given_member ''rules'' body of Some v \<Rightarrow> v | None \<Rightarrow> sv_rules flag)\<rparr>"

definition rule_ok :: "TargetingRule \<Rightarrow> bool" where
  "rule_ok r \<longleftrightarrow> (case percentage r of None \<Rightarrow> True | Some p \<Rightarrow> \<bar>p\<bar> < 10 ^ 21)"

lemma clean_elems_map: "(\<And>x. x \<in> set xs \<Longrightarrow> \<not> absent (f x)) \<Longrightarrow> clean_elems (map f xs) = map (json_clean \<circ> f) xs"
  by (induction xs) simp_all

lemma not_absent_simps [simp]: "\<not> absent (JBool b)" "\<not> absent (JArr vs)" "\<not> absent (JNum n)"
  by (simp_all add: absent_def)

lemma condition_json_ok: "json_ok (condition_json c) \<and> json_clean (condition_json c) = condition_json c \<and> \<not> absent (condition_json c)"
proof -
  have "clean_elems (map JStr vs) = map JStr vs" "list_all json_ok (map JStr vs)" for vs
    by (induction vs) simp_all
  then show ?thesis by (simp add: condition_json_def obj_eval)
qed

lemma rule_json_ok: "rule_ok r \<Longrightarrow> json_ok (json_clean (rule_json r)) \<and> \<not> absent (rule_json r)"
proof -
  assume r: "rule_ok r"
  have "clean_elems (map condition_json cs) = map condition_json cs"
    "list_all json_ok (map condition_json cs)" for cs
    using condition_json_ok by (induction cs) simp_all
  then show ?thesis
    using r by (cases "percentage r") (simp_all add: rule_json_def rule_ok_def obj_eval)
qed

lemma rules_json_ok:
  "list_all rule_ok rs \<Longrightarrow> json_clean (JArr (map rule_json rs)) = JArr (map (json_clean \<circ> rule_json) rs)
     \<and> json_ok (JArr (map (json_clean \<circ> rule_json) rs))"
  using rule_json_ok by (induction rs) (simp_all add: list_all_iff)

definition sent_update :: "string \<Rightarrow> edit_form \<Rightarrow> TargetingRule list \<Rightarrow> (string \<times> jsval) list" where
  "sent_update n f rs =
     (if ef_description f = [] then [] else [(''description'', JStr (ef_description f))])
     @ [(''defaultValue'', JStr (ef_defaultValue f)), (''disabled'', JBool (ef_disabled f))]
     @ (if edit_delivery n f = [] then [] else [(''delivery'', JObj (clean_members (edit_delivery n f)))])
     @ (if rs = [] then [] else [(''rules'', JArr (map (json_clean \<circ> rule_json) rs))])"

lemma clean_update:
  assumes "list_all rule_ok rs"
  shows "json_clean (update_payload n f rs) = JObj (sent_update n f rs)"
  using rules_json_ok [OF assms]
  by (simp add: update_payload_def sent_update_def delivery_or_undefined_def)

lemma sent_update_ok:
  assumes "list_all rule_ok rs" and "json_ok (JObj (clean_members (edit_delivery n f)))"
  shows "json_ok (JObj (sent_update n f rs))"
  using assms rules_json_ok [OF assms(1)]
  by (simp add: sent_update_def obj_eval)

lemma edit_body_parses:
  assumes "list_all rule_ok rs" and "ls = [] \<or> label_dict ls" and "ef_selectorLabels f = format_labels ls"
  obtains body where "in_body (json_init ''PUT'' (update_payload n f rs)) = Some body"
    "json_parse body = Inr (JObj (sent_update n f rs))"
proof -
  have d: "json_ok (JObj (clean_members (edit_delivery n f)))"
    unfolding edit_delivery_def using delivery_ok [OF assms(2,3)] .
  have ok: "json_ok (json_clean (update_payload n f rs))"
    unfolding clean_update [OF assms(1)] using sent_update_ok [OF assms(1) d] .
  obtain body where b: "json_stringify (update_payload n f rs) = Some body"
    by (simp add: update_payload_def)
  then show ?thesis
    using that json_body [OF ok b] clean_update [OF assms(1)] by (simp add: json_init_def)
qed

text \<open>After a save the server's flag has the default value and the kill switch of the form; its description, delivery and rules are those of the modal only if these are not empty: clearing the description, choosing no delivery (or emptying the labels of an environment variable) and removing all rules leave the old ones in force.\<close>

theorem edit_save_effect:
  assumes "list_all rule_ok rs" and "ls = [] \<or> label_dict ls" and "ef_selectorLabels f = format_labels ls"
  shows "\<exists>body ms. in_body (json_init ''PUT'' (update_payload n f rs)) = Some body
    \<and> json_parse body = Inr (JObj ms)
    \<and> merge_update ms old =
      \<lparr>sv_description = (if ef_description f = [] then sv_description old else ef_description f),
       sv_defaultValue = ef_defaultValue f,
       sv_disabled = ef_disabled f,
       sv_delivery = (if edit_delivery n f = [] then sv_delivery old
                      else JObj (clean_members (edit_delivery n f))),
       sv_rules = (if rs = [] then sv_rules old else JArr (map (json_clean \<circ> rule_json) rs))\<rparr>"
proof -
  obtain body where b: "in_body (json_init ''PUT'' (update_payload n f rs)) = Some body"
    "json_parse body = Inr (JObj (sent_update n f rs))"
    using edit_body_parses [OF assms] by blast
  show ?thesis
    by (intro exI conjI, rule b(1), rule b(2)) (auto simp: merge_update_def sent_update_def given_member_def)
qed

definition old_spec :: server_flag where
  "old_spec = \<lparr>sv_description = ''old'', sv_defaultValue = ''false'', sv_disabled = False,
     sv_delivery = JNull, sv_rules = JArr [json_clean (rule_json demo_rule)]\<rparr>"

theorem edit_save_effect_witness:
  "\<exists>body ms. in_body (json_init ''PUT'' (update_payload ''dark-mode''
        ((initial_form demo_flag)\<lparr>ef_description := []\<rparr>) [])) = Some body
    \<and> json_parse body = Inr (JObj ms)
    \<and> sv_description (merge_update ms old_spec) = ''old''
    \<and> sv_rules (merge_update ms old_spec) = JArr [json_clean (rule_json demo_rule)]"
proof -
  let ?f = "(initial_form demo_flag)\<lparr>ef_description := []\<rparr>"
  have l: "[(''app'', ''web'')] = [] \<or> label_dict [(''app'', ''web'')]" by code_simp
  have t: "ef_selectorLabels ?f = format_labels [(''app'', ''web'')]" by code_simp
  have f: "ef_description ?f = []" by simp
  show ?thesis
    using edit_save_effect [of "[]", OF _ l t, of "''dark-mode''" old_spec] f
    by (auto simp: old_spec_def)
qed

text \<open>Opening the modal and saving sends back the labels the flag has: for an environment variable or a ConfigMap with Kubernetes labels the delivery of the initial form is the one of the flag; for a sidecar the labels are not shown and no delivery is sent.\<close>

theorem edit_unchanged_delivery:
  assumes "label_dict ls"
  shows "(opt_delivery envVar flag = Some \<lparr>ev_name = nm, ev_selector = \<lparr>matchLabels = Some ls\<rparr>\<rparr>
      \<longrightarrow> edit_delivery (ff_name flag) (initial_form flag)
        = [(''envVar'', JObj [(''name'', if opt_str nm [] = [] then JUndef else JStr (opt_str nm [])),
                              (''selector'', selector_json (labels_json ls))])])
    \<and> (opt_delivery envVar flag = None \<and> cm \<noteq> []
        \<and> opt_delivery configMap flag
          = Some \<lparr>cm_configMapName = cm, cm_key = k, cm_selector = \<lparr>matchLabels = Some ls\<rparr>\<rparr>
      \<longrightarrow> edit_delivery (ff_name flag) (initial_form flag)
        = [(''configMap'', JObj [(''configMapName'', JStr cm), (''key'', JStr (or_str k (ff_name flag))),
                                 (''selector'', selector_json (labels_json ls))])])
    \<and> (opt_delivery envVar flag = None \<and> opt_delivery configMap flag = None
      \<longrightarrow> ef_selectorLabels (initial_form flag) = []
        \<and> edit_delivery (ff_name flag) (initial_form flag) = [])"
proof -
  have "opt_str (Some x) [] = x" "opt_str None [] = []" for x
    by (simp_all add: opt_str_def or_str_def)
  then show ?thesis
    using parse_format_labels [OF assms] format_labels_not_Nil [OF assms]
    by (auto simp: edit_delivery_def initial_form_def initial_method_def initial_labels_def
        delivery_members_def or_str_def)
qed

theorem edit_unchanged_delivery_witness:
  "edit_delivery ''dark-mode'' (initial_form demo_flag)
     = [(''envVar'', JObj [(''name'', JUndef), (''selector'', selector_json (labels_json [(''app'', ''web'')]))])]"
proof -
  have l: "label_dict [(''app'', ''web'')]" by code_simp
  have o: "opt_str None [] = []" by (simp add: opt_str_def or_str_def)
  show ?thesis
    using edit_unchanged_delivery [OF l, of demo_flag None "[]" "[]"] o
    by (simp add: opt_delivery_def demo_flag_def)
qed

end
