(* ===== verification/Utils.thy ===== *)
theory Utils
  imports JsString "HOL-Library.Product_Lexorder"
begin

text \<open>
  \<open>timeAgo\<close> of \<open>web/src/lib/utils.ts\<close>. The clock and the parsed date are arguments, in
  milliseconds; a text that is not a date parses to \<open>NaN\<close>, here \<open>None\<close>. Its
  specification is the unit and the whole number of units it prints, with units ordered
  by size.
\<close>

definition timeAgo :: "int \<Rightarrow> int option \<Rightarrow> string" where
  "timeAgo now date =
     (case date of
        None \<Rightarrow> ''NaNd ago''
      | Some t \<Rightarrow>
          let seconds = (now - t) div 1000
          in if seconds < 60 then show_int seconds @ ''s ago''
             else if seconds < 3600 then show_int (seconds div 60) @ ''m ago''
             else if seconds < 86400 then show_int (seconds div 3600) @ ''h ago''
             else show_int (seconds div 86400) @ ''d ago'')"

section \<open>Units of time\<close>

datatype time_unit = Secs | Mins | Hours | Days

fun unit_secs :: "time_unit \<Rightarrow> int" where
  "unit_secs Secs = 1"
| "unit_secs Mins = 60"
| "unit_secs Hours = 3600"
| "unit_secs Days = 86400"

fun unit_suffix :: "time_unit \<Rightarrow> string" where
  "unit_suffix Secs = ''s ago''"
| "unit_suffix Mins = ''m ago''"
| "unit_suffix Hours = ''h ago''"
| "unit_suffix Days = ''d ago''"

instantiation time_unit :: linorder
begin

definition less_eq_time_unit :: "time_unit \<Rightarrow> time_unit \<Rightarrow> bool" where
  "less_eq_time_unit a b \<longleftrightarrow> unit_secs a \<le> unit_secs b"

definition less_time_unit :: "time_unit \<Rightarrow> time_unit \<Rightarrow> bool" where
  "less_time_unit a b \<longleftrightarrow> unit_secs a < unit_secs b"

instance
proof
  fix a b c :: time_unit
  show "a < b \<longleftrightarrow> a \<le> b \<and> \<not> b \<le> a" by (auto simp: less_eq_time_unit_def less_time_unit_def)
  show "a \<le> a" by (simp add: less_eq_time_unit_def)
  show "a \<le> b \<Longrightarrow> b \<le> c \<Longrightarrow> a \<le> c" by (simp add: less_eq_time_unit_def)
  show "a \<le> b \<Longrightarrow> b \<le> a \<Longrightarrow> a = b" by (cases a; cases b; simp add: less_eq_time_unit_def)
  show "a \<le> b \<or> b \<le> a" by (auto simp: less_eq_time_unit_def)
qed

end

definition ago_unit :: "int \<Rightarrow> time_unit" where
  "ago_unit s = (if s < 60 then Secs else if s < 3600 then Mins else if s < 86400 then Hours else Days)"

definition ago_parts :: "int \<Rightarrow> time_unit \<times> int" where
  "ago_parts s = (ago_unit s, s div unit_secs (ago_unit s))"

lemma timeAgo_parts:
  "timeAgo now (Some t) = (let (u, n) = ago_parts ((now - t) div 1000) in show_int n @ unit_suffix u)"
  by (simp add: timeAgo_def ago_parts_def ago_unit_def Let_def)

lemma unit_less [simp]:
  "(Secs < u) = (u \<noteq> Secs)" "(Mins < u) = (u = Hours \<or> u = Days)" "(Hours < u) = (u = Days)" "\<not> Days < u"
  by (cases u; simp add: less_time_unit_def)+

lemma ago_parts_mono: "s \<le> s' \<Longrightarrow> ago_parts s \<le> ago_parts s'"
  by (auto simp: ago_parts_def ago_unit_def intro: zdiv_mono1)

lemma ago_parts_bounds:
  "ago_parts s = (u, n) \<Longrightarrow> n * unit_secs u \<le> s \<and> s < (n + 1) * unit_secs u"
proof -
  assume "ago_parts s = (u, n)"
  then have n: "n = s div unit_secs u" by (auto simp: ago_parts_def)
  have p: "0 < unit_secs u" by (cases u) simp_all
  have "s = s div unit_secs u * unit_secs u + s mod unit_secs u" by simp
  moreover have "0 \<le> s mod unit_secs u" "s mod unit_secs u < unit_secs u" using p by simp_all
  ultimately show ?thesis unfolding n distrib_right mult_1 by linarith
qed

text \<open>C40 (timeAgo_sound). The age shown for a date is a whole number of seconds, minutes, hours or days that the real age reaches and does not exceed by a full unit; an older date never shows a smaller age (units compared first).\<close>

theorem timeAgo_sound:
  assumes "t \<le> t'"
  shows "\<exists>u n u' n'. timeAgo now (Some t) = show_int n @ unit_suffix u
    \<and> timeAgo now (Some t') = show_int n' @ unit_suffix u'
    \<and> n * unit_secs u * 1000 \<le> now - t \<and> now - t < (n + 1) * unit_secs u * 1000
    \<and> (u', n') \<le> (u, n)"
proof -
  obtain u n where p: "ago_parts ((now - t) div 1000) = (u, n)" by (cases "ago_parts ((now - t) div 1000)")
  obtain u' n' where p': "ago_parts ((now - t') div 1000) = (u', n')" by (cases "ago_parts ((now - t') div 1000)")
  have "(now - t') div 1000 \<le> (now - t) div 1000" using assms by (simp add: zdiv_mono1)
  then have "(u', n') \<le> (u, n)" using ago_parts_mono p p' by metis
  moreover have "n * unit_secs u * 1000 \<le> now - t" "now - t < (n + 1) * unit_secs u * 1000"
    using ago_parts_bounds [OF p] by linarith+
  ultimately show ?thesis using p p' by (auto simp: timeAgo_parts)
qed

theorem timeAgo_sound_witness:
  "\<exists>u n. timeAgo 7200000 (Some 0) = show_int n @ unit_suffix u \<and> n * unit_secs u * 1000 \<le> 7200000"
  using timeAgo_sound [of 0 0 7200000] by auto

end
