(* ===== verification/FlagsPage.thy ===== *)
theory FlagsPage
  imports CreateFlagProps EditFlagProps Utils
begin

text \<open>
  The list of flags, \<open>web/src/app/flags/page.tsx\<close>: search and filters, the table with the
  actions each role is offered, the confirmation dialogs, and the two modals as child
  machines. The clock and the parser of dates are arguments of the view. API calls are
  values of type \<open>flags_call\<close>; \<open>fp_calls\<close> collects the ones made, the last one first.
\<close>

section \<open>State\<close>

datatype flags_call = CallToggle FeatureFlag | CallDelete FeatureFlag

record clock =
  now_ms :: int
  parse_date :: "string \<Rightarrow> int option"

record flags_page =
  fp_user :: jsval
  fp_create :: "create option"         \<comment> \<open>\<open>showCreate\<close>, with the state of the modal\<close>
  fp_edit :: "edit option"             \<comment> \<open>\<open>editingFlag\<close>, with the state of the modal\<close>
  fp_deleting :: "FeatureFlag option"
  fp_toggling :: "FeatureFlag option"
  fp_search :: string
  fp_filterType :: string
  fp_filterPhase :: string
  fp_flags :: "FeatureFlag list query"
  fp_loading :: bool
  fp_calls :: "flags_call list"
  fp_stale :: bool                     \<comment> \<open>\<open>invalidateQueries\<close> was called\<close>

definition flags_init :: "jsval \<Rightarrow> flags_page" where
  "flags_init u =
     \<lparr>fp_user = u, fp_create = None, fp_edit = None, fp_deleting = None, fp_toggling = None,
      fp_search = [], fp_filterType = [], fp_filterPhase = [], fp_flags = QUndef, fp_loading = True,
      fp_calls = [], fp_stale = False\<rparr>"

text \<open>\<open>user?.role\<close>\<close>

definition user_role :: "jsval \<Rightarrow> jsval" where
  "user_role u = catch_res (js_get ''role'' u) JUndef"

definition isAdmin :: "jsval \<Rightarrow> bool" where
  "isAdmin u \<longleftrightarrow> user_role u = JStr ''admin''"

definition canEdit :: "jsval \<Rightarrow> bool" where
  "canEdit u \<longleftrightarrow> user_role u \<noteq> JStr ''viewer''"

section \<open>Filtering\<close>

definition phase_or_pending :: "FeatureFlag \<Rightarrow> string" where
  "phase_or_pending f = (case ff_phase f of None \<Rightarrow> ''Pending'' | Some p \<Rightarrow> flag_phase_str p)"

definition flag_passes :: "string \<Rightarrow> string \<Rightarrow> string \<Rightarrow> FeatureFlag \<Rightarrow> bool" where
  "flag_passes search filterType filterPhase f =
     (if search \<noteq> [] \<and> \<not> str_includes (to_lower (ff_name f)) (to_lower search)
         \<and> \<not> (case ff_description f of None \<Rightarrow> False | Some d \<Rightarrow> str_includes (to_lower d) (to_lower search))
         \<and> \<not> str_includes (to_lower (ff_namespace f)) (to_lower search) then False
      else if filterType \<noteq> [] \<and> flag_type_str (ff_type f) \<noteq> filterType then False
      else if filterPhase \<noteq> [] \<and> phase_or_pending f \<noteq> filterPhase then False
      else True)"

definition filteredFlags :: "flags_page \<Rightarrow> FeatureFlag list" where
  "filteredFlags s =
     (case query_list (fp_flags s) of
        None \<Rightarrow> []
      | Some flags \<Rightarrow> filter (flag_passes (fp_search s) (fp_filterType s) (fp_filterPhase s)) flags)"

definition hasFilters :: "flags_page \<Rightarrow> bool" where
  "hasFilters s \<longleftrightarrow> fp_search s \<noteq> [] \<or> fp_filterType s \<noteq> [] \<or> fp_filterPhase s \<noteq> []"

section \<open>The view\<close>

datatype flags_h =
    F_Create | F_Search | F_ClearSearch | F_Type | F_Phase | F_Clear
  | F_Edit FeatureFlag | F_Toggle FeatureFlag | F_Delete FeatureFlag
  | F_ConfirmDelete confirm_h | F_ConfirmToggle confirm_h
  | F_CreateModal create_h | F_EditModal edit_h

definition flags_header :: "flags_page \<Rightarrow> flags_h ui" where
  "flags_header s =
     El ([Txt ''Feature Flags'',
          Txt (show_nat (length (or_nil (query_list (fp_flags s)))) @ '' flags across all clusters'')]
         @ show_if (canEdit (fp_user s)) [Btn False F_Create [Txt ''Create Flag'']])"

definition flags_filters :: "flags_page \<Rightarrow> flags_h ui" where
  "flags_filters s =
     El ([Inp False (fp_search s) F_Search]
         @ show_if (fp_search s \<noteq> []) [Btn False F_ClearSearch []]
         @ [Sel (fp_filterType s)
              [([], ''All types''), (''boolean'', ''Boolean''), (''string'', ''String''),
               (''integer'', ''Integer''), (''json'', ''JSON'')] F_Type,
            Sel (fp_filterPhase s)
              [([], ''All phases''), (''Active'', ''Active''), (''Disabled'', ''Disabled''),
               (''Pending'', ''Pending''), (''Failed'', ''Failed'')] F_Phase]
         @ show_if (hasFilters s) [Btn False F_Clear [Txt ''Clear'']])"

definition short_value :: "string \<Rightarrow> string" where
  "short_value v = (if 25 < length v then take 25 v @ ''...'' else v)"

definition flag_row :: "clock \<Rightarrow> jsval \<Rightarrow> FeatureFlag \<Rightarrow> flags_h ui" where
  "flag_row C u f =
     El [Clk (F_Edit f) [Txt (ff_name f), Txt (ff_namespace f @ '' / '' @ ff_clusterId f)],
         Txt (flag_type_str (ff_type f)),
         Txt (short_value (ff_defaultValue f)),
         Txt (phase_or_pending f),
         Txt (timeAgo (now_ms C) (parse_date C (ff_createdAt f))),
         El (show_if (canEdit u) [Btn False (F_Edit f) []]
             @ show_if (canEdit u \<and> ff_type f = Boolean) [Btn False (F_Toggle f) []]
             @ show_if (isAdmin u) [Btn False (F_Delete f) []])]"

definition flags_table :: "clock \<Rightarrow> flags_page \<Rightarrow> flags_h ui" where
  "flags_table C s =
     (let flags = or_nil (query_list (fp_flags s)) in
      if fp_loading s then El [Txt ''Loading flags...'']
      else if flags = []
      then El ([Txt ''No feature flags'',
                Txt ''Get started by creating your first feature flag to control your application behavior.'']
               @ show_if (canEdit (fp_user s)) [Btn False F_Create [Txt ''Create Your First Flag'']])
      else El (show_if (hasFilters s)
                 [Txt (show_nat (length (filteredFlags s)) @ '' of '' @ show_nat (length flags) @ '' flags'')]
               @ map Txt [''Flag'', ''Type'', ''Value'', ''Status'', ''Age'', ''Actions'']
               @ map (flag_row C (fp_user s)) (filteredFlags s)))"

definition delete_dialog :: "FeatureFlag \<Rightarrow> flags_h ui" where
  "delete_dialog f =
     map_ui F_ConfirmDelete
       (ConfirmModal ''Delete Feature Flag''
          (''Are you sure you want to delete '' @ [CHR 0x22] @ ff_name f @ [CHR 0x22]
           @ ''? This will remove the flag from the cluster and may affect running workloads.'')
          (Some ''Delete Flag'') None)"

definition toggled_value :: "FeatureFlag \<Rightarrow> string" where
  "toggled_value f = (if ff_defaultValue f = ''true'' then ''false'' else ''true'')"

definition toggle_dialog :: "FeatureFlag \<Rightarrow> flags_h ui" where
  "toggle_dialog f =
     map_ui F_ConfirmToggle
       (ConfirmModal ''Toggle Feature Flag''
          (''Toggle '' @ [CHR 0x22] @ ff_name f @ [CHR 0x22] @ '' from '' @ ff_defaultValue f @ '' to ''
           @ toggled_value f @ ''? This change will be applied to all targeted workloads.'')
          (Some (''Set to '' @ toggled_value f)) None)"

definition flags_view :: "clock \<Rightarrow> flags_page \<Rightarrow> flags_h ui" where
  "flags_view C s =
     El ([flags_header s, flags_filters s, flags_table C s]
         @ (case fp_create s of None \<Rightarrow> [] | Some c \<Rightarrow> [map_ui F_CreateModal (create_view c)])
         @ (case fp_edit s of None \<Rightarrow> [] | Some e \<Rightarrow> [map_ui F_EditModal (edit_view e)])
         @ (case fp_deleting s of None \<Rightarrow> [] | Some f \<Rightarrow> [delete_dialog f])
         @ (case fp_toggling s of None \<Rightarrow> [] | Some f \<Rightarrow> [toggle_dialog f]))"

section \<open>Handlers\<close>

text \<open>
  Opening the edit modal mounts it with the flag; while it is mounted, choosing another
  flag changes its prop and keeps its state.
\<close>

text \<open>The user's action as an action on a modal.\<close>

definition create_act :: "flags_h act \<Rightarrow> create_h act option" where
  "create_act a =
     (case a of
        Click (F_CreateModal h) \<Rightarrow> Some (Click h)
      | Enter (F_CreateModal h) v \<Rightarrow> Some (Enter h v)
      | Choose (F_CreateModal h) v \<Rightarrow> Some (Choose h v)
      | Tick (F_CreateModal h) b \<Rightarrow> Some (Tick h b)
      | Submit (F_CreateModal h) \<Rightarrow> Some (Submit h)
      | _ \<Rightarrow> None)"

definition edit_act :: "flags_h act \<Rightarrow> edit_h act option" where
  "edit_act a =
     (case a of
        Click (F_EditModal h) \<Rightarrow> Some (Click h)
      | Enter (F_EditModal h) v \<Rightarrow> Some (Enter h v)
      | Choose (F_EditModal h) v \<Rightarrow> Some (Choose h v)
      | Tick (F_EditModal h) b \<Rightarrow> Some (Tick h b)
      | Submit (F_EditModal h) \<Rightarrow> Some (Submit h)
      | _ \<Rightarrow> None)"

text \<open>A modal's step; it is gone when it has closed itself, and its success invalidates the list.\<close>

definition create_child :: "web_env \<Rightarrow> create_event \<Rightarrow> flags_page \<Rightarrow> flags_page" where
  "create_child W e s =
     (case fp_create s of
        None \<Rightarrow> s
      | Some c \<Rightarrow>
          let c' = create_step W c e in
          s\<lparr>fp_create := (if cr_closed c' then None else Some c'),
            fp_stale := (fp_stale s \<or> (cr_mutation c' = MutDone \<and> cr_mutation c \<noteq> MutDone))\<rparr>)"

definition edit_child :: "web_env \<Rightarrow> edit_event \<Rightarrow> flags_page \<Rightarrow> flags_page" where
  "edit_child W e s =
     (case fp_edit s of
        None \<Rightarrow> s
      | Some m \<Rightarrow>
          let m' = edit_step W m e in
          s\<lparr>fp_edit := (if ed_closed m' then None else Some m'),
            fp_stale := (fp_stale s \<or> (ed_mutation m' = MutDone \<and> ed_mutation m \<noteq> MutDone))\<rparr>)"

definition flags_handle :: "flags_h act \<Rightarrow> flags_page \<Rightarrow> flags_page" where
  "flags_handle a s =
     (case a of
        Click F_Create \<Rightarrow> (case fp_create s of None \<Rightarrow> s\<lparr>fp_create := Some create_init\<rparr> | Some _ \<Rightarrow> s)
      | Enter F_Search v \<Rightarrow> s\<lparr>fp_search := v\<rparr>
      | Click F_ClearSearch \<Rightarrow> s\<lparr>fp_search := []\<rparr>
      | Choose F_Type v \<Rightarrow> s\<lparr>fp_filterType := v\<rparr>
      | Choose F_Phase v \<Rightarrow> s\<lparr>fp_filterPhase := v\<rparr>
      | Click F_Clear \<Rightarrow> s\<lparr>fp_search := [], fp_filterType := [], fp_filterPhase := []\<rparr>
      | Click (F_Edit f) \<Rightarrow>
          (case fp_edit s of
             None \<Rightarrow> s\<lparr>fp_edit := Some (edit_init f)\<rparr>
           | Some m \<Rightarrow> s\<lparr>fp_edit := Some (m\<lparr>ed_flag := f\<rparr>)\<rparr>)
      | Click (F_Toggle f) \<Rightarrow> s\<lparr>fp_toggling := Some f\<rparr>
      | Click (F_Delete f) \<Rightarrow> s\<lparr>fp_deleting := Some f\<rparr>
      | Click (F_ConfirmDelete CM_Cancel) \<Rightarrow> s\<lparr>fp_deleting := None\<rparr>
      | Click (F_ConfirmDelete CM_Confirm) \<Rightarrow>
          (case fp_deleting s of
             None \<Rightarrow> s
           | Some f \<Rightarrow> s\<lparr>fp_calls := CallDelete f # fp_calls s, fp_deleting := None\<rparr>)
      | Click (F_ConfirmToggle CM_Cancel) \<Rightarrow> s\<lparr>fp_toggling := None\<rparr>
      | Click (F_ConfirmToggle CM_Confirm) \<Rightarrow>
          (case fp_toggling s of
             None \<Rightarrow> s
           | Some f \<Rightarrow> s\<lparr>fp_calls := CallToggle f # fp_calls s, fp_toggling := None\<rparr>)
      | _ \<Rightarrow> s)"

definition run_flags_call :: "web_env \<Rightarrow> flags_call \<Rightarrow> jsval api" where
  "run_flags_call W c =
     (case c of
        CallToggle f \<Rightarrow> flagsApi_toggle W (ff_namespace f) (ff_name f) (ff_clusterId f)
      | CallDelete f \<Rightarrow> flagsApi_delete W (ff_namespace f) (ff_name f) (ff_clusterId f))"

datatype flags_event =
    FUser "flags_h act"
  | FLoaded "FeatureFlag list query"     \<comment> \<open>the query has (re)fetched\<close>
  | FCreate create_event                  \<comment> \<open>something arrives for a modal\<close>
  | FEdit edit_event
  | FCallOk                               \<comment> \<open>a toggle or delete succeeded\<close>

definition flags_enabled :: "clock \<Rightarrow> flags_page \<Rightarrow> flags_event \<Rightarrow> bool" where
  "flags_enabled C s e =
     (case e of
        FUser a \<Rightarrow> offers (flags_view C s) a
      | FLoaded q \<Rightarrow> True
      | FCreate ev \<Rightarrow> (case fp_create s of None \<Rightarrow> False | Some c \<Rightarrow>
          create_enabled c ev \<and> (case ev of CUser _ \<Rightarrow> False | _ \<Rightarrow> True))
      | FEdit ev \<Rightarrow> (case fp_edit s of None \<Rightarrow> False | Some m \<Rightarrow>
          edit_enabled m ev \<and> (case ev of EUser _ \<Rightarrow> False | _ \<Rightarrow> True))
      | FCallOk \<Rightarrow> fp_calls s \<noteq> [])"

definition flags_step :: "web_env \<Rightarrow> flags_page \<Rightarrow> flags_event \<Rightarrow> flags_page" where
  "flags_step W s e =
     (case e of
        FUser a \<Rightarrow>
          (case create_act a of
             Some b \<Rightarrow> create_child W (CUser b) s
           | None \<Rightarrow>
               (case edit_act a of Some b \<Rightarrow> edit_child W (EUser b) s | None \<Rightarrow> flags_handle a s))
      | FLoaded q \<Rightarrow> s\<lparr>fp_flags := q, fp_loading := False, fp_stale := False\<rparr>
      | FCreate ev \<Rightarrow> create_child W ev s
      | FEdit ev \<Rightarrow> edit_child W ev s
      | FCallOk \<Rightarrow> s\<lparr>fp_stale := True\<rparr>)"

end
