(* ===== verification/FlagsPageProps.thy ===== *)
theory FlagsPageProps
  imports FlagsPage
begin

text \<open>
  Properties of the flags page: which rows and actions it offers, what each role can
  bring about in a session, and that the edit modal opens for every role. The invariant
  of the page includes those of the two modals.
\<close>

section \<open>What the page offers\<close>

lemma row_offers:
  "offers (flag_row C u f) a \<longleftrightarrow> a = Click (F_Edit f) \<or> (canEdit u \<and> ff_type f = Boolean \<and> a = Click (F_Toggle f))
     \<or> (isAdmin u \<and> a = Click (F_Delete f))"
  by (auto simp: flag_row_def)

lemma header_offers_create: "offers (flags_header s) a \<longleftrightarrow> canEdit (fp_user s) \<and> a = Click F_Create"
  by (auto simp: flags_header_def)

lemma filters_offer:
  "offers (flags_filters s) a \<Longrightarrow> (\<exists>v. a = Enter F_Search v) \<or> a = Click F_ClearSearch \<or> a = Click F_Clear
     \<or> (\<exists>v. a = Choose F_Type v) \<or> (\<exists>v. a = Choose F_Phase v)"
  by (cases a) (auto simp: flags_filters_def split: if_splits)

lemma table_offers:
  "offers (flags_table C s) a \<longleftrightarrow> \<not> fp_loading s \<and>
     (if or_nil (query_list (fp_flags s)) = [] then canEdit (fp_user s) \<and> a = Click F_Create
      else \<exists>f\<in>set (filteredFlags s). offers (flag_row C (fp_user s) f) a)"
  by (auto simp: flags_table_def Let_def ball_if_list_ex)

lemma dialog_offers:
  "offers (delete_dialog f) a \<longleftrightarrow> (\<exists>h. a = Click (F_ConfirmDelete h))"
  "offers (toggle_dialog f) a \<longleftrightarrow> (\<exists>h. a = Click (F_ConfirmToggle h))"
proof -
  have d: "(\<exists>b. a = map_act g b \<and> (b = Click CM_Cancel \<or> b = Click CM_Confirm)) \<longleftrightarrow> (\<exists>h. a = Click (g h))" for g
  proof
    assume "\<exists>b. a = map_act g b \<and> (b = Click CM_Cancel \<or> b = Click CM_Confirm)"
    then show "\<exists>h. a = Click (g h)" by auto
  next
    assume "\<exists>h. a = Click (g h)"
    then obtain h where "a = map_act g (Click h)" by auto
    then show "\<exists>b. a = map_act g b \<and> (b = Click CM_Cancel \<or> b = Click CM_Confirm)" by (cases h) blast+
  qed
  show "offers (delete_dialog f) a \<longleftrightarrow> (\<exists>h. a = Click (F_ConfirmDelete h))"
    "offers (toggle_dialog f) a \<longleftrightarrow> (\<exists>h. a = Click (F_ConfirmToggle h))"
    unfolding delete_dialog_def toggle_dialog_def offers_map_ui confirm_offers by (rule d)+
qed

lemma page_offers:
  "offers (flags_view C s) a \<longleftrightarrow>
     (canEdit (fp_user s) \<and> a = Click F_Create) \<or> offers (flags_filters s) a \<or> offers (flags_table C s) a
     \<or> (\<exists>c b. fp_create s = Some c \<and> a = map_act F_CreateModal b \<and> offers (create_view c) b)
     \<or> (\<exists>m b. fp_edit s = Some m \<and> a = map_act F_EditModal b \<and> offers (edit_view m) b)
     \<or> (\<exists>f h. fp_deleting s = Some f \<and> a = Click (F_ConfirmDelete h))
     \<or> (\<exists>f h. fp_toggling s = Some f \<and> a = Click (F_ConfirmToggle h))"
  by (auto simp: flags_view_def header_offers_create offers_map_ui dialog_offers split: option.splits)

lemma child_acts:
  "create_act (map_act F_CreateModal b) = (case b of Follow _ \<Rightarrow> None | _ \<Rightarrow> Some b)"
  "create_act (map_act F_EditModal d) = None"
  "edit_act (map_act F_EditModal d) = (case d of Follow _ \<Rightarrow> None | _ \<Rightarrow> Some d)"
  by (cases b; simp add: create_act_def) (cases d; simp add: create_act_def edit_act_def)+

text \<open>Actions of the page itself, not of a modal.\<close>

definition own_act :: "flags_h act \<Rightarrow> bool" where
  "own_act a \<longleftrightarrow> create_act a = None \<and> edit_act a = None"

section \<open>Roles\<close>

definition call_ok :: "jsval \<Rightarrow> flags_call \<Rightarrow> bool" where
  "call_ok u c =
     (case c of CallDelete f \<Rightarrow> isAdmin u | CallToggle f \<Rightarrow> canEdit u \<and> ff_type f = Boolean)"

definition flags_inv :: "jsval \<Rightarrow> flags_page \<Rightarrow> bool" where
  "flags_inv u s \<longleftrightarrow> fp_user s = u
     \<and> (fp_deleting s \<noteq> None \<longrightarrow> isAdmin u)
     \<and> (\<forall>f. fp_toggling s = Some f \<longrightarrow> canEdit u \<and> ff_type f = Boolean)
     \<and> list_all (call_ok u) (fp_calls s)
     \<and> (\<forall>c. fp_create s = Some c \<longrightarrow> canEdit u \<and> create_inv c)
     \<and> (\<forall>m. fp_edit s = Some m \<longrightarrow> edit_inv m)"

lemma create_child_inv:
  assumes "flags_inv u s" and "fp_create s = Some c" and "create_enabled c e"
  shows "flags_inv u (create_child W e s)"
proof -
  have "create_inv (create_step W c e)"
    using assms create_m.step_inv [of c e W] by (simp add: flags_inv_def)
  then show ?thesis
    using assms(1,2) by (simp add: create_child_def flags_inv_def Let_def)
qed

lemma edit_child_inv:
  assumes "flags_inv u s" and "fp_edit s = Some m" and "edit_enabled m e"
  shows "flags_inv u (edit_child W e s)"
proof -
  have "edit_inv (edit_step W m e)"
    using assms edit_m.step_inv [of m e W] by (simp add: flags_inv_def)
  then show ?thesis
    using assms(1,2) by (simp add: edit_child_def flags_inv_def Let_def)
qed

lemma edit_inv_flag [simp]: "edit_inv (m\<lparr>ed_flag := f\<rparr>) = edit_inv m"
  by (simp add: edit_inv_def)

lemma own_handle_inv:
  assumes "flags_inv u s" and "offers (flags_view C s) a" and "own_act a"
  shows "flags_inv u (flags_handle a s)"
proof -
  consider "a = Click F_Create" "canEdit u" | "offers (flags_filters s) a"
    | f where "a = Click (F_Edit f)"
    | f where "a = Click (F_Toggle f)" "canEdit u" "ff_type f = Boolean"
    | f where "a = Click (F_Delete f)" "isAdmin u"
    | h where "a = Click (F_ConfirmDelete h)" | h where "a = Click (F_ConfirmToggle h)"
    | p where "a = Follow p"
    using assms
    by (auto simp: page_offers table_offers row_offers flags_inv_def own_act_def child_acts
        split: if_splits act.splits)
  then show ?thesis
  proof cases
    case 1
    then show ?thesis using assms(1) create_init_inv
      by (auto simp: flags_handle_def flags_inv_def split: option.split)
  next
    case 2
    then show ?thesis using assms(1) filters_offer [of s a]
      by (auto simp: flags_handle_def flags_inv_def)
  next
    case 3
    then show ?thesis using assms(1) edit_init_inv
      by (auto simp: flags_handle_def flags_inv_def split: option.split)
  next
    case 4
    then show ?thesis using assms(1) by (simp add: flags_handle_def flags_inv_def)
  next
    case 5
    then show ?thesis using assms(1) by (simp add: flags_handle_def flags_inv_def)
  next
    case 6
    then show ?thesis using assms(1)
      by (cases h) (auto simp: flags_handle_def flags_inv_def call_ok_def split: option.split)
  next
    case 7
    then show ?thesis using assms(1)
      by (cases h) (auto simp: flags_handle_def flags_inv_def call_ok_def split: option.split)
  next
    case 8
    then show ?thesis using assms(1) by (simp add: flags_handle_def)
  qed
qed

lemma create_act_offered:
  assumes "offers (flags_view C s) a" and "create_act a = Some b"
  shows "\<exists>c. fp_create s = Some c \<and> offers (create_view c) b"
proof -
  have "create_act (Click F_Create) = None" "create_act (Click (F_Edit f)) = None"
    "create_act (Click (F_Toggle f)) = None" "create_act (Click (F_Delete f)) = None"
    "create_act (Click (F_ConfirmDelete h)) = None" "create_act (Click (F_ConfirmToggle h)) = None" for f h
    by (simp_all add: create_act_def)
  moreover have "create_act a = None" if "offers (flags_filters s) a"
    using filters_offer [OF that] by (auto simp: create_act_def)
  ultimately show ?thesis
    using assms by (auto simp: page_offers table_offers row_offers child_acts split: if_splits act.splits)
qed

lemma edit_act_offered:
  assumes "offers (flags_view C s) a" and "edit_act a = Some b" and "create_act a = None"
  shows "\<exists>m. fp_edit s = Some m \<and> offers (edit_view m) b"
proof -
  have "edit_act (Click F_Create) = None" "edit_act (Click (F_Edit f)) = None"
    "edit_act (Click (F_Toggle f)) = None" "edit_act (Click (F_Delete f)) = None"
    "edit_act (Click (F_ConfirmDelete h)) = None" "edit_act (Click (F_ConfirmToggle h)) = None"
    "edit_act (Follow p) = None" for f h p
    by (simp_all add: edit_act_def)
  moreover have "edit_act a = None" if "offers (flags_filters s) a"
    using filters_offer [OF that] by (auto simp: edit_act_def)
  ultimately show ?thesis
    using assms by (auto simp: page_offers table_offers row_offers child_acts split: if_splits act.splits)
qed

text \<open>Modals that are open can be stepped: a closed one is not kept.\<close>

definition open_inv :: "flags_page \<Rightarrow> bool" where
  "open_inv s \<longleftrightarrow> (\<forall>c. fp_create s = Some c \<longrightarrow> \<not> cr_closed c) \<and> (\<forall>m. fp_edit s = Some m \<longrightarrow> \<not> ed_closed m)"

lemma open_step: "open_inv s \<Longrightarrow> open_inv (flags_step W s e)"
proof -
  assume o: "open_inv s"
  have "open_inv (create_child W ev s)" "open_inv (edit_child W ev' s)" for ev ev'
    using o by (auto simp: open_inv_def create_child_def edit_child_def Let_def split: option.splits)
  moreover have "open_inv (flags_handle a s)" for a
    using o by (auto simp: open_inv_def flags_handle_def create_init_def edit_init_def Let_def
        split: act.split flags_h.split confirm_h.split option.split)
  moreover have "open_inv (s\<lparr>fp_flags := q, fp_loading := False, fp_stale := False\<rparr>)" "open_inv (s\<lparr>fp_stale := True\<rparr>)" for q
    using o by (simp_all add: open_inv_def)
  ultimately show ?thesis by (simp add: flags_step_def split: flags_event.split option.split)
qed

interpretation flags_m: guarded_machine "flags_enabled C" "flags_step W" "\<lambda>s. flags_inv u s \<and> open_inv s" for C W u
proof
  fix s e
  assume i: "flags_inv u s \<and> open_inv s" and en: "flags_enabled C s e"
  have "flags_inv u (flags_step W s e)"
  proof (cases e)
    case (FUser a)
    then have off: "offers (flags_view C s) a" using en by (simp add: flags_enabled_def)
    show ?thesis
    proof (cases "create_act a")
      case (Some b)
      then obtain c where "fp_create s = Some c" "offers (create_view c) b"
        using create_act_offered [OF off] by blast
      then show ?thesis
        using i FUser Some create_child_inv [of u s c "CUser b" W]
        by (simp add: flags_step_def create_enabled_def open_inv_def)
    next
      case cn: None
      show ?thesis
      proof (cases "edit_act a")
        case (Some b)
        then obtain m where "fp_edit s = Some m" "offers (edit_view m) b"
          using edit_act_offered [OF off _ cn] by blast
        then show ?thesis
          using i FUser Some cn edit_child_inv [of u s m "EUser b" W]
          by (simp add: flags_step_def edit_enabled_def open_inv_def)
      next
        case None
        then show ?thesis
          using i FUser cn own_handle_inv [OF _ off, of u] by (simp add: flags_step_def own_act_def)
      qed
    qed
  next
    case (FLoaded q)
    then show ?thesis using i by (simp add: flags_step_def flags_inv_def)
  next
    case (FCreate ev)
    then show ?thesis using i en create_child_inv [of u s _ ev W]
      by (auto simp: flags_step_def flags_enabled_def split: option.splits)
  next
    case (FEdit ev)
    then show ?thesis using i en edit_child_inv [of u s _ ev W]
      by (auto simp: flags_step_def flags_enabled_def split: option.splits)
  next
    case FCallOk
    then show ?thesis using i by (simp add: flags_step_def flags_inv_def)
  qed
  then show "flags_inv u (flags_step W s e) \<and> open_inv (flags_step W s e)"
    using i open_step by blast
qed

lemma flags_init_inv: "flags_inv u (flags_init u) \<and> open_inv (flags_init u)"
  by (simp add: flags_inv_def flags_init_def open_inv_def)

text \<open>C13 (flags_roles). In every session of the flags page a flag is deleted only by a user whose role is admin, toggled only when it is boolean and the user is not a viewer, both after the dialog named it, and the create wizard is open only for a user who is not a viewer.\<close>

theorem flags_roles:
  assumes "run (flags_enabled C) (flags_step W) (flags_init u) s"
  shows "list_all (\<lambda>c. case c of CallDelete f \<Rightarrow> isAdmin u | CallToggle f \<Rightarrow> canEdit u \<and> ff_type f = Boolean)
        (fp_calls s)
    \<and> (fp_deleting s \<noteq> None \<longrightarrow> isAdmin u) \<and> (fp_toggling s \<noteq> None \<longrightarrow> canEdit u)
    \<and> (fp_create s \<noteq> None \<longrightarrow> canEdit u)"
proof -
  have "flags_inv u s" using flags_m.run_inv [OF assms] flags_init_inv by blast
  then show ?thesis
    by (auto simp: flags_inv_def list_all_iff call_ok_def split: flags_call.splits)
qed

definition demo_clock :: clock where
  "demo_clock = \<lparr>now_ms = 0, parse_date = (\<lambda>_. None)\<rparr>"

definition viewer :: jsval where
  "viewer = JObj [(''username'', JStr ''eve''), (''role'', JStr ''viewer'')]"

theorem flags_roles_witness:
  "fp_create (flags_step quiet_env (flags_init viewer) (FLoaded (QData [demo_flag]))) = None"
proof -
  have "run (flags_enabled demo_clock) (flags_step quiet_env) (flags_init viewer)
      (flags_step quiet_env (flags_init viewer) (FLoaded (QData [demo_flag])))"
    by (rule run_step [OF run_refl]) (simp add: flags_enabled_def)
  moreover have "\<not> canEdit viewer" by (simp add: canEdit_def user_role_def viewer_def)
  ultimately show ?thesis using flags_roles by blast
qed

lemma flags_table_rows:
  "offers (flags_view C s) (Click (F_Edit f)) \<longleftrightarrow> \<not> fp_loading s \<and> f \<in> set (filteredFlags s)"
proof -
  have "Click (F_Edit f) \<noteq> map_act F_CreateModal b" "Click (F_Edit f) \<noteq> map_act F_EditModal d" for b d
    by (cases b; simp) (cases d; simp)
  then have "offers (flags_view C s) (Click (F_Edit f)) \<longleftrightarrow> offers (flags_table C s) (Click (F_Edit f))"
    using filters_offer [of s "Click (F_Edit f)"] unfolding page_offers by blast
  then show ?thesis by (auto simp: table_offers row_offers filteredFlags_def or_nil_def split: option.splits)
qed

text \<open>The rows of the table are exactly the loaded flags that pass the filters: the search text occurs, without regard to case, in the name, the description or the namespace, and the type and the phase (Pending where there is none) are the chosen ones; an empty filter admits every flag.\<close>

theorem flags_table_filtered:
  "offers (flags_view C s) (Click (F_Edit f)) \<longleftrightarrow>
     \<not> fp_loading s \<and> f \<in> set (or_nil (query_list (fp_flags s)))
     \<and> (fp_search s = [] \<or> mentions (ff_name f) (fp_search s) \<or> mentions (ff_namespace f) (fp_search s)
         \<or> (\<exists>d. ff_description f = Some d \<and> mentions d (fp_search s)))
     \<and> fp_filterType s \<in> {[], flag_type_str (ff_type f)}
     \<and> fp_filterPhase s \<in> {[], case ff_phase f of None \<Rightarrow> ''Pending'' | Some p \<Rightarrow> flag_phase_str p}"
proof -
  have "offers (flags_view C s) (Click (F_Edit f)) \<longleftrightarrow> \<not> fp_loading s \<and> f \<in> set (filteredFlags s)"
    by (rule flags_table_rows)
  also have "f \<in> set (filteredFlags s) \<longleftrightarrow> f \<in> set (or_nil (query_list (fp_flags s)))
      \<and> flag_passes (fp_search s) (fp_filterType s) (fp_filterPhase s) f"
    by (auto simp: filteredFlags_def or_nil_def split: option.splits)
  also have "flag_passes (fp_search s) (fp_filterType s) (fp_filterPhase s) f \<longleftrightarrow>
       (fp_search s = [] \<or> mentions (ff_name f) (fp_search s) \<or> mentions (ff_namespace f) (fp_search s)
         \<or> (\<exists>d. ff_description f = Some d \<and> mentions d (fp_search s)))
     \<and> fp_filterType s \<in> {[], flag_type_str (ff_type f)}
     \<and> fp_filterPhase s \<in> {[], case ff_phase f of None \<Rightarrow> ''Pending'' | Some p \<Rightarrow> flag_phase_str p}"
    by (auto simp: flag_passes_def phase_or_pending_def mentions_def includes_iff split: option.splits)
  finally show ?thesis by blast
qed

definition viewer_session :: "flags_event list" where
  "viewer_session =
     [FLoaded (QData [demo_flag]), FUser (Click (F_Edit demo_flag)), FUser (Submit (F_EditModal E_Save)),
      FUser (Click (F_EditModal (E_Confirm CM_Confirm)))]"

text \<open>The table opens the edit modal from the name of a flag for every role: in this session a user whose role is viewer, who is offered no edit button, opens it, saves and confirms, and the update is sent.\<close>

theorem viewer_opens_editor:
  "\<exists>s m. exec_events (flags_enabled demo_clock) (flags_step W) (flags_init viewer) viewer_session = Some s
     \<and> \<not> canEdit (fp_user s) \<and> fp_edit s = Some m \<and> length (ed_sent m) = 1 \<and> ed_mutation m = MutPending"
proof -
  let ?m = "edit_save ((edit_init demo_flag)\<lparr>ed_confirm := True\<rparr>)"
  let ?s = "(flags_init viewer)\<lparr>fp_flags := QData [demo_flag], fp_loading := False, fp_edit := Some ?m\<rparr>"
  have r: "exec_events (flags_enabled demo_clock) (flags_step W) (flags_init viewer) viewer_session = Some ?s"
    by code_simp
  have d: "\<not> canEdit (fp_user ?s) \<and> fp_edit ?s = Some ?m \<and> length (ed_sent ?m) = 1 \<and> ed_mutation ?m = MutPending"
    by (simp add: flags_init_def viewer_def canEdit_def user_role_def edit_save_def edit_init_def Let_def)
  show ?thesis by (rule exI [of _ ?s], rule exI [of _ ?m], rule conjI [OF r d])
qed

end
