(* ===== verification/ClustersPage.thy ===== *)
theory ClustersPage
  imports FlagsPage
begin

text \<open>
  The clusters page, \<open>web/src/app/clusters/page.tsx\<close>: registering a cluster through an
  inline form, and removing one after a confirmation. Both are for administrators.
\<close>

section \<open>State\<close>

record register_form =
  rf_id :: string
  rf_displayName :: string
  rf_apiServer :: string
  rf_kubeconfig :: string

definition empty_register :: register_form where
  "empty_register = \<lparr>rf_id = [], rf_displayName = [], rf_apiServer = [], rf_kubeconfig = []\<rparr>"

datatype clusters_call = CallRegister register_form | CallRemove string

record clusters_page =
  cp_user :: jsval
  cp_showRegister :: bool
  cp_removing :: "(string \<times> string) option"   \<comment> \<open>id and name\<close>
  cp_form :: register_form
  cp_clusters :: "Cluster list query"
  cp_loading :: bool
  cp_register :: mutation
  cp_calls :: "clusters_call list"             \<comment> \<open>the calls made, the last one first\<close>
  cp_stale :: bool

definition clusters_init :: "jsval \<Rightarrow> clusters_page" where
  "clusters_init u =
     \<lparr>cp_user = u, cp_showRegister = False, cp_removing = None, cp_form = empty_register,
      cp_clusters = QUndef, cp_loading = True, cp_register = MutIdle, cp_calls = [], cp_stale = False\<rparr>"

definition register_payload :: "register_form \<Rightarrow> jsval" where
  "register_payload f =
     JObj [(''id'', JStr (rf_id f)), (''displayName'', JStr (rf_displayName f)),
           (''apiServer'', JStr (rf_apiServer f)), (''kubeconfig'', JStr (rf_kubeconfig f))]"

definition run_clusters_call :: "web_env \<Rightarrow> clusters_call \<Rightarrow> jsval api" where
  "run_clusters_call W c =
     (case c of
        CallRegister f \<Rightarrow> clustersApi_register W (register_payload f)
      | CallRemove cid \<Rightarrow> clustersApi_remove W cid)"

section \<open>The view\<close>

datatype clusters_h =
    K_Register | K_CloseRegister | K_Id | K_DisplayName | K_ApiServer | K_Kubeconfig | K_Connect
  | K_Remove string string | K_Confirm confirm_h

definition register_view :: "clusters_page \<Rightarrow> clusters_h ui" where
  "register_view s =
     (let f = cp_form s in
      El [Txt ''Register New Cluster'', Btn False K_CloseRegister [],
          Form K_Connect
            [Txt ''Cluster ID'', Inp True (rf_id f) K_Id,
             Txt ''Display Name'', Inp True (rf_displayName f) K_DisplayName,
             Txt ''API Server URL'', Inp False (rf_apiServer f) K_ApiServer,
             Txt ''Kubeconfig (YAML)'', Area (rf_kubeconfig f) K_Kubeconfig,
             El [Btn False K_CloseRegister [Txt ''Cancel''],
                 SubmitBtn (cp_register s = MutPending)
                   [Txt (if cp_register s = MutPending then ''Connecting...'' else ''Connect Cluster'')]]]])"

definition cluster_card :: "jsval \<Rightarrow> Cluster \<Rightarrow> clusters_h ui" where
  "cluster_card u c =
     El ([Txt (cl_displayName c), Txt (cl_id c)]
         @ show_if (isAdmin u) [Btn False (K_Remove (cl_id c) (cl_displayName c)) []]
         @ [Txt ''Status'', Txt (cluster_status_str (cl_status c))]
         @ (if opt_str (cl_kubernetesVersion c) [] = [] then []
            else [Txt ''Version'', Txt (opt_str (cl_kubernetesVersion c) [])])
         @ [Txt ''Workloads'', Txt (show_int (cl_discoveredWorkloads c))])"

definition remove_dialog :: "string \<Rightarrow> clusters_h ui" where
  "remove_dialog nm =
     map_ui K_Confirm
       (ConfirmModal ''Remove Cluster''
          (''Are you sure you want to disconnect '' @ [CHR 0x22] @ nm @ [CHR 0x22]
           @ ''? Feature flags targeting this cluster will no longer be managed.'')
          (Some ''Remove Cluster'') None)"

definition clusters_view :: "clusters_page \<Rightarrow> clusters_h ui" where
  "clusters_view s =
     (let clusters = or_nil (query_list (cp_clusters s)) in
      El ([Txt ''Clusters'', Txt (show_nat (length clusters) @ '' connected clusters'')]
          @ show_if (isAdmin (cp_user s)) [Btn False K_Register [Txt ''Register Cluster'']]
          @ show_if (cp_showRegister s) [register_view s]
          @ (if cp_loading s then []
             else if clusters = []
             then [Txt ''No clusters connected'',
                   Txt ''Register your first Kubernetes cluster to start managing flags.'']
             else map (cluster_card (cp_user s)) clusters)
          @ (case cp_removing s of None \<Rightarrow> [] | Some (cid, nm) \<Rightarrow> [remove_dialog nm])))"

section \<open>Handlers\<close>

definition upd_register :: "(register_form \<Rightarrow> register_form) \<Rightarrow> clusters_page \<Rightarrow> clusters_page" where
  "upd_register u s = s\<lparr>cp_form := u (cp_form s)\<rparr>"

definition clusters_handle :: "clusters_h act \<Rightarrow> clusters_page \<Rightarrow> clusters_page" where
  "clusters_handle a s =
     (case a of
        Click K_Register \<Rightarrow> s\<lparr>cp_showRegister := \<not> cp_showRegister s\<rparr>
      | Click K_CloseRegister \<Rightarrow> s\<lparr>cp_showRegister := False\<rparr>
      | Enter K_Id v \<Rightarrow> upd_register (\<lambda>f. f\<lparr>rf_id := v\<rparr>) s
      | Enter K_DisplayName v \<Rightarrow> upd_register (\<lambda>f. f\<lparr>rf_displayName := v\<rparr>) s
      | Enter K_ApiServer v \<Rightarrow> upd_register (\<lambda>f. f\<lparr>rf_apiServer := v\<rparr>) s
      | Enter K_Kubeconfig v \<Rightarrow> upd_register (\<lambda>f. f\<lparr>rf_kubeconfig := v\<rparr>) s
      | Submit K_Connect \<Rightarrow> s\<lparr>cp_register := MutPending, cp_calls := CallRegister (cp_form s) # cp_calls s\<rparr>
      | Click (K_Remove cid nm) \<Rightarrow> s\<lparr>cp_removing := Some (cid, nm)\<rparr>
      | Click (K_Confirm CM_Cancel) \<Rightarrow> s\<lparr>cp_removing := None\<rparr>
      | Click (K_Confirm CM_Confirm) \<Rightarrow>
          (case cp_removing s of
             None \<Rightarrow> s
           | Some (cid, nm) \<Rightarrow> s\<lparr>cp_calls := CallRemove cid # cp_calls s, cp_removing := None\<rparr>)
      | _ \<Rightarrow> s)"

definition register_result :: "web_env \<Rightarrow> jsval res \<Rightarrow> clusters_page \<Rightarrow> clusters_page" where
  "register_result W r s =
     (case r of
        Inl e \<Rightarrow> s\<lparr>cp_register := MutError (err_message W e)\<rparr>
      | Inr _ \<Rightarrow> s\<lparr>cp_register := MutDone, cp_showRegister := False, cp_form := empty_register,
                  cp_stale := True\<rparr>)"

datatype clusters_event =
    KUser "clusters_h act" | KLoaded "Cluster list query" | KRegistered "jsval res" | KRemoved

definition clusters_enabled :: "clusters_page \<Rightarrow> clusters_event \<Rightarrow> bool" where
  "clusters_enabled s e =
     (case e of
        KUser a \<Rightarrow> offers (clusters_view s) a
      | KLoaded q \<Rightarrow> True
      | KRegistered r \<Rightarrow> cp_register s = MutPending
      | KRemoved \<Rightarrow> cp_calls s \<noteq> [])"

definition clusters_step :: "web_env \<Rightarrow> clusters_page \<Rightarrow> clusters_event \<Rightarrow> clusters_page" where
  "clusters_step W s e =
     (case e of
        KUser a \<Rightarrow> clusters_handle a s
      | KLoaded q \<Rightarrow> s\<lparr>cp_clusters := q, cp_loading := False, cp_stale := False\<rparr>
      | KRegistered r \<Rightarrow> register_result W r s
      | KRemoved \<Rightarrow> s\<lparr>cp_stale := True\<rparr>)"

section \<open>What the page offers\<close>

lemma register_offers:
  "offers (register_view s) a \<Longrightarrow> a = Click K_CloseRegister \<or> (\<exists>h v. a = Enter h v)
     \<or> (a = Submit K_Connect \<and> cp_register s \<noteq> MutPending \<and> rf_id (cp_form s) \<noteq> [] \<and> rf_displayName (cp_form s) \<noteq> [])"
  by (cases a) (auto simp: register_view_def Let_def)

lemma card_offers: "offers (cluster_card u c) a \<Longrightarrow> isAdmin u \<and> (\<exists>cid nm. a = Click (K_Remove cid nm))"
  by (auto simp: cluster_card_def split: if_splits)

lemma remove_offers: "offers (remove_dialog nm) a \<Longrightarrow> \<exists>h. a = Click (K_Confirm h)"
  unfolding remove_dialog_def offers_map_ui confirm_offers by auto

lemma clusters_offers:
  assumes "offers (clusters_view s) a"
  shows "(isAdmin (cp_user s) \<and> a = Click K_Register) \<or> (cp_showRegister s \<and> offers (register_view s) a)
     \<or> (\<exists>cid nm. isAdmin (cp_user s) \<and> a = Click (K_Remove cid nm))
     \<or> (\<exists>cid nm h. cp_removing s = Some (cid, nm) \<and> a = Click (K_Confirm h))"
proof (cases "cp_removing s")
  case None
  then show ?thesis
    using assms card_offers [of "cp_user s" _ a]
    by (auto simp: clusters_view_def Let_def list_ex_map_set split: if_splits)
next
  case (Some p)
  then show ?thesis
    using assms card_offers [of "cp_user s" _ a] remove_offers [of "snd p" a]
    by (cases p) (auto simp: clusters_view_def Let_def list_ex_map_set split: if_splits)
qed

definition register_call_ok :: "jsval \<Rightarrow> clusters_call \<Rightarrow> bool" where
  "register_call_ok u c \<longleftrightarrow> isAdmin u
     \<and> (case c of CallRegister f \<Rightarrow> rf_id f \<noteq> [] \<and> rf_displayName f \<noteq> [] | CallRemove cid \<Rightarrow> True)"

definition clusters_inv :: "jsval \<Rightarrow> clusters_page \<Rightarrow> bool" where
  "clusters_inv u s \<longleftrightarrow> cp_user s = u \<and> (cp_showRegister s \<longrightarrow> isAdmin u)
     \<and> (cp_removing s \<noteq> None \<longrightarrow> isAdmin u) \<and> list_all (register_call_ok u) (cp_calls s)"

interpretation clusters_m: guarded_machine clusters_enabled "clusters_step W" "clusters_inv u" for W u
proof
  fix s e
  assume i: "clusters_inv u s" and en: "clusters_enabled s e"
  show "clusters_inv u (clusters_step W s e)"
  proof (cases e)
    case (KUser a)
    then have "offers (clusters_view s) a" using en by (simp add: clusters_enabled_def)
    then consider "isAdmin u" "a = Click K_Register" | "cp_showRegister s" "a = Click K_CloseRegister"
      | h v where "a = Enter h v"
      | "a = Submit K_Connect" "cp_showRegister s" "rf_id (cp_form s) \<noteq> []" "rf_displayName (cp_form s) \<noteq> []"
      | cid nm where "isAdmin u" "a = Click (K_Remove cid nm)"
      | cid nm h where "cp_removing s = Some (cid, nm)" "a = Click (K_Confirm h)"
      using clusters_offers [of s a] register_offers [of s a] i by (auto simp: clusters_inv_def)
    then show ?thesis
    proof cases
      case 3
      then show ?thesis using i KUser
        by (cases h) (simp_all add: clusters_step_def clusters_handle_def upd_register_def clusters_inv_def)
    next
      case 6
      then show ?thesis using i KUser
        by (cases h) (simp_all add: clusters_step_def clusters_handle_def clusters_inv_def register_call_ok_def)
    qed (use i KUser in \<open>simp_all add: clusters_step_def clusters_handle_def clusters_inv_def register_call_ok_def\<close>)
  next
    case (KRegistered r)
    then show ?thesis using i by (cases r) (simp_all add: clusters_step_def register_result_def clusters_inv_def)
  qed (use i in \<open>simp_all add: clusters_step_def clusters_inv_def\<close>)
qed

interpretation clusters_log: logged_machine clusters_enabled "clusters_step W" "clusters_inv u" cp_calls "register_call_ok u"
  for W u
  by unfold_locales (simp add: clusters_inv_def)

text \<open>C38 (clusters_admin_only). In every session of the clusters page clusters are registered and removed only by a user whose role is admin, and a registration has an identifier and a display name.\<close>

theorem clusters_admin_only:
  assumes "run clusters_enabled (clusters_step W) (clusters_init u) s"
  shows "list_all (\<lambda>c. isAdmin u \<and> (case c of CallRegister f \<Rightarrow> rf_id f \<noteq> [] \<and> rf_displayName f \<noteq> []
        | CallRemove cid \<Rightarrow> True)) (cp_calls s)
    \<and> (cp_showRegister s \<longrightarrow> isAdmin u) \<and> (cp_removing s \<noteq> None \<longrightarrow> isAdmin u)"
proof -
  have "clusters_inv u (clusters_init u)" by (simp add: clusters_inv_def clusters_init_def)
  then have "clusters_inv u s" and "list_all (register_call_ok u) (cp_calls s)"
    using clusters_m.run_inv [OF assms] clusters_log.run_log [OF assms] by blast+
  moreover have "register_call_ok u = (\<lambda>c. isAdmin u \<and> (case c of CallRegister f \<Rightarrow> rf_id f \<noteq> []
      \<and> rf_displayName f \<noteq> [] | CallRemove cid \<Rightarrow> True))"
    by (simp add: register_call_ok_def fun_eq_iff)
  ultimately show ?thesis by (simp add: clusters_inv_def)
qed

definition admin_user :: jsval where
  "admin_user = JObj [(''username'', JStr ''root''), (''role'', JStr ''admin'')]"

definition register_session :: "clusters_event list" where
  "register_session =
     [KUser (Click K_Register), KUser (Enter K_Id ''eu''), KUser (Enter K_DisplayName ''EU''), KUser (Submit K_Connect)]"

theorem clusters_admin_only_witness:
  "\<exists>s. exec_events clusters_enabled (clusters_step quiet_env) (clusters_init admin_user) register_session = Some s
     \<and> length (cp_calls s) = 1 \<and> (cp_showRegister s \<longrightarrow> isAdmin admin_user)"
proof -
  let ?f = "empty_register\<lparr>rf_id := ''eu'', rf_displayName := ''EU''\<rparr>"
  let ?s = "(clusters_init admin_user)\<lparr>cp_showRegister := True, cp_form := ?f, cp_register := MutPending,
      cp_calls := [CallRegister ?f]\<rparr>"
  have r: "exec_events clusters_enabled (clusters_step quiet_env) (clusters_init admin_user) register_session = Some ?s"
    by code_simp
  have d: "length (cp_calls ?s) = 1 \<and> (cp_showRegister ?s \<longrightarrow> isAdmin admin_user)"
    using clusters_admin_only [OF exec_events_run [OF r]] by simp
  show ?thesis by (rule exI [of _ ?s], rule conjI [OF r d])
qed

end
