(* ===== verification/UsersPanel.thy ===== *)
theory UsersPanel
  imports FlagsPage
begin

text \<open>
  User management, the component \<open>UsersPanel\<close> of \<open>web/src/app/settings/page.tsx\<close>: creating
  a user, editing one inline, deleting one after a confirmation. Administrators see all
  actions, other users may change their own password. The format of dates is an argument
  of the view.
\<close>

section \<open>State\<close>

record user_info =
  ui_username :: string
  ui_role :: string
  ui_createdAt :: string

datatype users_call =
    CallCreateUser string string string              \<comment> \<open>name, password, role\<close>
  | CallUpdateUser string "string option" "string option"   \<comment> \<open>name, password, role\<close>
  | CallDeleteUser string

record users_panel =
  up_user :: jsval                          \<comment> \<open>\<open>currentUser\<close>\<close>
  up_showCreate :: bool
  up_editing :: "string option"
  up_deleting :: "string option"
  up_newUsername :: string
  up_newPassword :: string
  up_newRole :: string
  up_editPassword :: string
  up_editRole :: string
  up_editOriginalRole :: string
  up_users :: "user_info list query"
  up_loading :: bool
  up_create :: mutation
  up_update :: mutation
  up_delete :: mutation
  up_calls :: "users_call list"             \<comment> \<open>the calls made, the last one first\<close>

definition users_init :: "jsval \<Rightarrow> users_panel" where
  "users_init u =
     \<lparr>up_user = u, up_showCreate = False, up_editing = None, up_deleting = None,
      up_newUsername = [], up_newPassword = [], up_newRole = ''viewer'',
      up_editPassword = [], up_editRole = [], up_editOriginalRole = [],
      up_users = QUndef, up_loading = True, up_create = MutIdle, up_update = MutIdle,
      up_delete = MutIdle, up_calls = []\<rparr>"

text \<open>\<open>currentUser?.username\<close>\<close>

definition own_name :: "jsval \<Rightarrow> jsval" where
  "own_name u = catch_res (js_get ''username'' u) JUndef"

definition update_user_data :: "string option \<Rightarrow> string option \<Rightarrow> jsval" where
  "update_user_data password role =
     JObj ((case password of None \<Rightarrow> [] | Some p \<Rightarrow> [(''password'', JStr p)])
           @ (case role of None \<Rightarrow> [] | Some r \<Rightarrow> [(''role'', JStr r)]))"

definition run_users_call :: "web_env \<Rightarrow> users_call \<Rightarrow> jsval api" where
  "run_users_call W c =
     (case c of
        CallCreateUser n p r \<Rightarrow>
          usersApi_create W (JObj [(''username'', JStr n), (''password'', JStr p), (''role'', JStr r)])
      | CallUpdateUser n p r \<Rightarrow> usersApi_update W n (update_user_data p r)
      | CallDeleteUser n \<Rightarrow> usersApi_delete W n)"

section \<open>Handlers\<close>

datatype users_h =
    U_New | U_NewName | U_NewPassword | U_NewRole | U_Create
  | U_Edit user_info | U_EditPassword | U_EditRole | U_Save string | U_CancelEdit
  | U_Delete string | U_ConfirmDelete | U_CancelDelete

definition handleCreate :: "users_panel \<Rightarrow> users_panel" where
  "handleCreate s =
     s\<lparr>up_create := MutPending,
       up_calls := CallCreateUser (up_newUsername s) (up_newPassword s) (up_newRole s) # up_calls s\<rparr>"

definition handleUpdate :: "string \<Rightarrow> users_panel \<Rightarrow> users_panel" where
  "handleUpdate username s =
     (let pw = (if up_editPassword s \<noteq> [] then Some (up_editPassword s) else None);
          role = (if up_editRole s \<noteq> [] \<and> up_editRole s \<noteq> up_editOriginalRole s
                  then Some (up_editRole s) else None)
      in if pw \<noteq> None \<or> role \<noteq> None
         then s\<lparr>up_update := MutPending, up_calls := CallUpdateUser username pw role # up_calls s\<rparr>
         else s)"

definition startEditing :: "user_info \<Rightarrow> users_panel \<Rightarrow> users_panel" where
  "startEditing x s =
     s\<lparr>up_editing := Some (ui_username x), up_editPassword := [], up_editRole := ui_role x,
       up_editOriginalRole := ui_role x\<rparr>"

definition users_handle :: "users_h act \<Rightarrow> users_panel \<Rightarrow> users_panel" where
  "users_handle a s =
     (case a of
        Click U_New \<Rightarrow> s\<lparr>up_showCreate := \<not> up_showCreate s, up_create := MutIdle\<rparr>
      | Enter U_NewName v \<Rightarrow> s\<lparr>up_newUsername := v\<rparr>
      | Enter U_NewPassword v \<Rightarrow> s\<lparr>up_newPassword := v\<rparr>
      | Choose U_NewRole v \<Rightarrow> s\<lparr>up_newRole := v\<rparr>
      | Submit U_Create \<Rightarrow> handleCreate s
      | Click (U_Edit x) \<Rightarrow>
          if up_editing s = Some (ui_username x) then s\<lparr>up_editing := None\<rparr> else startEditing x s
      | Enter U_EditPassword v \<Rightarrow> s\<lparr>up_editPassword := v\<rparr>
      | Choose U_EditRole v \<Rightarrow> s\<lparr>up_editRole := v\<rparr>
      | Click (U_Save n) \<Rightarrow> handleUpdate n s
      | Click U_CancelEdit \<Rightarrow> s\<lparr>up_editing := None\<rparr>
      | Click (U_Delete n) \<Rightarrow> s\<lparr>up_deleting := Some n\<rparr>
      | Click U_ConfirmDelete \<Rightarrow>
          (case up_deleting s of
             None \<Rightarrow> s
           | Some n \<Rightarrow> s\<lparr>up_delete := MutPending, up_calls := CallDeleteUser n # up_calls s\<rparr>)
      | Click U_CancelDelete \<Rightarrow> s\<lparr>up_deleting := None, up_delete := MutIdle\<rparr>
      | _ \<Rightarrow> s)"

text \<open>The callbacks of the three mutations.\<close>

definition user_created :: "web_env \<Rightarrow> jsval res \<Rightarrow> users_panel \<Rightarrow> users_panel" where
  "user_created W r s =
     (case r of
        Inl e \<Rightarrow> s\<lparr>up_create := MutError (err_message W e)\<rparr>
      | Inr _ \<Rightarrow> s\<lparr>up_create := MutDone, up_showCreate := False, up_newUsername := [], up_newPassword := [],
                  up_newRole := ''viewer''\<rparr>)"

definition user_updated :: "web_env \<Rightarrow> jsval res \<Rightarrow> users_panel \<Rightarrow> users_panel" where
  "user_updated W r s =
     (case r of
        Inl e \<Rightarrow> s\<lparr>up_update := MutError (err_message W e)\<rparr>
      | Inr _ \<Rightarrow> s\<lparr>up_update := MutDone, up_editing := None, up_editPassword := [], up_editRole := []\<rparr>)"

definition user_deleted :: "web_env \<Rightarrow> jsval res \<Rightarrow> users_panel \<Rightarrow> users_panel" where
  "user_deleted W r s =
     (case r of
        Inl e \<Rightarrow> s\<lparr>up_delete := MutError (err_message W e)\<rparr>
      | Inr _ \<Rightarrow> s\<lparr>up_delete := MutDone, up_deleting := None\<rparr>)"

section \<open>The view\<close>

definition role_options :: "(string \<times> string) list" where
  "role_options = [(''admin'', ''Admin''), (''editor'', ''Editor''), (''viewer'', ''Viewer'')]"

definition mutation_error :: "mutation \<Rightarrow> 'h ui list" where
  "mutation_error m = (case m of MutError msg \<Rightarrow> [Txt msg] | _ \<Rightarrow> [])"

definition create_user_form :: "users_panel \<Rightarrow> users_h ui" where
  "create_user_form s =
     Form U_Create
       ([Txt ''Create new user'', Txt ''Username'', Inp True (up_newUsername s) U_NewName,
         Txt ''Password'', Inp True (up_newPassword s) U_NewPassword,
         Txt ''Role'', Sel (up_newRole s) role_options U_NewRole]
        @ mutation_error (up_create s)
        @ [SubmitBtn (up_create s = MutPending) [Txt ''Create user'']])"

definition edit_user_form :: "users_panel \<Rightarrow> string \<Rightarrow> users_h ui" where
  "edit_user_form s n =
     El ([Txt ''New password'', Inp False (up_editPassword s) U_EditPassword]
         @ show_if (isAdmin (up_user s)) [Txt ''Role'', Sel (up_editRole s) role_options U_EditRole]
         @ [Btn (up_update s = MutPending) (U_Save n) [Txt ''Save''], Btn False U_CancelEdit [Txt ''Cancel'']]
         @ mutation_error (up_update s))"

definition user_row :: "(string \<Rightarrow> string) \<Rightarrow> users_panel \<Rightarrow> user_info \<Rightarrow> users_h ui" where
  "user_row format_day s x =
     (let admin = isAdmin (up_user s); own = (JStr (ui_username x) = own_name (up_user s)) in
      El ([Txt (ui_username x), Txt (ui_role x), Txt (format_day (ui_createdAt x))]
          @ show_if admin [Btn False (U_Edit x) []]
          @ show_if (\<not> admin \<and> own) [Btn False (U_Edit x) []]
          @ show_if (admin \<and> \<not> own) [Btn False (U_Delete (ui_username x)) []]
          @ show_if (up_editing s = Some (ui_username x)) [edit_user_form s (ui_username x)]))"

definition delete_user_view :: "users_panel \<Rightarrow> string \<Rightarrow> users_h ui" where
  "delete_user_view s n =
     El ([El [Txt ''Delete user'', Txt n, Txt ''? This action cannot be undone.'']]
         @ mutation_error (up_delete s)
         @ [Btn (up_delete s = MutPending) U_ConfirmDelete [Txt ''Delete''],
            Btn False U_CancelDelete [Txt ''Cancel'']])"

definition users_view :: "(string \<Rightarrow> string) \<Rightarrow> users_panel \<Rightarrow> users_h ui" where
  "users_view format_day s =
     El ([Txt ''User Management'']
         @ show_if (isAdmin (up_user s))
             [Btn False U_New [Txt (if up_showCreate s then ''Cancel'' else ''New user'')]]
         @ show_if (up_showCreate s) [create_user_form s]
         @ (if up_loading s then []
            else case up_users s of
                QData (x # xs) \<Rightarrow>
                  map Txt [''Username'', ''Role'', ''Created'', ''Actions'']
                  @ map (user_row format_day s) (x # xs)
              | _ \<Rightarrow> [Txt ''No users found''])
         @ (case up_deleting s of
              None \<Rightarrow> []
            | Some n \<Rightarrow> if n = [] then [] else [delete_user_view s n]))"

section \<open>The machine\<close>

datatype users_event =
    UUser "users_h act" | ULoaded "user_info list query"
  | UCreated "jsval res" | UUpdated "jsval res" | UDeleted "jsval res"

definition users_enabled :: "(string \<Rightarrow> string) \<Rightarrow> users_panel \<Rightarrow> users_event \<Rightarrow> bool" where
  "users_enabled format_day s e =
     (case e of
        UUser a \<Rightarrow> offers (users_view format_day s) a
      | ULoaded q \<Rightarrow> True
      | _ \<Rightarrow> up_calls s \<noteq> [])"

definition users_step :: "web_env \<Rightarrow> users_panel \<Rightarrow> users_event \<Rightarrow> users_panel" where
  "users_step W s e =
     (case e of
        UUser a \<Rightarrow> users_handle a s
      | ULoaded q \<Rightarrow> s\<lparr>up_users := q, up_loading := False\<rparr>
      | UCreated r \<Rightarrow> user_created W r s
      | UUpdated r \<Rightarrow> user_updated W r s
      | UDeleted r \<Rightarrow> user_deleted W r s)"

section \<open>Who can do what\<close>

definition users_call_ok :: "jsval \<Rightarrow> users_call \<Rightarrow> bool" where
  "users_call_ok u c =
     (case c of
        CallCreateUser n p r \<Rightarrow> isAdmin u \<and> n \<noteq> [] \<and> p \<noteq> []
      | CallUpdateUser n p r \<Rightarrow>
          (p \<noteq> None \<or> r \<noteq> None) \<and> p \<noteq> Some [] \<and> (\<not> isAdmin u \<longrightarrow> JStr n = own_name u \<and> r = None)
      | CallDeleteUser n \<Rightarrow> isAdmin u \<and> JStr n \<noteq> own_name u)"

definition users_inv :: "jsval \<Rightarrow> users_panel \<Rightarrow> bool" where
  "users_inv u s \<longleftrightarrow> up_user s = u \<and> list_all (users_call_ok u) (up_calls s)
     \<and> (up_showCreate s \<longrightarrow> isAdmin u)
     \<and> (\<forall>n. up_deleting s = Some n \<longrightarrow> isAdmin u \<and> JStr n \<noteq> own_name u)
     \<and> (\<not> isAdmin u \<longrightarrow> up_editRole s \<in> {[], up_editOriginalRole s}
          \<and> (\<forall>n. up_editing s = Some n \<longrightarrow> JStr n = own_name u))"

lemma mutation_error_offers [simp]: "\<not> list_ex (\<lambda>v. offers v a) (mutation_error m)"
  by (simp add: mutation_error_def split: mutation.split)

lemma create_user_offers:
  "offers (create_user_form s) a \<Longrightarrow> (\<exists>v. a = Enter U_NewName v) \<or> (\<exists>v. a = Enter U_NewPassword v)
     \<or> (\<exists>v. a = Choose U_NewRole v)
     \<or> (a = Submit U_Create \<and> up_newUsername s \<noteq> [] \<and> up_newPassword s \<noteq> [])"
  by (cases a) (auto simp: create_user_form_def)

lemma edit_user_offers:
  "offers (edit_user_form s n) a \<Longrightarrow> (\<exists>v. a = Enter U_EditPassword v)
     \<or> (\<exists>v. isAdmin (up_user s) \<and> a = Choose U_EditRole v) \<or> a = Click (U_Save n) \<or> a = Click U_CancelEdit"
  by (cases a) (auto simp: edit_user_form_def split: if_splits)

lemma row_offers_user:
  assumes "offers (user_row D s x) a"
  shows "((isAdmin (up_user s) \<or> JStr (ui_username x) = own_name (up_user s)) \<and> a = Click (U_Edit x))
     \<or> (isAdmin (up_user s) \<and> JStr (ui_username x) \<noteq> own_name (up_user s) \<and> a = Click (U_Delete (ui_username x)))
     \<or> (\<exists>v. a = Enter U_EditPassword v)
     \<or> (\<exists>v. isAdmin (up_user s) \<and> a = Choose U_EditRole v)
     \<or> (\<exists>n. up_editing s = Some n \<and> a = Click (U_Save n)) \<or> a = Click U_CancelEdit"
  using assms edit_user_offers [of s "ui_username x" a]
  by (auto simp: user_row_def Let_def split: if_splits)

lemma delete_user_offers: "offers (delete_user_view s n) a \<Longrightarrow> a = Click U_ConfirmDelete \<or> a = Click U_CancelDelete"
  by (auto simp: delete_user_view_def)

lemma users_offers:
  assumes "offers (users_view D s) a"
  shows "(isAdmin (up_user s) \<and> a = Click U_New) \<or> (up_showCreate s \<and> offers (create_user_form s) a)
     \<or> (\<exists>x. offers (user_row D s x) a) \<or> a = Click U_ConfirmDelete \<or> a = Click U_CancelDelete"
  using assms delete_user_offers [of s _ a]
  by (auto simp: users_view_def list_ex_map_set split: if_splits query.splits list.splits option.splits)

lemma users_handle_inv:
  assumes i: "users_inv u s" and off: "offers (users_view D s) a"
  shows "users_inv u (users_handle a s)"
proof -
  have u: "up_user s = u" using i by (simp add: users_inv_def)
  consider "isAdmin u" "a = Click U_New"
    | "\<exists>v. a = Enter U_NewName v \<or> a = Enter U_NewPassword v \<or> a = Choose U_NewRole v \<or> a = Enter U_EditPassword v"
    | "up_showCreate s" "a = Submit U_Create" "up_newUsername s \<noteq> []" "up_newPassword s \<noteq> []"
    | x where "isAdmin u \<or> JStr (ui_username x) = own_name u" "a = Click (U_Edit x)"
    | n where "isAdmin u" "JStr n \<noteq> own_name u" "a = Click (U_Delete n)"
    | v where "isAdmin u" "a = Choose U_EditRole v"
    | n where "up_editing s = Some n" "a = Click (U_Save n)"
    | "a = Click U_CancelEdit \<or> a = Click U_CancelDelete" | "a = Click U_ConfirmDelete"
    using users_offers [OF off] create_user_offers [of s a] row_offers_user [of D s _ a] unfolding u by blast
  then show ?thesis
  proof cases
    case 2
    then show ?thesis using i by (auto simp: users_handle_def users_inv_def)
  next
    case 4
    then show ?thesis using i by (auto simp: users_handle_def users_inv_def startEditing_def)
  next
    case 7
    then show ?thesis using i
      by (auto simp: users_handle_def users_inv_def handleUpdate_def Let_def users_call_ok_def)
  next
    case 8
    then show ?thesis using i by (auto simp: users_handle_def users_inv_def)
  next
    case 9
    then show ?thesis using i
      by (auto simp: users_handle_def users_inv_def users_call_ok_def split: option.split)
  qed (use i in \<open>simp_all add: users_handle_def users_inv_def handleCreate_def users_call_ok_def\<close>)
qed

interpretation users_m: guarded_machine "users_enabled D" "users_step W" "users_inv u" for D W u
proof
  fix s e
  assume i: "users_inv u s" and en: "users_enabled D s e"
  have "users_inv u (user_created W r s)" "users_inv u (user_updated W r s)" "users_inv u (user_deleted W r s)" for r
    using i by (cases r; simp add: users_inv_def user_created_def user_updated_def user_deleted_def)+
  then show "users_inv u (users_step W s e)"
    using i en users_handle_inv [OF i]
    by (cases e) (simp_all add: users_step_def users_enabled_def users_inv_def)
qed

interpretation users_log: logged_machine "users_enabled D" "users_step W" "users_inv u" up_calls "users_call_ok u" for D W u
  by unfold_locales (simp add: users_inv_def)

text \<open>C19 (users_panel_authority). In every session of the panel a user who is not an administrator can only have updates sent for the own account, with a password and never with a role; an administrator creates users with a name and a password and never deletes the own account; no update without a change is ever sent.\<close>

theorem users_panel_authority:
  assumes "run (users_enabled D) (users_step W) (users_init u) s"
  shows "list_all (\<lambda>c. case c of
        CallCreateUser n p r \<Rightarrow> isAdmin u \<and> n \<noteq> [] \<and> p \<noteq> []
      | CallUpdateUser n p r \<Rightarrow>
          (p \<noteq> None \<or> r \<noteq> None) \<and> p \<noteq> Some [] \<and> (\<not> isAdmin u \<longrightarrow> JStr n = own_name u \<and> r = None)
      | CallDeleteUser n \<Rightarrow> isAdmin u \<and> JStr n \<noteq> own_name u) (up_calls s)"
proof -
  have "users_inv u (users_init u)" by (simp add: users_inv_def users_init_def)
  then have "list_all (users_call_ok u) (up_calls s)" by (rule users_log.run_log [OF assms])
  moreover have "users_call_ok u = (\<lambda>c. case c of
        CallCreateUser n p r \<Rightarrow> isAdmin u \<and> n \<noteq> [] \<and> p \<noteq> []
      | CallUpdateUser n p r \<Rightarrow>
          (p \<noteq> None \<or> r \<noteq> None) \<and> p \<noteq> Some [] \<and> (\<not> isAdmin u \<longrightarrow> JStr n = own_name u \<and> r = None)
      | CallDeleteUser n \<Rightarrow> isAdmin u \<and> JStr n \<noteq> own_name u)"
    by (simp add: users_call_ok_def fun_eq_iff split: users_call.split)
  ultimately show ?thesis by simp
qed

definition eve :: jsval where
  "eve = JObj [(''username'', JStr ''eve''), (''role'', JStr ''viewer'')]"

definition eve_row :: user_info where
  "eve_row = \<lparr>ui_username = ''eve'', ui_role = ''viewer'', ui_createdAt = ''2024''\<rparr>"

definition password_session :: "users_event list" where
  "password_session =
     [ULoaded (QData [eve_row]), UUser (Click (U_Edit eve_row)), UUser (Enter U_EditPassword ''new''),
      UUser (Click (U_Save ''eve''))]"

theorem users_panel_authority_witness:
  "\<exists>s. exec_events (users_enabled id) (users_step quiet_env) (users_init eve) password_session = Some s
     \<and> list_all (\<lambda>c. case c of CallUpdateUser n p r \<Rightarrow> r = None | _ \<Rightarrow> False) (up_calls s) \<and> length (up_calls s) = 1"
proof -
  let ?c = "CallUpdateUser ''eve'' (Some ''new'') None"
  let ?s = "(users_init eve)\<lparr>up_users := QData [eve_row], up_loading := False, up_editing := Some ''eve'',
      up_editPassword := ''new'', up_editRole := ''viewer'', up_editOriginalRole := ''viewer'',
      up_update := MutPending, up_calls := [?c]\<rparr>"
  have r: "exec_events (users_enabled id) (users_step quiet_env) (users_init eve) password_session = Some ?s"
    by code_simp
  have "\<not> isAdmin eve" by (simp add: isAdmin_def user_role_def eve_def)
  then have d: "list_all (\<lambda>c. case c of CallUpdateUser n p r \<Rightarrow> r = None | _ \<Rightarrow> False) (up_calls ?s) \<and> length (up_calls ?s) = 1"
    using users_panel_authority [OF exec_events_run [OF r]] by simp
  show ?thesis by (rule exI [of _ ?s], rule conjI [OF r d])
qed

end
