(* ===== verification/SettingsPage.thy ===== *)
theory SettingsPage
  imports UsersPanel
begin

text \<open>
  The settings page, \<open>web/src/app/settings/page.tsx\<close>: the tabs, with user management as a
  child machine that lives while its tab is open, and the static or purely local content
  of the other tabs.
\<close>

section \<open>State\<close>

text \<open>
  The selects, the input and the switches of the general and the notifications tab are
  local to them: they start anew each time their tab is opened. \<open>st_calls\<close> collects the
  calls of the user panels that were closed.
\<close>

record settings =
  st_user :: jsval
  st_clusters :: "Cluster list query"
  activeTab :: string
  st_delivery :: string
  st_archive :: string
  st_toggles :: "bool list"
  st_webhook :: string
  st_users :: "users_panel option"
  st_calls :: "users_call list"

definition tabs :: "(string \<times> string) list" where
  "tabs = [(''general'', ''General''), (''auth'', ''Authentication''), (''notifications'', ''Notifications''),
           (''api'', ''API & SDKs''), (''database'', ''Database'')]"

text \<open>\<open>ToggleSetting\<close> elements: label, description, \<open>defaultChecked\<close>.\<close>

definition toggles :: "(string \<times> string \<times> bool) list" where
  "toggles =
     [(''Flag changes'', ''Notify when a flag is created, updated or deleted'', True),
      (''Cluster events'', ''Notify on cluster connect/disconnect'', True),
      (''Rollout progress'', ''Notify on rollout step changes'', False),
      (''Policy violations'', ''Notify when a flag violates a policy'', True)]"

definition default_toggles :: "bool list" where
  "default_toggles = map (\<lambda>(l, d, c). c) toggles"

definition settings_init :: "jsval \<Rightarrow> settings" where
  "settings_init u =
     \<lparr>st_user = u, st_clusters = QUndef, activeTab = ''general'', st_delivery = ''Environment Variable'',
      st_archive = ''Never'', st_toggles = default_toggles, st_webhook = [], st_users = None, st_calls = []\<rparr>"

section \<open>The view\<close>

datatype settings_h = T_Tab string | T_Delivery | T_Archive | T_Toggle nat | T_Webhook | T_Users users_h

definition SettingRow :: "string \<Rightarrow> string \<Rightarrow> settings_h ui" where
  "SettingRow label val = El [Txt label, Txt val]"

definition ToggleSetting :: "nat \<Rightarrow> string \<times> string \<times> bool \<Rightarrow> settings_h ui" where
  "ToggleSetting i t = (case t of (label, description, c) \<Rightarrow> El [Txt label, Txt description, Btn False (T_Toggle i) []])"

definition CodeBlock :: "string \<Rightarrow> string list \<Rightarrow> settings_h ui" where
  "CodeBlock lang src = El [Txt lang, Txt (join_with [CHR 0x0A] src)]"

definition same_options :: "string list \<Rightarrow> (string \<times> string) list" where
  "same_options xs = map (\<lambda>x. (x, x)) xs"

definition general_tab :: "settings \<Rightarrow> settings_h ui" where
  "general_tab s =
     El [Txt ''Platform Info'', SettingRow ''Version'' ''0.1.0'',
         SettingRow ''Connected Clusters''
           (case st_clusters s of QData cs \<Rightarrow> show_nat (length cs) | _ \<Rightarrow> ''0''),
         SettingRow ''Default Namespace'' ''default'',
         Txt ''Flag Defaults'', Txt ''Default Delivery Method'',
         Sel (st_delivery s) (same_options [''Environment Variable'', ''ConfigMap'', ''Sidecar'']) T_Delivery,
         Txt ''Auto-archive inactive flags after'',
         Sel (st_archive s) (same_options [''Never'', ''30 days'', ''60 days'', ''90 days'']) T_Archive]"

definition notifications_tab :: "settings \<Rightarrow> settings_h ui" where
  "notifications_tab s =
     El ([Txt ''Notifications'']
         @ map (\<lambda>i. ToggleSetting i (toggles ! i)) [0..<length toggles]
         @ [Txt ''Webhook URL'', Inp False (st_webhook s) T_Webhook,
            Txt ''Events will be sent as JSON POST requests''])"

abbreviation quote :: string where
  "quote \<equiv> [CHR 0x22]"

definition quick_start :: "(string \<times> string list) list" where
  "quick_start =
     [(''Go'',
        [''client, _ := vexil.New(vexil.WithEnvProvider())'',
         ''darkMode := client.Bool('' @ quote @ ''dark-mode'' @ quote @ '', false)'']),
      (''Python'',
        [''from vexil import Client'',
         ''client = Client(provider='' @ quote @ ''env'' @ quote @ '')'',
         ''dark_mode = client.bool('' @ quote @ ''dark-mode'' @ quote @ '', default=False)'']),
      (''Node.js'',
        [''import { Client } from 'vexil';'',
         ''const client = new Client({ provider: 'env' });'',
         ''const darkMode = await client.bool('dark-mode', false);'']),
      (''C# / .NET'',
        [''using var client = new VexilClient(new EnvProvider());'',
         ''var darkMode = client.Bool('' @ quote @ ''dark-mode'' @ quote @ '', false);'',
         ''var rateLimit = client.Int('' @ quote @ ''api-rate-limit'' @ quote @ '', 100);'']),
      (''C# / ASP.NET Core DI'',
        [''// Program.cs'',
         ''builder.Services.AddVexilEnv();          // env vars'',
         ''builder.Services.AddVexilSidecar();      // sidecar'',
         ''builder.Services.AddVexilConfigMap();    // configmap'',
         [],
         ''// En tu controller o service:'',
         ''public class MyService(VexilClient vexil)'',
         ''{'',
         ''    public void DoWork()'',
         ''    {'',
         ''        if (vexil.Bool('' @ quote @ ''dark-mode'' @ quote @ ''))'',
         ''            EnableDarkMode();'',
         ''    }'',
         ''}'']),
      (''curl'',
        [''# Direct sidecar API'',
         ''curl localhost:8514/flags/dark-mode/value'',
         ''# -> true'',
         [],
         ''# SSE streaming (real-time)'',
         ''curl localhost:8514/flags/stream''])]"

text \<open>The address field is read-only; \<open>origin\<close> is \<open>window.location.origin\<close>, if there is a window.\<close>

definition api_tab :: "string option \<Rightarrow> settings_h ui" where
  "api_tab origin =
     El ([Txt ''API & SDK Integration'', Txt ''API Server URL'',
          Txt (case origin of None \<Rightarrow> ''/api/v1'' | Some w \<Rightarrow> w @ ''/api/v1''),
          Txt ''SDK Quick Start'']
         @ map (\<lambda>(lang, src). CodeBlock lang src) quick_start)"

definition database_tab :: "settings_h ui" where
  "database_tab =
     El [Txt ''Database'', SettingRow ''Type'' ''PostgreSQL 16'', SettingRow ''Status'' ''Connected'',
         SettingRow ''Storage'' ''Audit logs, sessions, cluster cache'',
         Txt ''Feature flags are stored as Kubernetes CRDs, not in the database. The database is used for portal-specific data only.'']"

definition settings_view :: "string option \<Rightarrow> (string \<Rightarrow> string) \<Rightarrow> settings \<Rightarrow> settings_h ui" where
  "settings_view origin format_day s =
     El [Txt ''Settings'', Txt ''Configure your Vexil platform'',
         El (map (\<lambda>(i, label). Btn False (T_Tab i) [Txt label]) tabs),
         El (show_if (activeTab s = ''general'') [general_tab s]
             @ show_if (activeTab s = ''auth'')
                 (case st_users s of None \<Rightarrow> [] | Some p \<Rightarrow> [map_ui T_Users (users_view format_day p)])
             @ show_if (activeTab s = ''notifications'') [notifications_tab s]
             @ show_if (activeTab s = ''api'') [api_tab origin]
             @ show_if (activeTab s = ''database'') [database_tab])]"

section \<open>Handlers\<close>

definition closed_calls :: "settings \<Rightarrow> users_call list" where
  "closed_calls s = (case st_users s of None \<Rightarrow> [] | Some p \<Rightarrow> up_calls p)"

text \<open>\<open>setActiveTab\<close>: another tab unmounts the one that was open and mounts its own.\<close>

definition open_tab :: "string \<Rightarrow> settings \<Rightarrow> settings" where
  "open_tab i s =
     (if i = activeTab s then s
      else s\<lparr>activeTab := i,
             st_delivery := ''Environment Variable'', st_archive := ''Never'', st_toggles := default_toggles,
             st_webhook := [],
             st_calls := closed_calls s @ st_calls s,
             st_users := (if i = ''auth'' then Some (users_init (st_user s)) else None)\<rparr>)"

fun users_act :: "settings_h act \<Rightarrow> users_h act option" where
  "users_act (Click (T_Users h)) = Some (Click h)"
| "users_act (Enter (T_Users h) v) = Some (Enter h v)"
| "users_act (Choose (T_Users h) v) = Some (Choose h v)"
| "users_act (Tick (T_Users h) b) = Some (Tick h b)"
| "users_act (Submit (T_Users h)) = Some (Submit h)"
| "users_act (Follow p) = Some (Follow p)"
| "users_act a = None"

definition users_child :: "web_env \<Rightarrow> users_event \<Rightarrow> settings \<Rightarrow> settings" where
  "users_child W e s = s\<lparr>st_users := map_option (\<lambda>p. users_step W p e) (st_users s)\<rparr>"

definition settings_handle :: "web_env \<Rightarrow> settings_h act \<Rightarrow> settings \<Rightarrow> settings" where
  "settings_handle W a s =
     (case users_act a of
        Some b \<Rightarrow> users_child W (UUser b) s
      | None \<Rightarrow>
          (case a of
             Click (T_Tab i) \<Rightarrow> open_tab i s
           | Choose T_Delivery v \<Rightarrow> s\<lparr>st_delivery := v\<rparr>
           | Choose T_Archive v \<Rightarrow> s\<lparr>st_archive := v\<rparr>
           | Click (T_Toggle i) \<Rightarrow> s\<lparr>st_toggles := (st_toggles s)[i := \<not> st_toggles s ! i]\<rparr>
           | Enter T_Webhook v \<Rightarrow> s\<lparr>st_webhook := v\<rparr>
           | _ \<Rightarrow> s))"

datatype settings_event = TUser "settings_h act" | TClusters "Cluster list query" | TUsers users_event

text \<open>The events of the panel other than the actions of the user reach it while it is mounted.\<close>

definition settings_enabled :: "string option \<Rightarrow> (string \<Rightarrow> string) \<Rightarrow> settings \<Rightarrow> settings_event \<Rightarrow> bool" where
  "settings_enabled origin format_day s e =
     (case e of
        TUser a \<Rightarrow> offers (settings_view origin format_day s) a
      | TClusters q \<Rightarrow> True
      | TUsers e' \<Rightarrow>
          (case st_users s of
             None \<Rightarrow> False
           | Some p \<Rightarrow> (case e' of UUser b \<Rightarrow> False | _ \<Rightarrow> users_enabled format_day p e')))"

definition settings_step :: "web_env \<Rightarrow> settings \<Rightarrow> settings_event \<Rightarrow> settings" where
  "settings_step W s e =
     (case e of
        TUser a \<Rightarrow> settings_handle W a s
      | TClusters q \<Rightarrow> s\<lparr>st_clusters := q\<rparr>
      | TUsers e' \<Rightarrow> users_child W e' s)"

section \<open>Who can do what\<close>

lemma users_act_map [simp]: "users_act (map_act T_Users b) = Some b"
  by (cases b) simp_all

lemma toggle_offers [simp]: "offers (ToggleSetting i t) a \<longleftrightarrow> a = Click (T_Toggle i)"
  by (cases t) (simp add: ToggleSetting_def)

lemma auth_tab [simp]: "''auth'' \<in> fst ` set tabs"
  by (simp add: tabs_def)

lemma settings_offers:
  assumes "offers (settings_view w D s) a"
  shows "(\<exists>i\<in>fst ` set tabs. a = Click (T_Tab i)) \<or> (\<exists>v. a = Choose T_Delivery v \<or> a = Choose T_Archive v \<or> a = Enter T_Webhook v)
     \<or> (\<exists>i<length toggles. a = Click (T_Toggle i))
     \<or> (\<exists>p b. st_users s = Some p \<and> a = map_act T_Users b \<and> offers (users_view D p) b)"
proof -
  have "\<exists>v. a = Choose T_Delivery v \<or> a = Choose T_Archive v" if "offers (general_tab s) a"
    using that by (auto simp: general_tab_def SettingRow_def offers_input simp del: offers.simps(5-7))
  moreover have "(\<exists>v. a = Enter T_Webhook v) \<or> (\<exists>i<length toggles. a = Click (T_Toggle i))" if "offers (notifications_tab s) a"
    using that by (auto simp: notifications_tab_def offers_input list_ex_map_set simp del: offers.simps(5-7) upt_Suc)
  moreover have "\<not> offers (api_tab w) a" "\<not> offers database_tab a"
    by (auto simp: api_tab_def CodeBlock_def database_tab_def SettingRow_def list_ex_map_set)
  moreover have "(\<exists>i\<in>fst ` set tabs. a = Click (T_Tab i)) \<or> offers (general_tab s) a \<or> offers (notifications_tab s) a
      \<or> offers (api_tab w) a \<or> offers database_tab a
      \<or> (\<exists>p. st_users s = Some p \<and> offers (map_ui T_Users (users_view D p)) a)"
    using assms by (force simp: settings_view_def list_ex_map_set split: if_splits option.splits)
  ultimately show ?thesis unfolding offers_map_ui by blast
qed

definition settings_inv :: "jsval \<Rightarrow> settings \<Rightarrow> bool" where
  "settings_inv u s \<longleftrightarrow> st_user s = u \<and> list_all (users_call_ok u) (st_calls s)
     \<and> (\<forall>p. st_users s = Some p \<longrightarrow> users_inv u p)
     \<and> (st_users s \<noteq> None \<longleftrightarrow> activeTab s = ''auth'') \<and> activeTab s \<in> fst ` set tabs
     \<and> length (st_toggles s) = length toggles"

lemma users_child_inv:
  assumes "settings_inv u s" and "st_users s = Some p" and "users_inv u (users_step W p e)"
  shows "settings_inv u (users_child W e s)"
  using assms by (simp add: settings_inv_def users_child_def)

lemma open_tab_inv:
  assumes "settings_inv u s" and "i \<in> fst ` set tabs"
  shows "settings_inv u (open_tab i s)"
proof -
  have "users_inv u (users_init u)" by (simp add: users_inv_def users_init_def)
  then show ?thesis using assms
    by (auto simp: settings_inv_def open_tab_def closed_calls_def default_toggles_def users_inv_def split: option.split)
qed

interpretation settings_m: guarded_machine "settings_enabled w D" "settings_step W" "settings_inv u" for w D W u
proof
  fix s e
  assume i: "settings_inv u s" and en: "settings_enabled w D s e"
  show "settings_inv u (settings_step W s e)"
  proof (cases e)
    case (TUser a)
    then have "offers (settings_view w D s) a" using en by (simp add: settings_enabled_def)
    from settings_offers [OF this] show ?thesis
    proof (elim disjE)
      assume "\<exists>k\<in>fst ` set tabs. a = Click (T_Tab k)"
      then show ?thesis using TUser
        by (elim bexE) (simp add: settings_step_def settings_handle_def open_tab_inv [OF i])
    next
      assume "\<exists>v. a = Choose T_Delivery v \<or> a = Choose T_Archive v \<or> a = Enter T_Webhook v"
      then show ?thesis using i TUser
        by (elim exE disjE) (simp_all add: settings_step_def settings_handle_def settings_inv_def)
    next
      assume "\<exists>k<length toggles. a = Click (T_Toggle k)"
      then show ?thesis using i TUser
        by (elim exE conjE) (simp add: settings_step_def settings_handle_def settings_inv_def)
    next
      assume "\<exists>p b. st_users s = Some p \<and> a = map_act T_Users b \<and> offers (users_view D p) b"
      then obtain p b where p: "st_users s = Some p" "a = map_act T_Users b" "offers (users_view D p) b" by blast
      then have "users_inv u (users_step W p (UUser b))"
        using i users_m.step_inv [of u p D "UUser b" W] by (simp add: settings_inv_def users_enabled_def)
      then show ?thesis using users_child_inv [OF i p(1)] TUser p(2)
        by (simp add: settings_step_def settings_handle_def)
    qed
  next
    case (TUsers e')
    then obtain p where p: "st_users s = Some p" "users_enabled D p e'"
      using en by (auto simp: settings_enabled_def split: option.splits users_event.splits)
    then have "users_inv u (users_step W p e')"
      using i users_m.step_inv [of u p D e' W] by (simp add: settings_inv_def)
    then show ?thesis using users_child_inv [OF i p(1)] TUsers by (simp add: settings_step_def)
  qed (use i in \<open>simp add: settings_step_def settings_inv_def\<close>)
qed

text \<open>Every call made on the page: by the panel that is open and by those that were closed.\<close>

definition all_calls :: "settings \<Rightarrow> users_call list" where
  "all_calls s = closed_calls s @ st_calls s"

interpretation settings_log: logged_machine "settings_enabled w D" "settings_step W" "settings_inv u" all_calls "users_call_ok u"
  for w D W u
  by unfold_locales (auto simp: all_calls_def settings_inv_def closed_calls_def users_inv_def split: option.split)

text \<open>In every session of the settings page, however often the tabs are opened and closed, user management is mounted exactly while its tab is open, and every call any of its panels ever made is one the user may make: an administrator's, or a change of the own password.\<close>

theorem settings_authority:
  assumes "run (settings_enabled w D) (settings_step W) (settings_init u) s"
  shows "(st_users s \<noteq> None \<longleftrightarrow> activeTab s = ''auth'')
    \<and> list_all (\<lambda>c. isAdmin u \<or> (\<exists>n p. c = CallUpdateUser n (Some p) None \<and> JStr n = own_name u \<and> p \<noteq> []))
        (all_calls s)"
proof -
  have init: "settings_inv u (settings_init u)"
    by (simp add: settings_inv_def settings_init_def tabs_def default_toggles_def)
  then have i: "settings_inv u s" using settings_m.run_inv [OF assms] by blast
  have "isAdmin u \<or> (\<exists>n p. c = CallUpdateUser n (Some p) None \<and> JStr n = own_name u \<and> p \<noteq> [])"
    if "users_call_ok u c" for c
    using that by (auto simp: users_call_ok_def split: users_call.splits)
  moreover have "list_all (users_call_ok u) (all_calls s)"
    using settings_log.run_log [OF assms init] .
  ultimately show ?thesis using i by (auto simp: list_all_iff settings_inv_def)
qed

definition settings_session :: "settings_event list" where
  "settings_session =
     TUser (Click (T_Tab ''auth''))
     # TUsers (ULoaded (QData [eve_row]))
     # map TUser [Click (T_Users (U_Edit eve_row)), Enter (T_Users U_EditPassword) ''new'',
                  Click (T_Users (U_Save ''eve'')), Click (T_Tab ''api'')]"

theorem settings_authority_witness:
  "\<exists>s. exec_events (settings_enabled None id) (settings_step quiet_env) (settings_init eve) settings_session = Some s
     \<and> st_users s = None \<and> st_calls s = [CallUpdateUser ''eve'' (Some ''new'') None]
     \<and> JStr ''eve'' = own_name eve"
proof -
  let ?c = "CallUpdateUser ''eve'' (Some ''new'') None"
  let ?s = "(settings_init eve)\<lparr>activeTab := ''api'', st_calls := [?c]\<rparr>"
  have r: "exec_events (settings_enabled None id) (settings_step quiet_env) (settings_init eve) settings_session = Some ?s"
    by code_simp
  have "\<not> isAdmin eve" by (simp add: isAdmin_def user_role_def eve_def)
  then have "JStr ''eve'' = own_name eve"
    using settings_authority [OF exec_events_run [OF r]]
    by (simp add: settings_init_def all_calls_def closed_calls_def)
  then have d: "st_users ?s = None \<and> st_calls ?s = [?c] \<and> JStr ''eve'' = own_name eve"
    by (simp add: settings_init_def)
  show ?thesis by (rule exI [of _ ?s], rule conjI [OF r d])
qed

end
