(* ===== verification/GoLib.thy ===== *)
theory GoLib
  imports Http "HOL-Library.AList" "HOL-Library.List_Lexorder" "HOL-Library.Char_ord"
begin

text \<open>
  What the programs on the cluster side (API server, operator and sidecar, written in Go)
  use of their standard library: maps, \<open>encoding/json\<close> for structures, the requests a
  handler of \<open>net/http\<close> sees, and the patterns of its \<open>ServeMux\<close>. A map is an association
  list; where the language leaves the order of a traversal open, the order is an argument.
\<close>

section \<open>Maps\<close>

interpretation go_map: key_store "\<lambda>k m. map_of m k" AList.update AList.delete
  by unfold_locales (auto simp: update_conv' delete_conv')

text \<open>\<open>m[k]\<close>, the empty string for a missing key.\<close>

definition go_get :: "(string \<times> string) list \<Rightarrow> string \<Rightarrow> string" where
  "go_get m k = (case map_of m k of None \<Rightarrow> [] | Some v \<Rightarrow> v)"

section \<open>JSON\<close>

text \<open>
  \<open>json.NewDecoder(r.Body).Decode(&x)\<close> reads the first value of the body and ignores what
  follows it.
\<close>

definition go_read :: "string \<Rightarrow> jsval option" where
  "go_read body = (case p_value (Suc (2 * length body)) body of None \<Rightarrow> None | Some (v, _) \<Rightarrow> Some v)"

text \<open>
  A structure takes its fields from the members whose names agree with the field's up to
  case; of several the last counts. \<open>null\<close>, like a missing member, leaves a field as it is.
\<close>

fun go_struct :: "jsval \<Rightarrow> (string \<times> jsval) list option" where
  "go_struct (JObj ms) = Some ms"
| "go_struct JNull = Some []"
| "go_struct v = None"

definition go_member :: "string \<Rightarrow> (string \<times> jsval) list \<Rightarrow> jsval" where
  "go_member k ms =
     (case filter (\<lambda>(l, _). to_lower l = to_lower k) ms of [] \<Rightarrow> JNull | xs \<Rightarrow> snd (last xs))"

text \<open>The kinds of fields; \<open>None\<close> is the error of a value of the wrong type.\<close>

fun go_string :: "jsval \<Rightarrow> string option" where
  "go_string JNull = Some []"
| "go_string (JStr s) = Some s"
| "go_string v = None"

fun go_bool :: "jsval \<Rightarrow> bool option" where
  "go_bool JNull = Some False"
| "go_bool (JBool b) = Some b"
| "go_bool v = None"

fun go_int32 :: "jsval \<Rightarrow> int option" where
  "go_int32 JNull = Some 0"
| "go_int32 (JNum n) =
     (case int_of_num n of
        None \<Rightarrow> None
      | Some i \<Rightarrow> if - (2 ^ 31) \<le> i \<and> i < 2 ^ 31 then Some i else None)"
| "go_int32 v = None"

text \<open>A pointer is nil for \<open>null\<close>, a slice too; the elements of a slice are read in turn.
  A number is read by its value, however it is written.\<close>

definition go_ptr :: "(jsval \<Rightarrow> 'a option) \<Rightarrow> jsval \<Rightarrow> 'a option option" where
  "go_ptr rd v = (if v = JNull then Some None else map_option Some (rd v))"

fun map_opt :: "('a \<Rightarrow> 'b option) \<Rightarrow> 'a list \<Rightarrow> 'b list option" where
  "map_opt f [] = Some []"
| "map_opt f (x # xs) =
     (case f x of None \<Rightarrow> None | Some y \<Rightarrow> map_option ((#) y) (map_opt f xs))"

fun go_slice :: "(jsval \<Rightarrow> 'a option) \<Rightarrow> jsval \<Rightarrow> 'a list option option" where
  "go_slice rd JNull = Some None"
| "go_slice rd (JArr vs) = map_option Some (map_opt rd vs)"
| "go_slice rd v = None"

text \<open>\<open>map[string]string\<close>\<close>

fun go_string_map :: "jsval \<Rightarrow> (string \<times> string) list option" where
  "go_string_map JNull = Some []"
| "go_string_map (JObj ms) = map_opt (\<lambda>(k, v). map_option (Pair k) (go_string v)) ms"
| "go_string_map v = None"

text \<open>
  \<open>json.NewEncoder(w).Encode(x)\<close>: the text of the value, with \<open><\<close>, \<open>>\<close> and \<open>&\<close> (which can
  occur inside its strings only) escaped, and a newline.
\<close>

definition html_char :: "char \<Rightarrow> string" where
  "html_char c =
     (if c = CHR ''<'' then CHR 0x5C # ''u003c'' else if c = CHR ''>'' then CHR 0x5C # ''u003e''
      else if c = CHR ''&'' then CHR 0x5C # ''u0026'' else [c])"

definition html_escape :: "string \<Rightarrow> string" where
  "html_escape s = concat (map html_char s)"

definition go_encode :: "jsval \<Rightarrow> string" where
  "go_encode v = html_escape (case json_stringify v of None \<Rightarrow> ''null'' | Some s \<Rightarrow> s) @ [CHR 0x0A]"

text \<open>Members tagged \<open>omitempty\<close>.\<close>

definition omit_str :: "string \<Rightarrow> jsval" where
  "omit_str s = (if s = [] then JUndef else JStr s)"

definition go_obj :: "(string \<times> string) list \<Rightarrow> jsval" where
  "go_obj m = JObj (map (\<lambda>(k, v). (k, JStr v)) (sort_key fst m))"

section \<open>Patterns of routes\<close>

text \<open>\<open>http.ServeMux\<close>: a wildcard stands for one segment, and \<open>GET\<close> also serves \<open>HEAD\<close>.\<close>

datatype seg = Lit string | Wild

definition pattern :: "string \<Rightarrow> seg list" where
  "pattern s = map (\<lambda>w. if starts_with ''{'' w then Wild else Lit w) (split_on CHR ''/'' (drop 1 s))"

fun match_path :: "seg list \<Rightarrow> string list \<Rightarrow> string list option" where
  "match_path [] [] = Some []"
| "match_path (Lit l # ps) (w # ws) = (if w = l then match_path ps ws else None)"
| "match_path (Wild # ps) (w # ws) = (if w = [] then None else map_option ((#) w) (match_path ps ws))"
| "match_path ps ws = None"

definition match_method :: "string \<Rightarrow> string \<Rightarrow> bool" where
  "match_method m rm \<longleftrightarrow> rm = m \<or> m = ''GET'' \<and> rm = ''HEAD''"

definition path_segs :: "string \<Rightarrow> string list" where
  "path_segs p = split_on CHR ''/'' (drop 1 p)"

text \<open>A path that \<open>path.Clean\<close> would change is redirected.\<close>

definition clean_path :: "string \<Rightarrow> bool" where
  "clean_path p \<longleftrightarrow> starts_with ''/'' p \<and> list_all (\<lambda>w. w \<noteq> ''.'' \<and> w \<noteq> ''..'') (path_segs p)
     \<and> list_all (\<lambda>w. w \<noteq> []) (butlast (path_segs p))"

section \<open>What is encoded reads back\<close>

lemma html_escape_Nil [simp]: "html_escape [] = []"
  by (simp add: html_escape_def)

lemma html_escape_Cons: "html_escape (c # s) = html_char c @ html_escape s"
  by (simp add: html_escape_def)

definition html_plain :: "char \<Rightarrow> bool" where
  "html_plain c \<longleftrightarrow> c \<noteq> CHR ''<'' \<and> c \<noteq> CHR ''>'' \<and> c \<noteq> CHR ''&''"

lemma html_char_plain [simp]: "html_plain c \<Longrightarrow> html_char c = [c]"
  by (simp add: html_char_def html_plain_def)

lemma html_escape_plain [simp]: "html_plain c \<Longrightarrow> html_escape (c # s) = c # html_escape s"
  by (simp add: html_escape_Cons)

lemma html_plain_chars:
  "is_digit c \<Longrightarrow> html_plain c" "hex_val c \<noteq> None \<Longrightarrow> html_plain c" "unesc_char c \<noteq> None \<Longrightarrow> html_plain c"
  "is_json_ws c \<Longrightarrow> html_plain c"
  by (auto simp: html_plain_def is_digit_def hex_val_def unesc_char_def is_json_ws_def)

lemma html_special: "\<not> html_plain c \<Longrightarrow> \<exists>a b. html_char c = CHR 0x5C # CHR ''u'' # ''00'' @ [a, b]
    \<and> hex4 CHR ''0'' CHR ''0'' a b = Some (code c)"
  by (auto simp: html_plain_def html_char_def hex4_def hex_val_def)

lemma p_string_html: "p_string s = Some (x, r) \<Longrightarrow> p_string (html_escape s) = Some (x, html_escape r)"
proof (induction s arbitrary: x r rule: p_string.induct)
  case 1
  then show ?case by simp
next
  case (2 c s)
  consider (quote) "c = CHR 0x22" | (esc) "c = CHR 0x5C" | (other) "c \<noteq> CHR 0x22" "c \<noteq> CHR 0x5C" by blast
  then show ?case
  proof cases
    case quote
    then show ?thesis using 2 by (simp add: html_plain_def)
  next
    case esc
    then obtain d s1 where s: "s = d # s1" using "2.prems" by (cases s) auto
    show ?thesis
    proof (cases "d = CHR ''u''")
      case True
      then obtain a b e g s2 n y where
        s2: "s1 = a # b # e # g # s2" "hex4 a b e g = Some n" "n < 256" "p_string s2 = Some (y, r)" "x = char_of n # y"
        using "2.prems" s esc by (auto simp: cons_fst_Some split: list.splits option.splits if_splits)
      have h: "html_plain a" "html_plain b" "html_plain e" "html_plain g"
        using s2(2) html_plain_chars(2) by (auto simp: hex4_def split: option.splits)
      have "p_string (html_escape s2) = Some (y, html_escape r)"
        using "2.IH"(1) [of d s1 a "b # e # g # s2" b "e # g # s2" e "g # s2" g s2 n] s2 s esc True by simp
      then show ?thesis
        using s2 h s esc True by (simp add: html_plain_def cons_fst_def)
    next
      case False
      then obtain z y where z: "unesc_char d = Some z" "p_string s1 = Some (y, r)" "x = z # y"
        using "2.prems" s esc by (auto simp: cons_fst_Some split: option.splits)
      have "p_string (html_escape s1) = Some (y, html_escape r)"
        using "2.IH"(2) [of d s1 z] z s esc False by simp
      then show ?thesis
        using z s esc False html_plain_chars(3) [of d] by (simp add: html_plain_def cons_fst_def)
    qed
  next
    case other
    then obtain y where y: "code c \<ge> 32" "p_string s = Some (y, r)" "x = c # y"
      using "2.prems" by (auto simp: cons_fst_Some split: if_splits)
    have ih: "p_string (html_escape s) = Some (y, html_escape r)"
      using "2.IH"(3) other y by simp
    show ?thesis
    proof (cases "html_plain c")
      case True
      then show ?thesis using ih other y by (simp add: cons_fst_def)
    next
      case False
      then show ?thesis
        using ih y html_special [OF False] by (auto simp: html_escape_Cons cons_fst_def)
    qed
  qed
qed

text \<open>Outside of strings the escaped characters do not occur, so the rest of the parser is unaffected.\<close>

lemma html_escape_cases:
  obtains "s = []" "html_escape s = []"
  | c u where "s = c # u" "html_plain c" "html_escape s = c # html_escape u"
  | c u v where "s = c # u" "\<not> html_plain c" "html_escape s = CHR 0x5C # v"
proof (cases s)
  case (Cons c u)
  then show ?thesis
    using that html_special [of c] by (cases "html_plain c") (auto simp: html_escape_Cons)
qed (use that in simp)

lemma starts_with_html:
  "html_plain c \<Longrightarrow> c \<noteq> CHR 0x5C \<Longrightarrow> starts_with [c] (html_escape s) = starts_with [c] s"
  by (rule html_escape_cases [of s]) auto

lemma drop1_html: "starts_with [c] s \<Longrightarrow> html_plain c \<Longrightarrow> drop 1 (html_escape s) = html_escape (drop 1 s)"
  by (cases s) auto

lemma digits_html:
  "takeWhile is_digit (html_escape s) = takeWhile is_digit s"
  "drop (length (takeWhile is_digit s)) (html_escape s) = html_escape (drop (length (takeWhile is_digit s)) s)"
proof (induction s)
  case (Cons c s)
  have "\<not> is_digit CHR 0x5C" by (simp add: is_digit_def)
  then have "takeWhile is_digit (html_escape (c # s)) = takeWhile is_digit (c # s)
    \<and> drop (length (takeWhile is_digit (c # s))) (html_escape (c # s))
        = html_escape (drop (length (takeWhile is_digit (c # s))) (c # s))"
    using Cons html_plain_chars(1) [of c] html_special [of c]
    by (cases "html_plain c") (auto simp: html_escape_Cons)
  then show "takeWhile is_digit (html_escape (c # s)) = takeWhile is_digit (c # s)"
    "drop (length (takeWhile is_digit (c # s))) (html_escape (c # s))
        = html_escape (drop (length (takeWhile is_digit (c # s))) (c # s))" by blast+
qed simp_all

lemma html_plain_sign: "html_plain CHR ''-''" "html_plain CHR ''+''" "html_plain CHR ''.''" "html_plain CHR ''0''"
  "html_plain CHR ''e''" "html_plain CHR ''E''"
  by (simp_all add: html_plain_def)

lemma starts_html [simp]:
  "starts_with ''-'' (html_escape s) = starts_with ''-'' s" "starts_with ''+'' (html_escape s) = starts_with ''+'' s"
  "starts_with ''.'' (html_escape s) = starts_with ''.'' s" "starts_with ''0'' (html_escape s) = starts_with ''0'' s"
  "starts_with ''e'' (html_escape s) = starts_with ''e'' s" "starts_with ''E'' (html_escape s) = starts_with ''E'' s"
  using html_plain_sign by (simp_all add: starts_with_html del: starts_with_Cons)

lemma p_int_html: "p_int (html_escape s) = map_option (map_prod id html_escape) (p_int s)"
  using drop1_html [of "CHR ''0''" s] html_plain_sign digits_html [of s]
  by (simp add: p_int_def Let_def)

lemma p_frac_html: "p_frac (html_escape s) = map_option (map_prod id html_escape) (p_frac s)"
  using drop1_html [of "CHR ''.''" s] html_plain_sign digits_html [of "drop 1 s"]
  by (simp add: p_frac_def Let_def)

lemma p_exp_html: "p_exp (html_escape s) = map_option (map_prod id html_escape) (p_exp s)"
proof -
  let ?t = "drop 1 s"
  have t: "drop 1 (html_escape s) = html_escape ?t" if "starts_with ''e'' s \<or> starts_with ''E'' s"
    using that drop1_html html_plain_sign by blast
  have u: "drop 1 (html_escape ?t) = html_escape (drop 1 ?t)" if "starts_with ''-'' ?t \<or> starts_with ''+'' ?t"
    using that drop1_html html_plain_sign by blast
  show ?thesis
    using t u digits_html [of "if starts_with ''-'' ?t \<or> starts_with ''+'' ?t then drop 1 ?t else ?t"]
    by (auto simp: p_exp_def Let_def)
qed

lemma p_number_html: "p_number (html_escape s) = map_option (map_prod id html_escape) (p_number s)"
proof -
  have d: "drop 1 (html_escape s) = html_escape (drop 1 s)" if "starts_with ''-'' s"
    using that drop1_html html_plain_sign by blast
  have "(if starts_with ''-'' s then drop 1 (html_escape s) else html_escape s)
      = html_escape (if starts_with ''-'' s then drop 1 s else s)"
    using d by simp
  then show ?thesis
    by (simp only: p_number_def Let_def starts_html p_int_html)
      (auto simp: p_frac_html p_exp_html split: option.split)
qed

lemma skip_ws_html: "skip_ws (html_escape s) = html_escape (skip_ws s)"
proof (induction s)
  case (Cons c s)
  have "\<not> is_json_ws CHR 0x5C" by (simp add: is_json_ws_def)
  then show ?case
    using Cons html_plain_chars(4) [of c] html_special [of c]
    by (cases "html_plain c") (auto simp: html_escape_Cons skip_ws_def)
qed (simp add: skip_ws_def)

text \<open>A value that is read from a text is read from the escaped text too.\<close>

lemma skip_ws_cons_html: "skip_ws s = c # r \<Longrightarrow> html_plain c \<Longrightarrow> skip_ws (html_escape s) = c # html_escape r"
  by (simp add: skip_ws_html)

lemma p_value_html_number:
  assumes "p_number (skip_ws s) = Some (v, r)" and "p_value (Suc f) s = Some (v, r)"
  shows "p_value (Suc f) (html_escape s) = Some (v, html_escape r)"
proof -
  obtain c u where cu: "skip_ws s = c # u" using assms(2) by (auto split: list.splits)
  have n: "p_number (skip_ws (html_escape s)) = Some (v, html_escape r)"
    using assms(1) by (simp add: skip_ws_html p_number_html)
  have "c = CHR ''-'' \<or> is_digit c"
    using assms(1) cu by (auto simp: p_number_def p_int_def Let_def is_digit_def split: if_splits option.splits)
  then have c: "html_plain c" "c \<noteq> CHR 0x22" "c \<noteq> CHR ''[''" "c \<noteq> CHR ''{''" "c \<noteq> CHR ''t''" "c \<noteq> CHR ''f''" "c \<noteq> CHR ''n''"
    using num_start_other [of c] html_plain_sign(1) html_plain_chars(1) [of c] by auto
  then show ?thesis using n skip_ws_cons_html [OF cu c(1)] by simp
qed

lemma p_html:
  "(p_value f s = Some (v, r) \<longrightarrow> p_value f (html_escape s) = Some (v, html_escape r)) \<and>
   (p_elems f s = Some (vs, r) \<longrightarrow> p_elems f (html_escape s) = Some (vs, html_escape r)) \<and>
   (p_members f s = Some (ps, r) \<longrightarrow> p_members f (html_escape s) = Some (ps, html_escape r))"
proof (induction f arbitrary: s v r vs ps)
  case 0
  then show ?case by simp
next
  case (Suc f)
  have q: "html_plain CHR 0x22" "html_plain CHR '',''" "html_plain CHR '']''" "html_plain CHR '':''"
    "html_plain CHR ''}''" "html_plain CHR ''[''" "html_plain CHR ''{''"
    by (simp_all add: html_plain_def)
  have E: "p_elems (Suc f) (html_escape s) = Some (vs, html_escape r)" if "p_elems (Suc f) s = Some (vs, r)" for s vs r
    using that
  proof (cases rule: p_elems_SucE)
    case (more v us r0 r1)
    then show ?thesis
      using Suc.IH skip_ws_cons_html [OF more(2) q(2)] by (simp add: cons_fst_def)
  next
    case (last v r0)
    then show ?thesis using Suc.IH skip_ws_cons_html [OF last(2) q(3)] by simp
  qed
  have M: "p_members (Suc f) (html_escape s) = Some (ps, html_escape r)" if "p_members (Suc f) s = Some (ps, r)" for s ps r
    using that
  proof (cases rule: p_members_SucE)
    case (more k v r0 r1 r2 r3 r4 qs)
    then show ?thesis
      using Suc.IH skip_ws_cons_html [OF more(1) q(1)] skip_ws_cons_html [OF more(3) q(4)]
        skip_ws_cons_html [OF more(5) q(2)] p_string_html [OF more(2)] by (simp add: cons_fst_def)
  next
    case (last k v r0 r1 r2 r3)
    then show ?thesis
      using Suc.IH skip_ws_cons_html [OF last(1) q(1)] skip_ws_cons_html [OF last(3) q(4)]
        skip_ws_cons_html [OF last(5) q(5)] p_string_html [OF last(2)] by simp
  qed
  have V: "p_value (Suc f) (html_escape s) = Some (v, html_escape r)" if p: "p_value (Suc f) s = Some (v, r)" for s v r
  proof -
    obtain c u where cu: "skip_ws s = c # u" using p by (auto split: list.splits)
    have close: "starts_with [d] (skip_ws (html_escape u)) = starts_with [d] (skip_ws u)
        \<and> (starts_with [d] (skip_ws u) \<longrightarrow> drop 1 (skip_ws (html_escape u)) = html_escape (drop 1 (skip_ws u)))"
      if "html_plain d" "d \<noteq> CHR 0x5C" for d
      using starts_with_html [OF that, of "skip_ws u"] drop1_html [of d "skip_ws u"] that by (simp add: skip_ws_html)
    consider (quote) "c = CHR 0x22" | (arr) "c = CHR ''[''" | (obj) "c = CHR ''{''"
      | (true) w where "c # u = ''true'' @ w" | (false) w where "c # u = ''false'' @ w" | (null) w where "c # u = ''null'' @ w"
      | (num) "p_number (skip_ws s) = Some (v, r)"
      using p cu by (auto simp: starts_with_prefix split: if_splits)
    then show ?thesis
    proof cases
      case quote
      then show ?thesis using p cu skip_ws_cons_html [OF cu] q p_string_html by auto
    next
      case arr
      then show ?thesis
        using p cu skip_ws_cons_html [OF cu] q close [of "CHR '']''"] Suc.IH [of u] by (auto split: if_splits)
    next
      case obj
      then show ?thesis
        using p cu skip_ws_cons_html [OF cu] q close [of "CHR ''}''"] Suc.IH [of u] by (auto split: if_splits)
    next
      case true
      then show ?thesis using p cu skip_ws_html [of s] by (auto simp: html_plain_def)
    next
      case false
      then show ?thesis using p cu skip_ws_html [of s] by (auto simp: html_plain_def)
    next
      case null
      then show ?thesis using p cu skip_ws_html [of s] by (auto simp: html_plain_def)
    next
      case num
      then show ?thesis using p by (rule p_value_html_number)
    qed
  qed
  show ?case using V E M by blast
qed

lemma p_value_enough:
  assumes "p_value f s = Some (v, r)" and "2 * length s < f"
  shows "p_value (Suc (2 * length s)) s = Some (v, r)"
  using assms p_fuel [of s f "Suc (2 * length s)"] by simp

lemma html_escape_length: "length s \<le> length (html_escape s)"
proof (induction s)
  case (Cons c s)
  then show ?case
    using html_special [of c] by (cases "html_plain c") (auto simp: html_escape_Cons)
qed simp

lemma stringify_reads:
  assumes "json_ok v" and "json_stringify v = Some s" and "no_num_start u"
  shows "p_value (Suc (2 * length (s @ u))) (s @ u) = Some (v, u)"
proof -
  have "parses s v" using stringify_parses [OF assms(1)] assms(2) by simp
  then have "with_fuel (\<lambda>f. p_value f (s @ u) = Some (v, u))"
    using assms(3) by (simp add: parses_def)
  then obtain f0 where "\<forall>f\<ge>f0. p_value f (s @ u) = Some (v, u)" by (auto simp: with_fuel_def)
  then have "p_value (max f0 (Suc (2 * length (s @ u)))) (s @ u) = Some (v, u)" by simp
  then show ?thesis by (rule p_value_enough) simp
qed

theorem go_encode_reads:
  assumes "json_ok v"
  shows "json_parse (go_encode v) = Inr v" and "go_read (go_encode v) = Some v"
proof -
  obtain s where s: "json_stringify v = Some s" using stringify_parses [OF assms] by blast
  have e: "go_encode v = html_escape (s @ [CHR 0x0A])"
    by (simp add: go_encode_def s html_escape_def html_char_def)
  have n: "no_num_start [CHR 0x0A]" by (simp add: is_digit_def)
  let ?t = "go_encode v" and ?n = "Suc (2 * length (go_encode v))"
  have l: "2 * length (s @ [CHR 0x0A]) < ?n" using html_escape_length [of "s @ [CHR 0x0A]"] e by simp
  have "p_value ?n (s @ [CHR 0x0A]) = Some (v, [CHR 0x0A])"
    using stringify_reads [OF assms s n] p_fuel [of "s @ [CHR 0x0A]" ?n "Suc (2 * length (s @ [CHR 0x0A]))"] l by simp
  then have p: "p_value ?n ?t = Some (v, [CHR 0x0A])"
    using p_html [of ?n "s @ [CHR 0x0A]" v "[CHR 0x0A]"] e by (simp add: html_plain_def)
  then show "json_parse ?t = Inr v" "go_read ?t = Some v"
    by (simp_all add: json_parse_def go_read_def skip_ws_def is_json_ws_def)
qed

text \<open>A body that \<open>JSON.parse\<close> accepts is read as the same value.\<close>

lemma go_read_parse: "json_parse s = Inr v \<Longrightarrow> go_read s = Some v"
  by (auto simp only: json_parse_def go_read_def split: option.splits prod.splits if_splits)

end
