(* ===== verification/Kube.thy ===== *)
theory Kube
  imports GoLib "HOL-Library.Monad_Syntax"
begin

text \<open>
  The resource \<open>FeatureFlag\<close> as the Go programs know it (\<open>pkg/apis/v1alpha1\<close>), how it is read
  from and written to JSON, and the Kubernetes API they use it through. The API is not part
  of the repository: it is a record of functions on an unknown state of the cluster, and
  \<open>kube_laws\<close> states what its documentation promises. A slice that may be nil is an option. The
  configuration of a rollout, which no program here reads, and the status fields none of them
  sets are left out.
\<close>

section \<open>The resource\<close>

record sel_requirement =
  sr_key :: string
  sr_operator :: string
  sr_values :: "string list option"

record kselector =
  ks_labels :: "(string \<times> string) list"
  ks_exprs :: "sel_requirement list option"

record kenv =
  ke_name :: string
  ke_selector :: "kselector option"

record kconfig =
  kc_name :: string
  kc_key :: string
  kc_selector :: "kselector option"

record ksidecar =
  kb_port :: int
  kb_selector :: "kselector option"

record kdelivery =
  kd_env :: "kenv option"
  kd_config :: "kconfig option"
  kd_sidecar :: "ksidecar option"

record kcondition =
  kn_attribute :: string
  kn_operator :: string
  kn_values :: "string list option"

record krule =
  kr_name :: string
  kr_conditions :: "kcondition list option"
  kr_value :: string
  kr_percentage :: "int option"

record kspec =
  sp_description :: string
  sp_type :: string
  sp_default :: string
  sp_rules :: "krule list option"
  sp_delivery :: "kdelivery option"
  sp_disabled :: bool
  sp_lifecycle :: string

record kstatus =
  st_phase :: string
  st_current :: string
  st_targeted :: int
  st_updated :: "int option"
  st_observed :: int

record kflag =
  kf_name :: string
  kf_namespace :: string
  kf_created :: int
  kf_generation :: int
  kf_spec :: kspec
  kf_status :: kstatus

definition new_status :: kstatus where
  "new_status = \<lparr>st_phase = [], st_current = [], st_targeted = 0, st_updated = None, st_observed = 0\<rparr>"

section \<open>Reading JSON\<close>

definition read_requirement :: "jsval \<Rightarrow> sel_requirement option" where
  "read_requirement v = do {
     ms \<leftarrow> go_struct v;
     k \<leftarrow> go_string (go_member ''key'' ms);
     op \<leftarrow> go_string (go_member ''operator'' ms);
     vs \<leftarrow> go_slice go_string (go_member ''values'' ms);
     Some \<lparr>sr_key = k, sr_operator = op, sr_values = vs\<rparr> }"

definition read_selector :: "jsval \<Rightarrow> kselector option" where
  "read_selector v = do {
     ms \<leftarrow> go_struct v;
     ls \<leftarrow> go_string_map (go_member ''matchLabels'' ms);
     es \<leftarrow> go_slice read_requirement (go_member ''matchExpressions'' ms);
     Some \<lparr>ks_labels = ls, ks_exprs = es\<rparr> }"

definition read_env :: "jsval \<Rightarrow> kenv option" where
  "read_env v = do {
     ms \<leftarrow> go_struct v;
     n \<leftarrow> go_string (go_member ''name'' ms);
     s \<leftarrow> go_ptr read_selector (go_member ''selector'' ms);
     Some \<lparr>ke_name = n, ke_selector = s\<rparr> }"

definition read_config :: "jsval \<Rightarrow> kconfig option" where
  "read_config v = do {
     ms \<leftarrow> go_struct v;
     n \<leftarrow> go_string (go_member ''configMapName'' ms);
     k \<leftarrow> go_string (go_member ''key'' ms);
     s \<leftarrow> go_ptr read_selector (go_member ''selector'' ms);
     Some \<lparr>kc_name = n, kc_key = k, kc_selector = s\<rparr> }"

definition read_sidecar :: "jsval \<Rightarrow> ksidecar option" where
  "read_sidecar v = do {
     ms \<leftarrow> go_struct v;
     p \<leftarrow> go_int32 (go_member ''port'' ms);
     s \<leftarrow> go_ptr read_selector (go_member ''selector'' ms);
     Some \<lparr>kb_port = p, kb_selector = s\<rparr> }"

definition read_delivery :: "jsval \<Rightarrow> kdelivery option" where
  "read_delivery v = do {
     ms \<leftarrow> go_struct v;
     e \<leftarrow> go_ptr read_env (go_member ''envVar'' ms);
     c \<leftarrow> go_ptr read_config (go_member ''configMap'' ms);
     s \<leftarrow> go_ptr read_sidecar (go_member ''sidecar'' ms);
     Some \<lparr>kd_env = e, kd_config = c, kd_sidecar = s\<rparr> }"

definition read_condition :: "jsval \<Rightarrow> kcondition option" where
  "read_condition v = do {
     ms \<leftarrow> go_struct v;
     a \<leftarrow> go_string (go_member ''attribute'' ms);
     op \<leftarrow> go_string (go_member ''operator'' ms);
     vs \<leftarrow> go_slice go_string (go_member ''values'' ms);
     Some \<lparr>kn_attribute = a, kn_operator = op, kn_values = vs\<rparr> }"

definition read_rule :: "jsval \<Rightarrow> krule option" where
  "read_rule v = do {
     ms \<leftarrow> go_struct v;
     n \<leftarrow> go_string (go_member ''name'' ms);
     cs \<leftarrow> go_slice read_condition (go_member ''conditions'' ms);
     x \<leftarrow> go_string (go_member ''value'' ms);
     p \<leftarrow> go_ptr go_int32 (go_member ''percentage'' ms);
     Some \<lparr>kr_name = n, kr_conditions = cs, kr_value = x, kr_percentage = p\<rparr> }"

section \<open>Writing JSON\<close>

definition slice_value :: "('a \<Rightarrow> jsval) \<Rightarrow> 'a list option \<Rightarrow> jsval" where
  "slice_value f xs = (case xs of None \<Rightarrow> JNull | Some ys \<Rightarrow> JArr (map f ys))"

definition omit_slice :: "('a \<Rightarrow> jsval) \<Rightarrow> 'a list option \<Rightarrow> jsval" where
  "omit_slice f xs = (case xs of Some (y # ys) \<Rightarrow> JArr (map f (y # ys)) | _ \<Rightarrow> JUndef)"

definition ptr_value :: "('a \<Rightarrow> jsval) \<Rightarrow> 'a option \<Rightarrow> jsval" where
  "ptr_value f x = (case x of None \<Rightarrow> JNull | Some y \<Rightarrow> f y)"

definition omit_ptr :: "('a \<Rightarrow> jsval) \<Rightarrow> 'a option \<Rightarrow> jsval" where
  "omit_ptr f x = (case x of None \<Rightarrow> JUndef | Some y \<Rightarrow> f y)"

definition int_value :: "int \<Rightarrow> jsval" where
  "int_value i = JNum (num_of_int i)"

definition requirement_value :: "sel_requirement \<Rightarrow> jsval" where
  "requirement_value q =
     JObj [(''key'', JStr (sr_key q)), (''operator'', JStr (sr_operator q)),
           (''values'', omit_slice JStr (sr_values q))]"

definition selector_value :: "kselector \<Rightarrow> jsval" where
  "selector_value s =
     JObj [(''matchLabels'', if ks_labels s = [] then JUndef else go_obj (ks_labels s)),
           (''matchExpressions'', omit_slice requirement_value (ks_exprs s))]"

definition env_value :: "kenv \<Rightarrow> jsval" where
  "env_value e =
     JObj [(''name'', omit_str (ke_name e)), (''selector'', ptr_value selector_value (ke_selector e))]"

definition config_value :: "kconfig \<Rightarrow> jsval" where
  "config_value c =
     JObj [(''configMapName'', JStr (kc_name c)), (''key'', JStr (kc_key c)),
           (''selector'', ptr_value selector_value (kc_selector c))]"

definition sidecar_value :: "ksidecar \<Rightarrow> jsval" where
  "sidecar_value s =
     JObj [(''port'', if kb_port s = 0 then JUndef else int_value (kb_port s)),
           (''selector'', ptr_value selector_value (kb_selector s))]"

definition delivery_value :: "kdelivery \<Rightarrow> jsval" where
  "delivery_value d =
     JObj [(''envVar'', omit_ptr env_value (kd_env d)), (''configMap'', omit_ptr config_value (kd_config d)),
           (''sidecar'', omit_ptr sidecar_value (kd_sidecar d))]"

definition condition_value :: "kcondition \<Rightarrow> jsval" where
  "condition_value c =
     JObj [(''attribute'', JStr (kn_attribute c)), (''operator'', JStr (kn_operator c)),
           (''values'', slice_value JStr (kn_values c))]"

definition rule_value_json :: "krule \<Rightarrow> jsval" where
  "rule_value_json r =
     JObj [(''name'', JStr (kr_name r)), (''conditions'', slice_value condition_value (kr_conditions r)),
           (''value'', JStr (kr_value r)), (''percentage'', omit_ptr int_value (kr_percentage r))]"

section \<open>The Kubernetes API\<close>

datatype kube_error = NotFound string | KubeError string

fun kube_msg :: "kube_error \<Rightarrow> string" where
  "kube_msg (NotFound m) = m"
| "kube_msg (KubeError m) = m"

fun is_not_found :: "kube_error \<Rightarrow> bool" where
  "is_not_found (NotFound m) = True"
| "is_not_found (KubeError m) = False"

type_synonym 'a kres = "kube_error + 'a"

text \<open>
  The parts of Kubernetes' own objects that the programs use. A reference to a key of a
  ConfigMap or a secret is the pair of name and key; other sources of a value have neither.
\<close>

record env_source =
  es_config :: "(string \<times> string) option"
  es_secret :: "(string \<times> string) option"

record env_entry =
  en_name :: string
  en_value :: string
  en_from :: "env_source option"     \<comment> \<open>\<open>valueFrom\<close>\<close>

record env_from =
  fr_config :: "string option"
  fr_secret :: "string option"

record container =
  co_name :: string
  co_image :: string
  co_env :: "env_entry list"
  co_env_from :: "env_from list"

text \<open>A Deployment; the same parts of a StatefulSet or a DaemonSet.\<close>

record deployment =
  dp_namespace :: string
  dp_name :: string
  dp_replicas :: "int option"
  dp_labels :: "(string \<times> string) list"
  dp_annotations :: "(string \<times> string) list"   \<comment> \<open>of the pod template\<close>
  dp_containers :: "container list"

record config_map =
  cmap_namespace :: string
  cmap_name :: string
  cmap_labels :: "(string \<times> string) list"
  cmap_data :: "(string \<times> string) list"

text \<open>The selector that every object satisfies: a list without a selector.\<close>

definition everything :: kselector where
  "everything = \<lparr>ks_labels = [], ks_exprs = None\<rparr>"

text \<open>
  Lists are by namespace; a list of deployments also by selector, one of ConfigMaps by labels.
  A DaemonSet comes with its \<open>DesiredNumberScheduled\<close>. \<open>kube_selector\<close> is the test of labels
  a selector stands for, \<open>LabelSelectorAsSelector\<close>, if it is a valid one.
\<close>

record 'k kube =
  kube_list_flags :: "'k \<Rightarrow> kflag list kres"
  kube_get_flag :: "'k \<Rightarrow> string \<Rightarrow> string \<Rightarrow> kflag kres"         \<comment> \<open>namespace, name\<close>
  kube_create_flag :: "'k \<Rightarrow> kflag \<Rightarrow> 'k \<times> kflag kres"
  kube_update_flag :: "'k \<Rightarrow> kflag \<Rightarrow> 'k \<times> kflag kres"
  kube_delete_flag :: "'k \<Rightarrow> kflag \<Rightarrow> 'k \<times> unit kres"
  kube_update_status :: "'k \<Rightarrow> kflag \<Rightarrow> 'k \<times> unit kres"
  kube_list_deployments :: "'k \<Rightarrow> string \<Rightarrow> kselector option \<Rightarrow> deployment list kres"
  kube_update_deployment :: "'k \<Rightarrow> deployment \<Rightarrow> 'k \<times> unit kres"
  kube_get_config :: "'k \<Rightarrow> string \<Rightarrow> string \<Rightarrow> config_map kres"
  kube_create_config :: "'k \<Rightarrow> config_map \<Rightarrow> 'k \<times> unit kres"
  kube_update_config :: "'k \<Rightarrow> config_map \<Rightarrow> 'k \<times> unit kres"
  kube_list_flags_in :: "'k \<Rightarrow> string \<Rightarrow> kflag list kres"
  kube_list_statefulsets :: "'k \<Rightarrow> string \<Rightarrow> deployment list kres"
  kube_list_daemonsets :: "'k \<Rightarrow> string \<Rightarrow> (deployment \<times> int) list kres"
  kube_list_configs :: "'k \<Rightarrow> string \<Rightarrow> (string \<times> string) list \<Rightarrow> config_map list kres"
  kube_selector :: "kselector \<Rightarrow> ((string \<times> string) list \<Rightarrow> bool) option"

text \<open>
  What the documentation of Kubernetes promises of a call that succeeds. A stored flag is the
  one sent, apart from its metadata and status and from the default the schema gives to the
  port of a sidecar (\<open>kept\<close>); objects are found by namespace and name, and a change to one
  leaves the others alone; the status is a part that only the call for it writes. Reads are of the
  present state: that a client may read from a cache which lags behind is not modelled.
\<close>

definition kept :: "kflag \<Rightarrow> kflag \<Rightarrow> bool" where
  "kept f g \<longleftrightarrow> kf_name g = kf_name f \<and> kf_namespace g = kf_namespace f
     \<and> (kf_spec g)\<lparr>sp_delivery := None\<rparr> = (kf_spec f)\<lparr>sp_delivery := None\<rparr>
     \<and> map_option kd_env (sp_delivery (kf_spec g)) = map_option kd_env (sp_delivery (kf_spec f))
     \<and> map_option kd_config (sp_delivery (kf_spec g)) = map_option kd_config (sp_delivery (kf_spec f))"

definition flag_put_laws :: "'k kube \<Rightarrow> ('k \<Rightarrow> kflag \<Rightarrow> 'k \<times> kflag kres) \<Rightarrow> bool" where
  "flag_put_laws K put \<longleftrightarrow>
     (\<forall>k f k' g. put k f = (k', Inr g) \<longrightarrow> kept f g
        \<and> kube_get_flag K k' (kf_namespace f) (kf_name f) = Inr g
        \<and> (\<forall>ns n. (ns, n) \<noteq> (kf_namespace f, kf_name f) \<longrightarrow> kube_get_flag K k' ns n = kube_get_flag K k ns n)
        \<and> kube_list_deployments K k' = kube_list_deployments K k)"

text \<open>A name that is taken is refused.\<close>

definition flag_create_laws :: "'k kube \<Rightarrow> bool" where
  "flag_create_laws K \<longleftrightarrow>
     (\<forall>k f k' g. kube_create_flag K k f = (k', Inr g) \<longrightarrow>
        (\<forall>h. kube_get_flag K k (kf_namespace f) (kf_name f) \<noteq> Inr h))"

definition flag_delete_laws :: "'k kube \<Rightarrow> bool" where
  "flag_delete_laws K \<longleftrightarrow>
     (\<forall>k f k'. kube_delete_flag K k f = (k', Inr ()) \<longrightarrow>
        (\<exists>m. kube_get_flag K k' (kf_namespace f) (kf_name f) = Inl (NotFound m))
        \<and> (\<forall>ns n. (ns, n) \<noteq> (kf_namespace f, kf_name f) \<longrightarrow> kube_get_flag K k' ns n = kube_get_flag K k ns n))"

definition status_laws :: "'k kube \<Rightarrow> bool" where
  "status_laws K \<longleftrightarrow>
     (\<forall>k f g k'. kube_get_flag K k (kf_namespace f) (kf_name f) = Inr g \<longrightarrow>
        kube_update_status K k f = (k', Inr ()) \<longrightarrow>
        kube_get_flag K k' (kf_namespace f) (kf_name f) = Inr (g\<lparr>kf_status := kf_status f\<rparr>)
        \<and> kube_list_deployments K k' = kube_list_deployments K k \<and> kube_get_config K k' = kube_get_config K k)"

definition flag_read_laws :: "'k kube \<Rightarrow> bool" where
  "flag_read_laws K \<longleftrightarrow>
     (\<forall>k ns n g. kube_get_flag K k ns n = Inr g \<longrightarrow> kf_namespace g = ns \<and> kf_name g = n)"

text \<open>
  Names are unique in a namespace, and an update replaces the deployment of that name. A
  call for a deployment or a ConfigMap, whatever its outcome, leaves the flags alone.
\<close>

definition deployment_laws :: "'k kube \<Rightarrow> bool" where
  "deployment_laws K \<longleftrightarrow>
     (\<forall>k ns sel ds. kube_list_deployments K k ns sel = Inr ds \<longrightarrow>
        distinct (map dp_name ds)
        \<and> (\<forall>d d' k'. d \<in> set ds \<and> dp_name d' = dp_name d \<and> dp_namespace d' = dp_namespace d \<and> dp_labels d' = dp_labels d
             \<and> kube_update_deployment K k d' = (k', Inr ()) \<longrightarrow>
             kube_list_deployments K k' ns sel = Inr (map (\<lambda>x. if dp_name x = dp_name d' then d' else x) ds)))
     \<and> (\<forall>k d. kube_get_flag K (fst (kube_update_deployment K k d)) = kube_get_flag K k)"

definition config_put_laws :: "'k kube \<Rightarrow> ('k \<Rightarrow> config_map \<Rightarrow> 'k \<times> unit kres) \<Rightarrow> bool" where
  "config_put_laws K put \<longleftrightarrow>
     (\<forall>k c k'. put k c = (k', Inr ()) \<longrightarrow>
        kube_get_config K k' (cmap_namespace c) (cmap_name c) = Inr c
        \<and> kube_list_deployments K k' = kube_list_deployments K k)
     \<and> (\<forall>k c. kube_get_flag K (fst (put k c)) = kube_get_flag K k)"

definition config_read_laws :: "'k kube \<Rightarrow> bool" where
  "config_read_laws K \<longleftrightarrow>
     (\<forall>k ns n c. kube_get_config K k ns n = Inr c \<longrightarrow> cmap_namespace c = ns \<and> cmap_name c = n)"

text \<open>
  A list holds the objects of its namespace, each under its own name; a list with a selector
  holds those whose labels pass its test, and without a valid selector there is none.
\<close>

definition list_laws :: "'k kube \<Rightarrow> bool" where
  "list_laws K \<longleftrightarrow>
     (\<forall>k ns fs. kube_list_flags_in K k ns = Inr fs \<longrightarrow>
        distinct (map kf_name fs) \<and> (\<forall>n f. kube_get_flag K k ns n = Inr f \<longleftrightarrow> f \<in> set fs \<and> kf_name f = n))
     \<and> (\<forall>k ns sel ds. kube_list_deployments K k ns sel = Inr ds \<longrightarrow> (\<forall>d\<in>set ds. dp_namespace d = ns))
     \<and> (\<forall>k ns s ds ds0. kube_list_deployments K k ns (Some s) = Inr ds \<longrightarrow>
          kube_list_deployments K k ns (Some everything) = Inr ds0 \<longrightarrow>
          (\<exists>p. kube_selector K s = Some p \<and> ds = filter (\<lambda>d. p (dp_labels d)) ds0))
     \<and> (\<forall>k ns ds. kube_list_deployments K k ns None = Inr ds \<longrightarrow> ds = [])"

definition kube_laws :: "'k kube \<Rightarrow> bool" where
  "kube_laws K \<longleftrightarrow> flag_put_laws K (kube_create_flag K) \<and> flag_put_laws K (kube_update_flag K)
     \<and> flag_create_laws K \<and> flag_delete_laws K \<and> status_laws K \<and> flag_read_laws K \<and> deployment_laws K
     \<and> config_put_laws K (kube_create_config K) \<and> config_put_laws K (kube_update_config K) \<and> config_read_laws K
     \<and> list_laws K"

end
