(* ===== verification/Multicluster.thy ===== *)
theory Multicluster
  imports Kube
begin

text \<open>
  The connections of the API server to its clusters, \<open>internal/multicluster/manager.go\<close>.
  A connection is the cluster's description and its client; the client's only state is the
  cluster it talks to, so the model keeps that. Building a client belongs to client-go: it
  is the record \<open>client_lib\<close>.
\<close>

record ('c, 'k) client_lib =
  parse_kubeconfig :: "string \<Rightarrow> string + 'c"
  token_config :: "string \<Rightarrow> string \<Rightarrow> 'c"      \<comment> \<open>host, bearer token\<close>
  new_k8s_client :: "'c \<Rightarrow> string + 'k"

record cluster_info =
  in_id :: string
  in_displayName :: string
  in_apiServer :: string
  in_status :: string
  in_version :: string
  in_workloads :: int

record 'k cluster_conn =
  conn_info :: cluster_info
  conn_client :: 'k

type_synonym 'k manager = "(string \<times> 'k cluster_conn) list"

definition not_registered :: "string \<Rightarrow> string" where
  "not_registered cid = ''cluster '' @ cid @ '' not found''"

definition AddCluster ::
  "('c, 'k) client_lib \<Rightarrow> cluster_info \<Rightarrow> string \<Rightarrow> string \<Rightarrow> 'k manager \<Rightarrow> string + 'k manager" where
  "AddCluster C info kubeconfig token m =
     (if map_of m (in_id info) \<noteq> None
      then Inl (''cluster '' @ in_id info @ '' already registered'')
      else
        (case (if kubeconfig \<noteq> []
               then (case parse_kubeconfig C kubeconfig of
                       Inl e \<Rightarrow> Inl (''parsing kubeconfig: '' @ e) | Inr cfg \<Rightarrow> Inr cfg)
               else if token \<noteq> [] then Inr (token_config C (in_apiServer info) token)
               else Inl ''either kubeconfig or token must be provided'') of
           Inl e \<Rightarrow> Inl e
         | Inr cfg \<Rightarrow>
             (case new_k8s_client C cfg of
                Inl e \<Rightarrow> Inl (''creating k8s client: '' @ e)
              | Inr k \<Rightarrow>
                  Inr (AList.update (in_id info)
                         \<lparr>conn_info = info\<lparr>in_status := ''Connected''\<rparr>, conn_client = k\<rparr> m))))"

definition AddClusterFromConfig ::
  "('c, 'k) client_lib \<Rightarrow> cluster_info \<Rightarrow> 'c \<Rightarrow> 'k manager \<Rightarrow> string + 'k manager" where
  "AddClusterFromConfig C info cfg m =
     (case new_k8s_client C cfg of
        Inl e \<Rightarrow> Inl (''creating k8s client: '' @ e)
      | Inr k \<Rightarrow>
          Inr (AList.update (in_id info)
                 \<lparr>conn_info = info\<lparr>in_status := ''Connected''\<rparr>, conn_client = k\<rparr> m))"

definition RemoveCluster :: "string \<Rightarrow> 'k manager \<Rightarrow> string + 'k manager" where
  "RemoveCluster cid m =
     (if map_of m cid = None then Inl (not_registered cid) else Inr (AList.delete cid m))"

definition GetClient :: "string \<Rightarrow> 'k manager \<Rightarrow> string + 'k" where
  "GetClient cid m =
     (case map_of m cid of None \<Rightarrow> Inl (not_registered cid) | Some c \<Rightarrow> Inr (conn_client c))"

definition GetClusterInfo :: "string \<Rightarrow> 'k manager \<Rightarrow> string + cluster_info" where
  "GetClusterInfo cid m =
     (case map_of m cid of None \<Rightarrow> Inl (not_registered cid) | Some c \<Rightarrow> Inr (conn_info c))"

text \<open>The first argument is the order in which the map is traversed.\<close>

definition ClusterIDs :: "(string list \<Rightarrow> string list) \<Rightarrow> 'k manager \<Rightarrow> string list" where
  "ClusterIDs ord m = ord (map fst m)"

definition ListClusters :: "(string list \<Rightarrow> string list) \<Rightarrow> 'k manager \<Rightarrow> cluster_info list" where
  "ListClusters ord m =
     concat (map (\<lambda>cid. case map_of m cid of None \<Rightarrow> [] | Some c \<Rightarrow> [conn_info c]) (ord (map fst m)))"

text \<open>What a call through the client does to the cluster.\<close>

definition put_client :: "string \<Rightarrow> 'k \<Rightarrow> 'k manager \<Rightarrow> 'k manager" where
  "put_client cid k m = map (\<lambda>(i, c). (i, if i = cid then c\<lparr>conn_client := k\<rparr> else c)) m"

lemma put_client_lookup:
  "map_of (put_client cid k m) i
     = (if i = cid then map_option (\<lambda>c. c\<lparr>conn_client := k\<rparr>) (map_of m i) else map_of m i)"
  by (induction m) (auto simp: put_client_def)

lemma put_client_ids: "map fst (put_client cid k m) = map fst m"
  by (induction m) (auto simp: put_client_def)

lemma GetClient_put: "GetClient cid m = Inr k' \<Longrightarrow> GetClient cid (put_client cid k m) = Inr k"
  by (auto simp: GetClient_def put_client_lookup split: option.splits)

end
