(* ===== verification/MemoryStore.thy ===== *)
theory MemoryStore
  imports GoLib
begin

text \<open>
  The store of the API server, \<open>internal/apiserver/store/memory.go\<close>, an implementation of
  the interface of \<open>store/interface.go\<close>: audit events, users and sessions. Each method runs
  under the store's lock, so it is one step; the random identifier and the time it reads are
  arguments. An error is its message. The fields \<open>Diff\<close> and \<open>Metadata\<close> of an event, which
  no caller sets, are left out.
\<close>

section \<open>State\<close>

record audit_entry =
  au_id :: string
  au_timestamp :: int
  au_actor :: string
  au_action :: string
  au_resource :: string
  au_resourceID :: string
  au_cluster :: string

record audit_filter =
  af_resource :: string
  af_resourceID :: string
  af_action :: string
  af_cluster :: string
  af_actor :: string
  af_since :: "int option"
  af_limit :: int

record account =
  us_id :: string
  us_username :: string
  us_hash :: string
  us_role :: string
  us_created :: "int option"          \<comment> \<open>\<open>None\<close> is the zero time\<close>

record login_session =
  se_username :: string
  se_role :: string
  se_expires :: int

record memory_store =
  ms_events :: "audit_entry list"
  ms_users :: "(string \<times> account) list"
  ms_sessions :: "(string \<times> login_session) list"

definition NewMemoryStore :: memory_store where
  "NewMemoryStore = \<lparr>ms_events = [], ms_users = [], ms_sessions = []\<rparr>"

definition new_event :: audit_entry where
  "new_event = \<lparr>au_id = [], au_timestamp = 0, au_actor = [], au_action = [], au_resource = [],
     au_resourceID = [], au_cluster = []\<rparr>"

section \<open>Audit events\<close>

definition RecordAudit :: "string \<Rightarrow> int \<Rightarrow> audit_entry \<Rightarrow> memory_store \<Rightarrow> memory_store" where
  "RecordAudit uuid now event s =
     s\<lparr>ms_events := ms_events s @ [event\<lparr>au_id := uuid, au_timestamp := now\<rparr>]\<rparr>"

definition audit_matches :: "audit_filter \<Rightarrow> audit_entry \<Rightarrow> bool" where
  "audit_matches f e \<longleftrightarrow>
     \<not> (af_resource f \<noteq> [] \<and> au_resource e \<noteq> af_resource f)
     \<and> \<not> (af_resourceID f \<noteq> [] \<and> au_resourceID e \<noteq> af_resourceID f)
     \<and> \<not> (af_action f \<noteq> [] \<and> au_action e \<noteq> af_action f)
     \<and> \<not> (af_cluster f \<noteq> [] \<and> au_cluster e \<noteq> af_cluster f)
     \<and> \<not> (af_actor f \<noteq> [] \<and> au_actor e \<noteq> af_actor f)
     \<and> (case af_since f of None \<Rightarrow> True | Some t \<Rightarrow> \<not> au_timestamp e < t)"

text \<open>The loop that swaps the ends of the slice.\<close>

function swap_ends :: "nat \<Rightarrow> nat \<Rightarrow> 'a list \<Rightarrow> 'a list" where
  "swap_ends i j xs =
     (if i < j then swap_ends (i + 1) (j - 1) (xs[i := xs ! j, j := xs ! i]) else xs)"
  by auto
termination by (relation "measure (\<lambda>(i, j, xs). j - i)") auto

declare swap_ends.simps [simp del]

definition ListAuditEvents :: "audit_filter \<Rightarrow> memory_store \<Rightarrow> audit_entry list" where
  "ListAuditEvents f s =
     (let found = filter (audit_matches f) (ms_events s);
          result = (if found = [] then [] else swap_ends 0 (length found - 1) found)
      in if 0 < af_limit f \<and> af_limit f < int (length result) then take (nat (af_limit f)) result else result)"

section \<open>Users\<close>

definition no_user :: "string \<Rightarrow> string" where
  "no_user username = ''user not found: '' @ username"

definition GetUserByUsername :: "string \<Rightarrow> memory_store \<Rightarrow> string + account" where
  "GetUserByUsername username s =
     (case map_of (ms_users s) username of None \<Rightarrow> Inl (no_user username) | Some u \<Rightarrow> Inr u)"

text \<open>The methods that change a user: the new store, or the error and the store as it was.\<close>

definition change_user :: "(account \<Rightarrow> account) \<Rightarrow> string \<Rightarrow> memory_store \<Rightarrow> string + memory_store" where
  "change_user g username s =
     (case map_of (ms_users s) username of
        None \<Rightarrow> Inl (no_user username)
      | Some u \<Rightarrow> Inr (s\<lparr>ms_users := AList.update username (g u) (ms_users s)\<rparr>))"

definition UpdatePassword :: "string \<Rightarrow> string \<Rightarrow> memory_store \<Rightarrow> string + memory_store" where
  "UpdatePassword username passwordHash = change_user (\<lambda>u. u\<lparr>us_hash := passwordHash\<rparr>) username"

definition UpdateUserRole :: "string \<Rightarrow> string \<Rightarrow> memory_store \<Rightarrow> string + memory_store" where
  "UpdateUserRole username role = change_user (\<lambda>u. u\<lparr>us_role := role\<rparr>) username"

definition CreateUser :: "string \<Rightarrow> int \<Rightarrow> account \<Rightarrow> memory_store \<Rightarrow> string + memory_store" where
  "CreateUser uuid now user s =
     (if map_of (ms_users s) (us_username user) \<noteq> None
      then Inl (''user already exists: '' @ us_username user)
      else Inr (s\<lparr>ms_users := AList.update (us_username user)
                   (user\<lparr>us_id := (if us_id user = [] then uuid else us_id user),
                         us_created := (case us_created user of None \<Rightarrow> Some now | Some t \<Rightarrow> Some t)\<rparr>)
                   (ms_users s)\<rparr>))"

definition ListUsers :: "memory_store \<Rightarrow> account list" where
  "ListUsers s = sort_key us_username (map (\<lambda>(_, u). u\<lparr>us_hash := []\<rparr>) (ms_users s))"

definition DeleteUser :: "string \<Rightarrow> memory_store \<Rightarrow> string + memory_store" where
  "DeleteUser username s =
     (if map_of (ms_users s) username = None then Inl (no_user username)
      else Inr (s\<lparr>ms_users := AList.delete username (ms_users s)\<rparr>))"

section \<open>Sessions\<close>

definition CreateSession :: "string \<Rightarrow> string \<Rightarrow> string \<Rightarrow> int \<Rightarrow> memory_store \<Rightarrow> memory_store" where
  "CreateSession token username role expiresAt s =
     s\<lparr>ms_sessions := AList.update token \<lparr>se_username = username, se_role = role, se_expires = expiresAt\<rparr>
                        (ms_sessions s)\<rparr>"

definition GetSession :: "int \<Rightarrow> string \<Rightarrow> memory_store \<Rightarrow> (string \<times> string) option" where
  "GetSession now token s =
     (case map_of (ms_sessions s) token of
        None \<Rightarrow> None
      | Some se \<Rightarrow> if se_expires se < now then None else Some (se_username se, se_role se))"

definition DeleteSession :: "string \<Rightarrow> memory_store \<Rightarrow> memory_store" where
  "DeleteSession token s = s\<lparr>ms_sessions := AList.delete token (ms_sessions s)\<rparr>"

section \<open>Listing events\<close>

text \<open>The loop on the middle part of a list reverses that part.\<close>

lemma swap_ends_middle:
  "swap_ends (length us) (length us + length xs - 1) (us @ xs @ vs) = us @ rev xs @ vs"
proof (induction "length xs" arbitrary: us xs vs rule: less_induct)
  case less
  show ?case
  proof (cases "length xs < 2")
    case True
    then have "rev xs = xs" by (cases xs; cases "tl xs") auto
    moreover have "\<not> length us < length us + length xs - 1" using True by linarith
    ultimately show ?thesis by (simp add: swap_ends.simps)
  next
    case False
    then obtain a ys where "xs = a # ys" "ys \<noteq> []" by (cases xs; cases "tl xs") auto
    then obtain zs b where xs: "xs = a # zs @ [b]" by (metis rev_exhaust)
    let ?l = "us @ xs @ vs" and ?i = "length us" and ?j = "length us + length xs - 1"
    have j: "?j = Suc (length us + length zs)" by (simp add: xs)
    then have lt: "?i < ?j" by simp
    have at: "?l ! ?i = a" "?l ! ?j = b" by (simp_all add: xs nth_append)
    have swapped: "?l[?i := b, ?j := a] = (us @ [b]) @ zs @ (a # vs)"
      by (simp add: xs list_update_append)
    have "swap_ends ?i ?j ?l = swap_ends (?i + 1) (?j - 1) (?l[?i := ?l ! ?j, ?j := ?l ! ?i])"
      using lt by (subst swap_ends.simps) (simp only: if_True)
    also have "\<dots> = swap_ends (length (us @ [b])) (length (us @ [b]) + length zs - 1) ((us @ [b]) @ zs @ (a # vs))"
      unfolding at swapped using j by simp
    also have "\<dots> = (us @ [b]) @ rev zs @ (a # vs)" by (rule less) (simp add: xs)
    finally show ?thesis by (simp add: xs)
  qed
qed

lemma swap_ends_all: "swap_ends 0 (length xs - 1) xs = rev xs"
  using swap_ends_middle [of "[]" xs "[]"] by simp

text \<open>Without a limit, the matching events, the newest first.\<close>

lemma list_events:
  "af_limit f \<le> 0 \<Longrightarrow> ListAuditEvents f s = rev (filter (audit_matches f) (ms_events s))"
  by (simp add: ListAuditEvents_def swap_ends_all [simplified] Let_def)

end
