(* ===== verification/ApiServer.thy ===== *)
theory ApiServer
  imports Multicluster MemoryStore
begin

text \<open>
  The API server behind the dashboard, \<open>internal/apiserver\<close>: its middleware, its table of
  routes and its handlers, over the memory store and the connected clusters. A request is
  handled in one step. What the handlers take from outside the repository is the record
  \<open>server_lib\<close>: the clock (read once per request), random numbers, bcrypt, the formatting
  of times, the traversal order of maps, and client-go. The answer's CORS headers and the log are left out.
\<close>

section \<open>Requests, answers and the server's state\<close>

record go_request =
  gr_method :: string
  gr_path :: string
  gr_query :: string
  gr_auth :: string             \<comment> \<open>the \<open>Authorization\<close> header, empty if there is none\<close>
  gr_body :: string

record 'k server =
  sv_store :: memory_store
  sv_clusters :: "'k manager"

datatype endpoint =
    Ep_login | Ep_logout | Ep_me
  | Ep_list_users | Ep_create_user | Ep_update_user | Ep_delete_user
  | Ep_list_flags | Ep_create_flag | Ep_get_flag | Ep_update_flag | Ep_delete_flag | Ep_toggle_flag
  | Ep_list_clusters | Ep_register_cluster | Ep_get_cluster | Ep_remove_cluster
  | Ep_namespaces | Ep_workloads | Ep_workload
  | Ep_audit | Ep_health

record ('c, 'k) server_lib =
  sl_now :: int
  sl_uuid :: string
  sl_random :: "nat list option"                   \<comment> \<open>32 bytes, or the failure to get them\<close>
  sl_hash :: "string \<Rightarrow> string option"              \<comment> \<open>\<open>bcrypt.GenerateFromPassword\<close>\<close>
  sl_check :: "string \<Rightarrow> string \<Rightarrow> bool"            \<comment> \<open>hash, password\<close>
  sl_time :: "int \<Rightarrow> string"
  sl_order :: "string list \<Rightarrow> string list"
  sl_clients :: "('c, 'k) client_lib"
  sl_kube :: "'k kube"

type_synonym 'k answer = "'k server \<times> http_response"

definition status_text :: "nat \<Rightarrow> string" where
  "status_text n =
     (if n = 200 then ''OK'' else if n = 201 then ''Created'' else if n = 204 then ''No Content''
      else if n = 400 then ''Bad Request'' else if n = 401 then ''Unauthorized''
      else if n = 403 then ''Forbidden'' else if n = 404 then ''Not Found''
      else if n = 409 then ''Conflict'' else if n = 500 then ''Internal Server Error'' else [])"

definition writeJSON :: "nat \<Rightarrow> jsval \<Rightarrow> http_response" where
  "writeJSON status data =
     \<lparr>rs_status = status, rs_status_text = status_text status, rs_type = Some ''application/json'',
      rs_body = go_encode data\<rparr>"

definition writeError :: "nat \<Rightarrow> string \<Rightarrow> http_response" where
  "writeError status message = writeJSON status (JObj [(''error'', JStr message)])"

definition write_empty :: "nat \<Rightarrow> http_response" where
  "write_empty status =
     \<lparr>rs_status = status, rs_status_text = status_text status, rs_type = None, rs_body = []\<rparr>"

definition write_text :: "nat \<Rightarrow> string \<Rightarrow> http_response" where
  "write_text status message =
     \<lparr>rs_status = status, rs_status_text = status_text status, rs_type = Some ''text/plain; charset=utf-8'',
      rs_body = message\<rparr>"

definition http_error :: "nat \<Rightarrow> string \<Rightarrow> http_response" where
  "http_error status message = write_text status (message @ [CHR 0x0A])"

text \<open>\<open>r.URL.Query().Get(k)\<close>: pieces that are not well formed are skipped.\<close>

fun escapes_ok :: "string \<Rightarrow> bool" where
  "escapes_ok [] = True"
| "escapes_ok (c # s) =
     (if c = CHR 0x25
      then (case s of
              a # b # r \<Rightarrow> hex_val a \<noteq> None \<and> hex_val b \<noteq> None \<and> escapes_ok r
            | _ \<Rightarrow> False)
      else escapes_ok s)"

definition query_get :: "string \<Rightarrow> string \<Rightarrow> string" where
  "query_get k q =
     (case filter (\<lambda>p. fst p = Some k)
             (map (\<lambda>s. (form_decode (fst (cut_pair s)), form_decode (snd (cut_pair s))))
               (filter (\<lambda>s. s \<noteq> [] \<and> CHR '';'' \<notin> set s \<and> escapes_ok s) (split_on CHR ''&'' q))) of
        (_, Some v) # _ \<Rightarrow> v
      | _ \<Rightarrow> [])"

section \<open>Authentication\<close>

definition bearer_token :: "go_request \<Rightarrow> string" where
  "bearer_token rq =
     (if 7 < length (gr_auth rq) \<and> take 7 (gr_auth rq) = ''Bearer '' then drop 7 (gr_auth rq) else [])"

definition tokenExpiry :: int where
  "tokenExpiry = 24 * 60 * 60 * 10 ^ 9"

definition hex_string :: "nat list \<Rightarrow> string" where
  "hex_string bs = concat (map (\<lambda>b. [hex_char (b div 16), hex_char (b mod 16)]) bs)"

definition read_login :: "jsval \<Rightarrow> (string \<times> string) option" where
  "read_login v = do {
     ms \<leftarrow> go_struct v;
     u \<leftarrow> go_string (go_member ''username'' ms);
     p \<leftarrow> go_string (go_member ''password'' ms);
     Some (u, p) }"

definition me_value :: "string \<Rightarrow> string \<Rightarrow> jsval" where
  "me_value username role = JObj [(''username'', JStr username), (''role'', JStr role)]"

definition Login :: "('c, 'k) server_lib \<Rightarrow> go_request \<Rightarrow> 'k server \<Rightarrow> 'k answer" where
  "Login L rq S =
     (case Option.bind (go_read (gr_body rq)) read_login of
        None \<Rightarrow> (S, writeError 400 ''invalid request body'')
      | Some (username, password) \<Rightarrow>
          if username = [] \<or> password = []
          then (S, writeError 400 ''username and password are required'')
          else (case GetUserByUsername username (sv_store S) of
                  Inl _ \<Rightarrow> (S, writeError 401 ''invalid credentials'')
                | Inr user \<Rightarrow>
                    if \<not> sl_check L (us_hash user) password
                    then (S, writeError 401 ''invalid credentials'')
                    else (case sl_random L of
                            None \<Rightarrow> (S, writeError 500 ''failed to generate token'')
                          | Some b \<Rightarrow>
                              (S\<lparr>sv_store := CreateSession (hex_string b) (us_username user) (us_role user)
                                               (sl_now L + tokenExpiry) (sv_store S)\<rparr>,
                               writeJSON 200 (JObj [(''token'', JStr (hex_string b)),
                                                    (''user'', me_value (us_username user) (us_role user))])))))"

definition Logout :: "go_request \<Rightarrow> 'k server \<Rightarrow> 'k answer" where
  "Logout rq S =
     (if bearer_token rq = [] then (S, writeError 401 ''unauthorized'')
      else (S\<lparr>sv_store := DeleteSession (bearer_token rq) (sv_store S)\<rparr>,
            writeJSON 200 (JObj [(''message'', JStr ''logged out'')])))"

definition Me :: "('c, 'k) server_lib \<Rightarrow> go_request \<Rightarrow> 'k server \<Rightarrow> 'k answer" where
  "Me L rq S =
     (if bearer_token rq = [] then (S, writeError 401 ''unauthorized'')
      else (case GetSession (sl_now L) (bearer_token rq) (sv_store S) of
              None \<Rightarrow> (S, writeError 401 ''unauthorized'')
            | Some (username, role) \<Rightarrow> (S, writeJSON 200 (me_value username role))))"

section \<open>Users\<close>

definition user_value :: "('c, 'k) server_lib \<Rightarrow> account \<Rightarrow> jsval" where
  "user_value L u =
     JObj [(''id'', JStr (us_id u)), (''username'', JStr (us_username u)), (''role'', JStr (us_role u)),
           (''createdAt'', JStr (case us_created u of None \<Rightarrow> ''0001-01-01T00:00:00Z'' | Some t \<Rightarrow> sl_time L t))]"

definition AuthHandler_ListUsers :: "('c, 'k) server_lib \<Rightarrow> 'k server \<Rightarrow> 'k answer" where
  "AuthHandler_ListUsers L S = (S, writeJSON 200 (JArr (map (user_value L) (ListUsers (sv_store S)))))"

definition known_role :: "string \<Rightarrow> bool" where
  "known_role role \<longleftrightarrow> role \<in> set [''admin'', ''editor'', ''viewer'']"

definition read_new_user :: "jsval \<Rightarrow> (string \<times> string \<times> string) option" where
  "read_new_user v = do {
     ms \<leftarrow> go_struct v;
     u \<leftarrow> go_string (go_member ''username'' ms);
     p \<leftarrow> go_string (go_member ''password'' ms);
     r \<leftarrow> go_string (go_member ''role'' ms);
     Some (u, p, r) }"

definition new_account :: "string \<Rightarrow> string \<Rightarrow> string \<Rightarrow> account" where
  "new_account username h role =
     \<lparr>us_id = [], us_username = username, us_hash = h, us_role = role, us_created = None\<rparr>"

text \<open>The last argument but one is the caller of the request: name and role of the session.\<close>

definition AuthHandler_CreateUser ::
  "('c, 'k) server_lib \<Rightarrow> go_request \<Rightarrow> string \<times> string \<Rightarrow> 'k server \<Rightarrow> 'k answer" where
  "AuthHandler_CreateUser L rq caller S =
     (if snd caller \<noteq> ''admin'' then (S, writeError 403 ''only admins can create users'')
      else case Option.bind (go_read (gr_body rq)) read_new_user of
        None \<Rightarrow> (S, writeError 400 ''invalid request body'')
      | Some (username, password, role) \<Rightarrow>
          if username = [] \<or> password = [] \<or> role = []
          then (S, writeError 400 ''username, password, and role are required'')
          else if \<not> known_role role
          then (S, writeError 400 ''role must be admin, editor, or viewer'')
          else (case sl_hash L password of
                  None \<Rightarrow> (S, writeError 500 ''failed to hash password'')
                | Some h \<Rightarrow>
                    (case CreateUser (sl_uuid L) (sl_now L) (new_account username h role) (sv_store S) of
                       Inl e \<Rightarrow> (S, writeError 409 e)
                     | Inr st \<Rightarrow>
                         (S\<lparr>sv_store := st\<rparr>,
                          writeJSON 201 (go_obj [(''username'', username), (''role'', role)])))))"

definition read_user_update :: "jsval \<Rightarrow> (string \<times> string) option" where
  "read_user_update v = do {
     ms \<leftarrow> go_struct v;
     p \<leftarrow> go_string (go_member ''password'' ms);
     r \<leftarrow> go_string (go_member ''role'' ms);
     Some (p, r) }"

text \<open>The two updates of \<open>UpdateUser\<close>, in order: each either ends the request or goes on.\<close>

definition set_role :: "string \<Rightarrow> string \<Rightarrow> 'k server \<Rightarrow> http_response + 'k server" where
  "set_role target role S =
     (if role = [] then Inr S
      else if \<not> known_role role then Inl (writeError 400 ''role must be admin, editor, or viewer'')
      else (case UpdateUserRole target role (sv_store S) of
              Inl e \<Rightarrow> Inl (writeError 404 e)
            | Inr st \<Rightarrow> Inr (S\<lparr>sv_store := st\<rparr>)))"

definition set_password ::
  "('c, 'k) server_lib \<Rightarrow> string \<Rightarrow> string \<Rightarrow> 'k server \<Rightarrow> http_response + 'k server" where
  "set_password L target password S =
     (if password = [] then Inr S
      else case sl_hash L password of
             None \<Rightarrow> Inl (writeError 500 ''failed to hash password'')
           | Some h \<Rightarrow>
               (case UpdatePassword target h (sv_store S) of
                  Inl e \<Rightarrow> Inl (writeError 404 e)
                | Inr st \<Rightarrow> Inr (S\<lparr>sv_store := st\<rparr>)))"

definition AuthHandler_UpdateUser ::
  "('c, 'k) server_lib \<Rightarrow> string \<Rightarrow> go_request \<Rightarrow> string \<times> string \<Rightarrow> 'k server \<Rightarrow> 'k answer" where
  "AuthHandler_UpdateUser L target rq caller S =
     (case Option.bind (go_read (gr_body rq)) read_user_update of
        None \<Rightarrow> (S, writeError 400 ''invalid request body'')
      | Some (password, role) \<Rightarrow>
          let isAdmin = (snd caller = ''admin''); isSelf = (fst caller = target) in
          if \<not> isAdmin \<and> \<not> isSelf then (S, writeError 403 ''you can only update your own account'')
          else if \<not> isAdmin \<and> role \<noteq> [] then (S, writeError 403 ''only admins can change roles'')
          else (case set_role target role S of
                  Inl res \<Rightarrow> (S, res)
                | Inr S1 \<Rightarrow>
                    (case set_password L target password S1 of
                       Inl res \<Rightarrow> (S1, res)
                     | Inr S2 \<Rightarrow> (S2, writeJSON 200 (JObj [(''message'', JStr ''user updated'')])))))"

definition AuthHandler_DeleteUser ::
  "string \<Rightarrow> string \<times> string \<Rightarrow> 'k server \<Rightarrow> 'k answer" where
  "AuthHandler_DeleteUser target caller S =
     (if snd caller \<noteq> ''admin'' then (S, writeError 403 ''only admins can delete users'')
      else if fst caller = target then (S, writeError 400 ''cannot delete yourself'')
      else (case DeleteUser target (sv_store S) of
              Inl e \<Rightarrow> (S, writeError 404 e)
            | Inr st \<Rightarrow> (S\<lparr>sv_store := st\<rparr>, writeJSON 200 (JObj [(''message'', JStr ''user deleted'')]))))"

end
