(* ===== verification/ApiFlags.thy ===== *)
theory ApiFlags
  imports ApiServer
begin

text \<open>
  The handlers of the API server for flags, clusters and the audit log:
  \<open>internal/apiserver/handlers/flags.go\<close>, \<open>clusters.go\<close>, \<open>audit.go\<close>, and the
  namespaces of \<open>workloads.go\<close>. A flag is a resource of one of the connected clusters, written through
  the client of that cluster (\<open>put_cluster\<close>).
\<close>

section \<open>Shared steps\<close>

definition record_audit :: "('c, 'k) server_lib \<Rightarrow> audit_entry \<Rightarrow> 'k server \<Rightarrow> 'k server" where
  "record_audit L event S = S\<lparr>sv_store := RecordAudit (sl_uuid L) (sl_now L) event (sv_store S)\<rparr>"

definition flag_event :: "string \<Rightarrow> string \<Rightarrow> string \<Rightarrow> string \<Rightarrow> audit_entry" where
  "flag_event action namespace name clusterID =
     new_event\<lparr>au_action := action, au_resource := ''featureflag'',
               au_resourceID := namespace @ ''/'' @ name, au_cluster := clusterID\<rparr>"

definition put_cluster :: "string \<Rightarrow> 'k \<Rightarrow> 'k server \<Rightarrow> 'k server" where
  "put_cluster cid k S = S\<lparr>sv_clusters := put_client cid k (sv_clusters S)\<rparr>"

definition flagToResponse :: "('c, 'k) server_lib \<Rightarrow> string \<Rightarrow> kflag \<Rightarrow> jsval" where
  "flagToResponse L clusterID f =
     (let sp = kf_spec f; st = kf_status f in
      JObj [(''name'', JStr (kf_name f)), (''namespace'', JStr (kf_namespace f)),
            (''clusterId'', JStr clusterID), (''description'', omit_str (sp_description sp)),
            (''type'', JStr (sp_type sp)), (''defaultValue'', JStr (sp_default sp)),
            (''currentValue'', JStr (st_current st)), (''phase'', JStr (st_phase st)),
            (''disabled'', JBool (sp_disabled sp)), (''targetedWorkloads'', int_value (st_targeted st)),
            (''lifecycle'', JStr (sp_lifecycle sp)),
            (''delivery'', omit_ptr delivery_value (sp_delivery sp)),
            (''rules'', omit_slice rule_value_json (sp_rules sp)),
            (''createdAt'', JStr (sl_time L (kf_created f))),
            (''updatedAt'', case st_updated st of None \<Rightarrow> JUndef | Some t \<Rightarrow> JStr (sl_time L t))])"

text \<open>
  The first lines of the handlers for one flag: the cluster of the query and the flag of
  the path, or the answer that ends the request.
\<close>

definition find_flag ::
  "('c, 'k) server_lib \<Rightarrow> string \<Rightarrow> string \<Rightarrow> go_request \<Rightarrow> 'k server \<Rightarrow> http_response + string \<times> 'k \<times> kflag" where
  "find_flag L namespace name rq S =
     (let clusterID = query_get ''clusterId'' (gr_query rq) in
      if clusterID = [] then Inl (writeError 400 ''clusterId query parameter is required'')
      else (case GetClient clusterID (sv_clusters S) of
              Inl _ \<Rightarrow> Inl (writeError 404 ''cluster not found'')
            | Inr k \<Rightarrow>
                (case kube_get_flag (sl_kube L) k namespace name of
                   Inl _ \<Rightarrow> Inl (writeError 404 ''flag not found'')
                 | Inr flag \<Rightarrow> Inr (clusterID, k, flag))))"

text \<open>
  Their last lines: the flag is written through the client, and if that succeeds the event
  is recorded and the flag as Kubernetes returned it is the answer. A failed call may have
  changed the cluster too.
\<close>

definition save_flag ::
  "('c, 'k) server_lib \<Rightarrow> string \<Rightarrow> string \<Rightarrow> string \<Rightarrow> string \<Rightarrow> string \<Rightarrow> 'k \<Rightarrow> kflag \<Rightarrow> 'k server \<Rightarrow> 'k answer" where
  "save_flag L action failure namespace name clusterID k flag S =
     (case kube_update_flag (sl_kube L) k flag of
        (k', Inl e) \<Rightarrow> (put_cluster clusterID k' S, writeError 500 (failure @ kube_msg e))
      | (k', Inr flag') \<Rightarrow>
          (record_audit L (flag_event action namespace name clusterID) (put_cluster clusterID k' S),
           writeJSON 200 (flagToResponse L clusterID flag')))"

section \<open>Flags\<close>

definition FlagHandler_List :: "('c, 'k) server_lib \<Rightarrow> go_request \<Rightarrow> 'k server \<Rightarrow> 'k answer" where
  "FlagHandler_List L rq S =
     (let clusterID = query_get ''clusterId'' (gr_query rq);
          namespace = query_get ''namespace'' (gr_query rq);
          allFlags = concat (map (\<lambda>cid.
            if clusterID \<noteq> [] \<and> cid \<noteq> clusterID then []
            else (case GetClient cid (sv_clusters S) of
                    Inl _ \<Rightarrow> []
                  | Inr k \<Rightarrow>
                      (case kube_list_flags (sl_kube L) k of
                         Inl _ \<Rightarrow> []
                       | Inr items \<Rightarrow>
                           map (flagToResponse L cid)
                             (filter (\<lambda>f. \<not> (namespace \<noteq> [] \<and> kf_namespace f \<noteq> namespace)) items))))
            (ClusterIDs (sl_order L) (sv_clusters S)))
      in (S, writeJSON 200 (if allFlags = [] then JNull else JArr allFlags)))"

record create_request =
  crq_name :: string
  crq_namespace :: string
  crq_clusterID :: string
  crq_description :: string
  crq_type :: string
  crq_default :: string
  crq_delivery :: "kdelivery option"

definition read_create :: "jsval \<Rightarrow> create_request option" where
  "read_create v = do {
     ms \<leftarrow> go_struct v;
     n \<leftarrow> go_string (go_member ''name'' ms);
     ns \<leftarrow> go_string (go_member ''namespace'' ms);
     c \<leftarrow> go_string (go_member ''clusterId'' ms);
     d \<leftarrow> go_string (go_member ''description'' ms);
     t \<leftarrow> go_string (go_member ''type'' ms);
     x \<leftarrow> go_string (go_member ''defaultValue'' ms);
     dl \<leftarrow> go_ptr read_delivery (go_member ''delivery'' ms);
     Some \<lparr>crq_name = n, crq_namespace = ns, crq_clusterID = c, crq_description = d, crq_type = t,
           crq_default = x, crq_delivery = dl\<rparr> }"

definition requested_flag :: "create_request \<Rightarrow> kflag" where
  "requested_flag r =
     \<lparr>kf_name = crq_name r, kf_namespace = crq_namespace r, kf_created = 0, kf_generation = 0,
      kf_spec = \<lparr>sp_description = crq_description r, sp_type = crq_type r, sp_default = crq_default r,
                 sp_rules = None, sp_delivery = crq_delivery r, sp_disabled = False, sp_lifecycle = ''active''\<rparr>,
      kf_status = new_status\<rparr>"

definition FlagHandler_Create :: "('c, 'k) server_lib \<Rightarrow> go_request \<Rightarrow> 'k server \<Rightarrow> 'k answer" where
  "FlagHandler_Create L rq S =
     (case Option.bind (go_read (gr_body rq)) read_create of
        None \<Rightarrow> (S, writeError 400 ''invalid request body'')
      | Some r \<Rightarrow>
          if crq_name r = [] \<or> crq_namespace r = [] \<or> crq_clusterID r = []
          then (S, writeError 400 ''name, namespace, and clusterId are required'')
          else (case GetClient (crq_clusterID r) (sv_clusters S) of
                  Inl _ \<Rightarrow> (S, writeError 404 (''cluster not found: '' @ crq_clusterID r))
                | Inr k \<Rightarrow>
                    (case kube_create_flag (sl_kube L) k (requested_flag r) of
                       (k', Inl e) \<Rightarrow>
                         (put_cluster (crq_clusterID r) k' S,
                          writeError 500 (''failed to create flag: '' @ kube_msg e))
                     | (k', Inr flag) \<Rightarrow>
                         (record_audit L
                            (flag_event ''create'' (crq_namespace r) (crq_name r) (crq_clusterID r))
                            (put_cluster (crq_clusterID r) k' S),
                          writeJSON 201 (flagToResponse L (crq_clusterID r) flag)))))"

definition FlagHandler_Get ::
  "('c, 'k) server_lib \<Rightarrow> string \<Rightarrow> string \<Rightarrow> go_request \<Rightarrow> 'k server \<Rightarrow> 'k answer" where
  "FlagHandler_Get L namespace name rq S =
     (case find_flag L namespace name rq S of
        Inl res \<Rightarrow> (S, res)
      | Inr (clusterID, _, flag) \<Rightarrow> (S, writeJSON 200 (flagToResponse L clusterID flag)))"

record flag_updates =
  fu_description :: "string option"
  fu_default :: "string option"
  fu_disabled :: "bool option"
  fu_delivery :: "kdelivery option"
  fu_rules :: "krule list option"

definition read_updates :: "jsval \<Rightarrow> flag_updates option" where
  "read_updates v = do {
     ms \<leftarrow> go_struct v;
     d \<leftarrow> go_ptr go_string (go_member ''description'' ms);
     x \<leftarrow> go_ptr go_string (go_member ''defaultValue'' ms);
     b \<leftarrow> go_ptr go_bool (go_member ''disabled'' ms);
     dl \<leftarrow> go_ptr read_delivery (go_member ''delivery'' ms);
     rs \<leftarrow> go_slice read_rule (go_member ''rules'' ms);
     Some \<lparr>fu_description = d, fu_default = x, fu_disabled = b, fu_delivery = dl, fu_rules = rs\<rparr> }"

definition or_old :: "'a option \<Rightarrow> 'a \<Rightarrow> 'a" where
  "or_old x old = (case x of None \<Rightarrow> old | Some y \<Rightarrow> y)"

definition apply_updates :: "flag_updates \<Rightarrow> kspec \<Rightarrow> kspec" where
  "apply_updates u sp =
     sp\<lparr>sp_description := or_old (fu_description u) (sp_description sp),
        sp_default := or_old (fu_default u) (sp_default sp),
        sp_disabled := or_old (fu_disabled u) (sp_disabled sp),
        sp_delivery := (if fu_delivery u \<noteq> None then fu_delivery u else sp_delivery sp),
        sp_rules := (if fu_rules u \<noteq> None then fu_rules u else sp_rules sp)\<rparr>"

definition FlagHandler_Update ::
  "('c, 'k) server_lib \<Rightarrow> string \<Rightarrow> string \<Rightarrow> go_request \<Rightarrow> 'k server \<Rightarrow> 'k answer" where
  "FlagHandler_Update L namespace name rq S =
     (case find_flag L namespace name rq S of
        Inl res \<Rightarrow> (S, res)
      | Inr (clusterID, k, flag) \<Rightarrow>
          (case Option.bind (go_read (gr_body rq)) read_updates of
             None \<Rightarrow> (S, writeError 400 ''invalid request body'')
           | Some u \<Rightarrow>
               save_flag L ''update'' ''failed to update flag: '' namespace name clusterID k
                 (flag\<lparr>kf_spec := apply_updates u (kf_spec flag)\<rparr>) S))"

definition FlagHandler_Delete ::
  "('c, 'k) server_lib \<Rightarrow> string \<Rightarrow> string \<Rightarrow> go_request \<Rightarrow> 'k server \<Rightarrow> 'k answer" where
  "FlagHandler_Delete L namespace name rq S =
     (case find_flag L namespace name rq S of
        Inl res \<Rightarrow> (S, res)
      | Inr (clusterID, k, flag) \<Rightarrow>
          (case kube_delete_flag (sl_kube L) k flag of
             (k', Inl e) \<Rightarrow> (put_cluster clusterID k' S, writeError 500 (''failed to delete flag: '' @ kube_msg e))
           | (k', Inr _) \<Rightarrow>
               (record_audit L (flag_event ''delete'' namespace name clusterID) (put_cluster clusterID k' S),
                write_empty 204)))"

definition toggle_value :: "string \<Rightarrow> string" where
  "toggle_value v = (if v = ''true'' then ''false'' else ''true'')"

definition FlagHandler_Toggle ::
  "('c, 'k) server_lib \<Rightarrow> string \<Rightarrow> string \<Rightarrow> go_request \<Rightarrow> 'k server \<Rightarrow> 'k answer" where
  "FlagHandler_Toggle L namespace name rq S =
     (case find_flag L namespace name rq S of
        Inl res \<Rightarrow> (S, res)
      | Inr (clusterID, k, flag) \<Rightarrow>
          if sp_type (kf_spec flag) \<noteq> ''boolean''
          then (S, writeError 400 ''toggle is only supported for boolean flags'')
          else save_flag L ''toggle'' ''failed to toggle flag: '' namespace name clusterID k
                 (flag\<lparr>kf_spec := (kf_spec flag)\<lparr>sp_default := toggle_value (sp_default (kf_spec flag))\<rparr>\<rparr>) S)"

section \<open>Clusters\<close>

definition cluster_response :: "cluster_info \<Rightarrow> jsval" where
  "cluster_response c =
     JObj [(''id'', JStr (in_id c)), (''displayName'', JStr (in_displayName c)),
           (''apiServer'', JStr (in_apiServer c)), (''status'', JStr (in_status c)),
           (''kubernetesVersion'', omit_str (in_version c)),
           (''discoveredWorkloads'', int_value (in_workloads c))]"

definition ClusterHandler_List :: "('c, 'k) server_lib \<Rightarrow> 'k server \<Rightarrow> 'k answer" where
  "ClusterHandler_List L S =
     (S, writeJSON 200 (JArr (map cluster_response (ListClusters (sl_order L) (sv_clusters S)))))"

record register_request =
  rrq_id :: string
  rrq_displayName :: string
  rrq_apiServer :: string
  rrq_kubeconfig :: string
  rrq_token :: string

definition read_register :: "jsval \<Rightarrow> register_request option" where
  "read_register v = do {
     ms \<leftarrow> go_struct v;
     i \<leftarrow> go_string (go_member ''id'' ms);
     d \<leftarrow> go_string (go_member ''displayName'' ms);
     a \<leftarrow> go_string (go_member ''apiServer'' ms);
     k \<leftarrow> go_string (go_member ''kubeconfig'' ms);
     t \<leftarrow> go_string (go_member ''token'' ms);
     Some \<lparr>rrq_id = i, rrq_displayName = d, rrq_apiServer = a, rrq_kubeconfig = k, rrq_token = t\<rparr> }"

definition registered_info :: "register_request \<Rightarrow> cluster_info" where
  "registered_info r =
     \<lparr>in_id = rrq_id r, in_displayName = rrq_displayName r, in_apiServer = rrq_apiServer r,
      in_status = [], in_version = [], in_workloads = 0\<rparr>"

definition cluster_event :: "string \<Rightarrow> string \<Rightarrow> audit_entry" where
  "cluster_event action cid =
     new_event\<lparr>au_action := action, au_resource := ''cluster'', au_resourceID := cid\<rparr>"

definition ClusterHandler_Register :: "('c, 'k) server_lib \<Rightarrow> go_request \<Rightarrow> 'k server \<Rightarrow> 'k answer" where
  "ClusterHandler_Register L rq S =
     (case Option.bind (go_read (gr_body rq)) read_register of
        None \<Rightarrow> (S, writeError 400 ''invalid request body'')
      | Some r \<Rightarrow>
          if rrq_id r = [] \<or> rrq_displayName r = []
          then (S, writeError 400 ''id and displayName are required'')
          else (case AddCluster (sl_clients L) (registered_info r) (rrq_kubeconfig r) (rrq_token r)
                       (sv_clusters S) of
                  Inl e \<Rightarrow> (S, writeError 500 e)
                | Inr m \<Rightarrow>
                    (record_audit L (cluster_event ''register'' (rrq_id r)) (S\<lparr>sv_clusters := m\<rparr>),
                     writeJSON 201 (cluster_response ((registered_info r)\<lparr>in_status := ''Connected''\<rparr>)))))"

definition ClusterHandler_Get :: "string \<Rightarrow> 'k server \<Rightarrow> 'k answer" where
  "ClusterHandler_Get cid S =
     (case GetClusterInfo cid (sv_clusters S) of
        Inl _ \<Rightarrow> (S, writeError 404 ''cluster not found'')
      | Inr info \<Rightarrow> (S, writeJSON 200 (cluster_response info)))"

definition ClusterHandler_Remove :: "('c, 'k) server_lib \<Rightarrow> string \<Rightarrow> 'k server \<Rightarrow> 'k answer" where
  "ClusterHandler_Remove L cid S =
     (case RemoveCluster cid (sv_clusters S) of
        Inl _ \<Rightarrow> (S, writeError 404 ''cluster not found'')
      | Inr m \<Rightarrow> (record_audit L (cluster_event ''remove'' cid) (S\<lparr>sv_clusters := m\<rparr>), write_empty 204))"

section \<open>The audit log\<close>

definition audit_value :: "('c, 'k) server_lib \<Rightarrow> audit_entry \<Rightarrow> jsval" where
  "audit_value L e =
     JObj [(''id'', JStr (au_id e)), (''timestamp'', JStr (sl_time L (au_timestamp e))),
           (''actor'', omit_str (au_actor e)), (''action'', JStr (au_action e)),
           (''resource'', JStr (au_resource e)), (''resourceId'', JStr (au_resourceID e)),
           (''cluster'', omit_str (au_cluster e))]"

definition query_filter :: "go_request \<Rightarrow> audit_filter" where
  "query_filter rq =
     \<lparr>af_resource = query_get ''resource'' (gr_query rq), af_resourceID = query_get ''resourceId'' (gr_query rq),
      af_action = query_get ''action'' (gr_query rq), af_cluster = query_get ''cluster'' (gr_query rq),
      af_actor = [], af_since = None, af_limit = 0\<rparr>"

definition AuditHandler_List :: "('c, 'k) server_lib \<Rightarrow> go_request \<Rightarrow> 'k server \<Rightarrow> 'k answer" where
  "AuditHandler_List L rq S =
     (S, writeJSON 200 (JArr (map (audit_value L) (ListAuditEvents (query_filter rq) (sv_store S)))))"

section \<open>Namespaces\<close>

definition namespacesWithFlags :: "('c, 'k) server_lib \<Rightarrow> 'k \<Rightarrow> string list kres" where
  "namespacesWithFlags L k =
     (case kube_list_flags (sl_kube L) k of
        Inl e \<Rightarrow> Inl e
      | Inr items \<Rightarrow> Inr (sort (remdups (map kf_namespace items))))"

definition ListNamespaces :: "('c, 'k) server_lib \<Rightarrow> string \<Rightarrow> 'k server \<Rightarrow> 'k answer" where
  "ListNamespaces L clusterID S =
     (case GetClient clusterID (sv_clusters S) of
        Inl _ \<Rightarrow> (S, writeError 404 ''cluster not found'')
      | Inr k \<Rightarrow>
          (case namespacesWithFlags L k of
             Inl e \<Rightarrow> (S, writeError 500 (kube_msg e))
           | Inr names \<Rightarrow> (S, writeJSON 200 (JArr (map JStr names)))))"

end
