(* ===== verification/ServerBodies.thy ===== *)
theory ServerBodies
  imports ApiFlags CreateFlagProps EditFlagProps
begin

text \<open>
  The bodies the dashboard sends, as the API server reads them: what becomes of the form of
  the wizard and of the edit modal.
\<close>

section \<open>Reading members\<close>

lemma go_member_Nil: "go_member k [] = JNull"
  by (simp add: go_member_def)

lemma go_member_hit: "list_all (\<lambda>(l, _). to_lower l \<noteq> to_lower k) ms \<Longrightarrow> to_lower l = to_lower k \<Longrightarrow> go_member k ((l, v) # ms) = v"
proof -
  assume h: "list_all (\<lambda>(l, _). to_lower l \<noteq> to_lower k) ms" "to_lower l = to_lower k"
  then have "filter (\<lambda>(l, _). to_lower l = to_lower k) ms = []" by (auto simp: filter_empty_conv list_all_iff)
  then show ?thesis using h(2) by (simp add: go_member_def)
qed

lemma go_member_miss: "to_lower l \<noteq> to_lower k \<Longrightarrow> go_member k ((l, v) # ms) = go_member k ms"
  by (simp add: go_member_def)

text \<open>The member names of the requests, in lower case.\<close>

lemma lower_names:
  "to_lower ''name'' = ''name''" "to_lower ''namespace'' = ''namespace''" "to_lower ''clusterId'' = ''clusterid''"
  "to_lower ''type'' = ''type''" "to_lower ''defaultValue'' = ''defaultvalue''" "to_lower ''description'' = ''description''"
  "to_lower ''delivery'' = ''delivery''" "to_lower ''disabled'' = ''disabled''" "to_lower ''rules'' = ''rules''"
  "to_lower ''envVar'' = ''envvar''" "to_lower ''configMap'' = ''configmap''" "to_lower ''sidecar'' = ''sidecar''"
  "to_lower ''configMapName'' = ''configmapname''" "to_lower ''key'' = ''key''" "to_lower ''selector'' = ''selector''"
  "to_lower ''port'' = ''port''" "to_lower ''matchLabels'' = ''matchlabels''" "to_lower ''matchExpressions'' = ''matchexpressions''"
  "to_lower ''attribute'' = ''attribute''" "to_lower ''operator'' = ''operator''" "to_lower ''values'' = ''values''"
  "to_lower ''conditions'' = ''conditions''" "to_lower ''value'' = ''value''" "to_lower ''percentage'' = ''percentage''"
  by code_simp+

lemmas read_member = go_member_Nil go_member_hit go_member_miss lower_names

lemma go_ptr_simps: "go_ptr rd JNull = Some None" "go_ptr rd (JStr s) = map_option Some (rd (JStr s))"
  "go_ptr rd (JObj ms) = map_option Some (rd (JObj ms))" "go_ptr rd (JBool b) = map_option Some (rd (JBool b))"
  "go_ptr rd (JNum n) = map_option Some (rd (JNum n))"
  by (simp_all add: go_ptr_def)

lemma map_opt_map: "(\<And>x. x \<in> set xs \<Longrightarrow> f (g x) = Some (h x)) \<Longrightarrow> map_opt f (map g xs) = Some (map h xs)"
  by (induction xs) simp_all

section \<open>Deliveries\<close>

definition label_selector :: "dict \<Rightarrow> kselector option" where
  "label_selector ls = Some \<lparr>ks_labels = ls, ks_exprs = None\<rparr>"

definition delivery_for :: "DeliveryMethod \<Rightarrow> dict \<Rightarrow> string \<Rightarrow> string \<Rightarrow> string \<Rightarrow> string \<Rightarrow> kdelivery" where
  "delivery_for m ls e c k n =
     \<lparr>kd_env = (if m = M_envVar then Some \<lparr>ke_name = e, ke_selector = label_selector ls\<rparr> else None),
      kd_config = (if m = M_configMap then Some \<lparr>kc_name = c, kc_key = or_str k n, kc_selector = label_selector ls\<rparr> else None),
      kd_sidecar = (if m = M_sidecar then Some \<lparr>kb_port = 0, kb_selector = label_selector ls\<rparr> else None)\<rparr>"

lemma read_labels: "read_selector (JObj [(''matchLabels'', JObj (labels_json ls))]) = Some \<lparr>ks_labels = ls, ks_exprs = None\<rparr>"
proof -
  have "map_opt (\<lambda>(k, v). map_option (Pair k) (go_string v)) (labels_json ls) = Some (map id ls)"
    unfolding labels_json_def by (rule map_opt_map) auto
  then show ?thesis by (simp add: read_selector_def read_member del: to_lower_Cons)
qed

lemma read_sent_delivery:
  assumes "delivery_members m t e c k n \<noteq> []" and "clean_members (parse_labels t) = labels_json ls" and "t = [] \<Longrightarrow> ls = []"
  shows "read_delivery (JObj (clean_members (delivery_members m t e c k n))) = Some (delivery_for m ls e c k n)"
proof -
  have l: "JObj [] = JObj (labels_json [])" by (simp add: labels_json_def)
  show ?thesis
    using assms
    by (cases m)
      (auto simp: delivery_members_def selector_json_def read_delivery_def read_env_def read_config_def read_sidecar_def
        read_member go_ptr_simps read_labels delivery_for_def label_selector_def l simp del: to_lower_Cons
        split: if_splits)
qed

section \<open>The wizard\<close>

definition wizard_request :: "create_form \<Rightarrow> dict \<Rightarrow> create_request" where
  "wizard_request f ls =
     \<lparr>crq_name = cf_name f, crq_namespace = cf_namespace f, crq_clusterID = cf_clusterId f,
      crq_description = cf_description f, crq_type = flag_type_str (cf_type f), crq_default = cf_defaultValue f,
      crq_delivery = Some (delivery_for (cf_deliveryMethod f) ls (cf_envVarName f) (cf_configMapName f)
        (cf_configMapKey f) (cf_name f))\<rparr>"

lemma clean_sent_delivery:
  "sendable f \<Longrightarrow> sent_delivery f (clean_members (parse_labels (cf_selectorLabels f))) = clean_members (form_delivery f)"
  using clean_delivery(1) [of f] sendable_delivery [of f] by (simp add: delivery_or_undefined_def)

lemma read_sent_flag:
  assumes "sendable f" and "label_dict ls" and "cf_selectorLabels f = format_labels ls"
  shows "read_create (sent_flag f (labels_json ls)) = Some (wizard_request f ls)"
proof -
  have c: "clean_members (parse_labels (cf_selectorLabels f)) = labels_json ls"
    using parse_format_labels [OF assms(2)] assms(3) clean_labels by simp
  have e: "cf_selectorLabels f = [] \<Longrightarrow> ls = []" using assms(2,3) format_labels_not_Nil by auto
  have n: "delivery_members (cf_deliveryMethod f) (cf_selectorLabels f) (cf_envVarName f) (cf_configMapName f)
      (cf_configMapKey f) (cf_name f) \<noteq> []"
    using sendable_delivery [OF assms(1)] unfolding form_delivery_def .
  have s: "sent_delivery f (labels_json ls) = clean_members (form_delivery f)"
    using clean_sent_delivery [OF assms(1)] by (simp only: c)
  have "read_delivery (JObj (sent_delivery f (labels_json ls)))
      = Some (delivery_for (cf_deliveryMethod f) ls (cf_envVarName f) (cf_configMapName f) (cf_configMapKey f) (cf_name f))"
    unfolding s form_delivery_def by (rule read_sent_delivery [OF n c e])
  then show ?thesis
    by (cases "cf_description f = []")
      (simp_all add: sent_flag_def read_create_def read_member go_ptr_simps wizard_request_def del: to_lower_Cons)
qed

text \<open>What \<open>FlagHandler_Create\<close> makes of the wizard's body.\<close>

lemma wizard_body:
  assumes "sendable f" and "label_dict ls" and "cf_selectorLabels f = format_labels ls"
    and "in_body (json_init ''POST'' (create_payload f)) = Some body"
  shows "Option.bind (go_read body) read_create = Some (wizard_request f ls)"
proof -
  obtain b where "in_body (json_init ''POST'' (create_payload f)) = Some b" "json_parse b = Inr (sent_flag f (labels_json ls))"
    using wizard_body_parses [OF assms(1-3)] by blast
  then have "go_read body = Some (sent_flag f (labels_json ls))" using assms(4) go_read_parse by simp
  then show ?thesis using read_sent_flag [OF assms(1-3)] by simp
qed

section \<open>The edit modal\<close>

definition kcondition_of :: "Condition \<Rightarrow> kcondition" where
  "kcondition_of c = \<lparr>kn_attribute = attribute c, kn_operator = operator_str (operator c), kn_values = Some (cond_values c)\<rparr>"

definition krule_of :: "TargetingRule \<Rightarrow> krule" where
  "krule_of r = \<lparr>kr_name = rule_name r, kr_conditions = Some (map kcondition_of (conditions r)), kr_value = rule_value r,
     kr_percentage = percentage r\<rparr>"

definition int32 :: "int \<Rightarrow> bool" where
  "int32 i \<longleftrightarrow> - (2 ^ 31) \<le> i \<and> i < 2 ^ 31"

definition rule_fits :: "TargetingRule \<Rightarrow> bool" where
  "rule_fits r \<longleftrightarrow> (case percentage r of None \<Rightarrow> True | Some p \<Rightarrow> int32 p)"

lemma rule_fits_ok: "rule_fits r \<Longrightarrow> rule_ok r"
  by (auto simp: rule_fits_def rule_ok_def int32_def split: option.splits)

lemma read_condition_json: "read_condition (condition_json c) = Some (kcondition_of c)"
proof -
  have "map_opt go_string (map JStr vs) = Some (map id vs)" for vs by (rule map_opt_map) simp
  then show ?thesis
    by (simp add: read_condition_def condition_json_def read_member kcondition_of_def del: to_lower_Cons)
qed

lemma read_rule_json: "rule_fits r \<Longrightarrow> read_rule (json_clean (rule_json r)) = Some (krule_of r)"
proof -
  assume r: "rule_fits r"
  have "clean_elems (map condition_json cs) = map condition_json cs" for cs
    using condition_json_ok by (induction cs) simp_all
  moreover have "map_opt read_condition (map condition_json cs) = Some (map kcondition_of cs)" for cs
    by (rule map_opt_map) (rule read_condition_json)
  ultimately show ?thesis
    using r
    by (cases "percentage r")
      (simp_all add: rule_json_def read_rule_def read_member krule_of_def go_ptr_simps rule_fits_def int32_def
        num_of_int_not_NaN int_of_num_of_int del: to_lower_Cons)
qed

definition edit_updates :: "string \<Rightarrow> edit_form \<Rightarrow> dict \<Rightarrow> TargetingRule list \<Rightarrow> flag_updates" where
  "edit_updates n f ls rs =
     \<lparr>fu_description = (if ef_description f = [] then None else Some (ef_description f)),
      fu_default = Some (ef_defaultValue f), fu_disabled = Some (ef_disabled f),
      fu_delivery = (if edit_delivery n f = [] then None
        else Some (delivery_for (ef_deliveryMethod f) ls (ef_envVarName f) (ef_configMapName f) (ef_configMapKey f) n)),
      fu_rules = (if rs = [] then None else Some (map krule_of rs))\<rparr>"

lemma read_sent_update:
  assumes "list_all rule_fits rs" and "ls = [] \<or> label_dict ls" and "ef_selectorLabels f = format_labels ls"
  shows "read_updates (JObj (sent_update n f rs)) = Some (edit_updates n f ls rs)"
proof -
  have r: "map_opt read_rule (map (json_clean \<circ> rule_json) rs) = Some (map krule_of rs)"
    using assms(1) by (intro map_opt_map) (simp add: list_all_iff read_rule_json)
  have e: "clean_members (parse_labels (format_labels [])) = []" "format_labels [] = []" by code_simp+
  have c: "clean_members (parse_labels (ef_selectorLabels f)) = labels_json ls"
    using assms(2,3) parse_format_labels [of ls] clean_labels [of ls] e by (auto simp: labels_json_def)
  have n: "ef_selectorLabels f = [] \<Longrightarrow> ls = []" using assms(2,3) format_labels_not_Nil by auto
  have d: "edit_delivery n f \<noteq> [] \<Longrightarrow> read_delivery (JObj (clean_members (edit_delivery n f)))
      = Some (delivery_for (ef_deliveryMethod f) ls (ef_envVarName f) (ef_configMapName f) (ef_configMapKey f) n)"
    unfolding edit_delivery_def using read_sent_delivery [OF _ c n] by blast
  show ?thesis
    using r d
    by (cases "edit_delivery n f = []"; cases "rs = []"; cases "ef_description f = []")
      (simp_all add: sent_update_def read_updates_def read_member go_ptr_simps edit_updates_def del: to_lower_Cons)
qed

lemma edit_body:
  assumes "list_all rule_fits rs" and "ls = [] \<or> label_dict ls" and "ef_selectorLabels f = format_labels ls"
    and "in_body (json_init ''PUT'' (update_payload n f rs)) = Some body"
  shows "Option.bind (go_read body) read_updates = Some (edit_updates n f ls rs)"
proof -
  have "list_all rule_ok rs" using assms(1) by (simp add: list_all_iff rule_fits_ok)
  then obtain b where "in_body (json_init ''PUT'' (update_payload n f rs)) = Some b" "json_parse b = Inr (JObj (sent_update n f rs))"
    using edit_body_parses assms(2,3) by blast
  then have "go_read body = Some (JObj (sent_update n f rs))" using assms(4) go_read_parse by simp
  then show ?thesis using read_sent_update [OF assms(1-3)] by simp
qed

end
