(* ===== verification/Discovery.thy ===== *)
theory Discovery
  imports Kube "HOL-Library.Sublist"
begin

text \<open>
  The discovery of workloads, \<open>internal/discovery/scanner.go\<close>, and the matching of flags to
  workloads in \<open>internal/apiserver/handlers/workloads.go\<close>. A scanner lives for one request; it
  remembers the names of the managed ConfigMaps it has seen, and keeps them from one namespace
  to the next. A slice that was never appended to is nil and becomes \<open>null\<close> in JSON; the model
  keeps the empty list and writes the \<open>null\<close> when it encodes it. The secret references of a
  container are never filled and are not kept.
\<close>

section \<open>What a scan finds\<close>

record scan_env =
  xe_name :: string
  xe_value :: string
  xe_source :: string
  xe_isMasked :: bool
  xe_isFlag :: bool
  xe_flagName :: string

record scan_ref =
  xr_name :: string
  xr_key :: string

record scan_container =
  xc_name :: string
  xc_image :: string
  xc_envVars :: "scan_env list"
  xc_configMapRefs :: "scan_ref list"

record scan_workload =
  xw_cluster :: string
  xw_namespace :: string
  xw_name :: string
  xw_kind :: string
  xw_replicas :: int
  xw_labels :: "(string \<times> string) list"
  xw_containers :: "scan_container list"
  xw_matchingFlags :: "string list"

section \<open>Containers\<close>

text \<open>A variable as it is exposed, and the reference to a ConfigMap it adds to the container's.\<close>

definition exposed :: "env_entry \<Rightarrow> scan_env \<times> scan_ref list" where
  "exposed e =
     (let ev = \<lparr>xe_name = en_name e, xe_value = [], xe_source = [], xe_isMasked = False, xe_isFlag = True,
                xe_flagName = drop 5 (en_name e)\<rparr>
      in case en_from e of
           None \<Rightarrow> (ev\<lparr>xe_value := en_value e\<rparr>, [])
         | Some src \<Rightarrow>
             (case es_config src of
                Some (n, k) \<Rightarrow>
                  (ev\<lparr>xe_source := ''configmap:'' @ n @ ''/'' @ k\<rparr>, [\<lparr>xr_name = n, xr_key = k\<rparr>])
              | None \<Rightarrow>
                  (case es_secret src of
                     Some _ \<Rightarrow> (ev\<lparr>xe_source := ''secret'', xe_isMasked := True\<rparr>, [])
                   | None \<Rightarrow> (ev, []))))"

definition is_flag_var :: "env_entry \<Rightarrow> bool" where
  "is_flag_var e \<longleftrightarrow> prefix ''FLAG_'' (en_name e)"

definition add_env :: "env_entry \<Rightarrow> scan_container \<Rightarrow> scan_container" where
  "add_env e info =
     (if \<not> is_flag_var e then info
      else (case exposed e of (ev, refs) \<Rightarrow>
              info\<lparr>xc_envVars := xc_envVars info @ [ev], xc_configMapRefs := xc_configMapRefs info @ refs\<rparr>))"

definition add_env_from :: "string list \<Rightarrow> env_from \<Rightarrow> scan_container \<Rightarrow> scan_container" where
  "add_env_from managed f info =
     (case fr_config f of
        Some n \<Rightarrow>
          if n \<in> set managed
          then info\<lparr>xc_configMapRefs := xc_configMapRefs info @ [\<lparr>xr_name = n, xr_key = []\<rparr>]\<rparr> else info
      | None \<Rightarrow> info)"

definition extract_container :: "string list \<Rightarrow> container \<Rightarrow> scan_container" where
  "extract_container managed c =
     fold (add_env_from managed) (co_env_from c)
       (fold add_env (co_env c)
         \<lparr>xc_name = co_name c, xc_image = co_image c, xc_envVars = [], xc_configMapRefs = []\<rparr>)"

definition extractContainersSafe :: "string list \<Rightarrow> container list \<Rightarrow> scan_container list" where
  "extractContainersSafe managed cs = map (extract_container managed) cs"

section \<open>Scanning\<close>

definition loadVexilConfigMaps :: "'k kube \<Rightarrow> 'k \<Rightarrow> string \<Rightarrow> string list \<Rightarrow> string list kres" where
  "loadVexilConfigMaps K k namespace managed =
     (case kube_list_configs K k namespace [(''app.kubernetes.io/managed-by'', ''vexil'')] of
        Inl e \<Rightarrow> Inl e
      | Inr cms \<Rightarrow> Inr (map cmap_name cms @ managed))"

definition workload_info :: "string \<Rightarrow> string list \<Rightarrow> string \<Rightarrow> int \<Rightarrow> deployment \<Rightarrow> scan_workload" where
  "workload_info clusterID managed kind replicas d =
     \<lparr>xw_cluster = clusterID, xw_namespace = dp_namespace d, xw_name = dp_name d, xw_kind = kind,
      xw_replicas = replicas, xw_labels = dp_labels d,
      xw_containers = extractContainersSafe managed (dp_containers d), xw_matchingFlags = []\<rparr>"

definition replicated_info :: "string \<Rightarrow> string list \<Rightarrow> string \<Rightarrow> deployment \<Rightarrow> scan_workload" where
  "replicated_info clusterID managed kind d =
     workload_info clusterID managed kind (case dp_replicas d of None \<Rightarrow> 0 | Some r \<Rightarrow> r) d"

text \<open>The new set of managed names, and the workloads or the error.\<close>

definition ScanNamespace ::
  "'k kube \<Rightarrow> string \<Rightarrow> 'k \<Rightarrow> string \<Rightarrow> string list \<Rightarrow> string list \<times> (string + scan_workload list)" where
  "ScanNamespace K clusterID k namespace managed =
     (let managed' = (case loadVexilConfigMaps K k namespace managed of Inl _ \<Rightarrow> [] | Inr m \<Rightarrow> m) in
      (managed',
       case kube_list_deployments K k namespace (Some everything) of
         Inl e \<Rightarrow> Inl (''listing deployments: '' @ kube_msg e)
       | Inr ds \<Rightarrow>
           (case kube_list_statefulsets K k namespace of
              Inl e \<Rightarrow> Inl (''listing statefulsets: '' @ kube_msg e)
            | Inr ss \<Rightarrow>
                (case kube_list_daemonsets K k namespace of
                   Inl e \<Rightarrow> Inl (''listing daemonsets: '' @ kube_msg e)
                 | Inr dss \<Rightarrow>
                     Inr (map (replicated_info clusterID managed' ''Deployment'') ds
                          @ map (replicated_info clusterID managed' ''StatefulSet'') ss
                          @ map (\<lambda>(d, desired). workload_info clusterID managed' ''DaemonSet'' desired d) dss)))))"

definition systemNamespaces :: "string list" where
  "systemNamespaces = [''kube-system'', ''kube-public'', ''kube-node-lease'', ''local-path-storage'']"

fun scan_namespaces :: "'k kube \<Rightarrow> string \<Rightarrow> 'k \<Rightarrow> string list \<Rightarrow> string list \<Rightarrow> scan_workload list" where
  "scan_namespaces K clusterID k [] managed = []"
| "scan_namespaces K clusterID k (ns # nss) managed =
     (if ns \<in> set systemNamespaces then scan_namespaces K clusterID k nss managed
      else (case ScanNamespace K clusterID k ns managed of
              (managed', Inl _) \<Rightarrow> scan_namespaces K clusterID k nss managed'
            | (managed', Inr ws) \<Rightarrow> ws @ scan_namespaces K clusterID k nss managed'))"

text \<open>It never fails.\<close>

definition ScanCluster :: "'k kube \<Rightarrow> string \<Rightarrow> 'k \<Rightarrow> string list \<Rightarrow> scan_workload list" where
  "ScanCluster K clusterID k allowedNamespaces = scan_namespaces K clusterID k allowedNamespaces []"

section \<open>Matching flags\<close>

definition flag_selector :: "kflag \<Rightarrow> kselector option" where
  "flag_selector f =
     (case sp_delivery (kf_spec f) of
        None \<Rightarrow> None
      | Some d \<Rightarrow>
          (case kd_env d of
             Some e \<Rightarrow> ke_selector e
           | None \<Rightarrow>
               (case kd_config d of
                  Some c \<Rightarrow> kc_selector c
                | None \<Rightarrow> (case kd_sidecar d of Some b \<Rightarrow> kb_selector b | None \<Rightarrow> None))))"

type_synonym label_test = "(string \<times> string) list \<Rightarrow> bool"

definition flag_test :: "'k kube \<Rightarrow> kflag \<Rightarrow> label_test option" where
  "flag_test K f = Option.bind (flag_selector f) (kube_selector K)"

definition namespace_selectors :: "'k kube \<Rightarrow> 'k \<Rightarrow> string \<Rightarrow> (string \<times> string \<times> label_test) list" where
  "namespace_selectors K k ns =
     (case kube_list_flags_in K k ns of
        Inl _ \<Rightarrow> []
      | Inr fs \<Rightarrow>
          concat (map (\<lambda>f. case flag_test K f of None \<Rightarrow> [] | Some p \<Rightarrow> [(kf_name f, kf_namespace f, p)]) fs))"

text \<open>The second argument is the order in which the set of namespaces is traversed.\<close>

definition enrichWithMatchingFlags ::
  "'k kube \<Rightarrow> (string list \<Rightarrow> string list) \<Rightarrow> 'k \<Rightarrow> scan_workload list \<Rightarrow> scan_workload list" where
  "enrichWithMatchingFlags K ord k ws =
     (let selectors = concat (map (namespace_selectors K k) (ord (remdups (map xw_namespace ws)))) in
      map (\<lambda>w. w\<lparr>xw_matchingFlags := xw_matchingFlags w @
        map fst (filter (\<lambda>(_, ns, p). ns = xw_namespace w \<and> p (xw_labels w)) selectors)\<rparr>) ws)"

section \<open>JSON\<close>

definition nil_slice :: "('a \<Rightarrow> jsval) \<Rightarrow> 'a list \<Rightarrow> jsval" where
  "nil_slice f xs = (if xs = [] then JNull else JArr (map f xs))"

definition scan_env_value :: "scan_env \<Rightarrow> jsval" where
  "scan_env_value e =
     JObj [(''name'', JStr (xe_name e)), (''value'', omit_str (xe_value e)), (''source'', omit_str (xe_source e)),
           (''isMasked'', JBool (xe_isMasked e)), (''isFlag'', JBool (xe_isFlag e)),
           (''flagName'', omit_str (xe_flagName e))]"

definition scan_ref_value :: "scan_ref \<Rightarrow> jsval" where
  "scan_ref_value r = JObj [(''name'', JStr (xr_name r)), (''key'', omit_str (xr_key r))]"

definition scan_container_value :: "scan_container \<Rightarrow> jsval" where
  "scan_container_value c =
     JObj [(''name'', JStr (xc_name c)), (''image'', JStr (xc_image c)),
           (''envVars'', nil_slice scan_env_value (xc_envVars c)),
           (''configMapRefs'', nil_slice scan_ref_value (xc_configMapRefs c)), (''secretRefs'', JNull)]"

definition scan_workload_value :: "scan_workload \<Rightarrow> jsval" where
  "scan_workload_value w =
     JObj [(''cluster'', JStr (xw_cluster w)), (''namespace'', JStr (xw_namespace w)), (''name'', JStr (xw_name w)),
           (''kind'', JStr (xw_kind w)), (''replicas'', int_value (xw_replicas w)),
           (''labels'', if xw_labels w = [] then JNull else go_obj (xw_labels w)),
           (''containers'', nil_slice scan_container_value (xw_containers w)),
           (''matchingFlags'', if xw_matchingFlags w = [] then JUndef else JArr (map JStr (xw_matchingFlags w)))]"

end
