(* ===== verification/ApiWorkloads.thy ===== *)
theory ApiWorkloads
  imports ApiFlags Discovery
begin

text \<open>
  The routes of \<open>internal/apiserver/handlers/workloads.go\<close> for workloads: they scan the
  namespaces of a cluster that have flags and answer what they find. They change nothing.
\<close>

text \<open>The namespaces to look at; an error in listing the flags leaves none.\<close>

definition allowed_namespaces :: "('c, 'k) server_lib \<Rightarrow> 'k \<Rightarrow> string list" where
  "allowed_namespaces L k = (case namespacesWithFlags L k of Inl _ \<Rightarrow> [] | Inr names \<Rightarrow> names)"

definition workloads_answer :: "('c, 'k) server_lib \<Rightarrow> 'k \<Rightarrow> scan_workload list \<Rightarrow> http_response" where
  "workloads_answer L k ws =
     writeJSON 200 (JArr (map scan_workload_value (enrichWithMatchingFlags (sl_kube L) (sl_order L) k ws)))"

definition WorkloadHandler_List ::
  "('c, 'k) server_lib \<Rightarrow> string \<Rightarrow> go_request \<Rightarrow> 'k server \<Rightarrow> 'k answer" where
  "WorkloadHandler_List L clusterID rq S =
     (let namespace = query_get ''namespace'' (gr_query rq) in
      case GetClient clusterID (sv_clusters S) of
        Inl _ \<Rightarrow> (S, writeError 404 ''cluster not found'')
      | Inr k \<Rightarrow>
          if namespace \<noteq> []
          then (if namespace \<notin> set (allowed_namespaces L k) then (S, writeJSON 200 (JArr []))
                else (case snd (ScanNamespace (sl_kube L) clusterID k namespace []) of
                        Inl e \<Rightarrow> (S, writeError 500 e)
                      | Inr ws \<Rightarrow> (S, workloads_answer L k ws)))
          else (S, workloads_answer L k (ScanCluster (sl_kube L) clusterID k (allowed_namespaces L k))))"

definition WorkloadHandler_Get ::
  "('c, 'k) server_lib \<Rightarrow> string \<Rightarrow> string \<Rightarrow> string \<Rightarrow> 'k server \<Rightarrow> 'k answer" where
  "WorkloadHandler_Get L clusterID namespace name S =
     (case GetClient clusterID (sv_clusters S) of
        Inl _ \<Rightarrow> (S, writeError 404 ''cluster not found'')
      | Inr k \<Rightarrow>
          if namespace \<notin> set (allowed_namespaces L k) then (S, writeError 404 ''workload not found'')
          else (case snd (ScanNamespace (sl_kube L) clusterID k namespace []) of
                  Inl e \<Rightarrow> (S, writeError 500 e)
                | Inr ws \<Rightarrow>
                    (case find (\<lambda>w. xw_name w = name) ws of
                       Some w \<Rightarrow> (S, writeJSON 200 (scan_workload_value w))
                     | None \<Rightarrow> (S, writeError 404 ''workload not found''))))"

end
