(* ===== verification/ApiRoutes.thy ===== *)
theory ApiRoutes
  imports ApiWorkloads
begin

text \<open>
  The API server as a whole: the table of routes of \<open>internal/apiserver/server.go\<close>, the
  middleware of \<open>internal/apiserver/middleware\<close>, and \<open>serve\<close>, which takes a request through
  them to its handler.
\<close>

section \<open>Routes\<close>

record api_route =
  rt_method :: string
  rt_pattern :: "seg list"
  rt_roles :: "string list option"       \<comment> \<open>\<open>withRoles\<close>, if the route has it\<close>
  rt_endpoint :: endpoint

definition open_route :: "string \<Rightarrow> string \<Rightarrow> endpoint \<Rightarrow> api_route" where
  "open_route m p e = \<lparr>rt_method = m, rt_pattern = pattern p, rt_roles = None, rt_endpoint = e\<rparr>"

definition role_route :: "string \<Rightarrow> string \<Rightarrow> string list \<Rightarrow> endpoint \<Rightarrow> api_route" where
  "role_route m p rs e = \<lparr>rt_method = m, rt_pattern = pattern p, rt_roles = Some rs, rt_endpoint = e\<rparr>"

definition adminOnly :: "string list" where
  "adminOnly = [''admin'']"

definition editorUp :: "string list" where
  "editorUp = [''admin'', ''editor'']"

definition api_routes :: "api_route list" where
  "api_routes =
     [open_route ''POST'' ''/api/v1/auth/login'' Ep_login,
      open_route ''POST'' ''/api/v1/auth/logout'' Ep_logout,
      open_route ''GET'' ''/api/v1/auth/me'' Ep_me,
      open_route ''GET'' ''/api/v1/users'' Ep_list_users,
      role_route ''POST'' ''/api/v1/users'' adminOnly Ep_create_user,
      open_route ''PUT'' ''/api/v1/users/{username}'' Ep_update_user,
      role_route ''DELETE'' ''/api/v1/users/{username}'' adminOnly Ep_delete_user,
      open_route ''GET'' ''/api/v1/flags'' Ep_list_flags,
      role_route ''POST'' ''/api/v1/flags'' editorUp Ep_create_flag,
      open_route ''GET'' ''/api/v1/flags/{namespace}/{name}'' Ep_get_flag,
      role_route ''PUT'' ''/api/v1/flags/{namespace}/{name}'' editorUp Ep_update_flag,
      role_route ''DELETE'' ''/api/v1/flags/{namespace}/{name}'' adminOnly Ep_delete_flag,
      role_route ''POST'' ''/api/v1/flags/{namespace}/{name}/toggle'' editorUp Ep_toggle_flag,
      open_route ''GET'' ''/api/v1/clusters'' Ep_list_clusters,
      role_route ''POST'' ''/api/v1/clusters'' adminOnly Ep_register_cluster,
      open_route ''GET'' ''/api/v1/clusters/{id}'' Ep_get_cluster,
      role_route ''DELETE'' ''/api/v1/clusters/{id}'' adminOnly Ep_remove_cluster,
      role_route ''GET'' ''/api/v1/clusters/{id}/namespaces'' editorUp Ep_namespaces,
      role_route ''GET'' ''/api/v1/clusters/{id}/workloads'' editorUp Ep_workloads,
      role_route ''GET'' ''/api/v1/clusters/{id}/workloads/{namespace}/{name}'' editorUp Ep_workload,
      open_route ''GET'' ''/api/v1/audit'' Ep_audit,
      open_route ''GET'' ''/healthz'' Ep_health]"

text \<open>The pattern that matches; no two patterns of the table with the same method match one path.\<close>

fun find_route :: "api_route list \<Rightarrow> string \<Rightarrow> string list \<Rightarrow> (api_route \<times> string list) option" where
  "find_route [] m ws = None"
| "find_route (r # rs) m ws =
     (case match_path (rt_pattern r) ws of
        Some args \<Rightarrow> if match_method (rt_method r) m then Some (r, args) else find_route rs m ws
      | None \<Rightarrow> find_route rs m ws)"

section \<open>Handlers by endpoint\<close>

definition handle ::
  "('c, 'k) server_lib \<Rightarrow> endpoint \<Rightarrow> string list \<Rightarrow> go_request \<Rightarrow> string \<times> string \<Rightarrow> 'k server \<Rightarrow> 'k answer" where
  "handle L e args rq caller S =
     (case e of
        Ep_login \<Rightarrow> Login L rq S
      | Ep_logout \<Rightarrow> Logout rq S
      | Ep_me \<Rightarrow> Me L rq S
      | Ep_list_users \<Rightarrow> AuthHandler_ListUsers L S
      | Ep_create_user \<Rightarrow> AuthHandler_CreateUser L rq caller S
      | Ep_update_user \<Rightarrow> AuthHandler_UpdateUser L (hd args) rq caller S
      | Ep_delete_user \<Rightarrow> AuthHandler_DeleteUser (hd args) caller S
      | Ep_list_flags \<Rightarrow> FlagHandler_List L rq S
      | Ep_create_flag \<Rightarrow> FlagHandler_Create L rq S
      | Ep_get_flag \<Rightarrow> FlagHandler_Get L (args ! 0) (args ! 1) rq S
      | Ep_update_flag \<Rightarrow> FlagHandler_Update L (args ! 0) (args ! 1) rq S
      | Ep_delete_flag \<Rightarrow> FlagHandler_Delete L (args ! 0) (args ! 1) rq S
      | Ep_toggle_flag \<Rightarrow> FlagHandler_Toggle L (args ! 0) (args ! 1) rq S
      | Ep_list_clusters \<Rightarrow> ClusterHandler_List L S
      | Ep_register_cluster \<Rightarrow> ClusterHandler_Register L rq S
      | Ep_get_cluster \<Rightarrow> ClusterHandler_Get (hd args) S
      | Ep_remove_cluster \<Rightarrow> ClusterHandler_Remove L (hd args) S
      | Ep_namespaces \<Rightarrow> ListNamespaces L (hd args) S
      | Ep_audit \<Rightarrow> AuditHandler_List L rq S
      | Ep_health \<Rightarrow> (S, write_text 200 ''ok'')
      | Ep_workloads \<Rightarrow> WorkloadHandler_List L (hd args) rq S
      | Ep_workload \<Rightarrow> WorkloadHandler_Get L (args ! 0) (args ! 1) (args ! 2) S)"

section \<open>Middleware\<close>

definition role_allowed :: "string list option \<Rightarrow> string \<Rightarrow> bool" where
  "role_allowed roles role = (case roles of None \<Rightarrow> True | Some rs \<Rightarrow> role \<in> set rs)"

text \<open>\<open>RequireRole\<close> around the handler of a route.\<close>

definition run_route ::
  "('c, 'k) server_lib \<Rightarrow> api_route \<Rightarrow> string list \<Rightarrow> go_request \<Rightarrow> string \<times> string \<Rightarrow> 'k server \<Rightarrow> 'k answer" where
  "run_route L r args rq caller S =
     (if role_allowed (rt_roles r) (snd caller) then handle L (rt_endpoint r) args rq caller S
      else (S, writeError 403 ''insufficient permissions''))"

definition mux ::
  "('c, 'k) server_lib \<Rightarrow> go_request \<Rightarrow> string \<times> string \<Rightarrow> 'k server \<Rightarrow> 'k answer" where
  "mux L rq caller S =
     (if \<not> clean_path (gr_path rq) then (S, write_empty 301)
      else (case find_route api_routes (gr_method rq) (path_segs (gr_path rq)) of
              Some (r, args) \<Rightarrow> run_route L r args rq caller S
            | None \<Rightarrow>
                if list_ex (\<lambda>r. match_path (rt_pattern r) (path_segs (gr_path rq)) \<noteq> None) api_routes
                then (S, http_error 405 ''Method Not Allowed'')
                else (S, http_error 404 ''404 page not found'')))"

definition auth_exempt :: "go_request \<Rightarrow> bool" where
  "auth_exempt rq \<longleftrightarrow> gr_method rq = ''OPTIONS''
     \<or> gr_path rq = ''/healthz'' \<and> gr_method rq = ''GET''
     \<or> gr_path rq = ''/api/v1/auth/login'' \<and> gr_method rq = ''POST''"

definition middleware_Auth ::
  "('c, 'k) server_lib \<Rightarrow> (go_request \<Rightarrow> string \<times> string \<Rightarrow> 'k server \<Rightarrow> 'k answer)
   \<Rightarrow> go_request \<Rightarrow> 'k server \<Rightarrow> 'k answer" where
  "middleware_Auth L next rq S =
     (if auth_exempt rq then next rq ([], []) S
      else if length (gr_auth rq) \<le> 7 \<or> take 7 (gr_auth rq) \<noteq> ''Bearer ''
      then (S, writeError 401 ''unauthorized'')
      else (case GetSession (sl_now L) (drop 7 (gr_auth rq)) (sv_store S) of
              None \<Rightarrow> (S, writeError 401 ''unauthorized'')
            | Some caller \<Rightarrow> next rq caller S))"

text \<open>\<open>CORS\<close> answers the preflight requests itself.\<close>

definition serve :: "('c, 'k) server_lib \<Rightarrow> go_request \<Rightarrow> 'k server \<Rightarrow> 'k answer" where
  "serve L rq S =
     (if gr_method rq = ''OPTIONS'' then (S, write_empty 204) else middleware_Auth L (mux L) rq S)"

end
