(* ===== verification/ApiServerProps.thy ===== *)
theory ApiServerProps
  imports ApiRoutes
begin

text \<open>
  What the API server promises: who may change what, what is recorded, how long a session
  lasts, and what a client finds after it created, changed or removed a flag.
\<close>

section \<open>Who asks\<close>

text \<open>The session a request is made in, as the middleware sees it.\<close>

definition caller_of :: "('c, 'k) server_lib \<Rightarrow> go_request \<Rightarrow> 'k server \<Rightarrow> (string \<times> string) option" where
  "caller_of L rq S =
     (if bearer_token rq = [] then None else GetSession (sl_now L) (bearer_token rq) (sv_store S))"

lemma Auth_caller:
  "middleware_Auth L next rq S =
     (if auth_exempt rq then next rq ([], []) S
      else case caller_of L rq S of None \<Rightarrow> (S, writeError 401 ''unauthorized'') | Some u \<Rightarrow> next rq u S)"
proof (cases "length (gr_auth rq) \<le> 7 \<or> take 7 (gr_auth rq) \<noteq> ''Bearer ''")
  case True
  then have "bearer_token rq = []" by (auto simp: bearer_token_def)
  with True show ?thesis by (simp add: middleware_Auth_def caller_of_def)
next
  case False
  then have "bearer_token rq = drop 7 (gr_auth rq)" "drop 7 (gr_auth rq) \<noteq> []" by (auto simp: bearer_token_def)
  with False show ?thesis by (auto simp: middleware_Auth_def caller_of_def)
qed

section \<open>Routes\<close>

lemma find_route_Some:
  "find_route rs m ws = Some (r, args) \<Longrightarrow>
     r \<in> set rs \<and> match_method (rt_method r) m \<and> match_path (rt_pattern r) ws = Some args"
  by (induction rs m ws rule: find_route.induct) (auto split: option.splits if_splits)

text \<open>The roles each endpoint is restricted to, and the method of its route.\<close>

definition endpoint_roles :: "endpoint \<Rightarrow> string list option" where
  "endpoint_roles e =
     (case find (\<lambda>r. rt_endpoint r = e) api_routes of None \<Rightarrow> None | Some r \<Rightarrow> rt_roles r)"

definition endpoint_method :: "endpoint \<Rightarrow> string" where
  "endpoint_method e =
     (case find (\<lambda>r. rt_endpoint r = e) api_routes of None \<Rightarrow> [] | Some r \<Rightarrow> rt_method r)"

lemma route_fields [simp]:
  "rt_endpoint (open_route m p e) = e" "rt_roles (open_route m p e) = None" "rt_method (open_route m p e) = m"
  "rt_pattern (open_route m p e) = pattern p"
  "rt_endpoint (role_route m p rs e) = e" "rt_roles (role_route m p rs e) = Some rs"
  "rt_method (role_route m p rs e) = m" "rt_pattern (role_route m p rs e) = pattern p"
  by (simp_all add: open_route_def role_route_def)

lemma route_of_endpoint:
  "r \<in> set api_routes \<Longrightarrow> rt_roles r = endpoint_roles (rt_endpoint r) \<and> rt_method r = endpoint_method (rt_endpoint r)"
proof -
  have "list_all (\<lambda>r. rt_roles r = endpoint_roles (rt_endpoint r) \<and> rt_method r = endpoint_method (rt_endpoint r)) api_routes"
    by code_simp
  then show "r \<in> set api_routes \<Longrightarrow> ?thesis" by (simp add: list_all_iff)
qed

lemma endpoint_table:
  "endpoint_roles Ep_create_user = Some adminOnly" "endpoint_roles Ep_delete_user = Some adminOnly"
  "endpoint_roles Ep_create_flag = Some editorUp" "endpoint_roles Ep_update_flag = Some editorUp"
  "endpoint_roles Ep_delete_flag = Some adminOnly" "endpoint_roles Ep_toggle_flag = Some editorUp"
  "endpoint_roles Ep_register_cluster = Some adminOnly" "endpoint_roles Ep_remove_cluster = Some adminOnly"
  "endpoint_method Ep_delete_flag = ''DELETE''" "endpoint_method Ep_remove_cluster = ''DELETE''"
  "endpoint_method Ep_create_flag = ''POST''" "endpoint_method Ep_update_flag = ''PUT''"
  "endpoint_method Ep_toggle_flag = ''POST''" "endpoint_method Ep_register_cluster = ''POST''"
  "endpoint_method Ep_update_user = ''PUT''" "endpoint_method Ep_login = ''POST''" "endpoint_method Ep_logout = ''POST''"
  by code_simp+

lemma exempt_routes:
  "find_route api_routes ''POST'' (path_segs ''/api/v1/auth/login'') = Some (open_route ''POST'' ''/api/v1/auth/login'' Ep_login, [])"
  "find_route api_routes ''GET'' (path_segs ''/healthz'') = Some (open_route ''GET'' ''/healthz'' Ep_health, [])"
  by code_simp+

text \<open>A request that changes the server has gone through a route its caller may use.\<close>

lemma serve_through:
  assumes "serve L rq S = (S', res)" and "S' \<noteq> S"
  obtains e args caller where "handle L e args rq caller S = (S', res)" "role_allowed (endpoint_roles e) (snd caller)"
    "match_method (endpoint_method e) (gr_method rq)"
    "caller_of L rq S = Some caller \<or> e = Ep_login \<or> e = Ep_health"
proof -
  obtain caller where m: "mux L rq caller S = (S', res)"
    and c: "caller_of L rq S = Some caller \<or> auth_exempt rq \<and> gr_method rq \<noteq> ''OPTIONS''"
    using assms by (auto simp: serve_def Auth_caller split: if_splits option.splits)
  obtain r args where f: "find_route api_routes (gr_method rq) (path_segs (gr_path rq)) = Some (r, args)"
    and h: "run_route L r args rq caller S = (S', res)"
    using m assms(2) by (auto simp: mux_def split: if_splits option.splits)
  have r: "r \<in> set api_routes" "match_method (rt_method r) (gr_method rq)"
    using find_route_Some [OF f] by simp_all
  have "caller_of L rq S = Some caller \<or> rt_endpoint r = Ep_login \<or> rt_endpoint r = Ep_health"
    using c f exempt_routes by (auto simp: auth_exempt_def)
  then show ?thesis
    using that [of "rt_endpoint r" args caller] h assms(2) r route_of_endpoint [OF r(1)]
    by (auto simp: run_route_def split: if_splits)
qed

section \<open>What a handler can change\<close>

lemma sum_case_fst: "fst (case x of Inl a \<Rightarrow> f a | Inr b \<Rightarrow> g b) = (case x of Inl a \<Rightarrow> fst (f a) | Inr b \<Rightarrow> fst (g b))"
  by (cases x) simp_all

lemmas user_defs = Login_def Logout_def Me_def AuthHandler_ListUsers_def AuthHandler_CreateUser_def
  AuthHandler_UpdateUser_def AuthHandler_DeleteUser_def set_role_def set_password_def Let_def

lemmas store_defs = CreateUser_def UpdateUserRole_def UpdatePassword_def DeleteUser_def change_user_def
  CreateSession_def DeleteSession_def RecordAudit_def

lemmas flag_defs = FlagHandler_List_def FlagHandler_Create_def FlagHandler_Get_def FlagHandler_Update_def
  FlagHandler_Delete_def FlagHandler_Toggle_def save_flag_def ClusterHandler_List_def ClusterHandler_Register_def
  ClusterHandler_Get_def ClusterHandler_Remove_def AuditHandler_List_def ListNamespaces_def
  WorkloadHandler_List_def WorkloadHandler_Get_def record_audit_def put_cluster_def Let_def

definition cluster_endpoint :: "endpoint \<Rightarrow> bool" where
  "cluster_endpoint e \<longleftrightarrow> e \<in> {Ep_create_flag, Ep_update_flag, Ep_delete_flag, Ep_toggle_flag,
     Ep_register_cluster, Ep_remove_cluster}"

lemma handle_clusters:
  assumes "handle L e args rq caller S = (S', res)" and "sv_clusters S' \<noteq> sv_clusters S"
  shows "cluster_endpoint e"
  using assms
  by (cases e) (auto simp: cluster_endpoint_def handle_def user_defs flag_defs
      split: option.splits sum.splits if_splits prod.splits)

lemma handle_users:
  assumes "handle L e args rq caller S = (S', res)" and "ms_users (sv_store S') \<noteq> ms_users (sv_store S)"
  shows "e \<in> {Ep_create_user, Ep_update_user, Ep_delete_user}"
  using assms
  by (cases e) (auto simp: handle_def user_defs flag_defs store_defs
      split: option.splits sum.splits if_splits prod.splits)

lemma handle_sessions:
  assumes "handle L e args rq caller S = (S', res)" and "ms_sessions (sv_store S') \<noteq> ms_sessions (sv_store S)"
  shows "e \<in> {Ep_login, Ep_logout}"
  using assms
  by (cases e) (auto simp: handle_def user_defs flag_defs store_defs
      split: option.splits sum.splits if_splits prod.splits)

lemma handle_events:
  assumes "handle L e args rq caller S = (S', res)"
  shows "ms_events (sv_store S') = ms_events (sv_store S)
    \<or> (cluster_endpoint e \<and> (\<exists>a. ms_events (sv_store S') = ms_events (sv_store S) @ [a]))"
  using assms
  by (cases e) (auto simp: cluster_endpoint_def handle_def user_defs flag_defs store_defs
      split: option.splits sum.splits if_splits prod.splits)

text \<open>Adding or dropping a cluster is registering or removing one.\<close>

lemma handle_registry:
  assumes "handle L e args rq caller S = (S', res)" and "map fst (sv_clusters S') \<noteq> map fst (sv_clusters S)"
  shows "e \<in> {Ep_register_cluster, Ep_remove_cluster}"
  using assms
  by (cases e) (auto simp: handle_def user_defs flag_defs put_client_ids
      split: option.splits sum.splits if_splits prod.splits)

lemma change_user_lookup:
  "change_user g n st = Inr st' \<Longrightarrow>
     map_of (ms_users st') m = (if m = n then map_option g (map_of (ms_users st) m) else map_of (ms_users st) m)"
  by (auto simp: change_user_def update_conv' split: option.splits)

text \<open>A user who is not an administrator changes at most the own password.\<close>

lemma update_user_self:
  assumes "AuthHandler_UpdateUser L target rq caller S = (S', res)" and "snd caller \<noteq> ''admin''"
  shows "(n \<noteq> fst caller \<longrightarrow> map_of (ms_users (sv_store S')) n = map_of (ms_users (sv_store S)) n)
    \<and> map_option us_role (map_of (ms_users (sv_store S')) n) = map_option us_role (map_of (ms_users (sv_store S)) n)"
  using assms
  by (auto simp: AuthHandler_UpdateUser_def set_role_def set_password_def UpdatePassword_def Let_def
      change_user_lookup option.map_comp comp_def option.map_ident split: option.splits sum.splits if_splits)

lemma handle_login:
  assumes "handle L Ep_login args rq caller S = (S', res)" and "ms_sessions (sv_store S') \<noteq> ms_sessions (sv_store S)"
  obtains u b where "sl_random L = Some b" "u \<in> snd ` set (ms_users (sv_store S))"
    "\<exists>pw. pw \<noteq> [] \<and> sl_check L (us_hash u) pw"
    "ms_sessions (sv_store S') = AList.update (hex_string b)
       \<lparr>se_username = us_username u, se_role = us_role u, se_expires = sl_now L + tokenExpiry\<rparr> (ms_sessions (sv_store S))"
proof -
  obtain n pw u b where "map_of (ms_users (sv_store S)) n = Some u" "pw \<noteq> []" "sl_check L (us_hash u) pw"
    "sl_random L = Some b" "ms_sessions (sv_store S') = AList.update (hex_string b)
       \<lparr>se_username = us_username u, se_role = us_role u, se_expires = sl_now L + tokenExpiry\<rparr> (ms_sessions (sv_store S))"
    using assms
    by (auto simp: handle_def Login_def GetUserByUsername_def CreateSession_def split: option.splits sum.splits if_splits)
  then show ?thesis using that [of b u] by (force dest: map_of_SomeD)
qed

lemma handle_logout:
  assumes "handle L Ep_logout args rq caller S = (S', res)"
  shows "ms_sessions (sv_store S') = ms_sessions (sv_store S)
    \<or> ms_sessions (sv_store S') = AList.delete (bearer_token rq) (ms_sessions (sv_store S))"
  using assms by (auto simp: handle_def Logout_def DeleteSession_def split: if_splits)

section \<open>Who may change what\<close>

text \<open>C2 (server_authority). Nothing on the server changes without authority: a request that changes a cluster (its flags included) is made in a live session of an editor or an administrator, of an administrator when it is a deletion or changes the set of clusters; one that changes the users in a session of an administrator, or it changes only the password of the session's own user; and the audit log only ever grows, by one event, and only together with such a request.\<close>

theorem server_authority:
  assumes "serve L rq S = (S', res)"
  shows "(sv_clusters S' \<noteq> sv_clusters S \<longrightarrow>
      (\<exists>u r. caller_of L rq S = Some (u, r) \<and> r \<in> {''admin'', ''editor''}
         \<and> (gr_method rq = ''DELETE'' \<or> map fst (sv_clusters S') \<noteq> map fst (sv_clusters S) \<longrightarrow> r = ''admin'')))
    \<and> (ms_users (sv_store S') \<noteq> ms_users (sv_store S) \<longrightarrow>
      (\<exists>u r. caller_of L rq S = Some (u, r)
         \<and> (r \<noteq> ''admin'' \<longrightarrow> (\<forall>n. n \<noteq> u \<longrightarrow> map_of (ms_users (sv_store S')) n = map_of (ms_users (sv_store S)) n)
             \<and> map_option us_role (map_of (ms_users (sv_store S')) u)
               = map_option us_role (map_of (ms_users (sv_store S)) u))))
    \<and> (ms_events (sv_store S') = ms_events (sv_store S)
      \<or> (\<exists>a u r. ms_events (sv_store S') = ms_events (sv_store S) @ [a]
           \<and> caller_of L rq S = Some (u, r) \<and> r \<in> {''admin'', ''editor''}))"
proof (cases "S' = S")
  case False
  obtain e args caller where h: "handle L e args rq caller S = (S', res)"
    and r: "role_allowed (endpoint_roles e) (snd caller)" and m: "match_method (endpoint_method e) (gr_method rq)"
    and c: "caller_of L rq S = Some caller \<or> e = Ep_login \<or> e = Ep_health"
    using serve_through [OF assms False] by blast
  have ce: "caller_of L rq S = Some caller \<and> snd caller \<in> {''admin'', ''editor''}
      \<and> (gr_method rq = ''DELETE'' \<or> e \<in> {Ep_register_cluster, Ep_remove_cluster} \<longrightarrow> snd caller = ''admin'')"
    if "cluster_endpoint e"
    using that r m c
    by (auto simp: cluster_endpoint_def endpoint_table role_allowed_def adminOnly_def editorUp_def match_method_def)
  have cl: "sv_clusters S' \<noteq> sv_clusters S \<longrightarrow> cluster_endpoint e" using handle_clusters [OF h] by blast
  have rg: "map fst (sv_clusters S') \<noteq> map fst (sv_clusters S) \<longrightarrow> e \<in> {Ep_register_cluster, Ep_remove_cluster}"
    using handle_registry [OF h] by blast
  have us: "caller_of L rq S = Some caller \<and> (snd caller \<noteq> ''admin'' \<longrightarrow>
        (\<forall>n. n \<noteq> fst caller \<longrightarrow> map_of (ms_users (sv_store S')) n = map_of (ms_users (sv_store S)) n)
        \<and> map_option us_role (map_of (ms_users (sv_store S')) (fst caller))
          = map_option us_role (map_of (ms_users (sv_store S)) (fst caller)))"
    if "ms_users (sv_store S') \<noteq> ms_users (sv_store S)"
    using handle_users [OF h that] r c h update_user_self [of L "hd args" rq caller S S' res]
    by (auto simp: endpoint_table role_allowed_def adminOnly_def handle_def)
  obtain u r where ur: "caller = (u, r)" by (cases caller)
  show ?thesis
    using ce cl rg us handle_events [OF h] unfolding ur fst_conv snd_conv by blast
qed simp

end
