(* ===== verification/KubeExample.thy ===== *)
theory KubeExample
  imports Kube
begin

text \<open>
  A cluster small enough to compute with: flags, deployments and ConfigMaps by namespace and
  name. It satisfies \<open>kube_laws\<close>, so they can hold, and the examples of the other theories
  run on it.
\<close>

type_synonym key = "string \<times> string"

record mini =
  mi_flags :: "(key \<times> kflag) list"
  mi_deployments :: "(key \<times> deployment) list"
  mi_configs :: "(key \<times> config_map) list"

fun requirement_holds :: "(string \<times> string) list \<Rightarrow> sel_requirement \<Rightarrow> bool" where
  "requirement_holds ls q =
     (let vs = (case sr_values q of None \<Rightarrow> [] | Some vs \<Rightarrow> vs); x = map_of ls (sr_key q) in
      if sr_operator q = ''In'' then x \<noteq> None \<and> the x \<in> set vs
      else if sr_operator q = ''NotIn'' then x = None \<or> the x \<notin> set vs
      else if sr_operator q = ''Exists'' then x \<noteq> None else x = None)"

definition selects :: "kselector option \<Rightarrow> (string \<times> string) list \<Rightarrow> bool" where
  "selects sel ls =
     (case sel of
        None \<Rightarrow> False
      | Some s \<Rightarrow> list_all (\<lambda>(k, v). map_of ls k = Some v) (ks_labels s)
          \<and> list_all (requirement_holds ls) (case ks_exprs s of None \<Rightarrow> [] | Some es \<Rightarrow> es))"

definition flag_at :: "key \<Rightarrow> kflag \<Rightarrow> kflag" where
  "flag_at i f = f\<lparr>kf_namespace := fst i, kf_name := snd i\<rparr>"

definition flag_key :: "kflag \<Rightarrow> key" where
  "flag_key f = (kf_namespace f, kf_name f)"

definition config_at :: "key \<Rightarrow> config_map \<Rightarrow> config_map" where
  "config_at i c = c\<lparr>cmap_namespace := fst i, cmap_name := snd i\<rparr>"

definition config_key :: "config_map \<Rightarrow> key" where
  "config_key c = (cmap_namespace c, cmap_name c)"

definition deployment_at :: "key \<times> deployment \<Rightarrow> deployment" where
  "deployment_at p = (snd p)\<lparr>dp_namespace := fst (fst p), dp_name := snd (fst p)\<rparr>"

definition mini_get_flag :: "mini \<Rightarrow> string \<Rightarrow> string \<Rightarrow> kflag kres" where
  "mini_get_flag k ns n =
     (case map_of (mi_flags k) (ns, n) of None \<Rightarrow> Inl (NotFound ''not found'') | Some f \<Rightarrow> Inr (flag_at (ns, n) f))"

definition mini_create_flag :: "mini \<Rightarrow> kflag \<Rightarrow> mini \<times> kflag kres" where
  "mini_create_flag k f =
     (if map_of (mi_flags k) (flag_key f) \<noteq> None then (k, Inl (KubeError ''already exists''))
      else (let g = f\<lparr>kf_generation := 1, kf_status := new_status\<rparr>
            in (k\<lparr>mi_flags := AList.update (flag_key f) g (mi_flags k)\<rparr>, Inr g)))"

definition mini_update_flag :: "mini \<Rightarrow> kflag \<Rightarrow> mini \<times> kflag kres" where
  "mini_update_flag k f =
     (case map_of (mi_flags k) (flag_key f) of
        None \<Rightarrow> (k, Inl (NotFound ''not found''))
      | Some old \<Rightarrow>
          let g = f\<lparr>kf_generation := kf_generation old + 1, kf_status := kf_status old\<rparr>
          in (k\<lparr>mi_flags := AList.update (flag_key f) g (mi_flags k)\<rparr>, Inr g))"

definition mini_delete_flag :: "mini \<Rightarrow> kflag \<Rightarrow> mini \<times> unit kres" where
  "mini_delete_flag k f =
     (if map_of (mi_flags k) (flag_key f) = None then (k, Inl (NotFound ''not found''))
      else (k\<lparr>mi_flags := AList.delete (flag_key f) (mi_flags k)\<rparr>, Inr ()))"

definition mini_update_status :: "mini \<Rightarrow> kflag \<Rightarrow> mini \<times> unit kres" where
  "mini_update_status k f =
     (case map_of (mi_flags k) (flag_key f) of
        None \<Rightarrow> (k, Inl (NotFound ''not found''))
      | Some old \<Rightarrow> (k\<lparr>mi_flags := AList.update (flag_key f) (old\<lparr>kf_status := kf_status f\<rparr>) (mi_flags k)\<rparr>, Inr ()))"

definition mini_list_deployments :: "mini \<Rightarrow> string \<Rightarrow> kselector option \<Rightarrow> deployment list kres" where
  "mini_list_deployments k ns sel =
     Inr (map deployment_at (filter (\<lambda>p. fst (fst p) = ns \<and> selects sel (dp_labels (snd p)))
                               (AList.clearjunk (mi_deployments k))))"

definition mini_update_deployment :: "mini \<Rightarrow> deployment \<Rightarrow> mini \<times> unit kres" where
  "mini_update_deployment k d =
     (if map_of (mi_deployments k) (dp_namespace d, dp_name d) = None then (k, Inl (NotFound ''not found''))
      else (k\<lparr>mi_deployments := AList.update (dp_namespace d, dp_name d) d (mi_deployments k)\<rparr>, Inr ()))"

definition mini_get_config :: "mini \<Rightarrow> string \<Rightarrow> string \<Rightarrow> config_map kres" where
  "mini_get_config k ns n =
     (case map_of (mi_configs k) (ns, n) of None \<Rightarrow> Inl (NotFound ''not found'') | Some c \<Rightarrow> Inr (config_at (ns, n) c))"

definition mini_put_config :: "bool \<Rightarrow> mini \<Rightarrow> config_map \<Rightarrow> mini \<times> unit kres" where
  "mini_put_config new k c =
     (if (map_of (mi_configs k) (config_key c) = None) = new
      then (k\<lparr>mi_configs := AList.update (config_key c) c (mi_configs k)\<rparr>, Inr ())
      else (k, Inl (KubeError ''conflict'')))"

definition mini_kube :: "mini kube" where
  "mini_kube =
     \<lparr>kube_list_flags = (\<lambda>k. Inr (map (\<lambda>(i, f). flag_at i f) (AList.clearjunk (mi_flags k)))),
      kube_get_flag = mini_get_flag, kube_create_flag = mini_create_flag, kube_update_flag = mini_update_flag,
      kube_delete_flag = mini_delete_flag, kube_update_status = mini_update_status,
      kube_list_deployments = mini_list_deployments, kube_update_deployment = mini_update_deployment,
      kube_get_config = mini_get_config, kube_create_config = mini_put_config True,
      kube_update_config = mini_put_config False,
      kube_list_flags_in = (\<lambda>k ns. Inr (map (\<lambda>(i, f). flag_at i f)
        (filter (\<lambda>p. fst (fst p) = ns) (AList.clearjunk (mi_flags k))))),
      kube_list_statefulsets = (\<lambda>k ns. Inr []), kube_list_daemonsets = (\<lambda>k ns. Inr []),
      kube_list_configs = (\<lambda>k ns ls. Inr (map (\<lambda>(i, c). config_at i c)
        (filter (\<lambda>(i, c). fst i = ns \<and> list_all (\<lambda>(n, v). map_of (cmap_labels c) n = Some v) ls)
          (AList.clearjunk (mi_configs k))))),
      kube_selector = (\<lambda>s. Some (selects (Some s)))\<rparr>"

section \<open>The laws\<close>

lemma flag_at_key [simp]: "flag_at (kf_namespace f, kf_name f) f = f"
  by (simp add: flag_at_def)

lemma mini_flag_put: "flag_put_laws mini_kube mini_create_flag" "flag_put_laws mini_kube mini_update_flag"
  unfolding flag_put_laws_def
  by (auto simp: mini_kube_def mini_create_flag_def mini_update_flag_def mini_get_flag_def kept_def flag_key_def
      flag_at_def update_conv' mini_list_deployments_def fun_eq_iff Let_def split: if_splits option.splits)

lemma mini_flag_create: "flag_create_laws mini_kube"
  by (auto simp: flag_create_laws_def mini_kube_def mini_create_flag_def mini_get_flag_def flag_key_def split: if_splits)

lemma mini_flag_delete: "flag_delete_laws mini_kube"
  by (auto simp: flag_delete_laws_def mini_kube_def mini_delete_flag_def mini_get_flag_def flag_key_def
      delete_conv' split: if_splits)

lemma mini_status: "status_laws mini_kube"
  by (auto simp: status_laws_def mini_kube_def mini_update_status_def mini_get_flag_def mini_get_config_def
      flag_key_def flag_at_def update_conv' mini_list_deployments_def fun_eq_iff split: option.splits)

lemma mini_flag_read: "flag_read_laws mini_kube"
  by (auto simp: flag_read_laws_def mini_kube_def mini_get_flag_def flag_at_def split: option.splits)

lemma mini_config: "config_put_laws mini_kube (mini_put_config b)" "config_read_laws mini_kube"
  by (auto simp: config_put_laws_def config_read_laws_def mini_kube_def mini_put_config_def mini_get_config_def
      mini_get_flag_def config_key_def config_at_def update_conv' mini_list_deployments_def fun_eq_iff
      split: if_splits option.splits)

lemma update_distinct_map:
  "distinct (map fst al) \<Longrightarrow> i \<in> fst ` set al \<Longrightarrow> AList.update i v al = map (\<lambda>p. if fst p = i then (i, v) else p) al"
proof (induction al)
  case (Cons p al)
  have "map (\<lambda>p. if fst p = i then (i, v) else p) al = al" if "i \<notin> fst ` set al"
    using that by (intro map_idI) force
  then show ?case using Cons by (cases p) auto
qed simp

lemma mini_deployments: "deployment_laws mini_kube"
proof -
  have names: "distinct (map dp_name ds)" if "kube_list_deployments mini_kube k ns sel = Inr ds" for k ns sel ds
  proof -
    let ?l = "filter (\<lambda>p. fst (fst p) = ns \<and> selects sel (dp_labels (snd p))) (AList.clearjunk (mi_deployments k))"
    have "inj_on snd (set (map fst ?l))" by (auto simp: inj_on_def)
    moreover have "distinct (map fst ?l)" by (simp add: distinct_map_filter)
    ultimately have "distinct (map snd (map fst ?l))" by (simp only: distinct_map)
    moreover have "dp_name \<circ> deployment_at = snd \<circ> fst" by (simp add: fun_eq_iff deployment_at_def)
    ultimately show ?thesis using that by (auto simp: mini_kube_def mini_list_deployments_def)
  qed
  have upd: "kube_list_deployments mini_kube k' ns sel = Inr (map (\<lambda>x. if dp_name x = dp_name d' then d' else x) ds)"
    if l: "kube_list_deployments mini_kube k ns sel = Inr ds" and d: "d \<in> set ds"
      and e: "dp_name d' = dp_name d" "dp_namespace d' = dp_namespace d" "dp_labels d' = dp_labels d"
      and u: "kube_update_deployment mini_kube k d' = (k', Inr ())" for k ns sel ds d d' k'
  proof -
    let ?al = "AList.clearjunk (mi_deployments k)" and ?P = "\<lambda>p. fst (fst p) = ns \<and> selects sel (dp_labels (snd p))"
    let ?i = "(dp_namespace d', dp_name d')" and ?g = "\<lambda>p. if fst p = (dp_namespace d', dp_name d') then ((dp_namespace d', dp_name d'), d') else p"
    obtain p where p: "p \<in> set ?al" "?P p" "d = deployment_at p"
      using l d by (auto simp: mini_kube_def mini_list_deployments_def)
    then have i: "fst p = ?i" "dp_labels (snd p) = dp_labels d'" using e by (cases "fst p"; simp add: deployment_at_def)+
    have "distinct (map fst ?al)" by simp
    then have same: "q = p" if "q \<in> set ?al" "fst q = ?i" for q
      using p(1) i that by (metis eq_key_imp_eq_value prod.collapse)
    have 1: "AList.clearjunk (mi_deployments k') = map ?g ?al"
      using u p(1) i update_distinct_map [of ?al ?i d'] clearjunk_update [of ?i d' "mi_deployments k"]
      by (auto simp: mini_kube_def mini_update_deployment_def image_iff split: if_splits) (metis fst_conv)
    have 2: "filter ?P (map ?g ?al) = map ?g (filter ?P ?al)"
      using same p(2) i by (auto simp: filter_map comp_def intro!: map_cong filter_cong)
    have 3: "map deployment_at (map ?g (filter ?P ?al))
        = map (\<lambda>x. if dp_name x = dp_name d' then d' else x) (map deployment_at (filter ?P ?al))"
      using p(2) i by (auto simp: deployment_at_def prod_eq_iff)
    have "map deployment_at (filter ?P ?al) = ds" using l by (simp add: mini_kube_def mini_list_deployments_def)
    moreover have "kube_list_deployments mini_kube k' ns sel
        = Inr (map deployment_at (filter ?P (AList.clearjunk (mi_deployments k'))))"
      by (simp add: mini_kube_def mini_list_deployments_def)
    ultimately show ?thesis by (simp only: 1 2 3)
  qed
  have "kube_get_flag mini_kube (fst (kube_update_deployment mini_kube k d)) = kube_get_flag mini_kube k" for k d
    by (simp add: mini_kube_def mini_update_deployment_def mini_get_flag_def fun_eq_iff)
  with names upd show ?thesis unfolding deployment_laws_def by blast
qed

lemma mini_lists: "list_laws mini_kube"
proof -
  have flags: "distinct (map kf_name fs) \<and> (\<forall>n f. kube_get_flag mini_kube k ns n = Inr f \<longleftrightarrow> f \<in> set fs \<and> kf_name f = n)"
    if l: "kube_list_flags_in mini_kube k ns = Inr fs" for k ns fs
  proof -
    let ?l = "filter (\<lambda>p. fst (fst p) = ns) (AList.clearjunk (mi_flags k))"
    have fs: "fs = map (\<lambda>(i, f). flag_at i f) ?l" using l by (simp add: mini_kube_def)
    have "inj_on snd (set (map fst ?l))" by (auto simp: inj_on_def)
    moreover have "distinct (map fst ?l)" by (simp add: distinct_map_filter)
    ultimately have "distinct (map snd (map fst ?l))" by (simp only: distinct_map)
    moreover have "kf_name \<circ> (\<lambda>(i, f). flag_at i f) = snd \<circ> fst" by (simp add: fun_eq_iff flag_at_def)
    ultimately have "distinct (map kf_name fs)" by (simp add: fs)
    moreover have m: "map_of (mi_flags k) i = Some f \<longleftrightarrow> (i, f) \<in> set (AList.clearjunk (mi_flags k))" for i f
      by (metis distinct_clearjunk map_of_clearjunk map_of_eq_Some_iff)
    have "kube_get_flag mini_kube k ns n = Inr f \<longleftrightarrow> f \<in> set fs \<and> kf_name f = n" for n f
    proof -
      have "kube_get_flag mini_kube k ns n = Inr f \<longleftrightarrow> (\<exists>f0. map_of (mi_flags k) (ns, n) = Some f0 \<and> f = flag_at (ns, n) f0)"
        by (auto simp: mini_kube_def mini_get_flag_def split: option.split)
      then show ?thesis by (force simp: m fs flag_at_def)
    qed
    ultimately show ?thesis by blast
  qed
  have "selects (Some everything) ls" for ls by (simp add: selects_def everything_def)
  then have "\<exists>p. kube_selector mini_kube s = Some p \<and> ds = filter (\<lambda>d. p (dp_labels d)) ds0"
    if "kube_list_deployments mini_kube k ns (Some s) = Inr ds"
      and "kube_list_deployments mini_kube k ns (Some everything) = Inr ds0" for k ns s ds ds0
    using that by (auto simp: mini_kube_def mini_list_deployments_def filter_map comp_def deployment_at_def intro: filter_cong)
  moreover have "ds = []" if "kube_list_deployments mini_kube k ns None = Inr ds" for k ns ds
    using that by (simp add: mini_kube_def mini_list_deployments_def selects_def)
  moreover have "dp_namespace d = ns" if "kube_list_deployments mini_kube k ns sel = Inr ds" "d \<in> set ds" for k ns sel ds d
    using that by (auto simp: mini_kube_def mini_list_deployments_def deployment_at_def)
  ultimately show ?thesis using flags unfolding list_laws_def by blast
qed

theorem mini_kube_laws: "kube_laws mini_kube"
  using mini_flag_put mini_config(1) [of True] mini_config(1) [of False] mini_config(2)
  by (simp add: kube_laws_def mini_flag_create mini_flag_delete mini_status mini_flag_read mini_deployments mini_lists)
    (simp add: mini_kube_def)

section \<open>An example\<close>

text \<open>One flag, delivered as a variable and in a ConfigMap, and one deployment its selector finds.\<close>

definition app_selector :: "kselector option" where
  "app_selector = Some \<lparr>ks_labels = [(''app'', ''web'')], ks_exprs = None\<rparr>"

definition mini_flag :: kflag where
  "mini_flag =
     \<lparr>kf_name = ''dark-mode'', kf_namespace = ''default'', kf_created = 0, kf_generation = 1,
      kf_spec = \<lparr>sp_description = [], sp_type = ''boolean'', sp_default = ''true'', sp_rules = None,
        sp_delivery = Some \<lparr>kd_env = Some \<lparr>ke_name = [], ke_selector = app_selector\<rparr>,
          kd_config = Some \<lparr>kc_name = ''flags'', kc_key = ''dark-mode'', kc_selector = app_selector\<rparr>, kd_sidecar = None\<rparr>,
        sp_disabled = False, sp_lifecycle = ''active''\<rparr>,
      kf_status = new_status\<rparr>"

definition mini_deployment :: deployment where
  "mini_deployment =
     \<lparr>dp_namespace = ''default'', dp_name = ''web'', dp_replicas = Some 2, dp_labels = [(''app'', ''web'')], dp_annotations = [],
      dp_containers = [\<lparr>co_name = ''server'', co_image = ''web:1'',
        co_env = [\<lparr>en_name = ''PORT'', en_value = ''80'', en_from = None\<rparr>], co_env_from = []\<rparr>]\<rparr>"

definition mini_cluster :: mini where
  "mini_cluster =
     \<lparr>mi_flags = [((''default'', ''dark-mode''), mini_flag)],
      mi_deployments = [((''default'', ''web''), mini_deployment)], mi_configs = []\<rparr>"

definition mini_empty :: mini where
  "mini_empty = mini_cluster\<lparr>mi_flags := []\<rparr>"

end
