(* ===== verification/ApiExample.thy ===== *)
theory ApiExample
  imports ApiServerProps KubeExample
begin

text \<open>
  A server to compute with: two administrators and a viewer, one connected cluster with the
  flag of \<open>KubeExample\<close>, and a password check that compares texts.
\<close>

definition demo_lib :: "int \<Rightarrow> nat list \<Rightarrow> (unit, mini) server_lib" where
  "demo_lib now bytes =
     \<lparr>sl_now = now, sl_uuid = ''id'', sl_random = Some bytes, sl_hash = Some, sl_check = (=),
      sl_time = (\<lambda>t. ''2026-01-01T00:00:00Z''), sl_order = id,
      sl_clients = \<lparr>parse_kubeconfig = (\<lambda>c. Inr ()), token_config = (\<lambda>h t. ()), new_k8s_client = (\<lambda>c. Inr mini_empty)\<rparr>,
      sl_kube = mini_kube\<rparr>"

definition demo_account :: "string \<Rightarrow> string \<Rightarrow> account" where
  "demo_account n role = \<lparr>us_id = n, us_username = n, us_hash = ''pw'', us_role = role, us_created = Some 0\<rparr>"

definition demo_session :: "string \<Rightarrow> string \<Rightarrow> login_session" where
  "demo_session n role = \<lparr>se_username = n, se_role = role, se_expires = tokenExpiry\<rparr>"

definition server_with :: "mini \<Rightarrow> mini server" where
  "server_with k =
     \<lparr>sv_store = \<lparr>ms_events = [],
        ms_users = [(''ann'', demo_account ''ann'' ''admin''), (''bob'', demo_account ''bob'' ''admin''),
                    (''eve'', demo_account ''eve'' ''viewer'')],
        ms_sessions = [(''aa'', demo_session ''ann'' ''admin''), (''ee'', demo_session ''eve'' ''viewer'')]\<rparr>,
      sv_clusters = [(''local'', \<lparr>conn_info = \<lparr>in_id = ''local'', in_displayName = ''Local'', in_apiServer = [],
        in_status = ''Connected'', in_version = [], in_workloads = 0\<rparr>, conn_client = k\<rparr>)]\<rparr>"

definition demo_server :: "mini server" where
  "demo_server = server_with mini_cluster"

definition demo_rq :: "string \<Rightarrow> string \<Rightarrow> string \<Rightarrow> string \<Rightarrow> go_request" where
  "demo_rq m p token body =
     \<lparr>gr_method = m, gr_path = p, gr_query = ''clusterId=local'', gr_auth = ''Bearer '' @ token, gr_body = body\<rparr>"

text \<open>Ann removes the flag.\<close>

theorem server_authority_witness:
  "\<exists>u. caller_of (demo_lib 1 []) (demo_rq ''DELETE'' ''/api/v1/flags/default/dark-mode'' ''aa'' []) demo_server = Some (u, ''admin'')"
proof -
  let ?rq = "demo_rq ''DELETE'' ''/api/v1/flags/default/dark-mode'' ''aa'' []"
  obtain S' res where s: "serve (demo_lib 1 []) ?rq demo_server = (S', res)" by (cases "serve (demo_lib 1 []) ?rq demo_server")
  have "sv_clusters (fst (serve (demo_lib 1 []) ?rq demo_server)) \<noteq> sv_clusters demo_server" by code_simp
  then have "sv_clusters S' \<noteq> sv_clusters demo_server" using s by simp
  moreover have "gr_method ?rq = ''DELETE''" by (simp add: demo_rq_def)
  ultimately show ?thesis using server_authority [OF s] by blast
qed

end
