(* ===== verification/ApiSessions.thy ===== *)
theory ApiSessions
  imports ApiExample
begin

text \<open>
  The API server over a sequence of requests: how long a session lives and what it is worth,
  and what the audit log holds.
\<close>

section \<open>Sequences of requests\<close>

text \<open>Each request comes with what the server takes from outside while it serves it.\<close>

type_synonym ('c, 'k) served = "('c, 'k) server_lib \<times> go_request"

definition serve_step :: "'k server \<Rightarrow> ('c, 'k) served \<Rightarrow> 'k server" where
  "serve_step S e = fst (serve (fst e) (snd e) S)"

definition serve_all :: "('c, 'k) served list \<Rightarrow> 'k server \<Rightarrow> 'k server" where
  "serve_all es S = foldl serve_step S es"

lemma serve_all_simps [simp]:
  "serve_all [] S = S" "serve_all (e # es) S = serve_all es (serve_step S e)"
  "serve_all (es @ fs) S = serve_all fs (serve_all es S)"
  by (simp_all add: serve_all_def)

lemma answer_status [simp]: "rs_status (writeJSON n v) = n" "rs_status (writeError n m) = n"
  "rs_status (write_empty n) = n" "rs_status (write_text n m) = n" "rs_status (http_error n m) = n"
  by (simp_all add: writeJSON_def writeError_def write_empty_def write_text_def http_error_def)

section \<open>Sessions\<close>

definition logs_out :: "string \<Rightarrow> go_request \<Rightarrow> bool" where
  "logs_out t rq \<longleftrightarrow> gr_method rq = ''POST'' \<and> gr_path rq = ''/api/v1/auth/logout'' \<and> bearer_token rq = t"

definition draws :: "string \<Rightarrow> ('c, 'k) server_lib \<Rightarrow> bool" where
  "draws t L \<longleftrightarrow> (case sl_random L of None \<Rightarrow> False | Some b \<Rightarrow> hex_string b = t)"

definition session_of :: "string \<Rightarrow> 'k server \<Rightarrow> login_session option" where
  "session_of t S = map_of (ms_sessions (sv_store S)) t"

text \<open>The route of a logout, and that no other path leads to it.\<close>

lemma join_path: "starts_with ''/'' p \<Longrightarrow> p = CHR ''/'' # join_with ''/'' (path_segs p)"
  by (cases p) (auto simp: path_segs_def join_split)

lemma logout_pattern: "pattern ''/api/v1/auth/logout'' = [Lit ''api'', Lit ''v1'', Lit ''auth'', Lit ''logout'']"
  by code_simp

lemma login_pattern: "pattern ''/api/v1/auth/login'' = [Lit ''api'', Lit ''v1'', Lit ''auth'', Lit ''login'']"
  by code_simp

lemma match_lits: "match_path (map Lit ls) ws = Some args \<Longrightarrow> ws = ls \<and> args = []"
  by (induction ls arbitrary: ws args) (case_tac [!] ws, auto split: if_splits)

lemma endpoint_unique:
  "r \<in> set api_routes \<Longrightarrow> rt_endpoint r = Ep_logout \<Longrightarrow> r = open_route ''POST'' ''/api/v1/auth/logout'' Ep_logout"
  "r \<in> set api_routes \<Longrightarrow> rt_endpoint r = Ep_login \<Longrightarrow> r = open_route ''POST'' ''/api/v1/auth/login'' Ep_login"
  by (auto simp: api_routes_def)

text \<open>What one request does to the session of a token.\<close>

lemma serve_session:
  assumes "serve L rq S = (S', res)" and "\<not> draws t L"
  shows "session_of t S' = session_of t S \<or> session_of t S' = None \<and> logs_out t rq"
proof (cases "S' = S")
  case False
  obtain caller where m: "mux L rq caller S = (S', res)"
    using assms(1) False by (auto simp: serve_def Auth_caller split: if_splits option.splits)
  obtain r args where f: "find_route api_routes (gr_method rq) (path_segs (gr_path rq)) = Some (r, args)"
    and h: "run_route L r args rq caller S = (S', res)" and p: "starts_with ''/'' (gr_path rq)"
    using m False by (auto simp: mux_def clean_path_def split: if_splits option.splits)
  have r: "r \<in> set api_routes" "match_method (rt_method r) (gr_method rq)" "match_path (rt_pattern r) (path_segs (gr_path rq)) = Some args"
    using find_route_Some [OF f] by simp_all
  have hd: "handle L (rt_endpoint r) args rq caller S = (S', res)" using h False by (auto simp: run_route_def split: if_splits)
  show ?thesis
  proof (cases "ms_sessions (sv_store S') = ms_sessions (sv_store S)")
    case False
    then have "rt_endpoint r \<in> {Ep_login, Ep_logout}" using handle_sessions [OF hd] by blast
    then consider (login) "rt_endpoint r = Ep_login" | (logout) "rt_endpoint r = Ep_logout" by blast
    then show ?thesis
    proof cases
      case login
      then obtain b se where "sl_random L = Some b" "ms_sessions (sv_store S') = AList.update (hex_string b) se (ms_sessions (sv_store S))"
        using hd False by (metis handle_login)
      then show ?thesis using assms(2) by (auto simp: session_of_def draws_def update_conv')
    next
      case logout
      then have "r = open_route ''POST'' ''/api/v1/auth/logout'' Ep_logout" using r(1) by (rule endpoint_unique(1) [rotated])
      then have m: "gr_method rq = ''POST''" and "path_segs (gr_path rq) = [''api'', ''v1'', ''auth'', ''logout'']"
        using r(2,3) match_lits [of "[''api'', ''v1'', ''auth'', ''logout'']"] by (auto simp: match_method_def logout_pattern)
      then have "gr_path rq = ''/api/v1/auth/logout''" using join_path [OF p] by simp
      moreover have "ms_sessions (sv_store S') = AList.delete (bearer_token rq) (ms_sessions (sv_store S))"
        using handle_logout [of L args rq caller S S' res] hd logout False by simp
      ultimately show ?thesis using m by (auto simp: session_of_def logs_out_def delete_conv')
    qed
  qed (simp add: session_of_def)
qed simp

lemma serve_step_session:
  "\<not> draws t (fst e) \<Longrightarrow> session_of t (serve_step S e) = session_of t S \<or> session_of t (serve_step S e) = None \<and> logs_out t (snd e)"
  unfolding serve_step_def by (rule serve_session [of _ _ _ _ "snd (serve (fst e) (snd e) S)"]) simp_all

lemma session_kept:
  "\<forall>e\<in>set es. \<not> draws t (fst e) \<and> \<not> logs_out t (snd e) \<Longrightarrow> session_of t (serve_all es S) = session_of t S"
proof (induction es arbitrary: S)
  case (Cons e es)
  then show ?case using serve_step_session [of t e S] by auto
qed simp

lemma session_kept_or_gone:
  "\<forall>e\<in>set es. \<not> draws t (fst e) \<Longrightarrow> session_of t (serve_all es S) = session_of t S \<or> session_of t (serve_all es S) = None"
proof (induction es arbitrary: S)
  case (Cons e es)
  then have "session_of t (serve_all es (serve_step S e)) = session_of t (serve_step S e) \<or> session_of t (serve_all es (serve_step S e)) = None"
    by simp
  then show ?case using serve_step_session [of t e S] Cons.prems by auto
qed simp

lemma session_gone:
  "\<forall>e\<in>set es. \<not> draws t (fst e) \<Longrightarrow> session_of t S = None \<Longrightarrow> session_of t (serve_all es S) = None"
proof (induction es arbitrary: S)
  case (Cons e es)
  then show ?case using serve_step_session [of t e S] by auto
qed simp

lemma caller_session:
  "bearer_token rq \<noteq> [] \<Longrightarrow> caller_of L rq S
     = (case session_of (bearer_token rq) S of
          None \<Rightarrow> None | Some se \<Rightarrow> if se_expires se < sl_now L then None else Some (se_username se, se_role se))"
  by (simp add: caller_of_def GetSession_def session_of_def)

text \<open>A login that succeeds opens a session of the user, with the role the user has then.\<close>

definition opens_session :: "('c, 'k) server_lib \<Rightarrow> 'k server \<Rightarrow> account \<Rightarrow> nat list \<Rightarrow> 'k server \<Rightarrow> bool" where
  "opens_session L S u b S' \<longleftrightarrow> u \<in> snd ` set (ms_users (sv_store S)) \<and> (\<exists>pw. pw \<noteq> [] \<and> sl_check L (us_hash u) pw)
     \<and> sl_random L = Some b \<and> session_of (hex_string b) S'
         = Some \<lparr>se_username = us_username u, se_role = us_role u, se_expires = sl_now L + tokenExpiry\<rparr>"

lemma login_opens:
  assumes "gr_method rq = ''POST''" and "gr_path rq = ''/api/v1/auth/login''"
    and "serve L rq S = (S', res)" and "rs_status res = 200"
  obtains u b where "opens_session L S u b S'"
proof -
  have c: "clean_path ''/api/v1/auth/login''" by code_simp
  have "mux L rq ([], []) S = Login L rq S"
    using c exempt_routes(1) unfolding mux_def assms(1,2) by (simp add: run_route_def role_allowed_def handle_def)
  then have "serve L rq S = Login L rq S"
    using assms(1,2) by (simp add: serve_def middleware_Auth_def auth_exempt_def)
  then have "Login L rq S = (S', res)" using assms(3) by simp
  then have l: "rs_status (snd (Login L rq S)) = 200" "S' = fst (Login L rq S)" using assms(4) by simp_all
  obtain n pw where d: "Option.bind (go_read (gr_body rq)) read_login = Some (n, pw)"
    using l(1) by (cases "Option.bind (go_read (gr_body rq)) read_login") (auto simp: Login_def)
  have pw: "n \<noteq> []" "pw \<noteq> []" using l(1) by (auto simp: Login_def d split: if_splits)
  obtain u where u: "map_of (ms_users (sv_store S)) n = Some u"
    using l(1) pw by (cases "map_of (ms_users (sv_store S)) n") (simp_all add: Login_def d GetUserByUsername_def)
  have k: "sl_check L (us_hash u) pw" using l(1) pw u by (simp add: Login_def d GetUserByUsername_def split: if_splits)
  obtain b where b: "sl_random L = Some b"
    using l(1) pw u k by (cases "sl_random L") (simp_all add: Login_def d GetUserByUsername_def)
  have "session_of (hex_string b) S'
      = Some \<lparr>se_username = us_username u, se_role = us_role u, se_expires = sl_now L + tokenExpiry\<rparr>"
    using l(2) pw u k b by (simp add: Login_def d GetUserByUsername_def session_of_def CreateSession_def update_conv')
  moreover have "u \<in> snd ` set (ms_users (sv_store S))" using u by (force dest: map_of_SomeD)
  ultimately show ?thesis using that [of u b] pw k b unfolding opens_session_def by blast
qed

text \<open>A logout that succeeds closes the session of its token.\<close>

lemma logout_closes:
  assumes "logs_out t rq" and "serve L rq S = (S', res)" and "rs_status res = 200"
  shows "session_of t S' = None"
proof -
  have c: "clean_path ''/api/v1/auth/logout''"
    "find_route api_routes ''POST'' (path_segs ''/api/v1/auth/logout'') = Some (open_route ''POST'' ''/api/v1/auth/logout'' Ep_logout, [])"
    by code_simp+
  have rq: "gr_method rq = ''POST''" "gr_path rq = ''/api/v1/auth/logout''" "bearer_token rq = t"
    using assms(1) by (simp_all add: logs_out_def)
  have "mux L rq u S = Logout rq S" for u
    using c unfolding mux_def rq(1,2) by (simp add: run_route_def role_allowed_def handle_def)
  then have "serve L rq S = (case caller_of L rq S of None \<Rightarrow> (S, writeError 401 ''unauthorized'') | Some u \<Rightarrow> Logout rq S)"
    using rq(1,2) by (simp add: serve_def Auth_caller auth_exempt_def cong: option.case_cong)
  then show ?thesis
    using assms(2,3) rq
    by (auto simp: Logout_def DeleteSession_def session_of_def delete_conv' split: option.splits if_splits)
qed

text \<open>C8 (session_lifecycle). After a login the token is good for requests in the name of that user, with the role the user had at the login, until 24 hours have passed or a logout with the token has succeeded, and not after that. Nothing else ends or changes it: whatever requests are served in between, also ones that take the role away from the user, change the password or delete the user.\<close>

theorem session_lifecycle:
  assumes "gr_method rq0 = ''POST''" and "gr_path rq0 = ''/api/v1/auth/login''"
    and "serve L0 rq0 S = (S0, res)" and "rs_status res = 200" and "sl_random L0 = Some b" and "b \<noteq> []"
    and "\<forall>e\<in>set es. \<not> draws (hex_string b) (fst e)" and "bearer_token rq = hex_string b"
  shows "\<exists>u. opens_session L0 S u b S0
    \<and> ((\<forall>e\<in>set es. \<not> logs_out (hex_string b) (snd e)) \<and> sl_now L \<le> sl_now L0 + tokenExpiry
         \<longrightarrow> caller_of L rq (serve_all es S0) = Some (us_username u, us_role u))
    \<and> (sl_now L > sl_now L0 + tokenExpiry \<longrightarrow> caller_of L rq (serve_all es S0) = None)
    \<and> (\<forall>es1 e es2. es = es1 @ e # es2 \<and> logs_out (hex_string b) (snd e)
         \<and> rs_status (snd (serve (fst e) (snd e) (serve_all es1 S0))) = 200
         \<longrightarrow> caller_of L rq (serve_all es S0) = None)"
proof -
  let ?t = "hex_string b"
  have t: "?t \<noteq> []" using assms(6) by (cases b) (simp_all add: hex_string_def)
  then have c: "caller_of L rq S1 = (case session_of ?t S1 of
      None \<Rightarrow> None | Some se \<Rightarrow> if se_expires se < sl_now L then None else Some (se_username se, se_role se))" for S1
    using caller_session [of rq L S1] assms(8) by simp
  obtain u b' where o': "opens_session L0 S u b' S0" by (rule login_opens [OF assms(1-4)])
  then have o: "opens_session L0 S u b S0" using assms(5) by (simp add: opens_session_def)
  have 1: "caller_of L rq (serve_all es S0) = Some (us_username u, us_role u)"
    if "\<forall>e\<in>set es. \<not> logs_out ?t (snd e)" "sl_now L \<le> sl_now L0 + tokenExpiry"
    using session_kept [of es ?t S0] assms(7) that o by (simp add: c opens_session_def)
  have 2: "caller_of L rq (serve_all es S0) = None" if "sl_now L > sl_now L0 + tokenExpiry"
    using session_kept_or_gone [OF assms(7), of S0] that o by (auto simp: c opens_session_def)
  have 3: "caller_of L rq (serve_all es S0) = None"
    if es: "es = es1 @ e # es2" and l: "logs_out ?t (snd e)"
      and ok: "rs_status (snd (serve (fst e) (snd e) (serve_all es1 S0))) = 200" for es1 e es2
  proof -
    have "session_of ?t (serve_step (serve_all es1 S0) e) = None"
      unfolding serve_step_def by (rule logout_closes [OF l _ ok]) simp
    then have "session_of ?t (serve_all es S0) = None"
      using session_gone [of es2 ?t] assms(7) es by simp
    then show ?thesis by (simp add: c)
  qed
  show ?thesis using o 1 2 3 by blast
qed

text \<open>Bob logs in and Ann deletes Bob; Bob's token is still that of an administrator, and Bob deletes a flag.\<close>

definition bob_login :: go_request where
  "bob_login = demo_rq ''POST'' ''/api/v1/auth/login'' []
     (go_encode (JObj [(''username'', JStr ''bob''), (''password'', JStr ''pw'')]))"

definition bob_in :: "mini server" where
  "bob_in = fst (serve (demo_lib 1 [187]) bob_login demo_server)"

definition bob_deleted :: "(unit, mini) served list" where
  "bob_deleted = [(demo_lib 2 [], demo_rq ''DELETE'' ''/api/v1/users/bob'' ''aa'' [])]"

definition bob_deletes :: go_request where
  "bob_deletes = demo_rq ''DELETE'' ''/api/v1/flags/default/dark-mode'' ''bb'' []"

theorem session_lifecycle_witness:
  "GetUserByUsername ''bob'' (sv_store (serve_all bob_deleted bob_in)) = Inl ''user not found: bob''
   \<and> caller_of (demo_lib 3 []) bob_deletes (serve_all bob_deleted bob_in) = Some (''bob'', ''admin'')
   \<and> rs_status (snd (serve (demo_lib 3 []) bob_deletes (serve_all bob_deleted bob_in))) = 204"
proof -
  obtain res where s: "serve (demo_lib 1 [187]) bob_login demo_server = (bob_in, res)"
    by (metis bob_in_def prod.collapse)
  have ok: "rs_status (snd (serve (demo_lib 1 [187]) bob_login demo_server)) = 200" by code_simp
  have b: "sl_random (demo_lib 1 [187]) = Some [187]" by (simp add: demo_lib_def)
  have h: "hex_string [187] = ''bb''" by code_simp
  have d: "\<forall>e\<in>set bob_deleted. \<not> draws (hex_string [187]) (fst e)" by code_simp
  have l: "\<forall>e\<in>set bob_deleted. \<not> logs_out (hex_string [187]) (snd e)" by code_simp
  have t: "bearer_token bob_deletes = hex_string [187]" by code_simp
  have rq: "gr_method bob_login = ''POST''" "gr_path bob_login = ''/api/v1/auth/login''"
    by (simp_all add: bob_login_def demo_rq_def)
  obtain u where u: "opens_session (demo_lib 1 [187]) demo_server u [187] bob_in"
    "caller_of (demo_lib 3 []) bob_deletes (serve_all bob_deleted bob_in) = Some (us_username u, us_role u)"
    using session_lifecycle [OF rq s _ b _ d t, of "demo_lib 3 []"] s ok l
    by (auto simp: demo_lib_def tokenExpiry_def)
  have "session_of ''bb'' bob_in = Some \<lparr>se_username = ''bob'', se_role = ''admin'', se_expires = 1 + tokenExpiry\<rparr>"
    by code_simp
  then have "us_username u = ''bob''" "us_role u = ''admin''" using u(1) by (auto simp: opens_session_def h)
  moreover have "GetUserByUsername ''bob'' (sv_store (serve_all bob_deleted bob_in)) = Inl ''user not found: bob''" by code_simp
  moreover have "rs_status (snd (serve (demo_lib 3 []) bob_deletes (serve_all bob_deleted bob_in))) = 204" by code_simp
  ultimately show ?thesis using u(2) by simp
qed

section \<open>The audit log\<close>

text \<open>The endpoint and the path arguments a request is routed to.\<close>

definition endpoint_of :: "go_request \<Rightarrow> (endpoint \<times> string list) option" where
  "endpoint_of rq =
     (if clean_path (gr_path rq)
      then map_option (\<lambda>(r, args). (rt_endpoint r, args)) (find_route api_routes (gr_method rq) (path_segs (gr_path rq)))
      else None)"

fun audit_action :: "endpoint \<Rightarrow> string" where
  "audit_action Ep_create_flag = ''create''"
| "audit_action Ep_update_flag = ''update''"
| "audit_action Ep_delete_flag = ''delete''"
| "audit_action Ep_toggle_flag = ''toggle''"
| "audit_action Ep_register_cluster = ''register''"
| "audit_action Ep_remove_cluster = ''remove''"
| "audit_action e = []"

definition succeeded :: "http_response \<Rightarrow> bool" where
  "succeeded res \<longleftrightarrow> 200 \<le> rs_status res \<and> rs_status res < 300"

definition audited :: "('c, 'k) server_lib \<Rightarrow> endpoint \<Rightarrow> 'k server \<Rightarrow> 'k server \<Rightarrow> bool" where
  "audited L e S S' \<longleftrightarrow>
     (\<exists>a. ms_events (sv_store S') = ms_events (sv_store S) @ [a]
        \<and> au_action a = audit_action e \<and> au_timestamp a = sl_now L \<and> au_actor a = [])"

lemma record_audit_events:
  "ms_events (sv_store (record_audit L a S)) = ms_events (sv_store S) @ [a\<lparr>au_id := sl_uuid L, au_timestamp := sl_now L\<rparr>]"
  by (simp add: record_audit_def RecordAudit_def)

lemma event_fields [simp]:
  "au_action (flag_event a ns n c) = a" "au_actor (flag_event a ns n c) = []"
  "au_action (cluster_event a c) = a" "au_actor (cluster_event a c) = []"
  by (simp_all add: flag_event_def cluster_event_def new_event_def)

lemma put_cluster_store [simp]: "sv_store (put_cluster cid k S) = sv_store S"
  by (simp add: put_cluster_def)

lemma save_flag_audit:
  "save_flag L action failure ns n cid k f S = (S', res) \<Longrightarrow>
     (if succeeded res
      then \<exists>a. ms_events (sv_store S') = ms_events (sv_store S) @ [a] \<and> au_action a = action \<and> au_timestamp a = sl_now L \<and> au_actor a = []
      else ms_events (sv_store S') = ms_events (sv_store S))"
  by (auto simp: save_flag_def succeeded_def record_audit_events split: prod.splits sum.splits)

lemma find_flag_fails: "find_flag L ns n rq S = Inl res \<Longrightarrow> \<not> succeeded res"
  by (auto simp: find_flag_def succeeded_def Let_def split: if_splits sum.splits)

lemma handle_audit:
  assumes "handle L e args rq caller S = (S', res)" and "cluster_endpoint e"
  shows "if succeeded res then audited L e S S' else ms_events (sv_store S') = ms_events (sv_store S)"
proof -
  have "e = Ep_create_flag \<Longrightarrow> ?thesis" using assms(1)
    by (auto simp: handle_def FlagHandler_Create_def audited_def succeeded_def record_audit_events
        split: option.splits sum.splits if_splits prod.splits)
  moreover have "e = Ep_update_flag \<Longrightarrow> ?thesis" using assms(1)
    by (auto simp: handle_def FlagHandler_Update_def audited_def dest!: save_flag_audit find_flag_fails
        split: option.splits sum.splits prod.splits) (auto simp: succeeded_def)
  moreover have "e = Ep_toggle_flag \<Longrightarrow> ?thesis" using assms(1)
    by (auto simp: handle_def FlagHandler_Toggle_def audited_def dest!: save_flag_audit find_flag_fails
        split: option.splits sum.splits prod.splits if_splits) (auto simp: succeeded_def)
  moreover have "e = Ep_delete_flag \<Longrightarrow> ?thesis" using assms(1)
    by (auto simp: handle_def FlagHandler_Delete_def audited_def record_audit_events dest!: find_flag_fails
        split: option.splits sum.splits prod.splits) (auto simp: succeeded_def)
  moreover have "e = Ep_register_cluster \<Longrightarrow> ?thesis" using assms(1)
    by (auto simp: handle_def ClusterHandler_Register_def audited_def succeeded_def record_audit_events
        split: option.splits sum.splits if_splits)
  moreover have "e = Ep_remove_cluster \<Longrightarrow> ?thesis" using assms(1)
    by (auto simp: handle_def ClusterHandler_Remove_def audited_def succeeded_def record_audit_events
        split: option.splits sum.splits if_splits)
  ultimately show ?thesis using assms(2) by (auto simp: cluster_endpoint_def)
qed

text \<open>A served request was handled by the handler of its endpoint, or refused, or it has none.\<close>

lemma served_cases:
  assumes "serve L rq S = (S', res)"
  obtains (none) "endpoint_of rq = None" "S' = S" | (refused) "S' = S" "\<not> succeeded res"
    | (handled) e args caller where "endpoint_of rq = Some (e, args)" "handle L e args rq caller S = (S', res)"
proof (cases "gr_method rq = ''OPTIONS''")
  case True
  have "list_all (\<lambda>r. \<not> match_method (rt_method r) ''OPTIONS'') api_routes" by code_simp
  then have "endpoint_of rq = None"
    using True find_route_Some [of api_routes "gr_method rq" "path_segs (gr_path rq)"]
    by (cases "find_route api_routes (gr_method rq) (path_segs (gr_path rq))") (auto simp: endpoint_of_def list_all_iff)
  then show ?thesis using none assms True by (simp add: serve_def)
next
  case False
  consider (no) "S' = S" "\<not> succeeded res" | (mux) caller where "mux L rq caller S = (S', res)"
    using assms False by (auto simp: serve_def Auth_caller succeeded_def split: if_splits option.splits)
  then show ?thesis
  proof cases
    case mux
    show ?thesis
    proof (cases "endpoint_of rq")
      case None
      then show ?thesis
        using none mux by (auto simp: endpoint_of_def mux_def split: if_splits option.splits prod.splits)
    next
      case (Some p)
      then obtain r args where f: "find_route api_routes (gr_method rq) (path_segs (gr_path rq)) = Some (r, args)"
        and c: "clean_path (gr_path rq)" and p: "p = (rt_endpoint r, args)"
        by (auto simp: endpoint_of_def split: if_splits)
      then have "run_route L r args rq caller S = (S', res)" using mux by (simp add: mux_def)
      then show ?thesis
        using refused handled [OF Some [unfolded p]] by (auto simp: run_route_def succeeded_def split: if_splits)
    qed
  qed (rule refused)
qed

text \<open>C24 (audit_complete). The audit log records what was done: a request adds one event exactly if it is routed to an operation that changes flags or clusters and succeeds, with that operation as the action and the server's time; no event is ever changed or removed. But no event names an actor, although the dashboard has a column for it.\<close>

theorem audit_complete:
  assumes "serve L rq S = (S', res)"
  shows "case endpoint_of rq of
      Some (e, args) \<Rightarrow> if cluster_endpoint e \<and> succeeded res then audited L e S S'
                       else ms_events (sv_store S') = ms_events (sv_store S)
    | None \<Rightarrow> ms_events (sv_store S') = ms_events (sv_store S)"
  using assms
proof (cases rule: served_cases)
  case (handled e args caller)
  then show ?thesis using handle_audit [OF handled(2)] handle_events [OF handled(2)] by auto
qed (simp_all split: option.split)

theorem audit_complete_witness:
  "audited (demo_lib 3 []) Ep_delete_flag demo_server
     (fst (serve (demo_lib 3 []) (demo_rq ''DELETE'' ''/api/v1/flags/default/dark-mode'' ''aa'' []) demo_server))"
proof -
  let ?rq = "demo_rq ''DELETE'' ''/api/v1/flags/default/dark-mode'' ''aa'' []"
  have "endpoint_of ?rq = Some (Ep_delete_flag, [''default'', ''dark-mode''])" by code_simp
  moreover have "succeeded (snd (serve (demo_lib 3 []) ?rq demo_server))" by code_simp
  ultimately show ?thesis
    using audit_complete [of "demo_lib 3 []" ?rq demo_server] by (simp add: prod_eq_iff cluster_endpoint_def)
qed

end
