(* ===== verification/ApiFlagProps.thy ===== *)
theory ApiFlagProps
  imports ApiSessions
begin

text \<open>
  The flags of the API server as a client sees them: an abstract map from cluster, namespace
  and name to what was asked for, and the operations of the server as changes of that map. It
  rests on \<open>kube_laws\<close>.
\<close>

section \<open>The abstract map\<close>

text \<open>What a stored flag keeps of a specification: all but the defaulted part of a sidecar.\<close>

type_synonym flag_core = "kspec \<times> kenv option option \<times> kconfig option option"

definition core :: "kspec \<Rightarrow> flag_core" where
  "core sp = (sp\<lparr>sp_delivery := None\<rparr>, map_option kd_env (sp_delivery sp), map_option kd_config (sp_delivery sp))"

lemma kept_core: "kept f g \<longleftrightarrow> kf_name g = kf_name f \<and> kf_namespace g = kf_namespace f \<and> core (kf_spec g) = core (kf_spec f)"
  by (auto simp: kept_def core_def)

definition stored :: "('c, 'k) server_lib \<Rightarrow> 'k server \<Rightarrow> string \<times> string \<times> string \<Rightarrow> kflag option" where
  "stored L S i =
     (case i of (cid, ns, n) \<Rightarrow>
        (case GetClient cid (sv_clusters S) of
           Inl _ \<Rightarrow> None
         | Inr k \<Rightarrow> (case kube_get_flag (sl_kube L) k ns n of Inl _ \<Rightarrow> None | Inr f \<Rightarrow> Some f)))"

definition flag_map :: "('c, 'k) server_lib \<Rightarrow> 'k server \<Rightarrow> string \<times> string \<times> string \<rightharpoonup> flag_core" where
  "flag_map L S i = map_option (core \<circ> kf_spec) (stored L S i)"

text \<open>The operations on it; the last argument is the flag before.\<close>

definition create_core :: "create_request \<Rightarrow> flag_core" where
  "create_core r =
     core \<lparr>sp_description = crq_description r, sp_type = crq_type r, sp_default = crq_default r, sp_rules = None,
           sp_delivery = crq_delivery r, sp_disabled = False, sp_lifecycle = ''active''\<rparr>"

definition update_core :: "flag_updates \<Rightarrow> kflag \<Rightarrow> flag_core" where
  "update_core u f =
     core ((kf_spec f)\<lparr>
       sp_description := (case fu_description u of Some d \<Rightarrow> d | None \<Rightarrow> sp_description (kf_spec f)),
       sp_default := (case fu_default u of Some d \<Rightarrow> d | None \<Rightarrow> sp_default (kf_spec f)),
       sp_disabled := (case fu_disabled u of Some b \<Rightarrow> b | None \<Rightarrow> sp_disabled (kf_spec f)),
       sp_delivery := (case fu_delivery u of Some d \<Rightarrow> Some d | None \<Rightarrow> sp_delivery (kf_spec f)),
       sp_rules := (case fu_rules u of Some rs \<Rightarrow> Some rs | None \<Rightarrow> sp_rules (kf_spec f))\<rparr>)"

definition toggle_core :: "kflag \<Rightarrow> flag_core" where
  "toggle_core f =
     core ((kf_spec f)\<lparr>sp_default := (if sp_default (kf_spec f) = ''true'' then ''false'' else ''true'')\<rparr>)"

lemma create_core: "core (kf_spec (requested_flag r)) = create_core r"
  by (simp add: create_core_def requested_flag_def)

lemma update_core: "core (apply_updates u (kf_spec f)) = update_core u f"
  by (simp add: update_core_def apply_updates_def or_old_def option.case_eq_if)

lemma toggle_core: "core ((kf_spec f)\<lparr>sp_default := toggle_value (sp_default (kf_spec f))\<rparr>) = toggle_core f"
  by (simp add: toggle_core_def toggle_value_def)

section \<open>Steps of the handlers\<close>

lemma GetClient_put_client:
  "GetClient cid m = Inr k0 \<Longrightarrow> GetClient i (put_client cid k m) = (if i = cid then Inr k else GetClient i m)"
  by (auto simp: GetClient_def put_client_lookup split: option.splits)

lemma stored_put:
  assumes "GetClient cid (sv_clusters S) = Inr k0"
  shows "stored L (put_cluster cid k S) (i, ns, n)
    = (if i = cid then (case kube_get_flag (sl_kube L) k ns n of Inl _ \<Rightarrow> None | Inr f \<Rightarrow> Some f) else stored L S (i, ns, n))"
  using GetClient_put_client [OF assms] by (simp add: stored_def put_cluster_def)

lemma stored_audit [simp]: "stored L (record_audit L' a S) i = stored L S i"
  by (simp add: stored_def record_audit_def)

lemma find_flag_Inr:
  "find_flag L ns n rq S = Inr (cid, k, f) \<Longrightarrow>
     cid = query_get ''clusterId'' (gr_query rq) \<and> cid \<noteq> [] \<and> GetClient cid (sv_clusters S) = Inr k
     \<and> kube_get_flag (sl_kube L) k ns n = Inr f"
  by (auto simp: find_flag_def Let_def split: if_splits sum.splits)

text \<open>A flag put through a client changes the map at its own place.\<close>

lemma put_flag_map:
  assumes "flag_put_laws (sl_kube L) put" and "GetClient cid (sv_clusters S) = Inr k" and "put k f = (k', Inr g)"
  shows "stored L (put_cluster cid k' S) (cid, kf_namespace f, kf_name f) = Some g"
    and "flag_map L (put_cluster cid k' S) = (flag_map L S)((cid, kf_namespace f, kf_name f) \<mapsto> core (kf_spec f))"
proof -
  have p: "kept f g" "kube_get_flag (sl_kube L) k' (kf_namespace f) (kf_name f) = Inr g"
    "\<And>ns n. (ns, n) \<noteq> (kf_namespace f, kf_name f) \<Longrightarrow> kube_get_flag (sl_kube L) k' ns n = kube_get_flag (sl_kube L) k ns n"
    using assms(1,3) unfolding flag_put_laws_def by blast+
  show "stored L (put_cluster cid k' S) (cid, kf_namespace f, kf_name f) = Some g"
    using p(2) stored_put [OF assms(2), of L] by simp
  have "flag_map L (put_cluster cid k' S) (i, ns, n)
      = ((flag_map L S)((cid, kf_namespace f, kf_name f) \<mapsto> core (kf_spec f))) (i, ns, n)" for i ns n
  proof (cases "i = cid \<and> (ns, n) = (kf_namespace f, kf_name f)")
    case True
    then show ?thesis using p(1,2) stored_put [OF assms(2), of L] by (simp add: flag_map_def kept_core)
  next
    case False
    then show ?thesis using p(3) [of ns n] stored_put [OF assms(2), of L k' i ns n] assms(2)
      by (auto simp: flag_map_def stored_def)
  qed
  then show "flag_map L (put_cluster cid k' S) = (flag_map L S)((cid, kf_namespace f, kf_name f) \<mapsto> core (kf_spec f))"
    by (intro ext) (metis surj_pair)
qed

lemma delete_flag_map:
  assumes "flag_delete_laws (sl_kube L)" and "GetClient cid (sv_clusters S) = Inr k"
    and "kube_delete_flag (sl_kube L) k f = (k', Inr ())"
  shows "flag_map L (put_cluster cid k' S) = (flag_map L S)((cid, kf_namespace f, kf_name f) := None)"
proof -
  have p: "\<exists>m. kube_get_flag (sl_kube L) k' (kf_namespace f) (kf_name f) = Inl (NotFound m)"
    "\<And>ns n. (ns, n) \<noteq> (kf_namespace f, kf_name f) \<Longrightarrow> kube_get_flag (sl_kube L) k' ns n = kube_get_flag (sl_kube L) k ns n"
    using assms(1,3) unfolding flag_delete_laws_def by blast+
  have "flag_map L (put_cluster cid k' S) (i, ns, n) = ((flag_map L S)((cid, kf_namespace f, kf_name f) := None)) (i, ns, n)" for i ns n
  proof (cases "i = cid \<and> (ns, n) = (kf_namespace f, kf_name f)")
    case True
    then show ?thesis using p(1) stored_put [OF assms(2), of L] by (auto simp: flag_map_def)
  next
    case False
    then show ?thesis using p(2) [of ns n] stored_put [OF assms(2), of L k' i ns n] assms(2)
      by (auto simp: flag_map_def stored_def)
  qed
  then show ?thesis by (intro ext) (metis surj_pair)
qed

lemma flag_map_audit [simp]: "flag_map L (record_audit L' a S) = flag_map L S"
  by (simp add: flag_map_def fun_eq_iff)

section \<open>The operations refine the map\<close>

lemma requested_key [simp]: "kf_namespace (requested_flag r) = crq_namespace r" "kf_name (requested_flag r) = crq_name r"
  by (simp_all add: requested_flag_def)

lemma create_effect:
  assumes "kube_laws (sl_kube L)" and "FlagHandler_Create L rq S = (S', res)" and "succeeded res"
  obtains r g where "Option.bind (go_read (gr_body rq)) read_create = Some r"
    "crq_name r \<noteq> []" "crq_namespace r \<noteq> []" "crq_clusterID r \<noteq> []"
    "stored L S' (crq_clusterID r, crq_namespace r, crq_name r) = Some g" "kept (requested_flag r) g"
    "flag_map L S' = (flag_map L S)((crq_clusterID r, crq_namespace r, crq_name r) \<mapsto> create_core r)"
    "stored L S (crq_clusterID r, crq_namespace r, crq_name r) = None"
proof -
  obtain r where r: "Option.bind (go_read (gr_body rq)) read_create = Some r"
    using assms(2,3) by (cases "Option.bind (go_read (gr_body rq)) read_create") (auto simp: FlagHandler_Create_def succeeded_def)
  then have ne: "crq_name r \<noteq> []" "crq_namespace r \<noteq> []" "crq_clusterID r \<noteq> []"
    using assms(2,3) by (auto simp: FlagHandler_Create_def succeeded_def split: if_splits)
  obtain k where k: "GetClient (crq_clusterID r) (sv_clusters S) = Inr k"
    using assms(2,3) r ne by (cases "GetClient (crq_clusterID r) (sv_clusters S)") (auto simp: FlagHandler_Create_def succeeded_def)
  obtain k' g where c: "kube_create_flag (sl_kube L) k (requested_flag r) = (k', Inr g)"
    and S': "S' = record_audit L (flag_event ''create'' (crq_namespace r) (crq_name r) (crq_clusterID r)) (put_cluster (crq_clusterID r) k' S)"
    using assms(2,3) r ne k by (auto simp: FlagHandler_Create_def succeeded_def split: prod.splits sum.splits)
  have l: "flag_put_laws (sl_kube L) (kube_create_flag (sl_kube L))" using assms(1) by (simp add: kube_laws_def)
  then have "kept (requested_flag r) g" using c unfolding flag_put_laws_def by blast
  moreover have "stored L S (crq_clusterID r, crq_namespace r, crq_name r) = None"
    using assms(1) c k unfolding kube_laws_def flag_create_laws_def
    by (auto simp: stored_def split: sum.split) (metis requested_key)
  ultimately show ?thesis using that [OF r ne, of g] put_flag_map [OF l k c] S' by (simp add: create_core)
qed

lemma save_effect:
  assumes "kube_laws (sl_kube L)" and "find_flag L ns n rq S = Inr (cid, k, f)"
    and "save_flag L a m ns n cid k (f\<lparr>kf_spec := sp\<rparr>) S = (S', res)" and "succeeded res"
  shows "\<exists>g. stored L S' (cid, ns, n) = Some g \<and> kept (f\<lparr>kf_spec := sp\<rparr>) g" and "stored L S (cid, ns, n) = Some f"
    and "flag_map L S' = (flag_map L S)((cid, ns, n) \<mapsto> core sp)"
proof -
  note f = find_flag_Inr [OF assms(2)]
  have id: "kf_namespace f = ns" "kf_name f = n"
    using f assms(1) unfolding kube_laws_def flag_read_laws_def by blast+
  obtain k' g where u: "kube_update_flag (sl_kube L) k (f\<lparr>kf_spec := sp\<rparr>) = (k', Inr g)"
    and S': "S' = record_audit L (flag_event a ns n cid) (put_cluster cid k' S)"
    using assms(3,4) by (auto simp: save_flag_def succeeded_def split: prod.splits sum.splits)
  have l: "flag_put_laws (sl_kube L) (kube_update_flag (sl_kube L))" using assms(1) by (simp add: kube_laws_def)
  then have "kept (f\<lparr>kf_spec := sp\<rparr>) g" using u unfolding flag_put_laws_def by blast
  moreover have k: "GetClient cid (sv_clusters S) = Inr k" using f by blast
  ultimately show "\<exists>g. stored L S' (cid, ns, n) = Some g \<and> kept (f\<lparr>kf_spec := sp\<rparr>) g"
    "flag_map L S' = (flag_map L S)((cid, ns, n) \<mapsto> core sp)"
    using put_flag_map [OF l k u] S' id by simp_all
  show "stored L S (cid, ns, n) = Some f" using f unfolding stored_def by auto
qed

text \<open>What each endpoint does to the map, when it succeeds.\<close>

definition refines :: "('c, 'k) server_lib \<Rightarrow> endpoint \<Rightarrow> string list \<Rightarrow> go_request \<Rightarrow> 'k server \<Rightarrow> 'k server \<Rightarrow> bool" where
  "refines L e args rq S S' \<longleftrightarrow>
     (let i = (query_get ''clusterId'' (gr_query rq), args ! 0, args ! 1) in
      case e of
        Ep_create_flag \<Rightarrow>
          (\<exists>r. Option.bind (go_read (gr_body rq)) read_create = Some r
             \<and> flag_map L S' = (flag_map L S)((crq_clusterID r, crq_namespace r, crq_name r) \<mapsto> create_core r) \<and> stored L S (crq_clusterID r, crq_namespace r, crq_name r) = None)
      | Ep_update_flag \<Rightarrow>
          (\<exists>u f. Option.bind (go_read (gr_body rq)) read_updates = Some u \<and> stored L S i = Some f
             \<and> flag_map L S' = (flag_map L S)(i \<mapsto> update_core u f))
      | Ep_toggle_flag \<Rightarrow>
          (\<exists>f. stored L S i = Some f \<and> sp_type (kf_spec f) = ''boolean''
             \<and> flag_map L S' = (flag_map L S)(i \<mapsto> toggle_core f))
      | Ep_delete_flag \<Rightarrow> stored L S i \<noteq> None \<and> flag_map L S' = (flag_map L S)(i := None)
      | Ep_register_cluster \<Rightarrow>
          (\<exists>r. Option.bind (go_read (gr_body rq)) read_register = Some r
             \<and> (\<forall>cid ns n. (cid = rrq_id r \<longrightarrow> flag_map L S (cid, ns, n) = None)
                  \<and> (cid \<noteq> rrq_id r \<longrightarrow> flag_map L S' (cid, ns, n) = flag_map L S (cid, ns, n))))
      | Ep_remove_cluster \<Rightarrow> (\<forall>cid ns n. flag_map L S' (cid, ns, n) = (if cid = hd args then None else flag_map L S (cid, ns, n)))
      | _ \<Rightarrow> flag_map L S' = flag_map L S)"

lemma handle_refines:
  assumes "kube_laws (sl_kube L)" and "handle L e args rq caller S = (S', res)" and "succeeded res"
  shows "refines L e args rq S S'"
proof (cases "cluster_endpoint e")
  case False
  then have "sv_clusters S' = sv_clusters S" using handle_clusters [OF assms(2)] by blast
  then have "flag_map L S' = flag_map L S" by (simp add: flag_map_def stored_def fun_eq_iff)
  then show ?thesis using False by (cases e) (simp_all add: refines_def cluster_endpoint_def)
next
  case True
  let ?n = "args ! 1" and ?ns = "args ! 0"
  have "e = Ep_create_flag \<Longrightarrow> ?thesis"
    using create_effect [OF assms(1) _ assms(3), of rq S S'] assms(2)
    by (simp add: handle_def refines_def) metis
  moreover have "e = Ep_update_flag \<Longrightarrow> ?thesis"
  proof -
    assume e: "e = Ep_update_flag"
    then have h: "FlagHandler_Update L ?ns ?n rq S = (S', res)" using assms(2) by (simp add: handle_def)
    obtain cid k f where f: "find_flag L ?ns ?n rq S = Inr (cid, k, f)"
      using h assms(3) by (auto simp: FlagHandler_Update_def dest: find_flag_fails split: sum.splits)
    then obtain u where u: "Option.bind (go_read (gr_body rq)) read_updates = Some u"
      using h assms(3) by (cases "Option.bind (go_read (gr_body rq)) read_updates") (auto simp: FlagHandler_Update_def succeeded_def)
    have "save_flag L ''update'' ''failed to update flag: '' ?ns ?n cid k (f\<lparr>kf_spec := apply_updates u (kf_spec f)\<rparr>) S = (S', res)"
      using h f u by (simp add: FlagHandler_Update_def)
    from save_effect(2,3) [OF assms(1) f this assms(3)] show ?thesis
      using e u find_flag_Inr [OF f] by (simp add: refines_def update_core)
  qed
  moreover have "e = Ep_toggle_flag \<Longrightarrow> ?thesis"
  proof -
    assume e: "e = Ep_toggle_flag"
    then have h: "FlagHandler_Toggle L ?ns ?n rq S = (S', res)" using assms(2) by (simp add: handle_def)
    obtain cid k f where f: "find_flag L ?ns ?n rq S = Inr (cid, k, f)"
      using h assms(3) by (auto simp: FlagHandler_Toggle_def dest: find_flag_fails split: sum.splits)
    then have b: "sp_type (kf_spec f) = ''boolean''" using h assms(3) by (auto simp: FlagHandler_Toggle_def succeeded_def split: if_splits)
    have "save_flag L ''toggle'' ''failed to toggle flag: '' ?ns ?n cid k
        (f\<lparr>kf_spec := (kf_spec f)\<lparr>sp_default := toggle_value (sp_default (kf_spec f))\<rparr>\<rparr>) S = (S', res)"
      using h f b by (simp add: FlagHandler_Toggle_def)
    from save_effect(2,3) [OF assms(1) f this assms(3)] show ?thesis
      using e b find_flag_Inr [OF f] by (simp add: refines_def toggle_core)
  qed
  moreover have "e = Ep_delete_flag \<Longrightarrow> ?thesis"
  proof -
    assume e: "e = Ep_delete_flag"
    then have h: "FlagHandler_Delete L ?ns ?n rq S = (S', res)" using assms(2) by (simp add: handle_def)
    obtain cid k f where f: "find_flag L ?ns ?n rq S = Inr (cid, k, f)"
      using h assms(3) by (auto simp: FlagHandler_Delete_def dest: find_flag_fails split: sum.splits)
    obtain k' where d: "kube_delete_flag (sl_kube L) k f = (k', Inr ())"
      and S': "S' = record_audit L (flag_event ''delete'' ?ns ?n cid) (put_cluster cid k' S)"
      using h f assms(3) by (auto simp: FlagHandler_Delete_def succeeded_def split: prod.splits sum.splits)
    note i = find_flag_Inr [OF f]
    have id: "kf_namespace f = ?ns" "kf_name f = ?n"
      using i assms(1) unfolding kube_laws_def flag_read_laws_def by blast+
    have "flag_delete_laws (sl_kube L)" using assms(1) by (simp add: kube_laws_def)
    from delete_flag_map [OF this _ d] i id S' show ?thesis
      by (auto simp: e refines_def) (auto simp: stored_def)
  qed
  moreover have "e = Ep_remove_cluster \<Longrightarrow> ?thesis"
    using assms(2,3)
    by (auto simp: handle_def ClusterHandler_Remove_def RemoveCluster_def refines_def succeeded_def flag_map_def stored_def
        record_audit_def GetClient_def delete_conv' split: if_splits sum.splits)
  moreover have "e = Ep_register_cluster \<Longrightarrow> ?thesis"
    using assms(2,3)
    by (auto simp: handle_def ClusterHandler_Register_def AddCluster_def registered_info_def refines_def succeeded_def
        flag_map_def stored_def record_audit_def GetClient_def update_conv' split: if_splits sum.splits option.splits)
  ultimately show ?thesis using True by (auto simp: cluster_endpoint_def)
qed

text \<open>A request that succeeds has been handled by the handler of its endpoint.\<close>

definition handle_for :: "('c, 'k) server_lib \<Rightarrow> endpoint \<Rightarrow> string list \<Rightarrow> go_request \<Rightarrow> 'k server \<Rightarrow> 'k server \<Rightarrow> http_response \<Rightarrow> bool" where
  "handle_for L e args rq S S' res \<longleftrightarrow> (\<exists>caller. handle L e args rq caller S = (S', res))"

lemma handled:
  assumes "serve L rq S = (S', res)" and "succeeded res" and "endpoint_of rq = Some (e, args)"
  shows "handle_for L e args rq S S' res"
  using assms(1)
proof (cases rule: served_cases)
  case (handled e' args' caller)
  then have "e' = e" "args' = args" using assms(3) by simp_all
  then show ?thesis using handled(2) unfolding handle_for_def by blast
qed (use assms(2,3) in simp_all)

lemma flags_refine_step:
  assumes "kube_laws (sl_kube L)" and "serve L rq S = (S', res)" and "succeeded res" and "endpoint_of rq = Some (e, args)"
  shows "refines L e args rq S S'"
  using handled [OF assms(2-4)] handle_refines [OF assms(1) _ assms(3)] unfolding handle_for_def by blast



end
