(* ===== verification/Operator.thy ===== *)
theory Operator
  imports Kube
begin

text \<open>
  The operator, \<open>internal/operator/controllers/featureflag_controller.go\<close>: what one call of
  \<open>Reconcile\<close> for a flag does to its cluster. The cluster is used through the Kubernetes API
  (\<open>kube\<close>); \<open>metav1.Now\<close> is an argument. An error returned to the controller runtime is
  \<open>Inl\<close> with its message; the log is left out. The conversion of a label selector is part of
  the call that lists deployments: like that call it may fail, and then the delivery does.
\<close>

section \<open>Environment variables\<close>

text \<open>The name of the variable: \<open>strings.ReplaceAll\<close> and \<open>strings.ToUpper\<close>.\<close>

definition operator_env_name :: "kenv \<Rightarrow> string \<Rightarrow> string" where
  "operator_env_name d name =
     (if ke_name d = [] then ''FLAG_'' @ to_upper (replace_if (\<lambda>c. c = CHR ''-'') CHR ''_'' name)
      else ke_name d)"

text \<open>The loop over a container's variables: the new list, and whether it found and changed one.\<close>

fun set_env :: "string \<Rightarrow> string \<Rightarrow> env_entry list \<Rightarrow> env_entry list \<times> bool \<times> bool" where
  "set_env n v [] = ([], False, False)"
| "set_env n v (e # es) =
     (if en_name e = n
      then (if en_value e \<noteq> v then (e\<lparr>en_value := v\<rparr> # es, True, True) else (e # es, True, False))
      else (let (es', found, changed) = set_env n v es in (e # es', found, changed)))"

definition container_env :: "string \<Rightarrow> string \<Rightarrow> container \<Rightarrow> container \<times> bool" where
  "container_env n v c =
     (let (es, found, changed) = set_env n v (co_env c) in
      if found then (c\<lparr>co_env := es\<rparr>, changed)
      else (c\<lparr>co_env := es @ [\<lparr>en_name = n, en_value = v, en_from = None\<rparr>]\<rparr>, True))"

definition deployment_env :: "string \<Rightarrow> string \<Rightarrow> deployment \<Rightarrow> deployment \<times> bool" where
  "deployment_env n v d =
     (let cs = map (container_env n v) (dp_containers d)
      in (d\<lparr>dp_containers := map fst cs\<rparr>, list_ex snd cs))"

definition annotate :: "string \<Rightarrow> string \<Rightarrow> deployment \<Rightarrow> deployment" where
  "annotate name v d =
     d\<lparr>dp_annotations := AList.update ''vexil.io/flags-hash'' (name @ ''='' @ v) (dp_annotations d)\<rparr>"

fun update_deployments ::
  "'k kube \<Rightarrow> string \<Rightarrow> string \<Rightarrow> string \<Rightarrow> deployment list \<Rightarrow> 'k \<Rightarrow> int \<Rightarrow> 'k \<times> (string + int)" where
  "update_deployments K name n v [] k targeted = (k, Inr targeted)"
| "update_deployments K name n v (d # ds) k targeted =
     (case deployment_env n v d of
        (d', False) \<Rightarrow> update_deployments K name n v ds k (targeted + 1)
      | (d', True) \<Rightarrow>
          (case kube_update_deployment K k (annotate name v d') of
             (k', Inl e) \<Rightarrow> (k', Inl (''updating deployment '' @ dp_name d @ '': '' @ kube_msg e))
           | (k', Inr _) \<Rightarrow> update_deployments K name n v ds k' (targeted + 1)))"

definition deliverViaEnvVar :: "'k kube \<Rightarrow> kflag \<Rightarrow> kenv \<Rightarrow> string \<Rightarrow> 'k \<Rightarrow> 'k \<times> (string + int)" where
  "deliverViaEnvVar K flag delivery value k =
     (case kube_list_deployments K k (kf_namespace flag) (ke_selector delivery) of
        Inl e \<Rightarrow> (k, Inl (''listing deployments: '' @ kube_msg e))
      | Inr ds \<Rightarrow>
          update_deployments K (kf_name flag) (operator_env_name delivery (kf_name flag)) value ds k 0)"

section \<open>ConfigMaps\<close>

definition managed_config :: "kflag \<Rightarrow> kconfig \<Rightarrow> string \<Rightarrow> config_map" where
  "managed_config flag delivery value =
     \<lparr>cmap_namespace = kf_namespace flag, cmap_name = kc_name delivery,
      cmap_labels = [(''app.kubernetes.io/managed-by'', ''vexil'')], cmap_data = [(kc_key delivery, value)]\<rparr>"

definition deliverViaConfigMap :: "'k kube \<Rightarrow> kflag \<Rightarrow> kconfig \<Rightarrow> string \<Rightarrow> 'k \<Rightarrow> 'k \<times> (string + unit)" where
  "deliverViaConfigMap K flag delivery value k =
     (case kube_get_config K k (kf_namespace flag) (kc_name delivery) of
        Inl e \<Rightarrow>
          if is_not_found e
          then (case kube_create_config K k (managed_config flag delivery value) of
                  (k', Inl e') \<Rightarrow> (k', Inl (''creating configmap: '' @ kube_msg e'))
                | (k', Inr _) \<Rightarrow> (k', Inr ()))
          else (k, Inl (''getting configmap: '' @ kube_msg e))
      | Inr cm \<Rightarrow>
          if go_get (cmap_data cm) (kc_key delivery) \<noteq> value
          then (case kube_update_config K k (cm\<lparr>cmap_data := AList.update (kc_key delivery) value (cmap_data cm)\<rparr>) of
                  (k', Inl e') \<Rightarrow> (k', Inl (''updating configmap: '' @ kube_msg e'))
                | (k', Inr _) \<Rightarrow> (k', Inr ()))
          else (k, Inr ()))"

section \<open>Reconciliation\<close>

definition reached_status :: "int \<Rightarrow> kflag \<Rightarrow> string \<Rightarrow> string \<Rightarrow> int \<Rightarrow> kstatus" where
  "reached_status now flag phase currentValue targeted =
     (kf_status flag)\<lparr>st_phase := phase, st_current := currentValue, st_targeted := targeted,
                       st_updated := Some now, st_observed := kf_generation flag\<rparr>"

definition updateStatus ::
  "'k kube \<Rightarrow> int \<Rightarrow> kflag \<Rightarrow> string \<Rightarrow> string \<Rightarrow> int \<Rightarrow> 'k \<Rightarrow> 'k \<times> (string + unit)" where
  "updateStatus K now flag phase currentValue targeted k =
     (case kube_update_status K k (flag\<lparr>kf_status := reached_status now flag phase currentValue targeted\<rparr>) of
        (k', Inl e) \<Rightarrow> (k', Inl (''updating status: '' @ kube_msg e))
      | (k', Inr _) \<Rightarrow> (k', Inr ()))"

text \<open>The two deliveries in order; the first failure ends them.\<close>

definition deliver_env :: "'k kube \<Rightarrow> kflag \<Rightarrow> string \<Rightarrow> 'k \<Rightarrow> 'k \<times> (string + int)" where
  "deliver_env K flag value k =
     (case sp_delivery (kf_spec flag) of
        None \<Rightarrow> (k, Inr 0)
      | Some d \<Rightarrow> (case kd_env d of None \<Rightarrow> (k, Inr 0) | Some e \<Rightarrow> deliverViaEnvVar K flag e value k))"

definition deliver_config :: "'k kube \<Rightarrow> kflag \<Rightarrow> string \<Rightarrow> 'k \<Rightarrow> 'k \<times> (string + unit)" where
  "deliver_config K flag value k =
     (case sp_delivery (kf_spec flag) of
        None \<Rightarrow> (k, Inr ())
      | Some d \<Rightarrow> (case kd_config d of None \<Rightarrow> (k, Inr ()) | Some c \<Rightarrow> deliverViaConfigMap K flag c value k))"

definition Reconcile :: "'k kube \<Rightarrow> int \<Rightarrow> string \<Rightarrow> string \<Rightarrow> 'k \<Rightarrow> 'k \<times> (string + unit)" where
  "Reconcile K now namespace name k =
     (case kube_get_flag K k namespace name of
        Inl e \<Rightarrow> (k, if is_not_found e then Inr () else Inl (kube_msg e))
      | Inr flag \<Rightarrow>
          let effectiveValue = sp_default (kf_spec flag) in
          if sp_disabled (kf_spec flag) then updateStatus K now flag ''Disabled'' effectiveValue 0 k
          else (case deliver_env K flag effectiveValue k of
                  (k1, Inl _) \<Rightarrow> updateStatus K now flag ''Failed'' effectiveValue 0 k1
                | (k1, Inr targeted) \<Rightarrow>
                    (case deliver_config K flag effectiveValue k1 of
                       (k2, Inl _) \<Rightarrow> updateStatus K now flag ''Failed'' effectiveValue 0 k2
                     | (k2, Inr _) \<Rightarrow> updateStatus K now flag ''Active'' effectiveValue targeted k2)))"

section \<open>What one delivery does\<close>

text \<open>The variables of a container by name; of several with one name \<open>map_of\<close> finds the first.\<close>

definition env_vars :: "env_entry list \<Rightarrow> (string \<times> string) list" where
  "env_vars es = map (\<lambda>e. (en_name e, en_value e)) es"

lemma env_vars_simps [simp]:
  "env_vars [] = []" "env_vars (e # es) = (en_name e, en_value e) # env_vars es"
  "env_vars (es @ fs) = env_vars es @ env_vars fs"
  by (simp_all add: env_vars_def)

lemma set_env_spec:
  assumes "set_env n v es = (es', found, changed)"
  shows "found \<longleftrightarrow> n \<in> en_name ` set es" and "changed \<longrightarrow> found" and "\<not> changed \<longrightarrow> es' = es"
    and "map en_name es' = map en_name es"
    and "map_of (env_vars es') m = (if m = n \<and> found then Some v else map_of (env_vars es) m)"
    and "set_env n v es' = (es', found, False)"
proof -
  have "(found \<longleftrightarrow> n \<in> en_name ` set es) \<and> (changed \<longrightarrow> found) \<and> (\<not> changed \<longrightarrow> es' = es)
    \<and> map en_name es' = map en_name es
    \<and> (\<forall>m. map_of (env_vars es') m = (if m = n \<and> found then Some v else map_of (env_vars es) m))
    \<and> set_env n v es' = (es', found, False)"
    using assms
  proof (induction es arbitrary: es' found changed)
    case (Cons e es)
    obtain es1 f1 c1 where s: "set_env n v es = (es1, f1, c1)" by (cases "set_env n v es")
    show ?case
    proof (cases "en_name e = n")
      case True
      then show ?thesis using Cons.prems by (cases "en_value e = v") auto
    next
      case False
      then have "es' = e # es1" "found = f1" "changed = c1" using Cons.prems s by simp_all
      then show ?thesis using Cons.IH [OF s] False by auto
    qed
  qed simp
  then show "found \<longleftrightarrow> n \<in> en_name ` set es" and "changed \<longrightarrow> found" and "\<not> changed \<longrightarrow> es' = es"
    and "map en_name es' = map en_name es"
    and "map_of (env_vars es') m = (if m = n \<and> found then Some v else map_of (env_vars es) m)"
    and "set_env n v es' = (es', found, False)" by blast+
qed

lemma container_env_spec:
  assumes "container_env n v c = (c', changed)"
  shows "map_of (env_vars (co_env c')) m = (if m = n then Some v else map_of (env_vars (co_env c)) m)"
    and "\<not> changed \<longrightarrow> c' = c" and "container_env n v c' = (c', False)" and "co_name c' = co_name c"
proof -
  obtain es found ch where s: "set_env n v (co_env c) = (es, found, ch)" by (cases "set_env n v (co_env c)")
  note f = set_env_spec [OF s]
  have no: "map_of (env_vars (co_env c)) n = None" if "\<not> found"
    using f(1) that by (auto simp: env_vars_def map_of_eq_None_iff)
  have last: "set_env n v (es @ [\<lparr>en_name = n, en_value = v, en_from = None\<rparr>])
      = (es @ [\<lparr>en_name = n, en_value = v, en_from = None\<rparr>], True, False)" if "\<not> found"
  proof -
    have "n \<notin> en_name ` set es" using f(1,4) that by (metis image_set)
    then show ?thesis by (induction es) auto
  qed
  show "map_of (env_vars (co_env c')) m = (if m = n then Some v else map_of (env_vars (co_env c)) m)"
    using assms s f(5) [of m] no
    by (cases found) (auto simp: container_env_def map_add_def split: option.splits)
  show "\<not> changed \<longrightarrow> c' = c" using assms s f(3) by (auto simp: container_env_def split: if_splits)
  show "container_env n v c' = (c', False)"
    using assms s f(6) last by (auto simp: container_env_def split: if_splits)
  show "co_name c' = co_name c" using assms s by (auto simp: container_env_def split: if_splits)
qed

text \<open>A deployment after its delivery, and the facts the loop needs of it.\<close>

definition delivered :: "string \<Rightarrow> string \<Rightarrow> string \<Rightarrow> deployment \<Rightarrow> deployment" where
  "delivered name n v d =
     (case deployment_env n v d of (d', changed) \<Rightarrow> if changed then annotate name v d' else d)"

lemma delivered_frame [simp]:
  "dp_name (delivered name n v d) = dp_name d" "dp_namespace (delivered name n v d) = dp_namespace d"
  "dp_labels (delivered name n v d) = dp_labels d"
  by (simp_all add: delivered_def deployment_env_def annotate_def Let_def)

lemma delivered_containers: "dp_containers (delivered name n v d) = map (\<lambda>c. fst (container_env n v c)) (dp_containers d)"
proof -
  have "map (\<lambda>c. fst (container_env n v c)) cs = cs" if "\<not> list_ex snd (map (container_env n v) cs)" for cs
    using that container_env_spec(2) [of n v] by (induction cs) (auto, metis prod.collapse)
  then show ?thesis by (simp add: delivered_def deployment_env_def annotate_def Let_def comp_def)
qed

lemma delivered_env:
  assumes "c \<in> set (dp_containers (delivered name n v d))"
  shows "map_of (env_vars (co_env c)) n = Some v"
  using assms container_env_spec(1) [of n v] by (auto simp: delivered_containers) (metis prod.collapse)

lemma delivered_settled: "deployment_env n v (delivered name n v d) = (delivered name n v d, False)"
proof -
  have "container_env n v (fst (container_env n v c)) = (fst (container_env n v c), False)" for c
    using container_env_spec(3) [of n v c] by (metis prod.collapse)
  then have "container_env n v c = (c, False)" if "c \<in> set (dp_containers (delivered name n v d))" for c
    using that by (auto simp: delivered_containers)
  then have "map fst (map (container_env n v) (dp_containers (delivered name n v d))) = dp_containers (delivered name n v d)"
    "\<not> list_ex snd (map (container_env n v) (dp_containers (delivered name n v d)))"
    by (auto simp: list_ex_iff intro!: map_idI)
  then show ?thesis by (simp only: deployment_env_def Let_def) simp
qed

lemma update_deployments_flags:
  assumes "deployment_laws K"
  shows "kube_get_flag K (fst (update_deployments K name n v ds k t)) = kube_get_flag K k"
proof (induction ds arbitrary: k t)
  case (Cons d ds)
  obtain d' ch where d: "deployment_env n v d = (d', ch)" by (cases "deployment_env n v d")
  obtain k1 r where u: "kube_update_deployment K k (annotate name v d') = (k1, r)" by (cases "kube_update_deployment K k (annotate name v d')")
  have "kube_get_flag K k1 = kube_get_flag K k"
    using assms u by (metis deployment_laws_def fst_conv)
  then show ?case using Cons d u by (cases ch; cases r) simp_all
qed simp

lemma update_deployments_ok:
  assumes "deployment_laws K" and "kube_list_deployments K k ns sel = Inr (us @ ds)"
    and "update_deployments K name n v ds k t = (k', Inr t')"
  shows "kube_list_deployments K k' ns sel = Inr (us @ map (delivered name n v) ds) \<and> t' = t + int (length ds)"
  using assms(2,3)
proof (induction ds arbitrary: us k t)
  case (Cons d ds)
  obtain d' ch where d: "deployment_env n v d = (d', ch)" by (cases "deployment_env n v d")
  show ?case
  proof (cases ch)
    case False
    then have "delivered name n v d = d" using d by (simp add: delivered_def)
    then show ?thesis using Cons.IH [of k "us @ [d]" "t + 1"] Cons.prems d False by simp
  next
    case True
    then have x: "annotate name v d' = delivered name n v d" using d by (simp add: delivered_def)
    obtain k1 where u: "kube_update_deployment K k (delivered name n v d) = (k1, Inr ())"
      and rest: "update_deployments K name n v ds k1 (t + 1) = (k', Inr t')"
      using Cons.prems(2) d True x
      by (cases "kube_update_deployment K k (delivered name n v d)") (auto split: sum.splits)
    let ?r = "\<lambda>y. if dp_name y = dp_name d then delivered name n v d else y"
    have l1: "distinct (map dp_name (us @ d # ds))"
      using assms(1) Cons.prems(1) unfolding deployment_laws_def by blast
    have "d \<in> set (us @ d # ds) \<and> dp_name (delivered name n v d) = dp_name d
        \<and> dp_namespace (delivered name n v d) = dp_namespace d \<and> dp_labels (delivered name n v d) = dp_labels d
        \<and> kube_update_deployment K k (delivered name n v d) = (k1, Inr ())"
      using u by simp
    then have l2: "kube_list_deployments K k1 ns sel
        = Inr (map (\<lambda>y. if dp_name y = dp_name (delivered name n v d) then delivered name n v d else y) (us @ d # ds))"
      using assms(1) Cons.prems(1) unfolding deployment_laws_def by blast
    have "?r y = y" if "y \<in> set us \<union> set ds" for y
      using l1 that by (auto simp: image_iff)
    then have "map ?r us = us" "map ?r ds = ds" by (auto intro: map_idI)
    then have m: "map ?r (us @ d # ds) = us @ delivered name n v d # ds" by simp
    have l: "kube_list_deployments K k1 ns sel = Inr (us @ delivered name n v d # ds)"
      using l2 by (simp only: delivered_frame m)
    show ?thesis using Cons.IH [of k1 "us @ [delivered name n v d]" "t + 1"] l rest by simp
  qed
qed simp

end
