(* ===== verification/OperatorProps.thy ===== *)
theory OperatorProps
  imports Operator KubeExample
begin

text \<open>
  What the operator promises: the status it writes tells the truth about the deployments and
  the ConfigMap of the flag, a second run changes nothing, and a flag that is switched off is
  left in the pods as it was.
\<close>

section \<open>One run\<close>

lemma law_parts:
  assumes "kube_laws K"
  shows "flag_put_laws K (kube_create_flag K)" "flag_put_laws K (kube_update_flag K)" "flag_delete_laws K"
    "status_laws K" "flag_read_laws K" "deployment_laws K" "config_put_laws K (kube_create_config K)"
    "config_put_laws K (kube_update_config K)" "config_read_laws K"
  using assms by (simp_all add: kube_laws_def)

lemma updateStatus_ok:
  assumes "kube_laws K" and "kube_get_flag K k (kf_namespace flag) (kf_name flag) = Inr flag"
    and "updateStatus K now flag phase v t k = (k', Inr ())"
  shows "kube_get_flag K k' (kf_namespace flag) (kf_name flag) = Inr (flag\<lparr>kf_status := reached_status now flag phase v t\<rparr>)"
    and "kube_list_deployments K k' = kube_list_deployments K k" and "kube_get_config K k' = kube_get_config K k"
proof -
  let ?f = "flag\<lparr>kf_status := reached_status now flag phase v t\<rparr>"
  have u: "kube_update_status K k ?f = (k', Inr ())"
    using assms(3) by (auto simp: updateStatus_def split: prod.splits sum.splits)
  have g: "kube_get_flag K k (kf_namespace ?f) (kf_name ?f) = Inr flag" using assms(2) by simp
  have l: "status_laws K" using assms(1) by (rule law_parts)
  show "kube_get_flag K k' (kf_namespace flag) (kf_name flag) = Inr ?f"
    "kube_list_deployments K k' = kube_list_deployments K k" "kube_get_config K k' = kube_get_config K k"
    using l [unfolded status_laws_def, rule_format, OF g u] by simp_all
qed

text \<open>The two deliveries leave the flags alone, and the second leaves the deployments alone.\<close>

lemma deliver_env_flags:
  assumes "kube_laws K"
  shows "kube_get_flag K (fst (deliver_env K flag v k)) = kube_get_flag K k"
  using update_deployments_flags [OF law_parts(6) [OF assms]]
  by (auto simp: deliver_env_def deliverViaEnvVar_def split: option.split sum.split)

lemma config_put_frame:
  assumes "config_put_laws K put" and "put k c = (k', Inr ())"
  shows "kube_get_config K k' (cmap_namespace c) (cmap_name c) = Inr c"
    and "kube_list_deployments K k' = kube_list_deployments K k"
  using assms unfolding config_put_laws_def by blast+

lemma config_put_flags:
  "config_put_laws K put \<Longrightarrow> put k c = (k', r) \<Longrightarrow> kube_get_flag K k' = kube_get_flag K k"
  unfolding config_put_laws_def by (metis fst_conv)

lemma deliver_config_flags:
  assumes "kube_laws K"
  shows "kube_get_flag K (fst (deliver_config K flag v k)) = kube_get_flag K k"
  using config_put_flags [OF law_parts(7) [OF assms]] config_put_flags [OF law_parts(8) [OF assms]]
  by (auto simp: deliver_config_def deliverViaConfigMap_def split: option.split sum.split prod.split)

definition config_delivered :: "'k kube \<Rightarrow> kflag \<Rightarrow> kconfig \<Rightarrow> string \<Rightarrow> 'k \<Rightarrow> bool" where
  "config_delivered K flag c v k \<longleftrightarrow>
     (\<exists>cm. kube_get_config K k (kf_namespace flag) (kc_name c) = Inr cm \<and> go_get (cmap_data cm) (kc_key c) = v)"

lemma deliverViaConfigMap_ok:
  assumes "kube_laws K" and "deliverViaConfigMap K flag c v k = (k', Inr ())"
  shows "config_delivered K flag c v k'" and "kube_list_deployments K k' = kube_list_deployments K k"
proof -
  have "config_delivered K flag c v k' \<and> kube_list_deployments K k' = kube_list_deployments K k"
  proof (cases "kube_get_config K k (kf_namespace flag) (kc_name c)")
    case (Inl e)
    then have "kube_create_config K k (managed_config flag c v) = (k', Inr ())"
      using assms(2) by (auto simp: deliverViaConfigMap_def split: if_splits prod.splits sum.splits)
    from config_put_frame [OF law_parts(7) [OF assms(1)] this] show ?thesis
      by (simp add: config_delivered_def managed_config_def go_get_def)
  next
    case (Inr cm)
    have id: "cmap_namespace cm = kf_namespace flag" "cmap_name cm = kc_name c"
      using law_parts(9) [OF assms(1)] Inr unfolding config_read_laws_def by blast+
    let ?cm = "cm\<lparr>cmap_data := AList.update (kc_key c) v (cmap_data cm)\<rparr>"
    show ?thesis
    proof (cases "go_get (cmap_data cm) (kc_key c) = v")
      case True
      then show ?thesis using assms(2) Inr by (simp add: deliverViaConfigMap_def config_delivered_def)
    next
      case False
      then have "kube_update_config K k ?cm = (k', Inr ())"
        using assms(2) Inr by (auto simp: deliverViaConfigMap_def split: prod.splits sum.splits)
      from config_put_frame [OF law_parts(8) [OF assms(1)] this] show ?thesis
        by (simp add: config_delivered_def id go_get_def update_conv')
    qed
  qed
  then show "config_delivered K flag c v k'" "kube_list_deployments K k' = kube_list_deployments K k" by blast+
qed

text \<open>The deployments of a flag's selector carry its value.\<close>

definition env_delivered :: "'k kube \<Rightarrow> kflag \<Rightarrow> kenv \<Rightarrow> string \<Rightarrow> int \<Rightarrow> 'k \<Rightarrow> bool" where
  "env_delivered K flag e v t k \<longleftrightarrow>
     (\<exists>ds. kube_list_deployments K k (kf_namespace flag) (ke_selector e) = Inr ds \<and> t = int (length ds)
        \<and> (\<forall>d\<in>set ds. deployment_env (operator_env_name e (kf_name flag)) v d = (d, False)
             \<and> (\<forall>c\<in>set (dp_containers d). map_of (env_vars (co_env c)) (operator_env_name e (kf_name flag)) = Some v)))"

lemma deliverViaEnvVar_ok:
  assumes "kube_laws K" and "deliverViaEnvVar K flag e v k = (k', Inr t)"
  shows "env_delivered K flag e v t k'"
proof -
  let ?n = "operator_env_name e (kf_name flag)"
  obtain ds where l: "kube_list_deployments K k (kf_namespace flag) (ke_selector e) = Inr ds"
    and u: "update_deployments K (kf_name flag) ?n v ds k 0 = (k', Inr t)"
    using assms(2) by (auto simp: deliverViaEnvVar_def split: sum.splits)
  have "kube_list_deployments K k' (kf_namespace flag) (ke_selector e) = Inr ([] @ map (delivered (kf_name flag) ?n v) ds)
      \<and> t = 0 + int (length ds)"
    using update_deployments_ok [OF law_parts(6) [OF assms(1)] _ u, of _ _ "[]"] l by simp
  then show ?thesis
    using delivered_settled [of ?n v] delivered_env [of _ "kf_name flag" ?n v]
    by (auto simp: env_delivered_def)
qed

section \<open>The status tells the truth\<close>

text \<open>The parts of a flag that ask for a delivery.\<close>

definition env_delivery :: "kflag \<Rightarrow> kenv option" where
  "env_delivery flag = Option.bind (sp_delivery (kf_spec flag)) kd_env"

definition config_delivery :: "kflag \<Rightarrow> kconfig option" where
  "config_delivery flag = Option.bind (sp_delivery (kf_spec flag)) kd_config"

lemma deliver_env_cases:
  "deliver_env K flag v k = (case env_delivery flag of None \<Rightarrow> (k, Inr 0) | Some e \<Rightarrow> deliverViaEnvVar K flag e v k)"
  by (simp add: deliver_env_def env_delivery_def split: option.split)

lemma deliver_config_cases:
  "deliver_config K flag v k = (case config_delivery flag of None \<Rightarrow> (k, Inr ()) | Some c \<Rightarrow> deliverViaConfigMap K flag c v k)"
  by (simp add: deliver_config_def config_delivery_def split: option.split)

definition truthful :: "'k kube \<Rightarrow> kflag \<Rightarrow> 'k \<Rightarrow> bool" where
  "truthful K flag k \<longleftrightarrow>
     (let v = sp_default (kf_spec flag); st = kf_status flag in
      st_current st = v
      \<and> (st_phase st = ''Disabled'' \<longleftrightarrow> sp_disabled (kf_spec flag))
      \<and> (st_phase st = ''Active'' \<longrightarrow>
          (case env_delivery flag of None \<Rightarrow> st_targeted st = 0 | Some e \<Rightarrow> env_delivered K flag e v (st_targeted st) k)
          \<and> (case config_delivery flag of None \<Rightarrow> True | Some c \<Rightarrow> config_delivered K flag c v k)))"

lemma operator_truthful_run:
  assumes "kube_laws K" and "kube_get_flag K k ns n = Inr flag" and "Reconcile K now ns n k = (k', Inr ())"
  shows "\<exists>flag'. kube_get_flag K k' ns n = Inr flag' \<and> flag'\<lparr>kf_status := kf_status flag\<rparr> = flag
    \<and> st_observed (kf_status flag') = kf_generation flag \<and> truthful K flag' k'"
proof -
  let ?v = "sp_default (kf_spec flag)"
  have id: "kf_namespace flag = ns" "kf_name flag = n"
    using law_parts(5) [OF assms(1)] assms(2) unfolding flag_read_laws_def by blast+
  note st_ok = updateStatus_ok [OF assms(1)]
  have result: "\<exists>flag'. kube_get_flag K k' ns n = Inr flag' \<and> flag'\<lparr>kf_status := kf_status flag\<rparr> = flag
      \<and> st_observed (kf_status flag') = kf_generation flag \<and> truthful K flag' k'"
    if g: "kube_get_flag K k2 = kube_get_flag K k" and u: "updateStatus K now flag phase ?v t k2 = (k', Inr ())"
      and p: "phase = ''Disabled'' \<longleftrightarrow> sp_disabled (kf_spec flag)"
      and a: "phase = ''Active'' \<Longrightarrow>
          (case env_delivery flag of None \<Rightarrow> t = 0 | Some e \<Rightarrow> env_delivered K flag e ?v t k2)
          \<and> (case config_delivery flag of None \<Rightarrow> True | Some c \<Rightarrow> config_delivered K flag c ?v k2)"
    for k2 phase t
  proof -
    have g2: "kube_get_flag K k2 (kf_namespace flag) (kf_name flag) = Inr flag" using g assms(2) id by simp
    note s = st_ok [OF g2 u]
    let ?f = "flag\<lparr>kf_status := reached_status now flag phase ?v t\<rparr>"
    have "truthful K ?f k'"
      using a p s(2,3)
      by (auto simp: truthful_def reached_status_def env_delivery_def config_delivery_def env_delivered_def
          config_delivered_def Let_def split: option.splits)
    moreover have "kube_get_flag K k' ns n = Inr ?f" using s(1) id by simp
    ultimately show ?thesis by (intro exI [of _ ?f]) (simp add: reached_status_def)
  qed
  show ?thesis
  proof (cases "sp_disabled (kf_spec flag)")
    case True
    then have "updateStatus K now flag ''Disabled'' ?v 0 k = (k', Inr ())"
      using assms(2,3) by (simp add: Reconcile_def Let_def)
    then show ?thesis by (rule result [rotated]) (simp_all add: True)
  next
    case False
    obtain k1 r1 where 1: "deliver_env K flag ?v k = (k1, r1)" by (cases "deliver_env K flag ?v k")
    obtain k2 r2 where 2: "deliver_config K flag ?v k1 = (k2, r2)" by (cases "deliver_config K flag ?v k1")
    have f1: "kube_get_flag K k1 = kube_get_flag K k" using deliver_env_flags [OF assms(1), of flag ?v k] 1 by simp
    have f2: "kube_get_flag K k2 = kube_get_flag K k" using deliver_config_flags [OF assms(1), of flag ?v k1] 2 f1 by simp
    show ?thesis
    proof (cases r1)
      case (Inl e)
      then have "updateStatus K now flag ''Failed'' ?v 0 k1 = (k', Inr ())"
        using assms(2,3) 1 False by (simp add: Reconcile_def Let_def)
      then show ?thesis by (rule result [OF f1]) (simp_all add: False)
    next
      case (Inr t)
      note r1 = Inr
      show ?thesis
      proof (cases r2)
        case (Inl e)
        then have "updateStatus K now flag ''Failed'' ?v 0 k2 = (k', Inr ())"
          using assms(2,3) 1 2 r1 False by (simp add: Reconcile_def Let_def)
        then show ?thesis by (rule result [OF f2]) (simp_all add: False)
      next
        case (Inr u)
        then have u: "updateStatus K now flag ''Active'' ?v t k2 = (k', Inr ())"
          using assms(2,3) 1 2 r1 False by (simp add: Reconcile_def Let_def)
        have l2: "kube_list_deployments K k2 = kube_list_deployments K k1"
          using 2 Inr deliverViaConfigMap_ok(2) [OF assms(1)]
          by (auto simp: deliver_config_cases split: option.splits)
        have "case env_delivery flag of None \<Rightarrow> t = 0 | Some e \<Rightarrow> env_delivered K flag e ?v t k2"
          using 1 r1 deliverViaEnvVar_ok [OF assms(1)] l2
          by (auto simp: deliver_env_cases env_delivered_def split: option.splits)
        moreover have "case config_delivery flag of None \<Rightarrow> True | Some c \<Rightarrow> config_delivered K flag c ?v k2"
          using 2 Inr deliverViaConfigMap_ok(1) [OF assms(1)]
          by (auto simp: deliver_config_cases split: option.splits)
        ultimately show ?thesis using u by (intro result [OF f2 u]) (simp_all add: False)
      qed
    qed
  qed
qed

lemma truthful_after:
  assumes "kube_laws K" and "Reconcile K now ns n k = (k', Inr ())" and "kube_get_flag K k' ns n = Inr flag"
  shows "truthful K flag k'"
proof (cases "kube_get_flag K k ns n")
  case (Inl e)
  then have "k' = k" using assms(2) by (auto simp: Reconcile_def split: if_splits)
  then show ?thesis using Inl assms(3) by simp
next
  case (Inr flag0)
  then show ?thesis using operator_truthful_run [OF assms(1) Inr assms(2)] assms(3) by auto
qed


section \<open>Runs after the first\<close>

lemma update_deployments_settled:
  "\<forall>d\<in>set ds. deployment_env n v d = (d, False) \<Longrightarrow> update_deployments K name n v ds k t = (k, Inr (t + int (length ds)))"
  by (induction ds arbitrary: t) auto

lemma settled_run:
  assumes "kube_get_flag K k ns n = Inr flag" and "kube_laws K" and "truthful K flag k"
    and "st_phase (kf_status flag) = ''Active''"
  shows "Reconcile K now ns n k
    = updateStatus K now flag ''Active'' (sp_default (kf_spec flag)) (st_targeted (kf_status flag)) k"
proof -
  let ?v = "sp_default (kf_spec flag)"
  have id: "kf_namespace flag = ns" "kf_name flag = n"
    using law_parts(5) [OF assms(2)] assms(1) unfolding flag_read_laws_def by blast+
  have on: "\<not> sp_disabled (kf_spec flag)" using assms(3,4) by (auto simp: truthful_def Let_def)
  have e: "deliver_env K flag ?v k = (k, Inr (st_targeted (kf_status flag)))"
    using assms(3,4)
    by (auto simp: truthful_def deliver_env_cases env_delivered_def deliverViaEnvVar_def Let_def id
        update_deployments_settled split: option.splits)
  have c: "deliver_config K flag ?v k = (k, Inr ())"
    using assms(3,4)
    by (auto simp: truthful_def deliver_config_cases config_delivered_def deliverViaConfigMap_def Let_def id
        split: option.splits)
  show ?thesis using assms(1) on e c by (simp add: Reconcile_def Let_def)
qed

text \<open>C25 (operator_settles). Once a run of the operator has ended with the phase \<open>Active\<close>, running it again is only a write of the same status: no deployment is updated, so no pods are restarted, and no ConfigMap is written.\<close>

theorem operator_settles:
  assumes "kube_laws K" and "Reconcile K now ns n k = (k', Inr ())"
    and "kube_get_flag K k' ns n = Inr flag" and "st_phase (kf_status flag) = ''Active''"
  shows "Reconcile K now' ns n k'
    = updateStatus K now' flag ''Active'' (st_current (kf_status flag)) (st_targeted (kf_status flag)) k'"
proof -
  note t = truthful_after [OF assms(1-3)]
  then have "st_current (kf_status flag) = sp_default (kf_spec flag)" by (simp add: truthful_def Let_def)
  then show ?thesis using settled_run [OF assms(3,1) t assms(4)] by simp
qed

text \<open>A run for a flag that is switched off writes its status and nothing else.\<close>

lemma disabled_run:
  assumes "kube_laws K" and "kube_get_flag K k ns n = Inr flag" and "sp_disabled (kf_spec flag)"
    and "Reconcile K now ns n k = (k', Inr ())"
  shows "kube_list_deployments K k' = kube_list_deployments K k" and "kube_get_config K k' = kube_get_config K k"
proof -
  have id: "kf_namespace flag = ns" "kf_name flag = n"
    using law_parts(5) [OF assms(1)] assms(2) unfolding flag_read_laws_def by blast+
  have "updateStatus K now flag ''Disabled'' (sp_default (kf_spec flag)) 0 k = (k', Inr ())"
    using assms(2-4) by (simp add: Reconcile_def Let_def)
  from updateStatus_ok(2,3) [OF assms(1) _ this] assms(2) id
  show "kube_list_deployments K k' = kube_list_deployments K k" "kube_get_config K k' = kube_get_config K k" by simp_all
qed

section \<open>An example\<close>

definition mini_after :: mini where
  "mini_after = fst (Reconcile mini_kube 5 ''default'' ''dark-mode'' mini_cluster)"

lemma mini_run: "Reconcile mini_kube 5 ''default'' ''dark-mode'' mini_cluster = (mini_after, Inr ())"
  by code_simp

lemma mini_before: "kube_get_flag mini_kube mini_cluster ''default'' ''dark-mode'' = Inr mini_flag"
  by code_simp


theorem operator_settles_witness:
  "\<exists>flag. Reconcile mini_kube 9 ''default'' ''dark-mode'' mini_after = updateStatus mini_kube 9 flag ''Active'' ''true'' 1 mini_after"
proof -
  define flag where "flag = mini_flag\<lparr>kf_status := reached_status 5 mini_flag ''Active'' ''true'' 1\<rparr>"
  have "kube_get_flag mini_kube mini_after ''default'' ''dark-mode'' = Inr flag"
    unfolding flag_def by code_simp
  moreover have "st_phase (kf_status flag) = ''Active''" "st_current (kf_status flag) = ''true''"
    "st_targeted (kf_status flag) = 1"
    by (simp_all add: flag_def reached_status_def)
  ultimately show ?thesis
    using operator_settles [OF mini_kube_laws mini_run, of flag 9] by auto
qed

end
