(* ===== verification/Sidecar.thy ===== *)
theory Sidecar
  imports Kube "HOL-Library.Sublist"
begin

text \<open>
  The sidecar, \<open>sidecar/main.go\<close>: a copy of the namespace's flags that follows the watch of
  the Kubernetes API, served to the application over HTTP, with a stream of updates for each
  subscriber. The store has two locks: \<open>Set\<close> changes the flags under one and sends to the
  subscribers under the other, so these are two steps of the machine at the end, between
  which requests and subscriptions may happen.
\<close>

section \<open>The store\<close>

record resolved =
  rf_name :: string
  rf_type :: string
  rf_value :: string
  rf_disabled :: bool
  rf_description :: string

text \<open>A channel is a number and the values waiting in it.\<close>

record flag_store =
  fs_flags :: "(string \<times> resolved) list"
  fs_subscribers :: "(nat \<times> resolved list) list"

definition newFlagStore :: flag_store where
  "newFlagStore = \<lparr>fs_flags = [], fs_subscribers = []\<rparr>"

definition store_flag :: "resolved \<Rightarrow> flag_store \<Rightarrow> flag_store" where
  "store_flag f s = s\<lparr>fs_flags := AList.update (rf_name f) f (fs_flags s)\<rparr>"

text \<open>A send to a channel whose 64 places are taken is dropped.\<close>

definition broadcast :: "resolved \<Rightarrow> flag_store \<Rightarrow> flag_store" where
  "broadcast f s =
     s\<lparr>fs_subscribers := map (\<lambda>(ch, buf). (ch, if length buf < 64 then buf @ [f] else buf)) (fs_subscribers s)\<rparr>"

definition flagStore_Set :: "resolved \<Rightarrow> flag_store \<Rightarrow> flag_store" where
  "flagStore_Set f s = broadcast f (store_flag f s)"

definition flagStore_Delete :: "string \<Rightarrow> flag_store \<Rightarrow> flag_store" where
  "flagStore_Delete name s = s\<lparr>fs_flags := AList.delete name (fs_flags s)\<rparr>"

definition flagStore_Get :: "string \<Rightarrow> flag_store \<Rightarrow> resolved option" where
  "flagStore_Get name s = map_of (fs_flags s) name"

text \<open>The first argument is the order in which the map is traversed.\<close>

definition flagStore_All :: "(string list \<Rightarrow> string list) \<Rightarrow> flag_store \<Rightarrow> resolved list" where
  "flagStore_All ord s = map (\<lambda>n. the (flagStore_Get n s)) (ord (map fst (fs_flags s)))"

definition flagStore_Subscribe :: "nat \<Rightarrow> flag_store \<Rightarrow> flag_store" where
  "flagStore_Subscribe ch s = s\<lparr>fs_subscribers := AList.update ch [] (fs_subscribers s)\<rparr>"

definition flagStore_Unsubscribe :: "nat \<Rightarrow> flag_store \<Rightarrow> flag_store" where
  "flagStore_Unsubscribe ch s = s\<lparr>fs_subscribers := AList.delete ch (fs_subscribers s)\<rparr>"

text \<open>A receive from a channel that has a value.\<close>

definition take_update :: "nat \<Rightarrow> flag_store \<Rightarrow> flag_store" where
  "take_update ch s = s\<lparr>fs_subscribers := map (\<lambda>(c, buf). (c, if c = ch then tl buf else buf)) (fs_subscribers s)\<rparr>"

section \<open>The watcher\<close>

definition resolveFlag :: "kflag \<Rightarrow> resolved" where
  "resolveFlag ff =
     \<lparr>rf_name = kf_name ff, rf_type = sp_type (kf_spec ff),
      rf_value = (if st_current (kf_status ff) \<noteq> [] then st_current (kf_status ff) else sp_default (kf_spec ff)),
      rf_disabled = sp_disabled (kf_spec ff), rf_description = sp_description (kf_spec ff)\<rparr>"

datatype watch_event = Added kflag | Modified kflag | Deleted kflag

fun watch_step :: "watch_event \<Rightarrow> flag_store \<Rightarrow> flag_store" where
  "watch_step (Added ff) s = flagStore_Set (resolveFlag ff) s"
| "watch_step (Modified ff) s = flagStore_Set (resolveFlag ff) s"
| "watch_step (Deleted ff) s = flagStore_Delete (kf_name ff) s"

text \<open>The initial list; a watch that was closed is opened again without another list.\<close>

definition load_flags :: "kflag list \<Rightarrow> flag_store \<Rightarrow> flag_store" where
  "load_flags items s = fold (\<lambda>ff. flagStore_Set (resolveFlag ff)) items s"

definition watch_all :: "watch_event list \<Rightarrow> flag_store \<Rightarrow> flag_store" where
  "watch_all es s = fold watch_step es s"

section \<open>Requests\<close>

definition resolved_value :: "resolved \<Rightarrow> jsval" where
  "resolved_value f =
     JObj [(''name'', JStr (rf_name f)), (''type'', JStr (rf_type f)), (''value'', JStr (rf_value f)),
           (''disabled'', JBool (rf_disabled f)), (''description'', omit_str (rf_description f))]"

datatype sidecar_endpoint = Sc_all | Sc_stream | Sc_flag | Sc_value | Sc_health

text \<open>The table, with the pattern that the multiplexer prefers first.\<close>

definition sidecar_routes :: "(seg list \<times> sidecar_endpoint) list" where
  "sidecar_routes =
     [(pattern ''/flags'', Sc_all), (pattern ''/flags/stream'', Sc_stream), (pattern ''/flags/{name}'', Sc_flag),
      (pattern ''/flags/{name}/value'', Sc_value), (pattern ''/healthz'', Sc_health)]"

fun sidecar_route :: "(seg list \<times> sidecar_endpoint) list \<Rightarrow> string list \<Rightarrow> (sidecar_endpoint \<times> string list) option" where
  "sidecar_route [] ws = None"
| "sidecar_route ((p, e) # rs) ws =
     (case match_path p ws of Some args \<Rightarrow> Some (e, args) | None \<Rightarrow> sidecar_route rs ws)"

text \<open>An answer, or the opening of a stream, which stays open until the client ends it.\<close>

datatype sidecar_answer = Sc_answer nat string | Sc_open

definition sidecar_handle ::
  "(string list \<Rightarrow> string list) \<Rightarrow> sidecar_endpoint \<Rightarrow> string list \<Rightarrow> flag_store \<Rightarrow> sidecar_answer" where
  "sidecar_handle ord e args s =
     (case e of
        Sc_all \<Rightarrow> Sc_answer 200 (go_encode (JArr (map resolved_value (flagStore_All ord s))))
      | Sc_stream \<Rightarrow> Sc_open
      | Sc_flag \<Rightarrow>
          if hd args = ''stream'' then Sc_answer 200 []
          else (case flagStore_Get (hd args) s of
                  None \<Rightarrow> Sc_answer 404 ([CHR ''{'', CHR 0x22] @ ''error'' @ [CHR 0x22, CHR '':'', CHR 0x22]
                            @ ''flag not found'' @ [CHR 0x22, CHR ''}'', CHR 0x0A])
                | Some f \<Rightarrow> Sc_answer 200 (go_encode (resolved_value f)))
      | Sc_value \<Rightarrow>
          (case flagStore_Get (hd args) s of
             None \<Rightarrow> Sc_answer 404 (''flag not found'' @ [CHR 0x0A])
           | Some f \<Rightarrow> Sc_answer 200 (rf_value f))
      | Sc_health \<Rightarrow> Sc_answer 200 ''ok'')"

definition sidecar_serve ::
  "(string list \<Rightarrow> string list) \<Rightarrow> string \<Rightarrow> string \<Rightarrow> flag_store \<Rightarrow> sidecar_answer" where
  "sidecar_serve ord meth path s =
     (if \<not> clean_path path then Sc_answer 301 []
      else case sidecar_route sidecar_routes (path_segs path) of
        None \<Rightarrow> Sc_answer 404 (''404 page not found'' @ [CHR 0x0A])
      | Some (e, args) \<Rightarrow>
          if match_method ''GET'' meth then sidecar_handle ord e args s
          else Sc_answer 405 (''Method Not Allowed'' @ [CHR 0x0A]))"

text \<open>The text a stream carries for an update.\<close>

definition stream_text :: "resolved \<Rightarrow> string" where
  "stream_text f =
     ''event: update'' @ [CHR 0x0A] @ ''data: '' @ butlast (go_encode (resolved_value f)) @ [CHR 0x0A, CHR 0x0A]"

section \<open>The store follows the cluster\<close>

lemma Get_Set: "flagStore_Get n (flagStore_Set f s) = (if n = rf_name f then Some f else flagStore_Get n s)"
  by (simp add: flagStore_Get_def flagStore_Set_def broadcast_def store_flag_def update_conv')

lemma Get_Delete: "flagStore_Get n (flagStore_Delete m s) = (if n = m then None else flagStore_Get n s)"
  by (simp add: flagStore_Get_def flagStore_Delete_def delete_conv')

lemma new_store_Get: "flagStore_Get n newFlagStore = None"
  by (simp add: flagStore_Get_def newFlagStore_def)

lemma resolveFlag_name [simp]: "rf_name (resolveFlag ff) = kf_name ff"
  by (simp add: resolveFlag_def)

text \<open>The flags of the namespace by name, as the events report them.\<close>

fun cluster_step :: "watch_event \<Rightarrow> (string \<rightharpoonup> kflag) \<Rightarrow> (string \<rightharpoonup> kflag)" where
  "cluster_step (Added ff) M = M(kf_name ff \<mapsto> ff)"
| "cluster_step (Modified ff) M = M(kf_name ff \<mapsto> ff)"
| "cluster_step (Deleted ff) M = M(kf_name ff := None)"

definition mirrors :: "flag_store \<Rightarrow> (string \<rightharpoonup> kflag) \<Rightarrow> bool" where
  "mirrors s M \<longleftrightarrow> (\<forall>n. flagStore_Get n s = map_option resolveFlag (M n))"

lemma mirrors_step: "mirrors s M \<Longrightarrow> mirrors (watch_step e s) (cluster_step e M)"
  by (cases e) (auto simp: mirrors_def Get_Set Get_Delete)

lemma mirrors_watch: "mirrors s M \<Longrightarrow> mirrors (watch_all es s) (fold cluster_step es M)"
  unfolding watch_all_def by (induction es arbitrary: s M) (simp_all add: mirrors_step)

lemma load_flags_Get:
  "distinct (map kf_name items) \<Longrightarrow> flagStore_Get n (load_flags items s)
     = (case map_of (map (\<lambda>ff. (kf_name ff, ff)) items) n of None \<Rightarrow> flagStore_Get n s | Some ff \<Rightarrow> Some (resolveFlag ff))"
  unfolding load_flags_def
proof (induction items arbitrary: s)
  case (Cons ff items)
  have "map_of (map (\<lambda>ff. (kf_name ff, ff)) items) (kf_name ff) = None"
    using Cons.prems by (auto simp: map_of_eq_None_iff)
  then show ?case
    using Cons.IH [of "flagStore_Set (resolveFlag ff) s"] Cons.prems by (auto simp: Get_Set split: option.split)
qed simp

definition flags_by_name :: "kflag list \<Rightarrow> string \<rightharpoonup> kflag" where
  "flags_by_name items = map_of (map (\<lambda>ff. (kf_name ff, ff)) items)"

lemma mirrors_load: "distinct (map kf_name items) \<Longrightarrow> mirrors (load_flags items newFlagStore) (flags_by_name items)"
  using load_flags_Get [of items _ newFlagStore]
  by (simp add: mirrors_def flags_by_name_def new_store_Get split: option.split)


end
