(* ===== verification/SidecarProps.thy ===== *)
theory SidecarProps
  imports Sidecar NodeSdkProps KubeExample
begin


section \<open>Update streams\<close>

text \<open>
  The steps of the process. \<open>Set\<close> is taken apart at its locks: \<open>SStore\<close> and \<open>SSend\<close>, with
  the value in between in \<open>sr_pending\<close>; there is one watcher. The last three fields are
  history: what was sent while a channel was subscribed, what its stream has taken from it,
  and whether a send to it was dropped.
\<close>

datatype stream_event = SStore kflag | SSend | SDelete string | SSubscribe nat | STake nat | SUnsubscribe nat

record stream_run =
  sr_store :: flag_store
  sr_pending :: "resolved option"
  sr_sent :: "nat \<Rightarrow> resolved list"
  sr_taken :: "nat \<Rightarrow> resolved list"
  sr_dropped :: "nat \<Rightarrow> bool"

definition stream_init :: stream_run where
  "stream_init = \<lparr>sr_store = newFlagStore, sr_pending = None, sr_sent = (\<lambda>_. []), sr_taken = (\<lambda>_. []), sr_dropped = (\<lambda>_. False)\<rparr>"

definition buffer_of :: "nat \<Rightarrow> stream_run \<Rightarrow> resolved list option" where
  "buffer_of ch s = map_of (fs_subscribers (sr_store s)) ch"

fun stream_enabled :: "stream_run \<Rightarrow> stream_event \<Rightarrow> bool" where
  "stream_enabled s (SStore ff) = (sr_pending s = None)"
| "stream_enabled s SSend = (sr_pending s \<noteq> None)"
| "stream_enabled s (SDelete n) = (sr_pending s = None)"
| "stream_enabled s (SSubscribe ch) = (buffer_of ch s = None)"
| "stream_enabled s (STake ch) = (case buffer_of ch s of Some (f # buf) \<Rightarrow> True | _ \<Rightarrow> False)"
| "stream_enabled s (SUnsubscribe ch) = (buffer_of ch s \<noteq> None)"

fun stream_step :: "stream_run \<Rightarrow> stream_event \<Rightarrow> stream_run" where
  "stream_step s (SStore ff) =
     s\<lparr>sr_store := store_flag (resolveFlag ff) (sr_store s), sr_pending := Some (resolveFlag ff)\<rparr>"
| "stream_step s SSend =
     (let f = the (sr_pending s) in
      s\<lparr>sr_store := broadcast f (sr_store s), sr_pending := None,
        sr_sent := (\<lambda>ch. sr_sent s ch @ [f]),
        sr_dropped := (\<lambda>ch. sr_dropped s ch \<or> (case buffer_of ch s of None \<Rightarrow> False | Some buf \<Rightarrow> 64 \<le> length buf))\<rparr>)"
| "stream_step s (SDelete n) = s\<lparr>sr_store := flagStore_Delete n (sr_store s)\<rparr>"
| "stream_step s (SSubscribe ch) =
     s\<lparr>sr_store := flagStore_Subscribe ch (sr_store s), sr_sent := (sr_sent s)(ch := []),
       sr_taken := (sr_taken s)(ch := []), sr_dropped := (sr_dropped s)(ch := False)\<rparr>"
| "stream_step s (STake ch) =
     s\<lparr>sr_store := take_update ch (sr_store s),
       sr_taken := (sr_taken s)(ch := sr_taken s ch @ [hd (the (buffer_of ch s))])\<rparr>"
| "stream_step s (SUnsubscribe ch) = s\<lparr>sr_store := flagStore_Unsubscribe ch (sr_store s)\<rparr>"

definition stream_ok :: "stream_run \<Rightarrow> nat \<Rightarrow> resolved list \<Rightarrow> bool" where
  "stream_ok s ch buf \<longleftrightarrow> length buf \<le> 64 \<and> subseq (sr_taken s ch @ buf) (sr_sent s ch)
     \<and> (\<not> sr_dropped s ch \<longrightarrow> sr_taken s ch @ buf = sr_sent s ch)"

definition stream_inv :: "stream_run \<Rightarrow> bool" where
  "stream_inv s \<longleftrightarrow> (\<forall>ch buf. buffer_of ch s = Some buf \<longrightarrow> stream_ok s ch buf)
     \<and> (\<forall>n f. flagStore_Get n (sr_store s) = Some f \<longrightarrow> rf_name f = n)
     \<and> (\<forall>f. sr_pending s = Some f \<longrightarrow> flagStore_Get (rf_name f) (sr_store s) = Some f)"

lemma map_of_map_snd: "map_of (map (\<lambda>(k, v). (k, g k v)) xs) k = map_option (g k) (map_of xs k)"
  by (induction xs) auto

lemma buffer_steps:
  "map_of (fs_subscribers (broadcast f st)) ch
     = map_option (\<lambda>buf. if length buf < 64 then buf @ [f] else buf) (map_of (fs_subscribers st) ch)"
  "map_of (fs_subscribers (take_update c st)) ch
     = map_option (\<lambda>buf. if ch = c then tl buf else buf) (map_of (fs_subscribers st) ch)"
  "map_of (fs_subscribers (flagStore_Subscribe c st)) ch = (if ch = c then Some [] else map_of (fs_subscribers st) ch)"
  "map_of (fs_subscribers (flagStore_Unsubscribe c st)) ch = (if ch = c then None else map_of (fs_subscribers st) ch)"
  "fs_subscribers (store_flag f st) = fs_subscribers st" "fs_subscribers (flagStore_Delete n st) = fs_subscribers st"
  by (simp_all add: broadcast_def take_update_def flagStore_Subscribe_def flagStore_Unsubscribe_def store_flag_def
      flagStore_Delete_def map_of_map_snd update_conv' delete_conv')

lemma flags_steps:
  "flagStore_Get n (broadcast f st) = flagStore_Get n st" "flagStore_Get n (take_update c st) = flagStore_Get n st"
  "flagStore_Get n (flagStore_Subscribe c st) = flagStore_Get n st"
  "flagStore_Get n (flagStore_Unsubscribe c st) = flagStore_Get n st"
  "flagStore_Get n (store_flag f st) = (if n = rf_name f then Some f else flagStore_Get n st)"
  by (simp_all add: broadcast_def take_update_def flagStore_Subscribe_def flagStore_Unsubscribe_def store_flag_def
      flagStore_Get_def update_conv')

lemma stream_ok_send:
  assumes "stream_ok s ch buf" and "buffer_of ch s = Some buf"
  shows "stream_ok (stream_step s SSend) ch (if length buf < 64 then buf @ [the (sr_pending s)] else buf)"
  using assms
  by (auto simp: stream_ok_def Let_def subseq_append_iff append_assoc [symmetric] simp del: append_assoc
      intro: subseq_rev_drop_many)

interpretation stream_m: guarded_machine stream_enabled stream_step stream_inv
proof unfold_locales
  fix s e
  assume i: "stream_inv s" and en: "stream_enabled s e"
  have ok: "stream_ok s ch buf" if "buffer_of ch s = Some buf" for ch buf using i that by (simp add: stream_inv_def)
  show "stream_inv (stream_step s e)"
  proof (cases e)
    case SSend
    have "stream_ok (stream_step s SSend) ch buf" if b: "buffer_of ch (stream_step s SSend) = Some buf" for ch buf
    proof -
      obtain old where "buffer_of ch s = Some old" "buf = (if length old < 64 then old @ [the (sr_pending s)] else old)"
        using b by (auto simp: buffer_of_def buffer_steps Let_def)
      then show ?thesis using stream_ok_send [OF ok] by blast
    qed
    then show ?thesis using i by (simp add: SSend stream_inv_def Let_def flags_steps)
  next
    case (STake ch)
    then obtain f buf where b: "buffer_of ch s = Some (f # buf)"
      using en by (auto split: option.splits list.splits)
    then show ?thesis using i STake ok [OF b]
      by (auto simp: stream_inv_def stream_ok_def buffer_of_def buffer_steps flags_steps)
  qed (use i en in \<open>auto simp: stream_inv_def stream_ok_def buffer_of_def buffer_steps flags_steps Get_Delete split: if_splits\<close>)
qed

lemma stream_init_inv: "stream_inv stream_init"
  by (simp add: stream_inv_def stream_init_def buffer_of_def newFlagStore_def flagStore_Get_def)

text \<open>C17 (sidecar_streams). In every interleaving of the watcher with the clients: what a subscriber's stream has carried, followed by what waits in its channel, never more than 64 updates, is a subsequence in order of the updates sent since it subscribed, and all of them unless the channel was full; and a flag is served under its own name.\<close>

theorem sidecar_streams:
  assumes "run stream_enabled stream_step stream_init s"
  shows "(\<forall>ch buf. buffer_of ch s = Some buf \<longrightarrow>
      length buf \<le> 64 \<and> subseq (sr_taken s ch @ buf) (sr_sent s ch)
      \<and> (\<not> sr_dropped s ch \<longrightarrow> sr_taken s ch @ buf = sr_sent s ch))
    \<and> (\<forall>n f. flagStore_Get n (sr_store s) = Some f \<longrightarrow> rf_name f = n)"
  using stream_m.run_inv [OF assms stream_init_inv] by (simp add: stream_inv_def stream_ok_def)

definition stream_demo :: "stream_event list" where
  "stream_demo = [SSubscribe 1, SStore mini_flag, SSubscribe 2, SSend, STake 1, SDelete ''dark-mode'']"

lemma stream_demo_runs: "run stream_enabled stream_step stream_init (foldl stream_step stream_init stream_demo)"
proof -
  have "exec_events stream_enabled stream_step stream_init stream_demo = Some (foldl stream_step stream_init stream_demo)"
    by (simp add: stream_demo_def stream_init_def newFlagStore_def buffer_of_def buffer_steps Let_def)
  then show ?thesis by (rule exec_events_run)
qed

theorem sidecar_streams_witness:
  "buffer_of 1 (foldl stream_step stream_init stream_demo) = Some []
   \<and> sr_taken (foldl stream_step stream_init stream_demo) 1 @ [] = sr_sent (foldl stream_step stream_init stream_demo) 1"
proof -
  let ?s = "foldl stream_step stream_init stream_demo"
  have "buffer_of 1 ?s = Some []" "\<not> sr_dropped ?s 1"
    by (simp_all add: stream_demo_def stream_init_def newFlagStore_def buffer_of_def buffer_steps Let_def)
  then show ?thesis using sidecar_streams [OF stream_demo_runs] by blast
qed

section \<open>Through the SDK\<close>

text \<open>An encoded value is read as what \<open>JSON.stringify\<close> keeps of it.\<close>

lemma go_encode_clean: "json_ok (json_clean v) \<Longrightarrow> json_parse (go_encode v) = Inr (json_clean v)"
  using go_encode_reads(1) [of "json_clean v"] by (simp add: go_encode_def stringify_clean)

definition flag_answer :: "resolved \<Rightarrow> jsval" where
  "flag_answer f =
     JObj ([(''name'', JStr (rf_name f)), (''type'', JStr (rf_type f)), (''value'', JStr (rf_value f)),
            (''disabled'', JBool (rf_disabled f))]
           @ (if rf_description f = [] then [] else [(''description'', JStr (rf_description f))]))"

lemma clean_resolved: "json_clean (resolved_value f) = flag_answer f"
  by (simp add: resolved_value_def flag_answer_def omit_str_def absent_def)

lemma flag_answer_ok: "json_ok (flag_answer f)"
  by (simp add: flag_answer_def obj_of_list_def obj_put_def put_new_def array_index_def is_digit_def)

text \<open>The client's address leads to a sidecar with this store.\<close>

definition served_by :: "node_env \<Rightarrow> client \<Rightarrow> (string list \<Rightarrow> string list) \<Rightarrow> flag_store \<Rightarrow> bool" where
  "served_by E c ord s \<longleftrightarrow>
     (\<forall>path st body. sidecar_serve ord ''GET'' path s = Sc_answer st body \<longrightarrow> http_get E (address c @ path) = Answer st body)"

definition seg_char :: "char \<Rightarrow> bool" where
  "seg_char ch \<longleftrightarrow> flag_char ch \<or> is_upper ch \<or> ch = CHR ''_''"

definition seg_name :: "string \<Rightarrow> bool" where
  "seg_name n \<longleftrightarrow> n \<noteq> [] \<and> list_all seg_char n"

lemma seg_name_path: "seg_name n \<Longrightarrow> clean_path (''/flags/'' @ n) \<and> path_segs (''/flags/'' @ n) = [''flags'', n]"
proof -
  assume n: "seg_name n"
  then have "CHR ''/'' \<notin> set n" "CHR ''.'' \<notin> set n"
    by (auto simp: seg_name_def seg_char_def flag_char_def list_all_iff is_lower_def is_digit_def is_upper_def)
  then show ?thesis using n
    by (auto simp: clean_path_def path_segs_def split_on_absent seg_name_def)
qed

lemma sidecar_table:
  "sidecar_routes =
     [([Lit ''flags''], Sc_all), ([Lit ''flags'', Lit ''stream''], Sc_stream), ([Lit ''flags'', Wild], Sc_flag),
      ([Lit ''flags'', Wild, Lit ''value''], Sc_value), ([Lit ''healthz''], Sc_health)]"
  by code_simp

lemma serve_flag:
  assumes "seg_name n" and "n \<noteq> ''stream''"
  shows "sidecar_serve ord ''GET'' (''/flags/'' @ n) s = sidecar_handle ord Sc_flag [n] s"
  using seg_name_path [OF assms(1)] assms
  by (simp add: sidecar_serve_def sidecar_table match_method_def seg_name_def)

lemma serve_list: "sidecar_serve ord ''GET'' ''/flags'' s = sidecar_handle ord Sc_all [] s"
proof -
  have "clean_path ''/flags'' = True" "path_segs ''/flags'' = [''flags'']" by code_simp+
  then show ?thesis by (simp add: sidecar_serve_def sidecar_table match_method_def)
qed

lemma sidecar_lookup:
  assumes "served_by E c ord s" and "seg_name n" and "n \<noteq> ''stream''"
  shows "getSidecar E c n = (case flagStore_Get n s of None \<Rightarrow> JNull | Some f \<Rightarrow> flag_answer f)"
proof (cases "flagStore_Get n s")
  case None
  obtain b where "sidecar_handle ord Sc_flag [n] s = Sc_answer 404 b"
    using None assms(3) by (simp add: sidecar_handle_def)
  then have "http_get E (address c @ ''/flags/'' @ n) = Answer 404 b"
    using assms(1) serve_flag [OF assms(2,3), of ord s] unfolding served_by_def by metis
  then show ?thesis using None by (simp add: getSidecar_def resp_ok_def)
next
  case (Some f)
  then have "sidecar_handle ord Sc_flag [n] s = Sc_answer 200 (go_encode (resolved_value f))"
    using assms(3) by (simp add: sidecar_handle_def)
  then have "http_get E (address c @ ''/flags/'' @ n) = Answer 200 (go_encode (resolved_value f))"
    using assms(1) serve_flag [OF assms(2,3), of ord s] unfolding served_by_def by metis
  moreover have "json_parse (go_encode (resolved_value f)) = Inr (flag_answer f)"
    using go_encode_clean [of "resolved_value f"] flag_answer_ok by (simp add: clean_resolved)
  ultimately show ?thesis using Some by (simp add: getSidecar_def resp_ok_def)
qed

lemma sidecar_listing:
  assumes "served_by E c ord s"
  shows "allSidecar E c = JArr (map flag_answer (flagStore_All ord s))"
proof -
  let ?v = "JArr (map resolved_value (flagStore_All ord s))"
  have "clean_elems (map resolved_value fs) = map flag_answer fs" for fs
    by (induction fs) (simp_all add: clean_resolved absent_def, simp add: resolved_value_def)
  then have c: "json_clean ?v = JArr (map flag_answer (flagStore_All ord s))" by simp
  have "json_ok (json_clean ?v)" unfolding c by (simp add: list_all_iff flag_answer_ok)
  then have p: "json_parse (go_encode ?v) = Inr (JArr (map flag_answer (flagStore_All ord s)))"
    using go_encode_clean [of ?v] c by simp
  have "sidecar_serve ord ''GET'' ''/flags'' s = Sc_answer 200 (go_encode ?v)"
    unfolding serve_list by (simp add: sidecar_handle_def)
  then have "http_get E (address c @ ''/flags'') = Answer 200 (go_encode ?v)"
    using assms unfolding served_by_def by metis
  then show ?thesis using p by (simp add: allSidecar_def resp_ok_def del: json_clean.simps)
qed

definition sdk_sees :: "resolved option \<Rightarrow> string option" where
  "sdk_sees f = (case f of None \<Rightarrow> None | Some r \<Rightarrow> if rf_disabled r then None else Some (rf_value r))"

lemma sidecar_reads:
  assumes "served_by E c ord s" and "provider c = ''sidecar''" and "seg_name n" and "n \<noteq> ''stream''"
  shows "client_string E c n d = Inr (JStr (case sdk_sees (flagStore_Get n s) of None \<Rightarrow> d | Some v \<Rightarrow> v))"
    and "client_bool E c n b = Inr (case sdk_sees (flagStore_Get n s) of None \<Rightarrow> b | Some v \<Rightarrow> to_lower v \<in> {''true'', ''1'', ''yes''})"
    and "client_int E c n k = Inr (case sdk_sees (flagStore_Get n s) of
            None \<Rightarrow> k | Some v \<Rightarrow> (case parse_int10 v of None \<Rightarrow> k | Some i \<Rightarrow> num_of_int i))"
proof -
  have g: "getFlag E c n = (case flagStore_Get n s of None \<Rightarrow> JNull | Some f \<Rightarrow> flag_answer f)"
    using sidecar_lookup [OF assms(1,3,4)] assms(2) by (simp add: js_simps)
  have e: "enabled_value (getFlag E c n) = Inr (map_option JStr (sdk_sees (flagStore_Get n s)))"
    by (simp add: g enabled_value_def sdk_sees_def flag_answer_def split: option.split)
  show "client_string E c n d = Inr (JStr (case sdk_sees (flagStore_Get n s) of None \<Rightarrow> d | Some v \<Rightarrow> v))"
    "client_bool E c n b = Inr (case sdk_sees (flagStore_Get n s) of None \<Rightarrow> b | Some v \<Rightarrow> to_lower v \<in> {''true'', ''1'', ''yes''})"
    "client_int E c n k = Inr (case sdk_sees (flagStore_Get n s) of
            None \<Rightarrow> k | Some v \<Rightarrow> (case parse_int10 v of None \<Rightarrow> k | Some i \<Rightarrow> num_of_int i))"
    by (simp_all add: client_defs flag_string_def flag_bool_def flag_int_def e split: option.split)
qed

lemma stream_opens: "sidecar_serve ord ''GET'' ''/flags/stream'' s = Sc_open"
proof -
  have "clean_path ''/flags/stream'' = True" "path_segs ''/flags/stream'' = [''flags'', ''stream'']" by code_simp+
  then show ?thesis by (simp add: sidecar_serve_def sidecar_table match_method_def sidecar_handle_def)
qed


definition sidecar_env :: "string \<Rightarrow> flag_store \<Rightarrow> node_env" where
  "sidecar_env a s =
     (sdk_env [])\<lparr>http_get := (\<lambda>url. case sidecar_serve id ''GET'' (drop (length a) url) s of
         Sc_answer st body \<Rightarrow> Answer st body | Sc_open \<Rightarrow> NetFail)\<rparr>"

lemma sidecar_env_serves: "address c = a \<Longrightarrow> served_by (sidecar_env a s) c id s"
  by (simp add: served_by_def sidecar_env_def)

definition sidecar_client :: client where
  "sidecar_client = new_client \<lparr>o_provider = ''sidecar'', o_address = None, o_path = None\<rparr>"


end
