(* ===== verification/Stack.thy ===== *)
theory Stack
  imports NodeSdkProps Proxy FlagsPageProps ClustersPage SettingsPage ServerBodies ApiFlagProps OperatorProps SidecarProps
begin

text \<open>
  How the parts reach each other: the request of the browser through the proxy to the API
  server, its routes for flags, the variable of a flag under its three descriptions, what
  Kubernetes promises of the environment of a process, and the states of the examples.
\<close>

section \<open>The dashboard behind its proxy\<close>

text \<open>
  How a call of the browser reaches the route handler: the path below \<open>/api/v1/\<close> in its
  segments, the query, the method, the \<open>Authorization\<close> header and the body.
\<close>

definition next_of_request :: "http_request \<Rightarrow> next_request" where
  "next_of_request rq =
     \<lparr>nr_search = (if target_query (rq_url rq) = [] then [] else ''?'' @ target_query (rq_url rq)),
      nr_method = rq_method rq, nr_authorization = map_of (rq_headers rq) ''Authorization'',
      nr_text = (case rq_body rq of None \<Rightarrow> [] | Some b \<Rightarrow> b)\<rparr>"

definition path_of_request :: "http_request \<Rightarrow> string list" where
  "path_of_request rq = split_on CHR ''/'' (drop (length ''/api/v1/'') (target_path (rq_url rq)))"

definition via_proxy :: "next_lib \<Rightarrow> network \<Rightarrow> string option \<Rightarrow> network" where
  "via_proxy N backend u rq = Inr (proxyRequest N backend u (next_of_request rq) (path_of_request rq))"

definition delete_request :: "web_env \<Rightarrow> string option \<Rightarrow> string \<Rightarrow> string \<Rightarrow> string \<Rightarrow> browser \<Rightarrow> http_request" where
  "delete_request W u namespace name clusterId B =
     \<lparr>rq_url = getBackendUrl u @ ''/api/v1'' @ flag_path namespace name clusterId, rq_method = ''DELETE'',
      rq_headers = (''Content-Type'', ''application/json'') # auth_headers (stored_token W B), rq_body = None\<rparr>"

lemma proxied_headers:
  "(let auth = opt_str (map_of (obj_of_list ((''Content-Type'', c) # auth_headers t)) ''Authorization'') []
    in (''Content-Type'', c) # (if auth = [] then [] else [(''Authorization'', auth)]))
    = (''Content-Type'', c) # auth_headers t"
  by (cases t)
    (simp_all add: auth_headers_def obj_of_list_def obj_put_def put_new_def array_index_def is_digit_def
      opt_str_def or_str_def)

lemma method_init_fields:
  "in_method (method_init m) = Some m" "in_headers (method_init m) = None" "in_body (method_init m) = None"
  by (simp_all add: method_init_def no_init_def)

lemma proxied_url:
  assumes "url_plain namespace" and "url_plain name" and "url_plain clusterId"
  shows "target_path (''/api/v1'' @ flag_path namespace name clusterId) = ''/api/v1/flags/'' @ namespace @ ''/'' @ name"
    and "target_query (''/api/v1'' @ flag_path namespace name clusterId) = ''clusterId='' @ clusterId"
proof -
  let ?p = "''/api/v1/flags/'' @ namespace @ ''/'' @ name" and ?q = "''clusterId='' @ clusterId"
  have chars: "CHR ''?'' \<notin> set ?p" "CHR 0x23 \<notin> set ?p" "CHR 0x23 \<notin> set ?q"
    using url_plain_chars [OF assms(1)] url_plain_chars [OF assms(2)] url_plain_chars [OF assms(3)] by simp_all
  have url: "''/api/v1'' @ flag_path namespace name clusterId = ?p @ CHR ''?'' # ?q" by (simp add: flag_path_def)
  show "target_path (''/api/v1'' @ flag_path namespace name clusterId) = ?p"
    "target_query (''/api/v1'' @ flag_path namespace name clusterId) = ?q"
    unfolding url using target_query_append [OF chars] by blast+
qed

lemma proxied_delete:
  assumes "url_plain namespace" and "url_plain name" and "url_plain clusterId"
    and "public_api_url W = None"
  shows "let rq = build_request W (flag_path namespace name clusterId) (method_init ''DELETE'') B
    in backend_request u (next_of_request rq) (path_of_request rq) = delete_request W u namespace name clusterId B"
proof -
  have base: "api_base W = ''/api/v1''" using assms(4) by (simp add: api_base_def opt_str_def or_str_def)
  define rq where "rq = build_request W (flag_path namespace name clusterId) (method_init ''DELETE'') B"
  have rq: "rq_url rq = ''/api/v1'' @ flag_path namespace name clusterId" "rq_method rq = ''DELETE''"
    "rq_body rq = None"
    "rq_headers rq = obj_of_list ((''Content-Type'', ''application/json'') # auth_headers (stored_token W B))"
    by (simp_all add: rq_def build_request_def base method_init_fields)
  have "drop (length ''/api/v1/'') (''/api/v1/flags/'' @ namespace @ ''/'' @ name) = ''flags/'' @ namespace @ ''/'' @ name"
    by simp
  then have p: "join_with ''/'' (path_of_request rq) = ''flags/'' @ namespace @ ''/'' @ name"
    unfolding path_of_request_def rq(1) proxied_url(1) [OF assms(1-3)] by (simp only: join_split)
  have n: "nr_search (next_of_request rq) = ''?'' @ ''clusterId='' @ clusterId"
    "nr_method (next_of_request rq) = ''DELETE''" "nr_text (next_of_request rq) = []"
    "nr_authorization (next_of_request rq)
      = map_of (obj_of_list ((''Content-Type'', ''application/json'') # auth_headers (stored_token W B))) ''Authorization''"
    unfolding next_of_request_def rq proxied_url(2) [OF assms(1-3)] by simp_all
  have "backend_request u (next_of_request rq) (path_of_request rq) = delete_request W u namespace name clusterId B"
    unfolding backend_request_def delete_request_def n p proxied_headers by (simp add: flag_path_def)
  then show ?thesis by (simp add: rq_def)
qed

lemma proxied_delete_fails:
  assumes "standard_next N" and "public_api_url W = None" and "fetch W = via_proxy N backend u"
    and "url_plain (ff_namespace f)" and "url_plain (ff_name f)" and "url_plain (ff_clusterId f)"
    and "backend (delete_request W u (ff_namespace f) (ff_name f) (ff_clusterId f) B) = Inr res"
    and "rs_status res = 204"
  shows "run_flags_call W (CallDelete f) B = (B, Inl (Err ''Failed to connect to API server''))"
proof -
  let ?rq = "build_request W (flag_path (ff_namespace f) (ff_name f) (ff_clusterId f)) (method_init ''DELETE'') B"
  let ?e = "JObj [(''error'', JStr ''Failed to connect to API server'')]"
  have b: "backend (backend_request u (next_of_request ?rq) (path_of_request ?rq)) = Inr res"
    using proxied_delete [OF assms(4-6,2), of B u] assms(7) by (simp add: Let_def)
  have st: "200 \<le> rs_status res" "rs_status res \<le> 599" using assms(8) by simp_all
  note p = proxy_answer [where backend = backend, OF assms(1) b st]
  have out: "fetch W ?rq = Inr (std_json_response ?e 502)"
    using p assms(8) by (simp add: assms(3) via_proxy_def null_body_status_def)
  have ok: "json_ok ?e" by (simp add: obj_of_list_def obj_put_def put_new_def array_index_def is_digit_def)
  obtain t where t: "json_stringify ?e = Some t" using stringify_parses [OF ok] by blast
  have "json_parse t = Inr ?e" by (rule json_roundtrip [OF ok t])
  then show ?thesis
    using out t by (simp add: run_flags_call_def flagsApi_delete_def request_def std_json_response_def
        resp_ok_def error_of_def js_or_def)
qed

text \<open>A deletion asked for in the dashboard, for a flag with a plain namespace, name and cluster, reaches the API server as that deletion with the user's token; but the server's answer 204 comes back as a 502, so the call ends with the error \<open>Failed to connect to API server\<close> and the page, which reloads the flags only after a success, keeps displaying the deleted flag.\<close>

theorem delete_through_proxy:
  assumes "standard_next N" and "public_api_url W = None" and "fetch W = via_proxy N backend u"
    and "url_plain (ff_namespace f)" and "url_plain (ff_name f)" and "url_plain (ff_clusterId f)"
    and "backend (delete_request W u (ff_namespace f) (ff_name f) (ff_clusterId f) B) = Inr res"
    and "rs_status res = 204"
  shows "run_flags_call W (CallDelete f) B = (B, Inl (Err ''Failed to connect to API server''))"
  using assms by (rule proxied_delete_fails)

definition stack_flag :: FeatureFlag where
  "stack_flag = demo_flag\<lparr>ff_clusterId := ''eu''\<rparr>"

definition stack_env :: web_env where
  "stack_env = \<lparr>public_api_url = None, has_window = True,
     fetch = via_proxy std_next (\<lambda>rq. Inr \<lparr>rs_status = 204, rs_status_text = ''No Content'', rs_type = None, rs_body = []\<rparr>) None,
     engine_message = (\<lambda>_. ''engine error'')\<rparr>"

theorem delete_through_proxy_witness:
  "snd (run_flags_call stack_env (CallDelete stack_flag) \<lparr>storage = [(''vexil-token'', ''t'')], href = ''/flags''\<rparr>)
     = Inl (Err ''Failed to connect to API server'')"
proof -
  have p: "url_plain (ff_namespace stack_flag)" "url_plain (ff_name stack_flag)" "url_plain (ff_clusterId stack_flag)"
    by code_simp+
  show ?thesis
    using delete_through_proxy [OF std_next_standard _ _ p, of stack_env]
    by (simp add: stack_env_def)
qed

section \<open>From the wizard to the application\<close>

lemma wizard_env_name:
  assumes "list_all name_char n"
  shows "replace_if (\<lambda>c. \<not> (is_upper c \<or> is_digit c)) CHR ''_'' (to_upper n)
    = replace_if (\<lambda>c. c = CHR ''-'') CHR ''_'' (to_upper n)"
  using assms
proof (induction n)
  case (Cons c n)
  then consider "is_lower c" | "is_digit c" | "c = CHR ''-''" by (auto simp: name_char_def)
  then have "replace_if (\<lambda>c. \<not> (is_upper c \<or> is_digit c)) CHR ''_'' (upper_char c)
      = replace_if (\<lambda>c. c = CHR ''-'') CHR ''_'' (upper_char c)"
  proof cases
    case 1
    let ?d = "char_of (code c - 32) :: char"
    have "code ?d = code c - 32" using 1 by (auto simp: is_lower_def intro: mod_less)
    then have u: "is_upper ?d" using 1 by (auto simp: is_upper_def is_lower_def)
    then have "?d \<noteq> CHR ''-''" by (simp only: letter_not_sep simp_thms)
    then show ?thesis using 1 u by (simp add: upper_char_lower)
  next
    case 2
    then have "upper_char c = [c]" by (intro upper_char_id) (auto simp: is_digit_def is_lower_def)
    moreover have "c \<noteq> CHR ''-''" using 2 by (simp only: letter_not_sep simp_thms)
    ultimately show ?thesis using 2 by simp
  next
    case 3
    have "upper_char CHR ''-'' = [CHR ''-'']" by code_simp
    moreover have "\<not> is_upper CHR ''-''" "\<not> is_digit CHR ''-''" by code_simp+
    ultimately show ?thesis using 3 by simp
  qed
  with Cons show ?case by simp
qed simp

lemma computed_is_sdk_name:
  "list_all name_char (cf_name f) \<Longrightarrow> cf_envVarName f = [] \<Longrightarrow> computedEnvVar f = env_name (cf_name f)"
  using wizard_env_name [of "cf_name f"] by (simp add: computedEnvVar_def or_str_def env_name_def)

lemma wizard_variable_read:
  assumes "run create_enabled (create_step W) create_init s" and "f \<in> set (cr_sent s)" and "cf_envVarName f = []"
    and "provider c = ''env''" and "map_of (process_env E) (computedEnvVar f) = Some (cf_defaultValue f)"
  shows "client_string E c (cf_name f) d = Inr (JStr (cf_defaultValue f))
    \<and> (cf_type f = Boolean \<longrightarrow> client_bool E c (cf_name f) b = Inr (cf_defaultValue f = ''true''))"
proof -
  have "sendable f" using create_log.run_log [OF assms(1) create_init_inv] assms(2) by (simp add: list_all_iff)
  then have f: "list_all name_char (cf_name f)" "cf_type f = Boolean \<longrightarrow> cf_defaultValue f \<in> {''false'', ''true''}"
    by (simp_all add: sendable_def form_ok_def)
  have g: "getEnv E (cf_name f) = flag_obj (cf_name f) (cf_defaultValue f)"
    using assms(5) computed_is_sdk_name [OF f(1) assms(3)] by (simp add: getEnv_def)
  have "to_lower ''true'' = ''true''" "to_lower ''false'' = ''false''" by code_simp+
  then show ?thesis
    using env_src.found_typed [OF g] f(2) by (auto simp: client_defs js_simps assms(4))
qed

text \<open>For every flag the wizard sends without an environment variable of its own, if a pod has the value under the variable the wizard announces, the Node SDK in that pod reads exactly that value for the flag; a boolean flag reads as true exactly when the value is the text \<open>true\<close>, which is what the snippet displayed by the wizard tests.\<close>

theorem wizard_variable_read_by_sdk:
  assumes "run create_enabled (create_step W) create_init s" and "f \<in> set (cr_sent s)" and "cf_envVarName f = []"
    and "provider c = ''env''" and "map_of (process_env E) (computedEnvVar f) = Some (cf_defaultValue f)"
  shows "client_string E c (cf_name f) d = Inr (JStr (cf_defaultValue f))
    \<and> (cf_type f = Boolean \<longrightarrow> client_bool E c (cf_name f) b = Inr (cf_defaultValue f = ''true''))"
  using assms by (rule wizard_variable_read)

theorem wizard_variable_read_by_sdk_witness:
  "client_bool (sdk_env [(''FLAG_DARK_MODE'', ''false'')])
     (new_client \<lparr>o_provider = ''env'', o_address = None, o_path = None\<rparr>) ''dark-mode'' True = Inr False"
proof -
  let ?E = "sdk_env [(''FLAG_DARK_MODE'', ''false'')]"
  let ?c = "new_client \<lparr>o_provider = ''env'', o_address = None, o_path = None\<rparr>"
  have "wizard_form \<in> set (cr_sent wizard_pending)" by (simp add: wizard_pending_def)
  moreover have "cf_envVarName wizard_form = []" "cf_name wizard_form = ''dark-mode''"
    "cf_type wizard_form = Boolean" "cf_defaultValue wizard_form = ''false''"
    by (simp_all add: wizard_form_def empty_form_def)
  moreover have "provider ?c = ''env''" by (simp add: new_client_def Let_def)
  moreover have "map_of (process_env ?E) (computedEnvVar wizard_form) = Some (cf_defaultValue wizard_form)"
    by code_simp
  ultimately show ?thesis
    using wizard_variable_read_by_sdk [OF exec_events_run [OF wizard_session_runs [of stack_env]],
        of wizard_form ?c ?E _ True] by simp
qed

section \<open>Requests to the API server\<close>

text \<open>A request of the proxy as the API server sees it, below the host it is sent to.\<close>

definition go_request_of :: "string option \<Rightarrow> http_request \<Rightarrow> go_request" where
  "go_request_of u rq =
     (let target = drop (length (getBackendUrl u)) (rq_url rq) in
      \<lparr>gr_method = rq_method rq, gr_path = target_path target, gr_query = target_query target,
       gr_auth = (case map_of (rq_headers rq) ''Authorization'' of None \<Rightarrow> [] | Some a \<Rightarrow> a),
       gr_body = (case rq_body rq of None \<Rightarrow> [] | Some b \<Rightarrow> b)\<rparr>)"

definition api_backend :: "('c, 'k) server_lib \<Rightarrow> string option \<Rightarrow> 'k server \<Rightarrow> network" where
  "api_backend L u S rq = Inr (snd (serve L (go_request_of u rq) S))"

definition path_seg :: "string \<Rightarrow> bool" where
  "path_seg w \<longleftrightarrow> url_plain w \<and> w \<notin> set [[], ''.'', ''..'']"

lemma api_patterns:
  "map rt_pattern api_routes =
     [[Lit ''api'', Lit ''v1'', Lit ''auth'', Lit ''login''], [Lit ''api'', Lit ''v1'', Lit ''auth'', Lit ''logout''],
      [Lit ''api'', Lit ''v1'', Lit ''auth'', Lit ''me''], [Lit ''api'', Lit ''v1'', Lit ''users''],
      [Lit ''api'', Lit ''v1'', Lit ''users''], [Lit ''api'', Lit ''v1'', Lit ''users'', Wild],
      [Lit ''api'', Lit ''v1'', Lit ''users'', Wild], [Lit ''api'', Lit ''v1'', Lit ''flags''],
      [Lit ''api'', Lit ''v1'', Lit ''flags''], [Lit ''api'', Lit ''v1'', Lit ''flags'', Wild, Wild],
      [Lit ''api'', Lit ''v1'', Lit ''flags'', Wild, Wild], [Lit ''api'', Lit ''v1'', Lit ''flags'', Wild, Wild],
      [Lit ''api'', Lit ''v1'', Lit ''flags'', Wild, Wild, Lit ''toggle''], [Lit ''api'', Lit ''v1'', Lit ''clusters''],
      [Lit ''api'', Lit ''v1'', Lit ''clusters''], [Lit ''api'', Lit ''v1'', Lit ''clusters'', Wild],
      [Lit ''api'', Lit ''v1'', Lit ''clusters'', Wild], [Lit ''api'', Lit ''v1'', Lit ''clusters'', Wild, Lit ''namespaces''],
      [Lit ''api'', Lit ''v1'', Lit ''clusters'', Wild, Lit ''workloads''],
      [Lit ''api'', Lit ''v1'', Lit ''clusters'', Wild, Lit ''workloads'', Wild, Wild],
      [Lit ''api'', Lit ''v1'', Lit ''audit''], [Lit ''healthz'']]"
  by code_simp

lemma flag_path_segs:
  assumes "path_seg namespace" and "path_seg name"
  shows "path_segs (''/api/v1/flags/'' @ namespace @ ''/'' @ name) = [''api'', ''v1'', ''flags'', namespace, name]"
    and "clean_path (''/api/v1/flags/'' @ namespace @ ''/'' @ name)"
proof -
  have "CHR ''/'' \<notin> set namespace" "CHR ''/'' \<notin> set name"
    using assms url_plain_chars by (auto simp: path_seg_def)
  then show s: "path_segs (''/api/v1/flags/'' @ namespace @ ''/'' @ name) = [''api'', ''v1'', ''flags'', namespace, name]"
    by (simp add: path_segs_def split_on_append split_on_absent)
  show "clean_path (''/api/v1/flags/'' @ namespace @ ''/'' @ name)"
    unfolding clean_path_def s using assms by (simp add: path_seg_def)
qed

lemma flag_routes:
  assumes "namespace \<noteq> []" and "name \<noteq> []"
  shows "map_option (\<lambda>(r, args). (rt_endpoint r, args)) (find_route api_routes ''DELETE'' [''api'', ''v1'', ''flags'', namespace, name])
      = Some (Ep_delete_flag, [namespace, name])"
    and "map_option (\<lambda>(r, args). (rt_endpoint r, args)) (find_route api_routes ''PUT'' [''api'', ''v1'', ''flags'', namespace, name])
      = Some (Ep_update_flag, [namespace, name])"
  using api_patterns assms by (simp_all add: api_routes_def match_method_def)

lemma flag_endpoint:
  assumes "path_seg namespace" and "path_seg name" and "gr_path rq = ''/api/v1/flags/'' @ namespace @ ''/'' @ name"
  shows "gr_method rq = ''DELETE'' \<Longrightarrow> endpoint_of rq = Some (Ep_delete_flag, [namespace, name])"
    and "gr_method rq = ''PUT'' \<Longrightarrow> endpoint_of rq = Some (Ep_update_flag, [namespace, name])"
  using flag_routes [of namespace name] flag_path_segs [OF assms(1,2)] assms
  by (simp_all only: endpoint_of_def if_True) (simp_all add: path_seg_def)

lemma create_endpoint: "gr_method rq = ''POST'' \<Longrightarrow> gr_path rq = ''/api/v1/flags'' \<Longrightarrow> endpoint_of rq = Some (Ep_create_flag, [])"
proof -
  have "clean_path ''/api/v1/flags''"
    "map_option (\<lambda>(r, args). (rt_endpoint r, args)) (find_route api_routes ''POST'' (path_segs ''/api/v1/flags'')) = Some (Ep_create_flag, [])"
    by code_simp+
  then show "gr_method rq = ''POST'' \<Longrightarrow> gr_path rq = ''/api/v1/flags'' \<Longrightarrow> ?thesis" by (simp add: endpoint_of_def)
qed

lemma escapes_ok_plain: "CHR 0x25 \<notin> set s \<Longrightarrow> escapes_ok s"
  by (induction s rule: escapes_ok.induct) auto

lemma query_get_plain:
  assumes "url_plain v"
  shows "query_get ''clusterId'' (''clusterId='' @ v) = v"
proof -
  let ?q = "''clusterId='' @ v"
  have c: "CHR ''&'' \<notin> set ?q" "CHR '';'' \<notin> set ?q" "CHR 0x25 \<notin> set ?q"
    using assms by (auto simp: url_plain_def list_all_iff form_plain_def is_lower_def is_upper_def is_digit_def)
  have s: "split_on CHR ''&'' ?q = [?q]" by (rule split_on_absent [OF c(1)])
  have f: "filter (\<lambda>s. s \<noteq> [] \<and> CHR '';'' \<notin> set s \<and> escapes_ok s) [?q] = [?q]"
    using c(2) escapes_ok_plain [OF c(3)] by simp
  have "cut_pair (''clusterId'' @ CHR ''='' # v) = (''clusterId'', v)" by (rule cut_pair_eq) simp
  then have p: "cut_pair ?q = (''clusterId'', v)" by simp
  show ?thesis
    unfolding query_get_def s f using form_decode_plain [OF plain_key] form_decode_plain [OF assms]
    by (simp only: list.map p fst_conv snd_conv filter.simps prod.case list.case option.case simp_thms if_True)
qed

section \<open>A deletion, from the page to the cluster\<close>

lemma delete_as_go:
  assumes "url_plain namespace" and "url_plain name" and "url_plain clusterId"
  shows "gr_method (go_request_of u (delete_request W u namespace name clusterId B)) = ''DELETE''"
    and "gr_path (go_request_of u (delete_request W u namespace name clusterId B)) = ''/api/v1/flags/'' @ namespace @ ''/'' @ name"
    and "gr_query (go_request_of u (delete_request W u namespace name clusterId B)) = ''clusterId='' @ clusterId"
proof -
  have d: "drop (length (getBackendUrl u)) (rq_url (delete_request W u namespace name clusterId B))
      = ''/api/v1'' @ flag_path namespace name clusterId"
    by (simp add: delete_request_def)
  show "gr_method (go_request_of u (delete_request W u namespace name clusterId B)) = ''DELETE''"
    by (simp add: go_request_of_def delete_request_def Let_def)
  show "gr_path (go_request_of u (delete_request W u namespace name clusterId B)) = ''/api/v1/flags/'' @ namespace @ ''/'' @ name"
    "gr_query (go_request_of u (delete_request W u namespace name clusterId B)) = ''clusterId='' @ clusterId"
    unfolding go_request_of_def Let_def d using proxied_url [OF assms] by simp_all
qed

section \<open>From the wizard to the pod\<close>

text \<open>The wizard's request as the server stores it.\<close>

lemma wizard_stored:
  assumes "kube_laws (sl_kube L)" and "sendable f" and "label_dict ls" and "cf_selectorLabels f = format_labels ls"
    and "in_body (json_init ''POST'' (create_payload f)) = Some (gr_body rq)"
    and "gr_method rq = ''POST''" and "gr_path rq = ''/api/v1/flags''"
    and "serve L rq S = (S', res)" and "succeeded res"
  obtains k g where "GetClient (cf_clusterId f) (sv_clusters S') = Inr k"
    "kube_get_flag (sl_kube L) k (cf_namespace f) (cf_name f) = Inr g"
    "kept (requested_flag (wizard_request f ls)) g"
    "flag_map L S' = (flag_map L S)((cf_clusterId f, cf_namespace f, cf_name f)
       \<mapsto> create_core (wizard_request f ls))"
proof -
  have b: "Option.bind (go_read (gr_body rq)) read_create = Some (wizard_request f ls)"
    by (rule wizard_body [OF assms(2-5)])
  have "handle_for L Ep_create_flag [] rq S S' res"
    using handled [OF assms(8,9) create_endpoint [OF assms(6,7)]] .
  then have c: "FlagHandler_Create L rq S = (S', res)" by (auto simp: handle_for_def handle_def)
  obtain r g where rg: "Option.bind (go_read (gr_body rq)) read_create = Some r"
    "stored L S' (crq_clusterID r, crq_namespace r, crq_name r) = Some g" "kept (requested_flag r) g"
    "flag_map L S' = (flag_map L S)((crq_clusterID r, crq_namespace r, crq_name r) \<mapsto> create_core r)"
    using create_effect [OF assms(1) c assms(9)] by metis
  have r: "r = wizard_request f ls" using rg(1) b by simp
  have id: "crq_clusterID (wizard_request f ls) = cf_clusterId f" "crq_namespace (wizard_request f ls) = cf_namespace f"
    "crq_name (wizard_request f ls) = cf_name f"
    by (simp_all add: wizard_request_def)
  obtain k where "GetClient (cf_clusterId f) (sv_clusters S') = Inr k"
    "kube_get_flag (sl_kube L) k (cf_namespace f) (cf_name f) = Inr g"
    using rg(2) unfolding r id by (auto simp: stored_def split: sum.splits)
  then show ?thesis using that rg(3,4) unfolding r id by blast
qed

section \<open>The name of the variable\<close>

lemma upper_replaced:
  "list_all name_char n \<Longrightarrow> to_upper (replace_if (\<lambda>c. c = CHR ''-'') CHR ''_'' n)
     = replace_if (\<lambda>c. c = CHR ''-'') CHR ''_'' (to_upper n)"
proof (induction n)
  case (Cons c n)
  then consider "is_lower c" | "is_digit c" | "c = CHR ''-''" by (auto simp: name_char_def)
  then have "to_upper (replace_if (\<lambda>c. c = CHR ''-'') CHR ''_'' [c]) = replace_if (\<lambda>c. c = CHR ''-'') CHR ''_'' (upper_char c)"
  proof cases
    case 1
    let ?d = "char_of (code c - 32) :: char"
    have "code ?d = code c - 32" using 1 by (auto simp: is_lower_def intro: mod_less)
    then have "is_upper ?d" using 1 by (auto simp: is_upper_def is_lower_def)
    then have "?d \<noteq> CHR ''-''" by (simp only: letter_not_sep simp_thms)
    moreover have "c \<noteq> CHR ''-''" using 1 by (simp only: letter_not_sep simp_thms)
    ultimately show ?thesis using 1 by (simp add: upper_char_lower)
  next
    case 2
    then have "upper_char c = [c]" by (intro upper_char_id) (auto simp: is_digit_def is_lower_def)
    moreover have "c \<noteq> CHR ''-''" using 2 by (simp only: letter_not_sep simp_thms)
    ultimately show ?thesis by simp
  next
    case 3
    have "upper_char CHR ''-'' = [CHR ''-'']" "upper_char CHR ''_'' = [CHR ''_'']" by code_simp+
    then show ?thesis using 3 by simp
  qed
  then show ?case using Cons by simp
qed simp

lemma operator_name:
  assumes "list_all name_char (cf_name f)" and "ke_name e = cf_envVarName f"
  shows "operator_env_name e (cf_name f) = computedEnvVar f"
  using upper_replaced [OF assms(1)] wizard_env_name [OF assms(1)] assms(2)
  by (simp add: operator_env_name_def computedEnvVar_def or_str_def)

text \<open>
  What Kubernetes promises of the environment of a process: a variable that is given by value
  and only once has this value, if no reference (\<open>$\<close>) is to be expanded in it.
\<close>

definition single_var :: "string \<Rightarrow> container \<Rightarrow> bool" where
  "single_var n c \<longleftrightarrow> (\<exists>e. filter (\<lambda>x. en_name x = n) (co_env c) = [e] \<and> en_from e = None)"

definition pod_gives :: "container \<Rightarrow> node_env \<Rightarrow> bool" where
  "pod_gives c E \<longleftrightarrow> (\<forall>e\<in>set (co_env c). single_var (en_name e) c \<and> CHR ''$'' \<notin> set (en_value e)
     \<longrightarrow> map_of (process_env E) (en_name e) = Some (en_value e))"

lemma pod_gives_var:
  assumes "pod_gives c E" and "single_var n c" and "map_of (env_vars (co_env c)) n = Some v" and "CHR ''$'' \<notin> set v"
  shows "map_of (process_env E) n = Some v"
proof -
  obtain e where "e \<in> set (co_env c)" "en_name e = n" "en_value e = v"
    using map_of_SomeD [OF assms(3)] by (auto simp: env_vars_def)
  then show ?thesis using assms(1,2,4) unfolding pod_gives_def by metis
qed

text \<open>The session of the examples: the wizard, the server, the operator.\<close>

definition wizard_rq :: go_request where
  "wizard_rq = demo_rq ''POST'' ''/api/v1/flags'' ''aa'' (the (in_body (json_init ''POST'' (create_payload wizard_form))))"

definition wizard_stored_cluster :: mini where
  "wizard_stored_cluster = fst (mini_create_flag mini_empty (requested_flag (wizard_request wizard_form [(''app'', ''web'')])))"

definition wizard_cluster :: mini where
  "wizard_cluster = fst (Reconcile mini_kube 2 ''default'' ''dark-mode'' wizard_stored_cluster)"

definition wizard_container :: container where
  "wizard_container = \<lparr>co_name = ''server'', co_image = ''web:1'',
     co_env = [\<lparr>en_name = ''PORT'', en_value = ''80'', en_from = None\<rparr>,
               \<lparr>en_name = ''FLAG_DARK_MODE'', en_value = ''false'', en_from = None\<rparr>],
     co_env_from = []\<rparr>"

lemma demo_caller: "caller_of (demo_lib 1 []) (demo_rq m p ''aa'' body) (server_with k) = Some (''ann'', ''admin'')"
  by code_simp

lemma create_served:
  assumes "gr_method rq = ''POST''" and "gr_path rq = ''/api/v1/flags''" and "caller_of L rq S = Some (u, ''admin'')"
  shows "serve L rq S = FlagHandler_Create L rq S"
proof -
  have "clean_path ''/api/v1/flags''"
    "find_route api_routes ''POST'' (path_segs ''/api/v1/flags'') = Some (role_route ''POST'' ''/api/v1/flags'' editorUp Ep_create_flag, [])"
    "role_allowed (Some editorUp) ''admin''"
    by code_simp+
  then have "mux L rq (u, ''admin'') S = FlagHandler_Create L rq S"
    unfolding mux_def assms(1,2) by (simp add: run_route_def handle_def)
  then show ?thesis using assms by (simp add: serve_def Auth_caller auth_exempt_def)
qed

lemma wizard_served:
  obtains res where "serve (demo_lib 1 []) wizard_rq (server_with mini_empty)
      = (record_audit (demo_lib 1 []) (flag_event ''create'' ''default'' ''dark-mode'' ''local'')
           (put_cluster ''local'' wizard_stored_cluster (server_with mini_empty)), res)" "succeeded res"
proof -
  let ?r = "wizard_request wizard_form [(''app'', ''web'')]" and ?S = "server_with mini_empty"
  obtain body where b: "in_body (json_init ''POST'' (create_payload wizard_form)) = Some body"
    by (simp add: json_init_def create_payload_def)
  have t: "cf_selectorLabels wizard_form = format_labels [(''app'', ''web'')]" by code_simp
  have r: "Option.bind (go_read (gr_body wizard_rq)) read_create = Some ?r"
    using wizard_body [OF demo_labels(2,1) t b] b by (simp add: wizard_rq_def demo_rq_def)
  have f: "crq_name ?r = ''dark-mode''" "crq_namespace ?r = ''default''" "crq_clusterID ?r = ''local''"
    "GetClient ''local'' (sv_clusters ?S) = Inr mini_empty"
    by code_simp+
  have "snd (mini_create_flag mini_empty (requested_flag ?r)) \<noteq> Inl e" for e by code_simp
  then obtain g where "kube_create_flag (sl_kube (demo_lib 1 [])) mini_empty (requested_flag ?r) = (wizard_stored_cluster, Inr g)"
    by (cases "mini_create_flag mini_empty (requested_flag ?r)"; cases "snd (mini_create_flag mini_empty (requested_flag ?r))")
      (auto simp: wizard_stored_cluster_def demo_lib_def mini_kube_def)
  then have "FlagHandler_Create (demo_lib 1 []) wizard_rq ?S
      = (record_audit (demo_lib 1 []) (flag_event ''create'' ''default'' ''dark-mode'' ''local'') (put_cluster ''local'' wizard_stored_cluster ?S),
         writeJSON 201 (flagToResponse (demo_lib 1 []) ''local'' g))"
    by (simp add: FlagHandler_Create_def r f)
  moreover have "serve (demo_lib 1 []) wizard_rq ?S = FlagHandler_Create (demo_lib 1 []) wizard_rq ?S"
    using create_served [of wizard_rq "demo_lib 1 []" ?S "''ann''"] demo_caller
    by (simp add: wizard_rq_def) (simp add: demo_rq_def)
  ultimately show ?thesis using that by (simp add: succeeded_def)
qed

lemma wizard_example:
  "snd (Reconcile mini_kube 2 ''default'' ''dark-mode'' wizard_stored_cluster) = Inr ()"
  "map_option (\<lambda>g. st_phase (kf_status g)) (case kube_get_flag mini_kube wizard_cluster ''default'' ''dark-mode'' of Inl _ \<Rightarrow> None | Inr g \<Rightarrow> Some g)
     = Some ''Active''"
  "map_option (map dp_containers) (case kube_list_deployments mini_kube wizard_cluster ''default'' (label_selector [(''app'', ''web'')]) of Inl _ \<Rightarrow> None | Inr ds \<Rightarrow> Some ds)
     = Some [[wizard_container]]"
  by code_simp+

lemma in_containers:
  "\<exists>ds'. x = Inr ds' \<and> (\<forall>d\<in>set ds'. \<forall>c\<in>set (dp_containers d). Q c) \<Longrightarrow> x = Inr ds
   \<Longrightarrow> d \<in> set ds \<Longrightarrow> c \<in> set (dp_containers d) \<Longrightarrow> Q c"
  by auto

section \<open>Switching a flag off\<close>

text \<open>An update that the server accepts, and the cluster after it.\<close>

lemma update_done:
  assumes "kube_laws (sl_kube L)" and "serve L rq S = (S', res)" and "succeeded res"
    and "endpoint_of rq = Some (Ep_update_flag, [ns, n])" and "Option.bind (go_read (gr_body rq)) read_updates = Some u"
    and "GetClient (query_get ''clusterId'' (gr_query rq)) (sv_clusters S) = Inr k"
    and "GetClient (query_get ''clusterId'' (gr_query rq)) (sv_clusters S') = Inr k'"
  obtains f g where "kube_get_flag (sl_kube L) k ns n = Inr f" "kube_get_flag (sl_kube L) k' ns n = Inr g"
    "kept (f\<lparr>kf_spec := apply_updates u (kf_spec f)\<rparr>) g"
    "kube_list_deployments (sl_kube L) k' = kube_list_deployments (sl_kube L) k"
proof -
  have "handle_for L Ep_update_flag [ns, n] rq S S' res" by (rule handled [OF assms(2-4)])
  then have h: "FlagHandler_Update L ns n rq S = (S', res)" by (auto simp: handle_for_def handle_def)
  then obtain cid k0 f where f: "find_flag L ns n rq S = Inr (cid, k0, f)"
    using assms(3) by (auto simp: FlagHandler_Update_def dest: find_flag_fails split: sum.splits)
  note i = find_flag_Inr [OF f]
  have k0: "k0 = k" "cid = query_get ''clusterId'' (gr_query rq)" using i assms(6) by auto
  have id: "kf_namespace f = ns" "kf_name f = n"
    using i assms(1) unfolding kube_laws_def flag_read_laws_def by blast+
  let ?f = "f\<lparr>kf_spec := apply_updates u (kf_spec f)\<rparr>"
  obtain k1 g where p: "kube_update_flag (sl_kube L) k ?f = (k1, Inr g)"
    and S': "S' = record_audit L (flag_event ''update'' ns n cid) (put_cluster cid k1 S)"
    using h f assms(3,5) k0 by (auto simp: FlagHandler_Update_def save_flag_def succeeded_def split: prod.splits sum.splits)
  have "k1 = k'"
    using assms(6,7) S' k0 GetClient_put [of cid "sv_clusters S" k k1] by (simp add: record_audit_def put_cluster_def)
  have l: "flag_put_laws (sl_kube L) (kube_update_flag (sl_kube L))" using assms(1) by (simp add: kube_laws_def)
  have "kept ?f g" "kube_get_flag (sl_kube L) k' (kf_namespace ?f) (kf_name ?f) = Inr g"
    "kube_list_deployments (sl_kube L) k' = kube_list_deployments (sl_kube L) k"
    using l p \<open>k1 = k'\<close> unfolding flag_put_laws_def by blast+
  then show ?thesis using that [of f g] i k0 id by simp
qed

text \<open>The modal of the flag of \<open>EditFlagProps\<close>, with the flag switched off.\<close>

definition off_form :: edit_form where
  "off_form = (initial_form demo_flag)\<lparr>ef_disabled := True\<rparr>"

definition off_rq :: go_request where
  "off_rq = demo_rq ''PUT'' ''/api/v1/flags/default/dark-mode'' ''aa''
     (the (in_body (json_init ''PUT'' (update_payload ''dark-mode'' off_form []))))"

lemma update_served:
  assumes "gr_method rq = ''PUT''" and "gr_path rq = ''/api/v1/flags/'' @ ns @ ''/'' @ n" and "path_seg ns" and "path_seg n"
    and "caller_of L rq S = Some (u, ''admin'')"
  shows "serve L rq S = FlagHandler_Update L ns n rq S"
proof -
  have e: "endpoint_of rq = Some (Ep_update_flag, [ns, n])" using flag_endpoint(2) [OF assms(3,4,2,1)] .
  then obtain r where f: "find_route api_routes (gr_method rq) (path_segs (gr_path rq)) = Some (r, [ns, n])"
    and c: "clean_path (gr_path rq)" and r: "rt_endpoint r = Ep_update_flag"
    by (auto simp: endpoint_of_def split: if_splits)
  have "rt_roles r = Some editorUp"
    using find_route_Some [OF f] route_of_endpoint [of r] r endpoint_table(4) by simp
  moreover have "role_allowed (Some editorUp) ''admin''" by code_simp
  ultimately have "mux L rq (u, ''admin'') S = FlagHandler_Update L ns n rq S"
    using f c r by (simp add: mux_def run_route_def handle_def)
  moreover have "\<not> auth_exempt rq" using assms(1) by (simp add: auth_exempt_def)
  ultimately show ?thesis using assms(1,5) by (simp add: serve_def Auth_caller)
qed

lemma off_body: "in_body (json_init ''PUT'' (update_payload ''dark-mode'' off_form [])) = Some (gr_body off_rq)"
  by (simp add: off_rq_def demo_rq_def json_init_def update_payload_def)

lemma off_labels: "ef_selectorLabels off_form = format_labels [(''app'', ''web'')]"
  by code_simp

lemma off_read: "Option.bind (go_read (gr_body off_rq)) read_updates = Some (edit_updates ''dark-mode'' off_form [(''app'', ''web'')] [])"
  using off_labels off_body demo_labels(1) by (intro edit_body) simp_all

definition off_stored :: mini where
  "off_stored = fst (mini_update_flag mini_after
     ((case mini_get_flag mini_after ''default'' ''dark-mode'' of Inr f \<Rightarrow> f\<lparr>kf_spec := apply_updates
        (edit_updates ''dark-mode'' off_form [(''app'', ''web'')] []) (kf_spec f)\<rparr>)))"

lemma off_segs: "path_seg ''default''" "path_seg ''dark-mode''"
  by code_simp+

lemma off_query: "query_get ''clusterId'' (gr_query off_rq) = ''local''"
proof -
  have "gr_query off_rq = ''clusterId='' @ ''local''" by (simp add: off_rq_def demo_rq_def)
  moreover have "url_plain ''local''" by code_simp
  ultimately show ?thesis using query_get_plain by metis
qed

lemma off_served:
  obtains res where "serve (demo_lib 1 []) off_rq (server_with mini_after)
      = (record_audit (demo_lib 1 []) (flag_event ''update'' ''default'' ''dark-mode'' ''local'')
           (put_cluster ''local'' off_stored (server_with mini_after)), res)" "succeeded res"
proof -
  let ?L = "demo_lib 1 []" and ?S = "server_with mini_after"
  let ?u = "edit_updates ''dark-mode'' off_form [(''app'', ''web'')] []"
  obtain f where g: "mini_get_flag mini_after ''default'' ''dark-mode'' = Inr f"
  proof -
    have "\<not> isl (mini_get_flag mini_after ''default'' ''dark-mode'')" by code_simp
    then show ?thesis using that by (cases "mini_get_flag mini_after ''default'' ''dark-mode''") simp_all
  qed
  let ?f = "f\<lparr>kf_spec := apply_updates ?u (kf_spec f)\<rparr>"
  have "\<not> isl (snd (mini_update_flag mini_after ((case mini_get_flag mini_after ''default'' ''dark-mode'' of Inr f \<Rightarrow> f\<lparr>kf_spec := apply_updates ?u (kf_spec f)\<rparr>))))"
    by code_simp
  then obtain g' where u: "mini_update_flag mini_after ?f = (off_stored, Inr g')"
    by (cases "mini_update_flag mini_after ?f"; cases "snd (mini_update_flag mini_after ?f)") (auto simp: off_stored_def g)
  have K: "kube_get_flag (sl_kube ?L) = mini_get_flag" "kube_update_flag (sl_kube ?L) = mini_update_flag"
    by (simp_all add: demo_lib_def mini_kube_def)
  have c: "GetClient ''local'' (sv_clusters ?S) = Inr mini_after" by (simp add: GetClient_def server_with_def)
  have "find_flag ?L ''default'' ''dark-mode'' off_rq ?S = Inr (''local'', mini_after, f)"
    by (simp add: find_flag_def off_query c K g)
  then have "FlagHandler_Update ?L ''default'' ''dark-mode'' off_rq ?S
      = (record_audit ?L (flag_event ''update'' ''default'' ''dark-mode'' ''local'') (put_cluster ''local'' off_stored ?S),
         writeJSON 200 (flagToResponse ?L ''local'' g'))"
    by (simp add: FlagHandler_Update_def off_read save_flag_def K u)
  moreover have "serve ?L off_rq ?S = FlagHandler_Update ?L ''default'' ''dark-mode'' off_rq ?S"
    using update_served [OF _ _ off_segs, of off_rq ?L ?S "''ann''"] demo_caller
    by (simp add: off_rq_def) (simp add: demo_rq_def)
  ultimately show ?thesis using that by (simp add: succeeded_def)
qed

section \<open>What the pages ask for is admitted\<close>

fun flags_endpoint :: "flags_call \<Rightarrow> endpoint" where
  "flags_endpoint (CallToggle f) = Ep_toggle_flag"
| "flags_endpoint (CallDelete f) = Ep_delete_flag"

fun clusters_endpoint :: "clusters_call \<Rightarrow> endpoint" where
  "clusters_endpoint (CallRegister f) = Ep_register_cluster"
| "clusters_endpoint (CallRemove cid) = Ep_remove_cluster"

fun users_endpoint :: "users_call \<Rightarrow> endpoint" where
  "users_endpoint (CallCreateUser n p r) = Ep_create_user"
| "users_endpoint (CallUpdateUser n p r) = Ep_update_user"
| "users_endpoint (CallDeleteUser n) = Ep_delete_user"

definition admitted :: "string \<Rightarrow> endpoint \<Rightarrow> bool" where
  "admitted role e \<longleftrightarrow> role_allowed (endpoint_roles e) role"

lemma admitted_roles:
  "admitted ''admin'' e" "admitted ''editor'' Ep_toggle_flag" "admitted ''editor'' Ep_create_flag"
  "admitted r Ep_update_user" "\<not> admitted ''viewer'' Ep_update_flag"
proof -
  have "list_all (\<lambda>r. role_allowed (rt_roles r) ''admin'') api_routes" by code_simp
  moreover have "role_allowed None ''admin''" by (simp add: role_allowed_def)
  ultimately show "admitted ''admin'' e"
    by (auto simp: admitted_def endpoint_roles_def list_all_iff find_Some_iff dest: nth_mem split: option.split)
  have "endpoint_roles Ep_update_user = None" by code_simp
  then show "admitted r Ep_update_user" by (simp add: admitted_def role_allowed_def)
  show "admitted ''editor'' Ep_toggle_flag" "admitted ''editor'' Ep_create_flag" "\<not> admitted ''viewer'' Ep_update_flag"
    by code_simp+
qed

section \<open>The list of flags\<close>

lemma list_endpoint:
  assumes "gr_method rq = ''GET''" and "gr_path rq = ''/api/v1/flags''" and "caller_of L rq S = Some u"
  shows "serve L rq S = FlagHandler_List L rq S"
proof -
  have "clean_path ''/api/v1/flags''"
    "find_route api_routes ''GET'' (path_segs ''/api/v1/flags'') = Some (open_route ''GET'' ''/api/v1/flags'' Ep_list_flags, [])"
    by code_simp+
  then have "mux L rq u S = FlagHandler_List L rq S"
    unfolding mux_def assms(1,2) by (simp add: run_route_def role_allowed_def handle_def)
  then show ?thesis using assms by (simp add: serve_def Auth_caller auth_exempt_def)
qed

definition list_rq :: go_request where
  "list_rq = demo_rq ''GET'' ''/api/v1/flags'' ''aa'' []"

definition list_env :: web_env where
  "list_env = \<lparr>public_api_url = None, has_window = True,
     fetch = (\<lambda>_. Inr (snd (serve (demo_lib 1 []) list_rq (server_with mini_empty)))), engine_message = (\<lambda>_. [])\<rparr>"

text \<open>The deletion of the flag of the example, by Ann in her browser.\<close>

definition ann_browser :: browser where
  "ann_browser = \<lparr>storage = [(''vexil-token'', ''aa'')], href = ''/flags''\<rparr>"

definition ann_env :: web_env where
  "ann_env = \<lparr>public_api_url = None, has_window = True,
     fetch = via_proxy std_next (api_backend (demo_lib 1 []) None demo_server) None, engine_message = (\<lambda>_. [])\<rparr>"

end
