(* ===== verification/DiscoveryProps.thy ===== *)
theory DiscoveryProps
  imports ApiExample OperatorProps
begin

text \<open>
  Two properties of the discovery of workloads: what it keeps to itself, and that it agrees
  with the operator on which deployments a flag reaches.
\<close>

section \<open>What a scan may see\<close>

text \<open>
  An object with everything taken out that no answer may depend on: variables that are not
  flags, values that come from elsewhere, what secret they come from, and references to
  ConfigMaps outside a set.
\<close>

definition seen_source :: "env_source \<Rightarrow> env_source" where
  "seen_source s =
     (if es_config s = None then \<lparr>es_config = None, es_secret = map_option (\<lambda>_. ([], [])) (es_secret s)\<rparr>
      else \<lparr>es_config = es_config s, es_secret = None\<rparr>)"

definition seen_env :: "env_entry \<Rightarrow> env_entry" where
  "seen_env e = (if en_from e = None then e else e\<lparr>en_value := [], en_from := map_option seen_source (en_from e)\<rparr>)"

definition seen_env_from :: "string set \<Rightarrow> env_from list \<Rightarrow> env_from list" where
  "seen_env_from U fs =
     map (\<lambda>f. f\<lparr>fr_secret := None\<rparr>) (filter (\<lambda>f. case fr_config f of Some n \<Rightarrow> n \<in> U | None \<Rightarrow> False) fs)"

definition seen_container :: "string set \<Rightarrow> container \<Rightarrow> container" where
  "seen_container U c =
     c\<lparr>co_env := map seen_env (filter is_flag_var (co_env c)), co_env_from := seen_env_from U (co_env_from c)\<rparr>"

definition seen :: "string set \<Rightarrow> deployment \<Rightarrow> deployment" where
  "seen U d = d\<lparr>dp_annotations := [], dp_containers := map (seen_container U) (dp_containers d)\<rparr>"

lemma exposed_seen [simp]: "exposed (seen_env e) = exposed e" "is_flag_var (seen_env e) = is_flag_var e"
  by (auto simp: exposed_def seen_env_def seen_source_def is_flag_var_def Let_def split: option.split)

lemma add_env_seen: "fold add_env (map seen_env (filter is_flag_var es)) info = fold add_env es info"
  by (induction es arbitrary: info) (simp_all add: add_env_def)

lemma add_env_from_seen:
  "set managed \<subseteq> U \<Longrightarrow> fold (add_env_from managed) (seen_env_from U fs) info = fold (add_env_from managed) fs info"
  by (induction fs arbitrary: info) (auto simp: seen_env_from_def add_env_from_def split: option.split)

lemma extract_seen:
  "set managed \<subseteq> U \<Longrightarrow> extractContainersSafe managed (map (seen_container U) cs) = extractContainersSafe managed cs"
  by (simp add: extractContainersSafe_def extract_container_def seen_container_def add_env_seen add_env_from_seen)

lemma info_seen:
  assumes "set managed \<subseteq> U"
  shows "workload_info cid managed kind r (seen U d) = workload_info cid managed kind r d"
    and "replicated_info cid managed kind (seen U d) = replicated_info cid managed kind d"
  using extract_seen [OF assms] by (simp_all add: replicated_info_def workload_info_def seen_def)

lemma map_info_seen:
  assumes "set managed \<subseteq> U"
  shows "map (seen U) ds = map (seen U) ds' \<Longrightarrow> map (replicated_info cid managed kind) ds = map (replicated_info cid managed kind) ds'"
    and "map (\<lambda>(d, r). (seen U d, r)) xs = map (\<lambda>(d, r). (seen U d, r)) xs' \<Longrightarrow>
      map (\<lambda>(d, r). workload_info cid managed kind r d) xs = map (\<lambda>(d, r). workload_info cid managed kind r d) xs'"
proof -
  show "map (seen U) ds = map (seen U) ds' \<Longrightarrow> map (replicated_info cid managed kind) ds = map (replicated_info cid managed kind) ds'"
    using info_seen(2) [OF assms] by (metis (no_types) list.map_cong0 map_map comp_apply)
  have "(\<lambda>(d, r). workload_info cid managed kind r d) = (\<lambda>(d, r). workload_info cid managed kind r d) \<circ> (\<lambda>(d, r). (seen U d, r))"
    using info_seen(1) [OF assms] by (simp add: fun_eq_iff)
  then show "map (\<lambda>(d, r). (seen U d, r)) xs = map (\<lambda>(d, r). (seen U d, r)) xs' \<Longrightarrow>
      map (\<lambda>(d, r). workload_info cid managed kind r d) xs = map (\<lambda>(d, r). workload_info cid managed kind r d) xs'"
    by (metis (no_types) map_map)
qed

section \<open>Clusters that look alike\<close>

definition managed_label :: "(string \<times> string) list" where
  "managed_label = [(''app.kubernetes.io/managed-by'', ''vexil'')]"

definition managed_names :: "'k kube \<Rightarrow> 'k \<Rightarrow> string set" where
  "managed_names K k = {n. \<exists>ns cms. kube_list_configs K k ns managed_label = Inr cms \<and> n \<in> cmap_name ` set cms}"

definition look_alike :: "'k kube \<Rightarrow> 'k \<Rightarrow> 'k \<Rightarrow> bool" where
  "look_alike K k k' \<longleftrightarrow>
     (let U = managed_names K k; see = map_sum id (map (seen U)) in
      kube_list_flags K k = kube_list_flags K k' \<and> kube_list_flags_in K k = kube_list_flags_in K k'
      \<and> (\<forall>ns. see (kube_list_deployments K k ns (Some everything)) = see (kube_list_deployments K k' ns (Some everything))
           \<and> see (kube_list_statefulsets K k ns) = see (kube_list_statefulsets K k' ns)
           \<and> map_sum id (map (\<lambda>(d, r). (seen U d, r))) (kube_list_daemonsets K k ns)
             = map_sum id (map (\<lambda>(d, r). (seen U d, r))) (kube_list_daemonsets K k' ns)
           \<and> map_sum id (map cmap_name) (kube_list_configs K k ns managed_label)
             = map_sum id (map cmap_name) (kube_list_configs K k' ns managed_label)))"

lemma map_sum_eqE:
  assumes "map_sum id f x = map_sum id f y"
  obtains e where "x = Inl e" "y = Inl e" | a b where "x = Inr a" "y = Inr b" "f a = f b"
  using assms by (cases x; cases y) auto

lemma load_alike:
  assumes "look_alike K k k'" and "set managed \<subseteq> managed_names K k"
  shows "loadVexilConfigMaps K k' ns managed = loadVexilConfigMaps K k ns managed"
    and "loadVexilConfigMaps K k ns managed = Inr m \<Longrightarrow> set m \<subseteq> managed_names K k"
proof -
  have "map_sum id (map cmap_name) (kube_list_configs K k ns managed_label)
      = map_sum id (map cmap_name) (kube_list_configs K k' ns managed_label)"
    using assms(1) by (simp add: look_alike_def Let_def)
  then show "loadVexilConfigMaps K k' ns managed = loadVexilConfigMaps K k ns managed"
    by (cases rule: map_sum_eqE) (simp_all add: loadVexilConfigMaps_def managed_label_def [symmetric])
  assume "loadVexilConfigMaps K k ns managed = Inr m"
  then obtain cms where c: "kube_list_configs K k ns managed_label = Inr cms" "m = map cmap_name cms @ managed"
    by (auto simp: loadVexilConfigMaps_def managed_label_def [symmetric] split: sum.splits)
  then have "cmap_name ` set cms \<subseteq> managed_names K k" by (auto simp: managed_names_def)
  then show "set m \<subseteq> managed_names K k" using c(2) assms(2) by auto
qed

lemma scan_alike:
  assumes "look_alike K k k'" and "set managed \<subseteq> managed_names K k"
  shows "ScanNamespace K cid k' ns managed = ScanNamespace K cid k ns managed"
    and "set (fst (ScanNamespace K cid k ns managed)) \<subseteq> managed_names K k"
proof -
  let ?U = "managed_names K k" and ?pair = "\<lambda>(d, r). (seen (managed_names K k) d, r)"
  define m where "m = (case loadVexilConfigMaps K k ns managed of Inl _ \<Rightarrow> [] | Inr m \<Rightarrow> m)"
  have m: "set m \<subseteq> ?U"
    using load_alike(2) [OF assms, of ns] by (cases "loadVexilConfigMaps K k ns managed") (simp_all add: m_def)
  then show "set (fst (ScanNamespace K cid k ns managed)) \<subseteq> ?U" by (simp add: ScanNamespace_def m_def Let_def)
  have a: "map_sum id (map (seen ?U)) (kube_list_deployments K k ns (Some everything))
      = map_sum id (map (seen ?U)) (kube_list_deployments K k' ns (Some everything))"
    "map_sum id (map (seen ?U)) (kube_list_statefulsets K k ns) = map_sum id (map (seen ?U)) (kube_list_statefulsets K k' ns)"
    "map_sum id (map ?pair) (kube_list_daemonsets K k ns) = map_sum id (map ?pair) (kube_list_daemonsets K k' ns)"
    using assms(1) by (simp_all add: look_alike_def Let_def)
  note load = load_alike(1) [OF assms] m_def [symmetric]
  note info = map_info_seen [OF m]
  from a(1) show "ScanNamespace K cid k' ns managed = ScanNamespace K cid k ns managed"
  proof (cases rule: map_sum_eqE)
    case ds: 2
    from a(2) show ?thesis
    proof (cases rule: map_sum_eqE)
      case ss: 2
      from a(3) show ?thesis
      proof (cases rule: map_sum_eqE)
        case 2
        then show ?thesis
          using ds ss info(1) [OF ds(3)] info(1) [OF ss(3)] info(2) [OF 2(3)] by (simp add: ScanNamespace_def load)
      qed (simp add: ScanNamespace_def load ds ss)
    qed (simp add: ScanNamespace_def load ds)
  qed (simp add: ScanNamespace_def load)
qed

lemma scan_cluster_alike:
  assumes "look_alike K k k'"
  shows "ScanCluster K cid k' nss = ScanCluster K cid k nss"
proof -
  have "scan_namespaces K cid k' nss managed = scan_namespaces K cid k nss managed" if "set managed \<subseteq> managed_names K k" for managed
    using that
  proof (induction nss arbitrary: managed)
    case (Cons ns nss)
    obtain m r where s: "ScanNamespace K cid k ns managed = (m, r)" by (cases "ScanNamespace K cid k ns managed")
    then have "set m \<subseteq> managed_names K k" using scan_alike(2) [OF assms Cons.prems, of cid ns] by simp
    then show ?case
      using Cons.IH [OF Cons.prems] Cons.IH [of m] s scan_alike(1) [OF assms Cons.prems, of cid ns] by (simp split: sum.split)
  qed simp
  then show ?thesis by (simp add: ScanCluster_def)
qed

lemma answer_alike:
  assumes "look_alike (sl_kube L) k k'"
  shows "allowed_namespaces L k' = allowed_namespaces L k" and "workloads_answer L k' ws = workloads_answer L k ws"
proof -
  have "kube_list_flags (sl_kube L) k = kube_list_flags (sl_kube L) k'" "kube_list_flags_in (sl_kube L) k = kube_list_flags_in (sl_kube L) k'"
    using assms by (simp_all add: look_alike_def Let_def)
  then have "namespace_selectors (sl_kube L) k' = namespace_selectors (sl_kube L) k" and
    "allowed_namespaces L k' = allowed_namespaces L k"
    by (simp_all add: fun_eq_iff namespace_selectors_def allowed_namespaces_def namespacesWithFlags_def)
  then show "allowed_namespaces L k' = allowed_namespaces L k" "workloads_answer L k' ws = workloads_answer L k ws"
    by (simp_all add: workloads_answer_def enrichWithMatchingFlags_def)
qed


definition list_workloads :: go_request where
  "list_workloads = demo_rq ''GET'' ''/api/v1/clusters/local/workloads'' ''aa'' []"

definition secret_cluster :: "string \<Rightarrow> mini" where
  "secret_cluster pw =
     mini_cluster\<lparr>mi_deployments := [((''default'', ''web''), mini_deployment\<lparr>dp_containers :=
       [\<lparr>co_name = ''server'', co_image = ''web:1'',
         co_env = [\<lparr>en_name = ''DB_PASSWORD'', en_value = pw, en_from = None\<rparr>,
                   \<lparr>en_name = ''FLAG_KEY'', en_value = [], en_from = Some \<lparr>es_config = None, es_secret = Some (pw, pw)\<rparr>\<rparr>],
         co_env_from = [\<lparr>fr_config = None, fr_secret = Some pw\<rparr>]\<rparr>]\<rparr>)]\<rparr>"

lemma secrets_look_alike: "look_alike mini_kube (secret_cluster pw) (secret_cluster pw')"
  by (simp add: look_alike_def Let_def mini_kube_def mini_list_deployments_def secret_cluster_def deployment_at_def
      seen_def seen_container_def seen_env_def seen_source_def seen_env_from_def is_flag_var_def)


section \<open>Matching flags\<close>

lemma namespace_selectors_mem:
  assumes "kube_laws K"
  shows "(n, ns, p) \<in> set (concat (map (namespace_selectors K k) nss)) \<longleftrightarrow>
    ns \<in> set nss \<and> (\<exists>fs g. kube_list_flags_in K k ns = Inr fs \<and> g \<in> set fs \<and> kf_name g = n \<and> flag_test K g = Some p)"
proof -
  have ns: "kf_namespace g = ns'" if "kube_list_flags_in K k ns' = Inr fs" "g \<in> set fs" for ns' fs g
    using assms that unfolding kube_laws_def flag_read_laws_def list_laws_def by metis
  have "(n, ns, p) \<in> set (namespace_selectors K k ns') \<longleftrightarrow> ns' = ns \<and>
      (\<exists>fs g. kube_list_flags_in K k ns = Inr fs \<and> g \<in> set fs \<and> kf_name g = n \<and> flag_test K g = Some p)" for ns'
  proof (cases "kube_list_flags_in K k ns'")
    case (Inr fs)
    then have "(n, ns, p) \<in> set (namespace_selectors K k ns') \<longleftrightarrow>
        (\<exists>g\<in>set fs. kf_name g = n \<and> kf_namespace g = ns \<and> flag_test K g = Some p)"
      by (force simp: namespace_selectors_def split: option.splits)
    then show ?thesis using Inr ns [OF Inr] by auto
  qed (auto simp: namespace_selectors_def)
  then show ?thesis by auto
qed

text \<open>A workload lists a flag exactly if the flag's selector passes its labels.\<close>

lemma matching_iff:
  assumes "kube_laws K" and "\<And>xs. set (ord xs) = set xs" and "kube_list_flags_in K k (xw_namespace w) = Inr fs"
    and "kube_get_flag K k (xw_namespace w) n = Inr g" and "w \<in> set ws"
  shows "n \<in> set (map fst (filter (\<lambda>(_, ns, p). ns = xw_namespace w \<and> p (xw_labels w))
      (concat (map (namespace_selectors K k) (ord (remdups (map xw_namespace ws)))))))
    \<longleftrightarrow> (\<exists>p. flag_test K g = Some p \<and> p (xw_labels w))"
proof -
  have "xw_namespace w \<in> set (ord (remdups (map xw_namespace ws)))" using assms(2,5) by simp
  moreover have "h \<in> set fs \<and> kf_name h = n \<longleftrightarrow> h = g" for h
    using assms(1,3,4) unfolding kube_laws_def list_laws_def by (metis sum.inject(2))
  ultimately have "(n, xw_namespace w, p) \<in> set (concat (map (namespace_selectors K k) (ord (remdups (map xw_namespace ws)))))
      \<longleftrightarrow> flag_test K g = Some p" for p
    unfolding namespace_selectors_mem [OF assms(1)] by (metis assms(3) sum.inject(2))
  then show ?thesis by (force simp del: set_concat)
qed

text \<open>What a container of a scan shows of a variable is its first entry with that name.\<close>

lemma scanned_vars:
  "xc_envVars (extract_container managed c) = map (fst \<circ> exposed) (filter is_flag_var (co_env c))"
proof -
  have "xc_envVars (fold (add_env_from managed) fs info) = xc_envVars info" for fs info
    by (induction fs arbitrary: info) (auto simp: add_env_from_def split: option.split)
  moreover have "xc_envVars (fold add_env es info) = xc_envVars info @ map (fst \<circ> exposed) (filter is_flag_var es)" for es info
    by (induction es arbitrary: info) (auto simp: add_env_def split: prod.split)
  ultimately show ?thesis by (simp add: extract_container_def)
qed

definition shown_var :: "string \<Rightarrow> scan_container \<Rightarrow> scan_env option" where
  "shown_var n c = find (\<lambda>ev. xe_name ev = n) (xc_envVars c)"

lemma exposed_fields:
  "xe_name (fst (exposed e)) = en_name e"
  "xe_value (fst (exposed e)) = (if en_from e = None then en_value e else [])"
  by (auto simp: exposed_def Let_def split: option.split)

lemma shown_delivered:
  assumes "map_of (env_vars (co_env c)) n = Some v" and "prefix ''FLAG_'' n"
  shows "\<exists>ev. shown_var n (extract_container managed c) = Some ev \<and> xe_value ev \<in> {v, []}"
proof -
  have "\<exists>ev. find (\<lambda>ev. xe_name ev = n) (map (fst \<circ> exposed) (filter is_flag_var es)) = Some ev \<and> xe_value ev \<in> {v, []}"
    if "map_of (env_vars es) n = Some v" for es
    using that assms(2) by (induction es) (auto simp: exposed_fields is_flag_var_def split: if_splits)
  then show ?thesis using assms(1) by (simp add: shown_var_def scanned_vars)
qed

text \<open>The deployments of a scan, and those of them a flag's delivery selects.\<close>

lemma read_names: "kube_laws K \<Longrightarrow> kube_get_flag K k ns n = Inr g \<Longrightarrow> kf_namespace g = ns \<and> kf_name g = n"
  unfolding kube_laws_def flag_read_laws_def by blast

lemma listed_namespace:
  "kube_laws K \<Longrightarrow> kube_list_deployments K k ns sel = Inr ds \<Longrightarrow> d \<in> set ds \<Longrightarrow> dp_namespace d = ns"
  unfolding kube_laws_def list_laws_def by blast

lemma scan_deployments:
  assumes "ScanNamespace K cid k ns m = (m', Inr ws)"
  obtains ds rest where "kube_list_deployments K k ns (Some everything) = Inr ds"
    "ws = map (replicated_info cid m' ''Deployment'') ds @ rest" "\<forall>w\<in>set rest. xw_kind w \<noteq> ''Deployment''"
proof -
  obtain ds ss dss where s: "kube_list_deployments K k ns (Some everything) = Inr ds" "ws =
      map (replicated_info cid m' ''Deployment'') ds @ map (replicated_info cid m' ''StatefulSet'') ss
      @ map (\<lambda>(d, desired). workload_info cid m' ''DaemonSet'' desired d) dss"
    using assms by (auto simp: ScanNamespace_def Let_def split: sum.splits)
  show ?thesis by (rule that [OF s]) (auto simp: replicated_info_def workload_info_def)
qed

lemma filter_deployments:
  "\<forall>w\<in>set rest. xw_kind w \<noteq> ''Deployment'' \<Longrightarrow>
     filter (\<lambda>w. xw_kind w = ''Deployment'' \<and> P w)
       (map (\<lambda>w. w\<lparr>xw_matchingFlags := f w\<rparr>) (map (replicated_info cid m ''Deployment'') ds @ rest))
     = map (\<lambda>d. (replicated_info cid m ''Deployment'' d)\<lparr>xw_matchingFlags := f (replicated_info cid m ''Deployment'' d)\<rparr>)
         (filter (\<lambda>d. P ((replicated_info cid m ''Deployment'' d)\<lparr>xw_matchingFlags := f (replicated_info cid m ''Deployment'' d)\<rparr>)) ds)"
  by (simp add: filter_map comp_def filter_empty_conv replicated_info_def workload_info_def)

lemma selected_deployments:
  assumes "kube_laws K" and "env_delivery g = Some e" and "kube_list_deployments K k ns (ke_selector e) = Inr ds"
    and "kube_list_deployments K k ns (Some everything) = Inr ds0"
  shows "ds = filter (\<lambda>d. \<exists>p. flag_test K g = Some p \<and> p (dp_labels d)) ds0"
proof -
  have t: "flag_test K g = Option.bind (ke_selector e) (kube_selector K)"
    using assms(2) by (auto simp: flag_test_def flag_selector_def env_delivery_def split: option.splits bind_splits)
  show ?thesis
  proof (cases "ke_selector e")
    case None
    then show ?thesis using t assms(1,3) unfolding kube_laws_def list_laws_def by simp
  next
    case (Some s)
    then obtain p where "kube_selector K s = Some p" "ds = filter (\<lambda>d. p (dp_labels d)) ds0"
      using assms(1,3,4) unfolding kube_laws_def list_laws_def by metis
    then show ?thesis using t Some by simp
  qed
qed



end
