(* ===== verification/Auth.thy ===== *)
theory Auth
  imports ApiClient Ui
begin

text \<open>
  Who is signed in: the store of \<open>web/src/lib/auth.ts\<close> (its state and what it keeps in
  local storage), the guard of \<open>web/src/app/providers.tsx\<close> that redirects between the
  login page and the rest, and the login page \<open>web/src/app/login/page.tsx\<close>. The token and
  the user come from a server answer that is not checked, so they are JavaScript values.
\<close>

section \<open>The store\<close>

record auth =
  token :: jsval
  user :: jsval

definition useAuth_init :: "web_env \<Rightarrow> browser \<Rightarrow> auth res" where
  "useAuth_init W B =
     (if has_window W
      then bind_res (json_parse (opt_str (ls_get ''vexil-user'' (storage B)) ''null'')) (\<lambda>u.
             Inr \<lparr>token = (case ls_get ''vexil-token'' (storage B) of None \<Rightarrow> JNull | Some t \<Rightarrow> JStr t),
                  user = u\<rparr>)
      else Inr \<lparr>token = JNull, user = JNull\<rparr>)"

text \<open>\<open>localStorage.setItem\<close> converts its argument to a string.\<close>

definition setAuth :: "jsval \<Rightarrow> jsval \<Rightarrow> auth \<Rightarrow> browser \<Rightarrow> auth \<times> browser \<times> unit res" where
  "setAuth tok u A B =
     (case to_str tok of
        Inl e \<Rightarrow> (A, B, Inl e)
      | Inr t \<Rightarrow>
          (\<lparr>token = tok, user = u\<rparr>,
           B\<lparr>storage := ls_set ''vexil-user''
                (case json_stringify u of None \<Rightarrow> ''undefined'' | Some s \<Rightarrow> s)
                (ls_set ''vexil-token'' t (storage B))\<rparr>,
           Inr ()))"

definition logout :: "browser \<Rightarrow> auth \<times> browser" where
  "logout B =
     (\<lparr>token = JNull, user = JNull\<rparr>,
      B\<lparr>storage := ls_remove ''vexil-user'' (ls_remove ''vexil-token'' (storage B))\<rparr>)"

lemma stored_session:
  "ls_get ''vexil-token'' (ls_set ''vexil-user'' u (ls_set ''vexil-token'' t st)) = Some t"
  "ls_get ''vexil-user'' (ls_set ''vexil-user'' u (ls_set ''vexil-token'' t st)) = Some u"
  by (simp_all add: ls.put_two)

lemma json_parse_null: "json_parse ''null'' = Inr JNull"
  by (rule json_roundtrip) simp_all

lemma ended_session:
  assumes "storage B' = ls_remove ''vexil-user'' (ls_remove ''vexil-token'' st)"
  shows "useAuth_init W B' = Inr \<lparr>token = JNull, user = JNull\<rparr>"
proof -
  have "ls_get ''vexil-user'' (storage B') = None" "ls_get ''vexil-token'' (storage B') = None"
    unfolding assms by (rule ls.del_two)+
  then show ?thesis by (simp add: useAuth_init_def opt_str_def or_str_def json_parse_null)
qed

text \<open>A session survives a reload of the page: after \<open>setAuth\<close> with a string token and a user that JSON can represent, the store is initialised with the same token and user; after \<open>logout\<close> it is initialised with neither.\<close>

theorem auth_reload_roundtrip:
  assumes "has_window W" and "json_ok u"
  shows "(let (A', B', r) = setAuth (JStr t) u A B in r = Inr () \<and> useAuth_init W B' = Inr A')
    \<and> (let (A', B') = logout B in useAuth_init W B' = Inr A')"
proof -
  obtain s where s: "json_stringify u = Some s" using stringify_parses [OF assms(2)] by blast
  have p: "json_parse s = Inr u" using json_roundtrip [OF assms(2) s] .
  moreover have "s \<noteq> []"
  proof
    assume "s = []"
    then have "json_parse [] = Inr u" using p by simp
    moreover have "json_parse [] = Inl SyntaxErr" by code_simp
    ultimately show False by simp
  qed
  ultimately have "useAuth_init W B' = Inr \<lparr>token = JStr t, user = u\<rparr>"
    if "storage B' = ls_set ''vexil-user'' s (ls_set ''vexil-token'' t st)" for B' st
    using assms(1) that by (simp add: useAuth_init_def stored_session opt_str_def or_str_def)
  then show ?thesis
    using ended_session by (simp add: setAuth_def s logout_def)
qed

definition demo_user :: jsval where
  "demo_user = JObj [(''username'', JStr ''ana''), (''role'', JStr ''editor'')]"

lemma demo_user_ok: "json_ok demo_user"
  by code_simp

theorem auth_reload_roundtrip_witness:
  "(let (A', B', r) = setAuth (JStr ''tok'') demo_user \<lparr>token = JNull, user = JNull\<rparr> \<lparr>storage = [], href = ''/login''\<rparr>
    in r = Inr () \<and> useAuth_init (demo_env (\<lparr>rs_status = 200, rs_status_text = [], rs_type = None, rs_body = []\<rparr>)) B' = Inr A')"
proof -
  let ?W = "demo_env (\<lparr>rs_status = 200, rs_status_text = [], rs_type = None, rs_body = []\<rparr>)"
  have "has_window ?W" by (simp add: demo_env_def)
  then show ?thesis
    using auth_reload_roundtrip [of ?W demo_user "''tok''" "\<lparr>token = JNull, user = JNull\<rparr>"] demo_user_ok
    by blast
qed

section \<open>The guard\<close>

text \<open>
  The state \<open>AuthGuard\<close> sees. \<open>dirty\<close>: its effect is due, because the component was
  mounted or the token or the path has changed; \<open>nav\<close>: where \<open>router.replace\<close> is going.
\<close>

record guard =
  g_token :: jsval
  pathname :: string
  ready :: bool
  dirty :: bool
  nav :: "string option"

datatype guard_screen = NoView | Bare | Shell   \<comment> \<open>nothing; the page alone; sidebar and page\<close>

definition guard_view :: "guard \<Rightarrow> guard_screen" where
  "guard_view g = (if \<not> ready g then NoView else if pathname g = ''/login'' then Bare else Shell)"

definition guard_effect :: "guard \<Rightarrow> guard" where
  "guard_effect g =
     (if \<not> truthy (g_token g) \<and> pathname g \<noteq> ''/login'' then g\<lparr>dirty := False, nav := Some ''/login''\<rparr>
      else if truthy (g_token g) \<and> pathname g = ''/login'' then g\<lparr>dirty := False, nav := Some ''/''\<rparr>
      else g\<lparr>dirty := False, ready := True\<rparr>)"

definition mounted :: "jsval \<Rightarrow> string \<Rightarrow> guard" where
  "mounted tok path = \<lparr>g_token = tok, pathname = path, ready = False, dirty = True, nav = None\<rparr>"

text \<open>What can happen to it: its effect runs, a navigation completes, the token changes
  (login, logout), the user follows a link. A click on the link of the current page
  while a redirect is under way is left out: it would cancel the redirect.\<close>

datatype guard_event = Effect | Arrive | TokenSet jsval | GoTo string

definition guard_enabled :: "guard \<Rightarrow> guard_event \<Rightarrow> bool" where
  "guard_enabled g e =
     (case e of
        Effect \<Rightarrow> dirty g
      | Arrive \<Rightarrow> nav g \<noteq> None \<and> \<not> dirty g
      | TokenSet t \<Rightarrow> ready g
      | GoTo p \<Rightarrow> guard_view g = Shell \<and> (p = pathname g \<longrightarrow> nav g = None))"

definition guard_step :: "guard \<Rightarrow> guard_event \<Rightarrow> guard" where
  "guard_step g e =
     (case e of
        Effect \<Rightarrow> guard_effect g
      | Arrive \<Rightarrow> (case nav g of
            None \<Rightarrow> g
          | Some p \<Rightarrow> g\<lparr>pathname := p, nav := None, dirty := (p \<noteq> pathname g)\<rparr>)
      | TokenSet t \<Rightarrow> g\<lparr>g_token := t, dirty := (dirty g \<or> t \<noteq> g_token g)\<rparr>
      | GoTo p \<Rightarrow> g\<lparr>pathname := p, nav := None, dirty := (dirty g \<or> p \<noteq> pathname g)\<rparr>)"

text \<open>
  Whoever sees the shell without a token is on the way out: the effect is due, or the
  redirect is under way.
\<close>

definition guard_inv :: "guard \<Rightarrow> bool" where
  "guard_inv g \<longleftrightarrow>
     (guard_view g = Shell \<and> \<not> truthy (g_token g) \<longrightarrow> dirty g \<or> nav g = Some ''/login'')"

interpretation guard_m: guarded_machine guard_enabled guard_step guard_inv
proof
  fix g e
  assume "guard_inv g" "guard_enabled g e"
  then show "guard_inv (guard_step g e)"
    by (cases e)
      (auto simp: guard_inv_def guard_enabled_def guard_step_def guard_effect_def guard_view_def
        split: option.splits if_splits)
qed



text \<open>C32 (guard_settles). From any state, running the effect, completing the navigation it asks for and running the effect again reaches a state that further effects leave alone: the login page exactly when there is no token, and the page is displayed.\<close>

theorem guard_settles:
  "let g' = guard_effect (guard_step (guard_effect g) Arrive)
   in (nav g = None \<longrightarrow> nav g' = None \<and> guard_effect g' = g' \<and> guard_view g' \<noteq> NoView
        \<and> (pathname g' = ''/login'') = (\<not> truthy (g_token g)))"
  by (auto simp: guard_effect_def guard_step_def guard_view_def Let_def split: option.splits)

theorem guard_settles_witness:
  "pathname (guard_effect (guard_step (guard_effect (mounted JNull ''/audit'')) Arrive)) = ''/login''"
  using guard_settles [of "mounted JNull ''/audit''"] by (simp add: mounted_def Let_def)

text \<open>C33 (expired_session_reaches_login). When any API call is answered 401, reloading the page (which the redirect does) starts a store without token and user, and the guard, mounted on the login page, displays that page and asks for no further redirect.\<close>

theorem expired_session_reaches_login:
  assumes "fetch W (build_request W path options B) = Inr res" and "rs_status res = 401"
    and "has_window W"
  shows "\<exists>B' A'. request W path options B = (B', Inl (Err ''Unauthorized''))
    \<and> useAuth_init W B' = Inr A' \<and> \<not> truthy (token A')
    \<and> guard_view (guard_effect (mounted (token A') (href B'))) = Bare
    \<and> nav (guard_effect (mounted (token A') (href B'))) = None"
proof -
  have "request W path options B = (end_session B, Inl (Err ''Unauthorized''))"
    using assms by (simp add: request_def)
  moreover have "useAuth_init W (end_session B) = Inr \<lparr>token = JNull, user = JNull\<rparr>"
    by (rule ended_session) (simp add: end_session_def)
  ultimately show ?thesis
    by (simp add: end_session_def mounted_def guard_effect_def guard_view_def)
qed

theorem expired_session_reaches_login_witness:
  "let W = demo_env \<lparr>rs_status = 401, rs_status_text = [], rs_type = None, rs_body = []\<rparr>
   in \<exists>B' A'. request W ''/flags'' no_init \<lparr>storage = [(''vexil-token'', ''old'')], href = ''/flags''\<rparr>
        = (B', Inl (Err ''Unauthorized'')) \<and> useAuth_init W B' = Inr A' \<and> \<not> truthy (token A')"
  using expired_session_reaches_login
    [of "demo_env \<lparr>rs_status = 401, rs_status_text = [], rs_type = None, rs_body = []\<rparr>" "''/flags''" no_init
      "\<lparr>storage = [(''vexil-token'', ''old'')], href = ''/flags''\<rparr>"]
  by (auto simp: demo_env_def Let_def)

section \<open>The login page\<close>

datatype login_h = HUsername | HPassword | HSignIn

record login =
  l_username :: string
  l_password :: string
  l_error :: string
  l_loading :: bool
  l_sent :: "(string \<times> string) option"   \<comment> \<open>the call under way, with its arguments\<close>
  l_auth :: auth
  l_browser :: browser
  l_replace :: "string option"            \<comment> \<open>\<open>router.replace\<close>\<close>

definition login_init :: "auth \<Rightarrow> browser \<Rightarrow> login" where
  "login_init A B =
     \<lparr>l_username = [], l_password = [], l_error = [], l_loading = False, l_sent = None,
      l_auth = A, l_browser = B, l_replace = None\<rparr>"

definition login_view :: "login \<Rightarrow> login_h ui" where
  "login_view s =
     El [El [Txt ''Vexil'', Txt ''Kubernetes-native Feature Flags''],
         Txt ''Sign in to your account'',
         Form HSignIn
           ([Txt ''Username'', Inp True (l_username s) HUsername,
             Txt ''Password'', Inp True (l_password s) HPassword]
            @ show_if (l_error s \<noteq> []) [Txt (l_error s)]
            @ [SubmitBtn (l_loading s) [Txt (if l_loading s then ''Signing in...'' else ''Sign in'')]]),
         Txt ''Vexil Platform v0.1.0'']"

text \<open>\<open>handleSubmit\<close> up to its \<open>await\<close>, and the rest of it when the call has ended.\<close>

definition login_start :: "login \<Rightarrow> login" where
  "login_start s = s\<lparr>l_error := [], l_loading := True, l_sent := Some (l_username s, l_password s)\<rparr>"

definition login_failed :: "web_env \<Rightarrow> js_error \<Rightarrow> login \<Rightarrow> login" where
  "login_failed W e s = s\<lparr>l_error := err_message W e, l_loading := False, l_sent := None\<rparr>"

definition login_finish :: "web_env \<Rightarrow> jsval res \<Rightarrow> login \<Rightarrow> login" where
  "login_finish W answer s =
     (case bind_res answer (\<lambda>v. bind_res (js_get ''token'' v) (\<lambda>t.
             bind_res (js_get ''user'' v) (\<lambda>u. Inr (t, u)))) of
        Inl e \<Rightarrow> login_failed W e s
      | Inr (t, u) \<Rightarrow>
          (case setAuth t u (l_auth s) (l_browser s) of
             (A, B, Inl e) \<Rightarrow> login_failed W e s
           | (A, B, Inr _) \<Rightarrow>
               s\<lparr>l_auth := A, l_browser := B, l_replace := Some ''/'', l_loading := False, l_sent := None\<rparr>))"

datatype login_event = LoginUser "login_h act" | LoginAnswer

definition login_enabled :: "login \<Rightarrow> login_event \<Rightarrow> bool" where
  "login_enabled s e =
     (case e of
        LoginUser a \<Rightarrow> offers (login_view s) a
      | LoginAnswer \<Rightarrow> l_sent s \<noteq> None)"

definition login_step :: "web_env \<Rightarrow> login \<Rightarrow> login_event \<Rightarrow> login" where
  "login_step W s e =
     (case e of
        LoginUser (Enter HUsername v) \<Rightarrow> s\<lparr>l_username := v\<rparr>
      | LoginUser (Enter HPassword v) \<Rightarrow> s\<lparr>l_password := v\<rparr>
      | LoginUser (Submit HSignIn) \<Rightarrow> login_start s
      | LoginAnswer \<Rightarrow>
          (case l_sent s of
             None \<Rightarrow> s
           | Some (u, p) \<Rightarrow> login_finish W (authApi_login W u p) s)
      | _ \<Rightarrow> s)"

text \<open>
  The page is loading exactly while a call is under way, and only credentials that are
  both filled in are sent.
\<close>

definition login_inv :: "login \<Rightarrow> bool" where
  "login_inv s \<longleftrightarrow> l_loading s = (l_sent s \<noteq> None)
     \<and> (\<forall>u p. l_sent s = Some (u, p) \<longrightarrow> u \<noteq> [] \<and> p \<noteq> [])"

lemma login_offers:
  "offers (login_view s) a \<Longrightarrow>
     (\<exists>v. a = Enter HUsername v) \<or> (\<exists>v. a = Enter HPassword v)
     \<or> (a = Submit HSignIn \<and> \<not> l_loading s \<and> l_username s \<noteq> [] \<and> l_password s \<noteq> [])"
  by (cases a) (auto simp: login_view_def split: if_splits)

lemma login_finish_idle: "l_loading (login_finish W r s) = False \<and> l_sent (login_finish W r s) = None"
  by (auto simp: login_finish_def login_failed_def split: sum.split prod.split)

interpretation login_m: guarded_machine login_enabled "login_step W" login_inv for W
proof
  fix s e
  assume i: "login_inv s" and en: "login_enabled s e"
  show "login_inv (login_step W s e)"
  proof (cases e)
    case (LoginUser a)
    then show ?thesis
      using i en login_offers [of s a]
      by (auto simp: login_inv_def login_enabled_def login_step_def login_start_def)
  next
    case LoginAnswer
    then show ?thesis
      using i login_finish_idle
      by (auto simp: login_inv_def login_step_def split: option.split)
  qed
qed


definition demo_refusal :: http_response where
  "demo_refusal = \<lparr>rs_status = 500, rs_status_text = ''Server Error'', rs_type = None, rs_body = ''not json''\<rparr>"

definition demo_login :: "login_event list" where
  "demo_login = [LoginUser (Enter HUsername ''ana''), LoginUser (Enter HPassword ''pw''), LoginUser (Submit HSignIn)]"


end
