(* ===== verification/Sidebar.thy ===== *)
theory Sidebar
  imports Auth
begin

text \<open>
  The shell around every page, \<open>web/src/components/layout/Sidebar.tsx\<close>: the links, the
  search palette with its keyboard shortcuts, the drawer on small screens, and signing
  out, which waits for the network before it clears the store.
\<close>

section \<open>Navigation\<close>

record nav_item =
  nav_name :: string
  nav_href :: string
  nav_keywords :: "string list"

definition navigation :: "nav_item list" where
  "navigation =
     [\<lparr>nav_name = ''Dashboard'', nav_href = ''/'', nav_keywords = [''home'', ''overview'']\<rparr>,
      \<lparr>nav_name = ''Feature Flags'', nav_href = ''/flags'', nav_keywords = [''toggle'', ''flag'', ''feature'']\<rparr>,
      \<lparr>nav_name = ''Clusters'', nav_href = ''/clusters'', nav_keywords = [''cluster'', ''node'', ''kubernetes'']\<rparr>,
      \<lparr>nav_name = ''Workloads'', nav_href = ''/workloads'',
       nav_keywords = [''deployment'', ''pod'', ''workload'', ''app'']\<rparr>,
      \<lparr>nav_name = ''Audit Log'', nav_href = ''/audit'', nav_keywords = [''audit'', ''log'', ''history'', ''event'']\<rparr>,
      \<lparr>nav_name = ''Settings'', nav_href = ''/settings'', nav_keywords = [''settings'', ''config'', ''preferences'']\<rparr>]"

definition nav_matches :: "string \<Rightarrow> nav_item \<Rightarrow> bool" where
  "nav_matches search item =
     (if search = [] then True
      else let q = to_lower search
           in str_includes (to_lower (nav_name item)) q \<or> list_ex (\<lambda>k. str_includes k q) (nav_keywords item))"

definition filtered_nav :: "string \<Rightarrow> nav_item list" where
  "filtered_nav search = filter (nav_matches search) navigation"

text \<open>The link of the current page is highlighted.\<close>

definition nav_active :: "string \<Rightarrow> nav_item \<Rightarrow> bool" where
  "nav_active path item \<longleftrightarrow>
     path = nav_href item \<or> (nav_href item \<noteq> ''/'' \<and> starts_with (nav_href item) path)"

section \<open>State\<close>

text \<open>
  \<open>sb_routes\<close> collects the calls of the router, the last one first; \<open>sb_requests\<close> the
  requests sent; \<open>sb_waiting\<close> counts the calls of \<open>handleLogout\<close> that wait for theirs.
\<close>

datatype route = Push string | Replace string

record sidebar =
  sb_pathname :: string
  sb_auth :: auth
  sb_browser :: browser
  searchOpen :: bool
  sb_search :: string
  mobileOpen :: bool
  sb_waiting :: nat
  sb_requests :: "http_request list"
  sb_routes :: "route list"

definition sidebar_init :: "string \<Rightarrow> auth \<Rightarrow> browser \<Rightarrow> sidebar" where
  "sidebar_init path A B =
     \<lparr>sb_pathname = path, sb_auth = A, sb_browser = B, searchOpen = False, sb_search = [],
      mobileOpen = False, sb_waiting = 0, sb_requests = [], sb_routes = []\<rparr>"

section \<open>The view\<close>

datatype sidebar_h =
    S_CloseMobile | S_OpenMobile | S_OpenSearch | S_CloseSearch | S_Search | S_Select string | S_Logout

text \<open>
  \<open>user?.f || d\<close> as a text child: strings and numbers are displayed. Objects and arrays,
  which the server never sends here, are left out, and so is the letter of the avatar.
\<close>

definition user_text :: "string \<Rightarrow> string \<Rightarrow> jsval \<Rightarrow> string" where
  "user_text f d u =
     (case js_or (catch_res (js_get f u) JUndef) (JStr d) of
        JStr s \<Rightarrow> s
      | JNum n \<Rightarrow> show_num n
      | _ \<Rightarrow> [])"

definition sidebar_content :: "sidebar \<Rightarrow> sidebar_h ui list" where
  "sidebar_content s =
     [El [Txt ''Vexil'', Txt ''BETA'', Btn False S_CloseMobile []],
      El [Btn False S_OpenSearch [Txt ''Search...'', Txt ''Ctrl+K'']],
      El (Txt ''Platform''
          # map (\<lambda>item. Lnk (nav_href item)
                  (Txt (nav_name item) # show_if (nav_name item = ''Feature Flags'') [Txt ''FF''])) navigation),
      El [Txt (user_text ''username'' ''Unknown'' (user (sb_auth s))),
          Txt (user_text ''role'' ''user'' (user (sb_auth s))),
          Btn False S_Logout []]]"

definition palette_view :: "sidebar \<Rightarrow> sidebar_h ui" where
  "palette_view s =
     Clk S_CloseSearch
       [El [Inp False (sb_search s) S_Search, Btn False S_CloseSearch []],
        El (if filtered_nav (sb_search s) = [] then [Txt ''No results'']
            else map (\<lambda>item. Btn False (S_Select (nav_href item)) [Txt (nav_name item)])
                   (filtered_nav (sb_search s))),
        El [Txt ''Enter to select'', Txt ''Esc to close'']]"

definition sidebar_view :: "sidebar \<Rightarrow> sidebar_h ui" where
  "sidebar_view s =
     El ([El [Btn False S_OpenMobile [], Txt ''Vexil'']]
         @ show_if (mobileOpen s) [Clk S_CloseMobile []]
         @ [El (sidebar_content s)]
         @ show_if (searchOpen s) [palette_view s])"

section \<open>Handlers\<close>

definition closeSearch :: "sidebar \<Rightarrow> sidebar" where
  "closeSearch s = s\<lparr>searchOpen := False, sb_search := []\<rparr>"

definition handleSelect :: "string \<Rightarrow> sidebar \<Rightarrow> sidebar" where
  "handleSelect p s = closeSearch (s\<lparr>sb_routes := Push p # sb_routes s\<rparr>)"

text \<open>
  \<open>handleLogout\<close> up to its \<open>await\<close>, and the rest. The request is made only when there is
  a token; its outcome, a failure included, is ignored. A token that cannot be turned
  into a string makes the call throw before anything is sent.
\<close>

definition logout_finish :: "sidebar \<Rightarrow> sidebar" where
  "logout_finish s =
     (let (A, B) = logout (sb_browser s)
      in s\<lparr>sb_auth := A, sb_browser := B, sb_routes := Replace ''/login'' # sb_routes s\<rparr>)"

definition handleLogout :: "web_env \<Rightarrow> sidebar \<Rightarrow> sidebar" where
  "handleLogout W s =
     (if truthy (token (sb_auth s))
      then (case to_str (token (sb_auth s)) of
              Inl e \<Rightarrow> s
            | Inr t \<Rightarrow> s\<lparr>sb_requests := authApi_logout W t # sb_requests s, sb_waiting := sb_waiting s + 1\<rparr>)
      else logout_finish s)"

text \<open>
  \<open>onKeyDown\<close> of the window, with control or command held or not, and of the input of
  the palette, which sees the key first.
\<close>

definition onKeyDown :: "bool \<Rightarrow> string \<Rightarrow> sidebar \<Rightarrow> sidebar" where
  "onKeyDown ctrl key s =
     (let s' = (if ctrl \<and> key = ''k''
                then if searchOpen s then s\<lparr>searchOpen := False, sb_search := []\<rparr>
                     else s\<lparr>searchOpen := True\<rparr>
                else s)
      in if key = ''Escape'' \<and> searchOpen s then closeSearch s' else s')"

definition onInputKeyDown :: "string \<Rightarrow> sidebar \<Rightarrow> sidebar" where
  "onInputKeyDown key s =
     (case filtered_nav (sb_search s) of
        [] \<Rightarrow> s
      | item # _ \<Rightarrow> if key = ''Enter'' then handleSelect (nav_href item) s else s)"

definition sidebar_handle :: "web_env \<Rightarrow> sidebar_h act \<Rightarrow> sidebar \<Rightarrow> sidebar" where
  "sidebar_handle W a s =
     (case a of
        Click S_CloseMobile \<Rightarrow> s\<lparr>mobileOpen := False\<rparr>
      | Click S_OpenMobile \<Rightarrow> s\<lparr>mobileOpen := True\<rparr>
      | Click S_OpenSearch \<Rightarrow> s\<lparr>searchOpen := True\<rparr>
      | Click S_CloseSearch \<Rightarrow> closeSearch s
      | Enter S_Search v \<Rightarrow> s\<lparr>sb_search := v\<rparr>
      | Click (S_Select p) \<Rightarrow> handleSelect p s
      | Click S_Logout \<Rightarrow> handleLogout W s
      | Follow p \<Rightarrow> s\<lparr>sb_routes := Push p # sb_routes s\<rparr>
      | _ \<Rightarrow> s)"

text \<open>
  What happens to the sidebar: an action of the user, a key pressed in the input of the
  palette or elsewhere, the end of a logout request, a new path, whose effect closes the
  drawer.
\<close>

datatype sidebar_event =
    SUser "sidebar_h act" | SKey bool bool string | SLoggedOut | SPath string

definition sidebar_enabled :: "sidebar \<Rightarrow> sidebar_event \<Rightarrow> bool" where
  "sidebar_enabled s e =
     (case e of
        SUser a \<Rightarrow> offers (sidebar_view s) a
      | SKey in_input ctrl key \<Rightarrow> in_input \<longrightarrow> searchOpen s
      | SLoggedOut \<Rightarrow> sb_waiting s \<noteq> 0
      | SPath p \<Rightarrow> p \<noteq> sb_pathname s)"

definition sidebar_step :: "web_env \<Rightarrow> sidebar \<Rightarrow> sidebar_event \<Rightarrow> sidebar" where
  "sidebar_step W s e =
     (case e of
        SUser a \<Rightarrow> sidebar_handle W a s
      | SKey in_input ctrl key \<Rightarrow>
          onKeyDown ctrl key (if in_input then onInputKeyDown key s else s)
      | SLoggedOut \<Rightarrow> logout_finish (s\<lparr>sb_waiting := sb_waiting s - 1\<rparr>)
      | SPath p \<Rightarrow> s\<lparr>sb_pathname := p, mobileOpen := False\<rparr>)"

section \<open>The palette\<close>

lemma filtered_nav_navigation: "item \<in> set (filtered_nav q) \<Longrightarrow> item \<in> set navigation \<and> nav_matches q item"
  by (simp add: filtered_nav_def)

text \<open>What the router may be asked for.\<close>

definition route_ok :: "route \<Rightarrow> bool" where
  "route_ok r \<longleftrightarrow> (case r of Push p \<Rightarrow> p \<in> nav_href ` set navigation | Replace p \<Rightarrow> p = ''/login'')"

lemma palette_offers:
  "offers (palette_view s) a \<Longrightarrow> a = Click S_CloseSearch \<or> (\<exists>v. a = Enter S_Search v)
     \<or> (\<exists>item\<in>set (filtered_nav (sb_search s)). a = Click (S_Select (nav_href item)))"
  by (cases a) (auto simp: palette_view_def list_ex_map_set split: if_splits)

lemma content_offers:
  "list_ex (\<lambda>u. offers u a) (sidebar_content s) \<Longrightarrow>
     a = Click S_CloseMobile \<or> a = Click S_OpenSearch \<or> a = Click S_Logout
     \<or> (\<exists>item\<in>set navigation. a = Follow (nav_href item))"
  by (auto simp: sidebar_content_def list_ex_map_set)

lemma sidebar_offers:
  assumes "offers (sidebar_view s) a"
  shows "(searchOpen s \<and> offers (palette_view s) a) \<or> a = Click S_CloseMobile \<or> a = Click S_OpenMobile
     \<or> a = Click S_OpenSearch \<or> a = Click S_Logout \<or> (\<exists>item\<in>set navigation. a = Follow (nav_href item))"
  using assms content_offers [of a s] by (auto simp: sidebar_view_def split: if_splits)

definition sidebar_inv :: "sidebar \<Rightarrow> bool" where
  "sidebar_inv s \<longleftrightarrow> (\<not> searchOpen s \<longrightarrow> sb_search s = []) \<and> list_all route_ok (sb_routes s)"

lemma closeSearch_inv: "list_all route_ok (sb_routes s) \<Longrightarrow> sidebar_inv (closeSearch s)"
  by (simp add: sidebar_inv_def closeSearch_def)

lemma handleSelect_inv:
  "item \<in> set (filtered_nav q) \<Longrightarrow> sidebar_inv s \<Longrightarrow> sidebar_inv (handleSelect (nav_href item) s)"
  unfolding handleSelect_def
  by (rule closeSearch_inv) (auto simp: sidebar_inv_def route_ok_def dest: filtered_nav_navigation)

lemma logout_inv:
  "sidebar_inv s \<Longrightarrow> sidebar_inv (logout_finish s)" "sidebar_inv s \<Longrightarrow> sidebar_inv (handleLogout W s)"
  "sidebar_inv (s\<lparr>sb_waiting := n\<rparr>) = sidebar_inv s"
  by (auto simp: sidebar_inv_def logout_finish_def handleLogout_def logout_def route_ok_def split: sum.split)

lemma key_inv:
  "sidebar_inv s \<Longrightarrow> sidebar_inv (onKeyDown c k s)" "sidebar_inv s \<Longrightarrow> sidebar_inv (onInputKeyDown k s)"
  using handleSelect_inv [of _ "sb_search s" s]
  by (auto simp: onKeyDown_def onInputKeyDown_def sidebar_inv_def closeSearch_def Let_def split: list.split)

interpretation sidebar_m: guarded_machine sidebar_enabled "sidebar_step W" sidebar_inv for W
proof
  fix s e
  assume i: "sidebar_inv s" and en: "sidebar_enabled s e"
  show "sidebar_inv (sidebar_step W s e)"
  proof (cases e)
    case (SUser a)
    then have "offers (sidebar_view s) a" using en by (simp add: sidebar_enabled_def)
    then consider "a = Click S_CloseSearch" | v where "a = Enter S_Search v" "searchOpen s"
      | item where "item \<in> set (filtered_nav (sb_search s))" "a = Click (S_Select (nav_href item))"
      | "a = Click S_CloseMobile" | "a = Click S_OpenMobile" | "a = Click S_OpenSearch" | "a = Click S_Logout"
      | item where "item \<in> set navigation" "a = Follow (nav_href item)"
      using sidebar_offers [of s a] palette_offers [of s a] by blast
    then show ?thesis
    proof cases
      case 1
      then show ?thesis using SUser i
        by (simp add: sidebar_step_def sidebar_handle_def sidebar_inv_def closeSearch_def)
    next
      case 3
      then show ?thesis using SUser i handleSelect_inv by (simp add: sidebar_step_def sidebar_handle_def)
    next
      case 7
      then show ?thesis using SUser i logout_inv by (simp add: sidebar_step_def sidebar_handle_def)
    qed (use SUser i in \<open>auto simp: sidebar_step_def sidebar_handle_def sidebar_inv_def route_ok_def\<close>)
  next
    case (SKey b c k)
    then show ?thesis using i key_inv by (simp add: sidebar_step_def)
  next
    case SLoggedOut
    then show ?thesis using i logout_inv by (simp add: sidebar_step_def)
  next
    case (SPath p)
    then show ?thesis using i by (simp add: sidebar_step_def sidebar_inv_def)
  qed
qed

interpretation sidebar_log: logged_machine sidebar_enabled "sidebar_step W" sidebar_inv sb_routes route_ok for W
  by unfold_locales (simp add: sidebar_inv_def)

text \<open>The first two characters of a path tell the pages apart.\<close>

lemma nav_active_prefix:
  assumes "item \<in> set navigation" and "nav_active p item"
  shows "take 2 p = take 2 (nav_href item)"
proof -
  have "2 \<le> length (nav_href item) \<or> nav_href item = ''/''" using assms(1) by (auto simp: navigation_def)
  then show ?thesis using assms(2) by (auto simp: nav_active_def starts_with_prefix)
qed

lemma nav_active_unique:
  assumes "item \<in> set navigation" and "item' \<in> set navigation" and "nav_active p item" and "nav_active p item'"
  shows "item = item'"
proof -
  have "distinct (map (\<lambda>i. take 2 (nav_href i)) navigation)" by code_simp
  then have "inj_on (\<lambda>i. take 2 (nav_href i)) (set navigation)" by (simp add: distinct_map)
  then show ?thesis using nav_active_prefix assms by (metis inj_onD)
qed

text \<open>C37 (palette_session). In every session of the shell the router is only ever asked for one of the six pages, or to replace the current page by the login page; the palette is empty when it is closed; Enter in the palette goes to the first page that matches the text and closes it, and does nothing when none matches; and at most one link is highlighted.\<close>

theorem palette_session:
  assumes "run sidebar_enabled (sidebar_step W) (sidebar_init path A B) s"
  shows "list_all (\<lambda>r. case r of Push p \<Rightarrow> p \<in> nav_href ` set navigation | Replace p \<Rightarrow> p = ''/login'') (sb_routes s)
    \<and> (\<not> searchOpen s \<longrightarrow> sb_search s = [])
    \<and> (let s' = sidebar_step W s (SKey True False ''Enter'') in
         if list_ex (nav_matches (sb_search s)) navigation
         then \<not> searchOpen s' \<and> (\<exists>item. find (nav_matches (sb_search s)) navigation = Some item
                \<and> sb_routes s' = Push (nav_href item) # sb_routes s)
         else s' = s)
    \<and> length (filter (nav_active (sb_pathname s)) navigation) \<le> 1"
proof -
  have "sidebar_inv (sidebar_init path A B)" by (simp add: sidebar_inv_def sidebar_init_def)
  then have i: "sidebar_inv s" "list_all route_ok (sb_routes s)"
    using sidebar_m.run_inv [OF assms] sidebar_log.run_log [OF assms] by blast+
  let ?fs = "filter (nav_matches (sb_search s)) navigation" and ?s' = "sidebar_step W s (SKey True False ''Enter'')"
  have find: "find P xs = (case filter P xs of [] \<Rightarrow> None | x # _ \<Rightarrow> Some x)" for P :: "nav_item \<Rightarrow> bool" and xs
    by (induction xs) simp_all
  have enter: "?s' = (case ?fs of [] \<Rightarrow> s | item # _ \<Rightarrow> handleSelect (nav_href item) s)"
    by (simp add: sidebar_step_def onKeyDown_def onInputKeyDown_def filtered_nav_def split: list.split)
  have "list_ex (nav_matches (sb_search s)) navigation = (?fs \<noteq> [])"
    by (simp add: filter_empty_conv ball_if_list_ex)
  moreover have "\<not> searchOpen ?s' \<and> (\<exists>item. find (nav_matches (sb_search s)) navigation = Some item
      \<and> sb_routes ?s' = Push (nav_href item) # sb_routes s)" if "?fs \<noteq> []"
    unfolding enter find using that by (cases ?fs) (simp_all add: handleSelect_def closeSearch_def)
  moreover have "?s' = s" if "?fs = []" unfolding enter that by simp
  moreover have "length (filter (nav_active (sb_pathname s)) navigation) \<le> 1"
  proof -
    have d: "distinct navigation" by (simp add: navigation_def)
    have "filter (nav_active (sb_pathname s)) navigation = [] \<or>
        (\<exists>x. set (filter (nav_active (sb_pathname s)) navigation) = {x})"
      using nav_active_unique [of _ _ "sb_pathname s"] by (fastforce simp: filter_empty_conv)
    then show ?thesis
      using distinct_card [OF distinct_filter [OF d], of "nav_active (sb_pathname s)"] by auto
  qed
  moreover have "route_ok = (\<lambda>r. case r of Push p \<Rightarrow> p \<in> nav_href ` set navigation | Replace p \<Rightarrow> p = ''/login'')"
    by (simp add: route_ok_def fun_eq_iff)
  ultimately show ?thesis using i by (simp add: sidebar_inv_def Let_def)
qed

definition audit_keys :: "sidebar_event list" where
  "audit_keys = [SKey False True ''k'', SUser (Enter S_Search ''LOG'')]"

theorem palette_session_witness:
  "\<exists>s. exec_events sidebar_enabled (sidebar_step quiet_env) (sidebar_init ''/'' \<lparr>token = JNull, user = JNull\<rparr> new_browser) audit_keys = Some s
     \<and> sb_routes (sidebar_step quiet_env s (SKey True False ''Enter'')) = [Push ''/audit'']"
proof -
  let ?s = "(sidebar_init ''/'' \<lparr>token = JNull, user = JNull\<rparr> new_browser)\<lparr>searchOpen := True, sb_search := ''LOG''\<rparr>"
  have r: "exec_events sidebar_enabled (sidebar_step quiet_env) (sidebar_init ''/'' \<lparr>token = JNull, user = JNull\<rparr> new_browser) audit_keys = Some ?s"
    by code_simp
  have m: "list_ex (nav_matches ''LOG'') navigation"
    "find (nav_matches ''LOG'') navigation = Some \<lparr>nav_name = ''Audit Log'', nav_href = ''/audit'',
        nav_keywords = [''audit'', ''log'', ''history'', ''event'']\<rparr>"
    by code_simp+
  have d: "sb_routes (sidebar_step quiet_env ?s (SKey True False ''Enter'')) = [Push ''/audit'']"
    using palette_session [OF exec_events_run [OF r]] m by (simp add: sidebar_init_def Let_def)
  show ?thesis by (rule exI [of _ ?s], rule conjI [OF r d])
qed

section \<open>Signing out\<close>

definition signed_out :: "web_env \<Rightarrow> sidebar \<Rightarrow> bool" where
  "signed_out W s \<longleftrightarrow> sb_auth s = \<lparr>token = JNull, user = JNull\<rparr>
     \<and> useAuth_init W (sb_browser s) = Inr (sb_auth s) \<and> Replace ''/login'' \<in> set (sb_routes s)"

lemma logout_finish_signed_out: "signed_out W (logout_finish s)"
  using ended_session by (simp add: signed_out_def logout_finish_def logout_def)

text \<open>Once asked for, signing out is under way or done; nothing brings the session back.\<close>

definition leaving :: "web_env \<Rightarrow> sidebar \<Rightarrow> bool" where
  "leaving W s \<longleftrightarrow> sb_waiting s \<noteq> 0 \<or> signed_out W s"

lemma leaving_frame [simp]:
  "leaving W (s\<lparr>searchOpen := b\<rparr>) = leaving W s" "leaving W (s\<lparr>sb_search := q\<rparr>) = leaving W s"
  "leaving W (s\<lparr>mobileOpen := b\<rparr>) = leaving W s" "leaving W (s\<lparr>sb_pathname := q\<rparr>) = leaving W s"
  by (simp_all add: leaving_def signed_out_def)

lemma leaving_push [simp]: "leaving W s \<Longrightarrow> leaving W (s\<lparr>sb_routes := r # sb_routes s\<rparr>)"
  by (auto simp: leaving_def signed_out_def)

lemma leaving_select [simp]: "leaving W s \<Longrightarrow> leaving W (closeSearch s)" "leaving W s \<Longrightarrow> leaving W (handleSelect p s)"
  by (simp_all add: closeSearch_def handleSelect_def)

lemma leaving_logout: "leaving W s \<Longrightarrow> leaving W (handleLogout W s)"
proof (cases "truthy (token (sb_auth s))")
  case True
  assume "leaving W s"
  then show ?thesis using True by (auto simp: handleLogout_def leaving_def split: sum.split)
next
  case False
  then show ?thesis by (simp add: handleLogout_def leaving_def logout_finish_signed_out)
qed

lemma leaving_keys:
  "leaving W s \<Longrightarrow> leaving W (onKeyDown c k s)" "leaving W s \<Longrightarrow> leaving W (onInputKeyDown k s)"
  by (auto simp: onKeyDown_def onInputKeyDown_def Let_def split: list.split)

interpretation leaving_m: guarded_machine sidebar_enabled "sidebar_step W" "leaving W" for W
proof
  fix s e
  assume i: "leaving W s"
  show "leaving W (sidebar_step W s e)"
  proof (cases e)
    case (SUser a)
    then show ?thesis using i leaving_logout
      by (simp add: sidebar_step_def sidebar_handle_def split: act.split sidebar_h.split)
  next
    case SLoggedOut
    then show ?thesis by (simp add: sidebar_step_def leaving_def logout_finish_signed_out)
  qed (use i leaving_keys in \<open>simp_all add: sidebar_step_def\<close>)
qed

text \<open>C18 (sign_out_completes). After a click on the sign-out button with a token, the logout request carries the token, and whatever happens then, signing out is never lost: while the request is under way its end can still come and completes it, and otherwise it is complete; the token and the user are gone from the store and from local storage, so a reload has no session either, and the router was asked for the login page. That the request fails makes no difference.\<close>

theorem sign_out_completes:
  assumes "token (sb_auth s) = JStr t" and "t \<noteq> []"
    and "run sidebar_enabled (sidebar_step W) (sidebar_step W s (SUser (Click S_Logout))) s'"
  shows "rq_headers (hd (sb_requests (sidebar_step W s (SUser (Click S_Logout))))) = [(''Authorization'', ''Bearer '' @ t)]
    \<and> (if sb_waiting s' = 0 then signed_out W s'
       else sidebar_enabled s' SLoggedOut \<and> signed_out W (sidebar_step W s' SLoggedOut))"
proof -
  have "leaving W (sidebar_step W s (SUser (Click S_Logout)))"
    using assms by (simp add: sidebar_step_def sidebar_handle_def handleLogout_def leaving_def)
  then have "leaving W s'" using leaving_m.run_inv [OF assms(3)] by blast
  then have "if sb_waiting s' = 0 then signed_out W s'
      else sidebar_enabled s' SLoggedOut \<and> signed_out W (sidebar_step W s' SLoggedOut)"
    by (auto simp: leaving_def sidebar_step_def sidebar_enabled_def logout_finish_signed_out)
  moreover have "rq_headers (hd (sb_requests (sidebar_step W s (SUser (Click S_Logout)))))
      = [(''Authorization'', ''Bearer '' @ t)]"
    using assms(1,2) by (simp add: sidebar_step_def sidebar_handle_def handleLogout_def authApi_logout_def)
  ultimately show ?thesis by blast
qed

theorem sign_out_completes_witness:
  "signed_out quiet_env (sidebar_step quiet_env (sidebar_step quiet_env
      (sidebar_init ''/flags'' \<lparr>token = JStr ''tok'', user = demo_user\<rparr> new_browser) (SUser (Click S_Logout))) SLoggedOut)"
proof -
  let ?s = "sidebar_init ''/flags'' \<lparr>token = JStr ''tok'', user = demo_user\<rparr> new_browser"
  have t: "token (sb_auth ?s) = JStr ''tok''" "''tok'' \<noteq> []" by (simp_all add: sidebar_init_def)
  have "sb_waiting (sidebar_step quiet_env ?s (SUser (Click S_Logout))) \<noteq> 0"
    by (simp add: sidebar_step_def sidebar_handle_def handleLogout_def sidebar_init_def)
  then show ?thesis using sign_out_completes [OF t run_refl] by simp
qed

end
