(* ===== verification/WorkloadsPage.thy ===== *)
theory WorkloadsPage
  imports ApiClient Ui Types
begin

text \<open>
  The workloads page, \<open>web/src/app/workloads/page.tsx\<close>, and its error boundary,
  \<open>web/src/app/workloads/error.tsx\<close>: choosing a cluster and a namespace, scanning them,
  and the list of what was found, with the flag variables of each container.
\<close>

section \<open>State\<close>

text \<open>The outcome of the query for a cluster and a namespace.\<close>

datatype scan = Scanning | ScanFailed string | Scanned "DiscoveredWorkload list query"

text \<open>
  The queries are keyed by cluster, and by cluster and namespace; their results are kept
  with the newest first. \<open>wk_started\<close> collects the scans asked for. \<open>wk_error\<close> is the
  message of an error thrown while rendering, which the boundary displays.
\<close>

record workloads_page =
  selectedCluster :: string
  selectedNamespace :: string
  expandedWorkload :: "string option"
  wk_search :: string
  wk_clusters :: "Cluster list query"
  wk_namespaces :: "(string \<times> string list query) list"
  wk_scans :: "((string \<times> string) \<times> scan) list"
  wk_started :: "(string \<times> string) list"
  wk_error :: "string option"

definition workloads_init :: workloads_page where
  "workloads_init =
     \<lparr>selectedCluster = [], selectedNamespace = [], expandedWorkload = None, wk_search = [],
      wk_clusters = QUndef, wk_namespaces = [], wk_scans = [], wk_started = [], wk_error = None\<rparr>"

definition fetch_namespaces :: "web_env \<Rightarrow> string \<Rightarrow> jsval res" where
  "fetch_namespaces W cid =
     bind_res (fetch W \<lparr>rq_url = ''/api/v1/clusters/'' @ cid @ ''/namespaces'', rq_method = ''GET'',
                        rq_headers = [], rq_body = None\<rparr>) (\<lambda>res.
       if \<not> resp_ok (rs_status res) then Inr (JArr []) else json_parse (rs_body res))"

definition run_scan :: "web_env \<Rightarrow> string \<times> string \<Rightarrow> jsval api" where
  "run_scan W key = workloadsApi_list W (fst key) (if snd key = [] then None else Some (snd key))"

definition current_scan :: "workloads_page \<Rightarrow> scan" where
  "current_scan s =
     (case map_of (wk_scans s) (selectedCluster s, selectedNamespace s) of None \<Rightarrow> Scanning | Some r \<Rightarrow> r)"

definition namespace_list :: "workloads_page \<Rightarrow> string list" where
  "namespace_list s =
     (case map_of (wk_namespaces s) (selectedCluster s) of
        None \<Rightarrow> []
      | Some q \<Rightarrow> or_nil (query_list q))"

text \<open>What the render and its effect read a property of; \<open>null\<close> makes them throw.\<close>

definition scan_data :: "scan \<Rightarrow> DiscoveredWorkload list option" where
  "scan_data r = (case r of Scanned q \<Rightarrow> query_list q | _ \<Rightarrow> Some [])"

definition workload_passes :: "string \<Rightarrow> DiscoveredWorkload \<Rightarrow> bool" where
  "workload_passes search w \<longleftrightarrow>
     search = [] \<or> str_includes (to_lower (dw_name w)) (to_lower search)
     \<or> str_includes (to_lower (dw_namespace w)) (to_lower search)"

definition filtered_workloads :: "workloads_page \<Rightarrow> DiscoveredWorkload list" where
  "filtered_workloads s = filter (workload_passes (wk_search s)) (or_nil (scan_data (current_scan s)))"

section \<open>The view\<close>

datatype workloads_h = W_Cluster | W_Namespace | W_Search | W_Toggle string | W_Reset

definition workload_key :: "DiscoveredWorkload \<Rightarrow> string" where
  "workload_key w = dw_namespace w @ ''/'' @ dw_name w"

definition env_shown :: "EnvVarInfo \<Rightarrow> string" where
  "env_shown e = (if isMasked e then ''(from secret)'' else opt_str (env_info_value e) ''(empty)'')"

definition env_row :: "EnvVarInfo \<Rightarrow> workloads_h ui" where
  "env_row e = El [Txt (env_info_name e), Txt ''FLAG'', Txt (env_shown e)]"

definition ref_shown :: "KeyRef \<Rightarrow> string" where
  "ref_shown r = ref_name r @ (if opt_str (ref_key r) [] = [] then [] else ''/'' @ opt_str (ref_key r) [])"

definition container_view :: "ContainerInfo \<Rightarrow> workloads_h ui" where
  "container_view c =
     El ([Txt (ci_name c), Txt (ci_image c)]
         @ show_if (or_nil (envVars c) \<noteq> [])
             [El (Txt ''Feature Flag Variables'' # map env_row (or_nil (envVars c)))]
         @ show_if (or_nil (configMapRefs c) \<noteq> [])
             [El (Txt ''Vexil ConfigMaps'' # map (\<lambda>r. Txt (ref_shown r)) (or_nil (configMapRefs c)))])"

definition workload_card :: "bool \<Rightarrow> DiscoveredWorkload \<Rightarrow> workloads_h ui" where
  "workload_card expanded w =
     (let containers = or_nil (dw_containers w); flags = or_nil (dw_matchingFlags w) in
      El (Btn False (W_Toggle (workload_key w))
            ([Txt (dw_name w), Txt (dw_namespace w), Txt (workload_kind_str (dw_kind w))]
             @ show_if (flags \<noteq> []) [Txt (show_nat (length flags) @ '' flags'')]
             @ [Txt (show_int (case dw_replicas w of None \<Rightarrow> 0 | Some n \<Rightarrow> n) @ '' replicas''),
                Txt (show_nat (length containers) @ '' containers'')])
          # show_if expanded
              [El (show_if (flags \<noteq> []) [El (Txt ''Matching Feature Flags'' # map Txt flags)]
                   @ map container_view containers)]))"

definition workloads_filters :: "workloads_page \<Rightarrow> workloads_h ui" where
  "workloads_filters s =
     El ([Sel (selectedCluster s)
            (([], ''Select a cluster...'')
             # map (\<lambda>c. (cl_id c, cl_displayName c @ '' ('' @ cl_id c @ '')'')) (or_nil (query_list (wk_clusters s))))
            W_Cluster]
         @ show_if (selectedCluster s \<noteq> [] \<and> namespace_list s \<noteq> [])
             [Sel (selectedNamespace s) (([], ''All namespaces'') # map (\<lambda>n. (n, n)) (namespace_list s)) W_Namespace]
         @ show_if (selectedCluster s \<noteq> []) [Inp False (wk_search s) W_Search])"

definition workloads_body :: "workloads_page \<Rightarrow> workloads_h ui" where
  "workloads_body s =
     (if selectedCluster s = []
      then El [Txt ''Select a cluster'', Txt ''Choose a cluster above to discover its workloads.'']
      else case current_scan s of
        Scanning \<Rightarrow> El [Txt ''Scanning cluster...'']
      | ScanFailed m \<Rightarrow>
          El [Txt ''Failed to scan cluster'', Txt m,
              Txt ''Try selecting a specific namespace to reduce the scan scope.'']
      | Scanned q \<Rightarrow>
          if filtered_workloads s = []
          then El [Txt (if wk_search s \<noteq> [] then ''No workloads match your search''
                        else ''No workloads found. Only namespaces with FeatureFlags are shown.'')]
          else El (Txt (show_nat (length (filtered_workloads s)) @ '' workloads found'')
                   # map (\<lambda>w. workload_card (expandedWorkload s = Some (workload_key w)) w) (filtered_workloads s)))"

definition workloads_error_view :: "string \<Rightarrow> workloads_h ui" where
  "workloads_error_view m = El [Txt ''Something went wrong'', Txt m, Btn False W_Reset [Txt ''Try again'']]"

definition workloads_view :: "workloads_page \<Rightarrow> workloads_h ui" where
  "workloads_view s =
     (case wk_error s of
        Some m \<Rightarrow> workloads_error_view m
      | None \<Rightarrow>
          El [Txt ''Workloads'', Txt ''Workloads in namespaces with feature flags'',
              workloads_filters s, workloads_body s])"

section \<open>Handlers and effects\<close>

text \<open>\<open>reset\<close> mounts the page again: its local state is lost, the query cache is kept.\<close>

definition workloads_handle :: "workloads_h act \<Rightarrow> workloads_page \<Rightarrow> workloads_page" where
  "workloads_handle a s =
     (case a of
        Choose W_Cluster c \<Rightarrow> s\<lparr>selectedCluster := c, selectedNamespace := [], expandedWorkload := None\<rparr>
      | Choose W_Namespace n \<Rightarrow> s\<lparr>selectedNamespace := n, expandedWorkload := None\<rparr>
      | Enter W_Search v \<Rightarrow> s\<lparr>wk_search := v\<rparr>
      | Click (W_Toggle k) \<Rightarrow> s\<lparr>expandedWorkload := (if expandedWorkload s = Some k then None else Some k)\<rparr>
      | Click W_Reset \<Rightarrow>
          s\<lparr>selectedCluster := [], selectedNamespace := [], expandedWorkload := None, wk_search := [],
            wk_error := None\<rparr>
      | _ \<Rightarrow> s)"

definition select_only_cluster :: "workloads_page \<Rightarrow> workloads_page" where
  "select_only_cluster s =
     (case query_list (wk_clusters s) of
        Some [c] \<Rightarrow> if selectedCluster s = [] then s\<lparr>selectedCluster := cl_id c\<rparr> else s
      | _ \<Rightarrow> s)"

text \<open>The query of the current key is started when there is a cluster (\<open>enabled\<close>).\<close>

definition start_scan :: "workloads_page \<Rightarrow> workloads_page" where
  "start_scan s =
     (let key = (selectedCluster s, selectedNamespace s) in
      if selectedCluster s = [] \<or> map_of (wk_scans s) key \<noteq> None then s
      else s\<lparr>wk_scans := (key, Scanning) # wk_scans s, wk_started := key # wk_started s\<rparr>)"

text \<open>
  The render after a change: it may throw, and else the effect runs, which may select the
  only cluster and make the page render again.
\<close>

definition workloads_throw :: "workloads_page \<Rightarrow> bool" where
  "workloads_throw s \<longleftrightarrow> query_list (wk_clusters s) = None \<or> scan_data (current_scan s) = None"

definition workloads_render :: "web_env \<Rightarrow> workloads_page \<Rightarrow> workloads_page" where
  "workloads_render W s =
     (if wk_error s \<noteq> None then s
      else if workloads_throw s \<or> workloads_throw (select_only_cluster s)
      then s\<lparr>wk_error := Some (err_message W TypeErr)\<rparr>
      else start_scan (select_only_cluster s))"

datatype workloads_event =
    WUser "workloads_h act"
  | WClusters "Cluster list query"
  | WNamespaces string "string list query"
  | WScan "string \<times> string" "js_error + DiscoveredWorkload list query"

definition workloads_enabled :: "workloads_page \<Rightarrow> workloads_event \<Rightarrow> bool" where
  "workloads_enabled s e =
     (case e of
        WUser a \<Rightarrow> offers (workloads_view s) a
      | WClusters q \<Rightarrow> True
      | WNamespaces c q \<Rightarrow> c \<in> fst ` set (wk_started s)
      | WScan key r \<Rightarrow> key \<in> set (wk_started s))"

definition workloads_update :: "web_env \<Rightarrow> workloads_page \<Rightarrow> workloads_event \<Rightarrow> workloads_page" where
  "workloads_update W s e =
     (case e of
        WUser a \<Rightarrow> workloads_handle a s
      | WClusters q \<Rightarrow> s\<lparr>wk_clusters := q\<rparr>
      | WNamespaces c q \<Rightarrow> s\<lparr>wk_namespaces := (c, q) # wk_namespaces s\<rparr>
      | WScan key r \<Rightarrow>
          s\<lparr>wk_scans := (key, case r of Inl e \<Rightarrow> ScanFailed (err_message W e) | Inr q \<Rightarrow> Scanned q) # wk_scans s\<rparr>)"

definition workloads_step :: "web_env \<Rightarrow> workloads_page \<Rightarrow> workloads_event \<Rightarrow> workloads_page" where
  "workloads_step W s e = workloads_render W (workloads_update W s e)"

section \<open>Secrets\<close>

text \<open>
  The value of a masked variable, removed: from a variable, a container, a workload, the
  result of a scan, the page and an event.
\<close>

definition hide_env :: "EnvVarInfo \<Rightarrow> EnvVarInfo" where
  "hide_env e = (if isMasked e then e\<lparr>env_info_value := None\<rparr> else e)"

definition hide_container :: "ContainerInfo \<Rightarrow> ContainerInfo" where
  "hide_container c = c\<lparr>envVars := map_option (map hide_env) (envVars c)\<rparr>"

definition hide_workload :: "DiscoveredWorkload \<Rightarrow> DiscoveredWorkload" where
  "hide_workload w = w\<lparr>dw_containers := map_option (map hide_container) (dw_containers w)\<rparr>"

fun hide_scan :: "scan \<Rightarrow> scan" where
  "hide_scan (Scanned q) = Scanned (map_query (map hide_workload) q)"
| "hide_scan r = r"

definition hide_page :: "workloads_page \<Rightarrow> workloads_page" where
  "hide_page s = s\<lparr>wk_scans := map (map_prod id hide_scan) (wk_scans s)\<rparr>"

fun hide_event :: "workloads_event \<Rightarrow> workloads_event" where
  "hide_event (WScan key (Inr q)) = WScan key (Inr (map_query (map hide_workload) q))"
| "hide_event e = e"

lemma or_nil_map [simp]: "or_nil (map_option (map f) q) = map f (or_nil q)"
  by (cases q) (simp_all add: or_nil_def)

lemma query_list_map [simp]: "query_list (map_query (map f) q) = map_option (map f) (query_list q)"
  by (cases q) simp_all

lemma hide_env_shown: "env_row (hide_env e) = env_row e"
  by (simp add: env_row_def env_shown_def hide_env_def)

lemma hide_container_view: "container_view (hide_container c) = container_view c"
  by (simp add: container_view_def hide_container_def hide_env_shown comp_def)

lemma hide_workload_fields [simp]:
  "dw_name (hide_workload w) = dw_name w" "dw_namespace (hide_workload w) = dw_namespace w"
  "workload_key (hide_workload w) = workload_key w"
  by (simp_all add: hide_workload_def workload_key_def)

lemma hide_workload_passes [simp]: "workload_passes q (hide_workload w) = workload_passes q w"
  by (simp add: workload_passes_def)

lemma hide_card: "workload_card b (hide_workload w) = workload_card b w"
proof -
  have "map container_view (map hide_container cs) = map container_view cs" for cs
    by (simp add: hide_container_view)
  then show ?thesis by (simp add: workload_card_def hide_workload_def workload_key_def Let_def del: map_map)
qed

lemma hide_page_fields [simp]:
  "selectedCluster (hide_page s) = selectedCluster s" "selectedNamespace (hide_page s) = selectedNamespace s"
  "expandedWorkload (hide_page s) = expandedWorkload s" "wk_search (hide_page s) = wk_search s"
  "wk_clusters (hide_page s) = wk_clusters s" "wk_namespaces (hide_page s) = wk_namespaces s"
  "wk_started (hide_page s) = wk_started s" "wk_error (hide_page s) = wk_error s"
  by (simp_all add: hide_page_def)

lemma hide_map_of: "map_of (wk_scans (hide_page s)) key = map_option hide_scan (map_of (wk_scans s) key)"
  by (simp add: hide_page_def map_of_map map_prod_def id_def)

lemma hide_current: "current_scan (hide_page s) = hide_scan (current_scan s)"
  by (simp add: current_scan_def hide_map_of split: option.split)

lemma hide_data: "scan_data (hide_scan r) = map_option (map hide_workload) (scan_data r)"
  by (cases r) (simp_all add: scan_data_def)

lemma hide_filtered: "filtered_workloads (hide_page s) = map hide_workload (filtered_workloads s)"
  by (simp add: filtered_workloads_def hide_current hide_data filter_map comp_def)

lemma hide_view: "workloads_view (hide_page s) = workloads_view s"
proof -
  have "workloads_filters (hide_page s) = workloads_filters s"
    by (simp add: workloads_filters_def namespace_list_def)
  moreover have "workloads_body (hide_page s) = workloads_body s"
    by (cases "current_scan s")
      (simp_all add: workloads_body_def hide_current hide_filtered hide_card comp_def)
  ultimately show ?thesis by (simp add: workloads_view_def split: option.split)
qed

lemma hide_enabled: "workloads_enabled (hide_page s) (hide_event e) = workloads_enabled s e"
proof (cases e)
  case (WScan key r)
  then show ?thesis by (cases r) (simp_all add: workloads_enabled_def)
qed (simp_all add: workloads_enabled_def hide_view)

lemma hide_select: "select_only_cluster (hide_page s) = hide_page (select_only_cluster s)"
  by (simp add: select_only_cluster_def split: option.split list.split) (simp add: hide_page_def)

lemma hide_start: "start_scan (hide_page s) = hide_page (start_scan s)"
  by (simp add: start_scan_def hide_map_of Let_def) (simp add: hide_page_def)

lemma hide_throw: "workloads_throw (hide_page s) = workloads_throw s"
  by (simp add: workloads_throw_def hide_current hide_data)

lemma hide_render: "workloads_render W (hide_page s) = hide_page (workloads_render W s)"
  by (simp add: workloads_render_def hide_select hide_throw hide_start) (simp add: hide_page_def)

lemma hide_update: "workloads_update W (hide_page s) (hide_event e) = hide_page (workloads_update W s e)"
proof (cases e)
  case (WScan key r)
  then show ?thesis by (cases r) (simp_all add: workloads_update_def hide_page_def)
next
  case (WUser a)
  then show ?thesis
    by (simp add: workloads_update_def workloads_handle_def split: act.split workloads_h.split)
      (simp add: hide_page_def)
qed (simp_all add: workloads_update_def hide_page_def)

interpretation secret: erasure workloads_enabled "workloads_step W" hide_page hide_event for W
  by unfold_locales (simp_all add: hide_enabled workloads_step_def hide_update hide_render)

text \<open>C7 (secrets_not_displayed). What the page displays, offers and requests does not depend on the values of masked variables: two sessions whose events are the same up to those values are both possible or both impossible, and end with the same view and the same scans asked for.\<close>

theorem secrets_not_displayed:
  assumes "map hide_event es = map hide_event es'"
    and "exec_events workloads_enabled (workloads_step W) workloads_init es = Some s"
  shows "\<exists>s'. exec_events workloads_enabled (workloads_step W) workloads_init es' = Some s'
    \<and> workloads_view s' = workloads_view s \<and> wk_started s' = wk_started s"
proof -
  obtain s' where "exec_events workloads_enabled (workloads_step W) workloads_init es' = Some s'"
    and "hide_page s' = hide_page s"
    using secret.same_outside [OF assms(1) refl assms(2)] by blast
  then show ?thesis by (metis hide_view hide_page_fields(7))
qed

definition demo_secret :: "string \<Rightarrow> DiscoveredWorkload" where
  "demo_secret v =
     \<lparr>dw_cluster = ''eu'', dw_namespace = ''shop'', dw_name = ''cart'', dw_kind = Deployment, dw_replicas = Some 2,
      dw_labels = [],
      dw_containers = Some [\<lparr>ci_name = ''main'', ci_image = ''cart:1'',
         envVars = Some [\<lparr>env_info_name = ''FLAG_KEY'', env_info_value = Some v, env_info_source = None,
                          isMasked = True, isFlag = True, flagName = None\<rparr>],
         configMapRefs = None, secretRefs = None\<rparr>],
      dw_matchingFlags = None\<rparr>"

definition scan_cluster :: Cluster where
  "scan_cluster = \<lparr>cl_id = ''eu'', cl_displayName = ''EU'', cl_apiServer = [], cl_status = Connected,
     cl_kubernetesVersion = None, cl_discoveredWorkloads = 1\<rparr>"

definition demo_scan :: "string \<Rightarrow> workloads_event list" where
  "demo_scan v = [WClusters (QData [scan_cluster]), WScan (''eu'', []) (Inr (QData [demo_secret v])),
     WUser (Click (W_Toggle ''shop/cart''))]"

theorem secrets_not_displayed_witness:
  "\<exists>s s'. exec_events workloads_enabled (workloads_step quiet_env) workloads_init (demo_scan ''hunter2'') = Some s
     \<and> exec_events workloads_enabled (workloads_step quiet_env) workloads_init (demo_scan ''other'') = Some s'
     \<and> expandedWorkload s = Some ''shop/cart'' \<and> workloads_view s' = workloads_view s"
proof -
  let ?s = "workloads_init\<lparr>selectedCluster := ''eu'', expandedWorkload := Some ''shop/cart'',
     wk_clusters := QData [scan_cluster], wk_started := [(''eu'', [])],
     wk_scans := [((''eu'', []), Scanned (QData [demo_secret ''hunter2''])), ((''eu'', []), Scanning)]\<rparr>"
  have r: "exec_events workloads_enabled (workloads_step quiet_env) workloads_init (demo_scan ''hunter2'') = Some ?s"
    by code_simp
  have h: "map hide_event (demo_scan ''hunter2'') = map hide_event (demo_scan ''other'')" by code_simp
  obtain s' where "exec_events workloads_enabled (workloads_step quiet_env) workloads_init (demo_scan ''other'') = Some s'"
    "workloads_view s' = workloads_view ?s"
    using secrets_not_displayed [OF h r] by blast
  moreover have "expandedWorkload ?s = Some ''shop/cart''" by simp
  ultimately show ?thesis using r by blast
qed

section \<open>What is scanned\<close>

definition ns_listed :: "workloads_page \<Rightarrow> string \<Rightarrow> string \<Rightarrow> bool" where
  "ns_listed s c n \<longleftrightarrow> n = [] \<or> (\<exists>ns. (c, QData ns) \<in> set (wk_namespaces s) \<and> n \<in> set ns)"

definition scans_inv :: "workloads_page \<Rightarrow> bool" where
  "scans_inv s \<longleftrightarrow> (\<forall>(c, n)\<in>set (wk_started s). c \<noteq> [] \<and> ns_listed s c n)
     \<and> (if selectedCluster s = [] then selectedNamespace s = []
        else ns_listed s (selectedCluster s) (selectedNamespace s))
     \<and> fst ` set (wk_scans s) = set (wk_started s)"

lemma scans_inv_frame [simp]:
  "scans_inv (s\<lparr>expandedWorkload := x\<rparr>) = scans_inv s" "scans_inv (s\<lparr>wk_search := q\<rparr>) = scans_inv s"
  "scans_inv (s\<lparr>wk_error := m\<rparr>) = scans_inv s" "scans_inv (s\<lparr>wk_clusters := cs\<rparr>) = scans_inv s"
  by (simp_all add: scans_inv_def ns_listed_def)

lemma query_list_mem: "n \<in> set (or_nil (query_list q)) \<Longrightarrow> \<exists>ns. q = QData ns \<and> n \<in> set ns"
  by (cases q) (simp_all add: or_nil_def)

lemma namespace_list_listed: "n \<in> set (namespace_list s) \<Longrightarrow> ns_listed s (selectedCluster s) n"
  using map_of_SomeD [of "wk_namespaces s" "selectedCluster s"]
  by (fastforce simp: namespace_list_def ns_listed_def split: option.splits dest: query_list_mem)

lemma body_offers: "offers (workloads_body s) a \<Longrightarrow> \<exists>k. a = Click (W_Toggle k)"
  by (cases "current_scan s")
    (auto simp: workloads_body_def workload_card_def container_view_def env_row_def Let_def list_ex_map_set
      split: if_splits)

lemma workloads_offers:
  assumes "offers (workloads_view s) a"
  shows "(\<exists>c. a = Choose W_Cluster c) \<or> (\<exists>n. a = Choose W_Namespace n \<and> selectedCluster s \<noteq> [] \<and> (n = [] \<or> n \<in> set (namespace_list s)))
     \<or> (\<exists>v. a = Enter W_Search v) \<or> (\<exists>k. a = Click (W_Toggle k)) \<or> a = Click W_Reset"
proof (cases "wk_error s")
  case None
  then have "offers (workloads_filters s) a \<or> offers (workloads_body s) a"
    using assms by (simp add: workloads_view_def)
  moreover have "(\<exists>c. a = Choose W_Cluster c) \<or> (\<exists>n. a = Choose W_Namespace n \<and> selectedCluster s \<noteq> [] \<and> (n = [] \<or> n \<in> set (namespace_list s)))
     \<or> (\<exists>v. a = Enter W_Search v)" if "offers (workloads_filters s) a"
    using that by (auto simp: workloads_filters_def offers_input simp del: offers.simps(5-7) split: if_splits)
  ultimately show ?thesis using body_offers [of s a] by blast
qed (use assms in \<open>simp add: workloads_view_def workloads_error_view_def\<close>)

lemma start_scan_inv: "scans_inv s \<Longrightarrow> scans_inv (start_scan s)"
  by (auto simp: start_scan_def scans_inv_def ns_listed_def Let_def)

lemma select_only_inv: "scans_inv s \<Longrightarrow> scans_inv (select_only_cluster s)"
  by (auto simp: select_only_cluster_def scans_inv_def ns_listed_def split: option.split list.split)

lemma render_inv: "scans_inv s \<Longrightarrow> scans_inv (workloads_render W s)"
  by (simp add: workloads_render_def start_scan_inv select_only_inv)

text \<open>After a render the selection is being scanned, or an error is displayed.\<close>

lemma render_started:
  assumes "scans_inv s" and "wk_error (workloads_render W s) = None"
  shows "selectedCluster (workloads_render W s) = []
    \<or> (selectedCluster (workloads_render W s), selectedNamespace (workloads_render W s)) \<in> set (wk_started (workloads_render W s))"
proof -
  let ?u = "select_only_cluster s"
  have u: "fst ` set (wk_scans ?u) = set (wk_started ?u)"
    using select_only_inv [OF assms(1)] by (simp add: scans_inv_def)
  have "workloads_render W s = start_scan ?u"
    using assms(2) by (auto simp: workloads_render_def split: if_splits)
  moreover have "selectedCluster (start_scan ?u) = []
      \<or> (selectedCluster (start_scan ?u), selectedNamespace (start_scan ?u)) \<in> set (wk_started (start_scan ?u))"
    using u by (auto simp: start_scan_def Let_def dest!: map_of_SomeD) force
  ultimately show ?thesis by simp
qed

definition workloads_inv :: "workloads_page \<Rightarrow> bool" where
  "workloads_inv s \<longleftrightarrow> scans_inv s
     \<and> (wk_error s = None \<longrightarrow> selectedCluster s = [] \<or> (selectedCluster s, selectedNamespace s) \<in> set (wk_started s))"

lemma update_inv:
  assumes "scans_inv s" and "workloads_enabled s e"
  shows "scans_inv (workloads_update W s e)"
proof (cases e)
  case (WUser a)
  then have "offers (workloads_view s) a" using assms(2) by (simp add: workloads_enabled_def)
  then consider c where "a = Choose W_Cluster c"
    | n where "a = Choose W_Namespace n" "selectedCluster s \<noteq> []" "n = [] \<or> n \<in> set (namespace_list s)"
    | v where "a = Enter W_Search v" | k where "a = Click (W_Toggle k)" | "a = Click W_Reset"
    using workloads_offers by blast
  then show ?thesis
  proof cases
    case 2
    then have "ns_listed s (selectedCluster s) n" using namespace_list_listed by (auto simp: ns_listed_def)
    then show ?thesis using WUser 2 assms(1)
      by (auto simp: workloads_update_def workloads_handle_def scans_inv_def ns_listed_def)
  qed (use WUser assms(1) in \<open>auto simp: workloads_update_def workloads_handle_def scans_inv_def ns_listed_def\<close>)
next
  case (WScan key r)
  then show ?thesis using assms
    by (auto simp: workloads_update_def workloads_enabled_def scans_inv_def ns_listed_def)
next
  case (WNamespaces c q)
  then show ?thesis using assms(1)
    by (auto simp: workloads_update_def scans_inv_def ns_listed_def)
next
  case (WClusters q)
  then show ?thesis using assms(1) by (simp add: workloads_update_def)
qed

interpretation workloads_m: guarded_machine workloads_enabled "workloads_step W" workloads_inv for W
proof
  fix s e
  assume "workloads_inv s" and en: "workloads_enabled s e"
  then have "scans_inv (workloads_update W s e)" using update_inv by (simp add: workloads_inv_def)
  then show "workloads_inv (workloads_step W s e)"
    using render_inv render_started by (simp add: workloads_inv_def workloads_step_def)
qed

text \<open>C30 (workloads_scans). In every session of the page each scan is of a selected cluster, and of all its namespaces or of one that the server listed for that cluster; and unless an error is displayed, the scan of what is selected is under way or there.\<close>

theorem workloads_scans:
  assumes "run workloads_enabled (workloads_step W) workloads_init s"
  shows "list_all (\<lambda>(c, n). c \<noteq> [] \<and> (n = [] \<or> list_ex (\<lambda>(d, q). d = c \<and> list_ex (\<lambda>m. m = n) (or_nil (query_list q)))
        (wk_namespaces s))) (wk_started s)
    \<and> (wk_error s \<noteq> None \<or> selectedCluster s = [] \<or> (selectedCluster s, selectedNamespace s) \<in> set (wk_started s))"
proof -
  have "workloads_inv workloads_init"
    by (simp add: workloads_inv_def scans_inv_def workloads_init_def)
  then have i: "workloads_inv s" using workloads_m.run_inv [OF assms] by blast
  have "list_ex (\<lambda>(d, q). d = c \<and> list_ex (\<lambda>m. m = n) (or_nil (query_list q))) (wk_namespaces s)"
    if "(c, QData ns) \<in> set (wk_namespaces s)" "n \<in> set ns" for c n ns
    using that by (force simp: ball_if_list_ex or_nil_def)
  then show ?thesis using i by (fastforce simp: workloads_inv_def scans_inv_def ns_listed_def list_all_iff)
qed

definition namespace_session :: "workloads_event list" where
  "namespace_session = [WClusters (QData [scan_cluster]), WNamespaces ''eu'' (QData [''shop'']),
     WUser (Choose W_Namespace ''shop'')]"

theorem workloads_scans_witness:
  "\<exists>s. exec_events workloads_enabled (workloads_step quiet_env) workloads_init namespace_session = Some s
     \<and> selectedCluster s = ''eu'' \<and> (''eu'', selectedNamespace s) \<in> set (wk_started s)"
proof -
  let ?s = "workloads_init\<lparr>selectedCluster := ''eu'', selectedNamespace := ''shop'',
     wk_clusters := QData [scan_cluster], wk_namespaces := [(''eu'', QData [''shop''])],
     wk_started := [(''eu'', ''shop''), (''eu'', [])],
     wk_scans := [((''eu'', ''shop''), Scanning), ((''eu'', []), Scanning)]\<rparr>"
  have r: "exec_events workloads_enabled (workloads_step quiet_env) workloads_init namespace_session = Some ?s"
    by code_simp
  have d: "selectedCluster ?s = ''eu'' \<and> (''eu'', selectedNamespace ?s) \<in> set (wk_started ?s)"
    using workloads_scans [OF exec_events_run [OF r]] by (simp add: workloads_init_def)
  show ?thesis by (rule exI [of _ ?s], rule conjI [OF r d])
qed

end
