(* ===== verification/AuditPage.thy ===== *)
theory AuditPage
  imports ApiClient Ui Types
begin

text \<open>
  The audit log, \<open>web/src/app/audit/page.tsx\<close>: the events the server recorded, searched by
  resource and filtered by action. The format of dates is an argument of the view.
\<close>

record audit_page =
  au_search :: string
  au_filterAction :: string
  au_events :: "AuditEvent list query"
  au_loading :: bool

definition audit_init :: audit_page where
  "audit_init = \<lparr>au_search = [], au_filterAction = [], au_events = QUndef, au_loading = True\<rparr>"

section \<open>Filtering\<close>

definition event_passes :: "string \<Rightarrow> string \<Rightarrow> AuditEvent \<Rightarrow> bool" where
  "event_passes search filterAction e =
     (if search \<noteq> [] \<and> \<not> str_includes (to_lower (ae_resourceId e)) (to_lower search)
         \<and> \<not> str_includes (to_lower (ae_resource e)) (to_lower search) then False
      else if filterAction \<noteq> [] \<and> ae_action e \<noteq> filterAction then False
      else True)"

definition filteredEvents :: "audit_page \<Rightarrow> AuditEvent list" where
  "filteredEvents s =
     (case query_list (au_events s) of
        None \<Rightarrow> []
      | Some events \<Rightarrow> filter (event_passes (au_search s) (au_filterAction s)) events)"

section \<open>The view\<close>

datatype audit_h = A_Search | A_Action

definition action_options :: "(string \<times> string) list" where
  "action_options =
     [([], ''All actions''), (''create'', ''Create''), (''update'', ''Update''), (''delete'', ''Delete''),
      (''toggle'', ''Toggle'')]"

definition audit_row :: "(string \<Rightarrow> string) \<Rightarrow> AuditEvent \<Rightarrow> audit_h ui" where
  "audit_row formatDate e =
     El (map Txt [formatDate (ae_timestamp e), ae_action e, ae_resource e, ae_resourceId e,
                  opt_str (ae_cluster e) ''-''])"

definition audit_table :: "(string \<Rightarrow> string) \<Rightarrow> audit_page \<Rightarrow> audit_h ui" where
  "audit_table formatDate s =
     (if au_loading s then El []
      else if filteredEvents s = []
      then El [Txt ''No audit events'', Txt ''Actions will appear here as you manage your flags.'']
      else El (map Txt [''Timestamp'', ''Action'', ''Resource'', ''Resource ID'', ''Cluster'']
               @ map (audit_row formatDate) (filteredEvents s)))"

definition audit_view :: "(string \<Rightarrow> string) \<Rightarrow> audit_page \<Rightarrow> audit_h ui" where
  "audit_view formatDate s =
     El [Txt ''Audit Log'', Txt ''Track all changes across your platform'',
         El [Inp False (au_search s) A_Search, Sel (au_filterAction s) action_options A_Action],
         audit_table formatDate s]"

section \<open>The machine\<close>

datatype audit_event = AUser "audit_h act" | ALoaded "AuditEvent list query"

definition audit_enabled :: "(string \<Rightarrow> string) \<Rightarrow> audit_page \<Rightarrow> audit_event \<Rightarrow> bool" where
  "audit_enabled formatDate s e = (case e of AUser a \<Rightarrow> offers (audit_view formatDate s) a | ALoaded q \<Rightarrow> True)"

definition audit_step :: "audit_page \<Rightarrow> audit_event \<Rightarrow> audit_page" where
  "audit_step s e =
     (case e of
        AUser (Enter A_Search v) \<Rightarrow> s\<lparr>au_search := v\<rparr>
      | AUser (Choose A_Action v) \<Rightarrow> s\<lparr>au_filterAction := v\<rparr>
      | ALoaded q \<Rightarrow> s\<lparr>au_events := q, au_loading := False\<rparr>
      | _ \<Rightarrow> s)"

definition audit_inv :: "audit_page \<Rightarrow> bool" where
  "audit_inv s \<longleftrightarrow> au_filterAction s \<in> fst ` set action_options"

lemma audit_offers:
  "offers (audit_view D s) a \<Longrightarrow>
     (\<exists>v. a = Enter A_Search v) \<or> (\<exists>v\<in>fst ` set action_options. a = Choose A_Action v)"
  by (auto simp: audit_view_def audit_table_def audit_row_def offers_input list_ex_map_set
      simp del: offers.simps(5-7) split: if_splits)

interpretation audit_m: guarded_machine "audit_enabled D" audit_step audit_inv for D
proof
  fix s e
  assume i: "audit_inv s" and en: "audit_enabled D s e"
  show "audit_inv (audit_step s e)"
  proof (cases e)
    case (AUser a)
    then consider v where "a = Enter A_Search v" | v where "v \<in> fst ` set action_options" "a = Choose A_Action v"
      using en audit_offers [of D s a] by (auto simp: audit_enabled_def)
    then show ?thesis using i AUser by cases (simp_all add: audit_inv_def audit_step_def)
  qed (use i in \<open>simp add: audit_inv_def audit_step_def\<close>)
qed

text \<open>In every session of the audit page the rows are the loaded events, in their order, whose resource or identifier mentions the search text without regard to case and whose action is the chosen one, where an empty search and \<open>All actions\<close> admit all; since only four actions can be chosen, the recorded registrations and removals of clusters are displayed under \<open>All actions\<close> only.\<close>

theorem audit_filtered:
  assumes "run (audit_enabled D) audit_step audit_init s"
  shows "filteredEvents s = filter (\<lambda>e. (au_search s = [] \<or> mentions (ae_resourceId e) (au_search s)
              \<or> mentions (ae_resource e) (au_search s)) \<and> au_filterAction s \<in> {[], ae_action e})
            (or_nil (query_list (au_events s)))
    \<and> (\<not> au_loading s \<and> filteredEvents s \<noteq> [] \<longrightarrow>
        audit_table D s = El (map Txt [''Timestamp'', ''Action'', ''Resource'', ''Resource ID'', ''Cluster'']
                              @ map (audit_row D) (filteredEvents s)))
    \<and> (list_ex (\<lambda>e. ae_action e \<in> {''register'', ''remove''}) (filteredEvents s) \<longrightarrow> au_filterAction s = [])"
proof -
  have f: "event_passes (au_search s) (au_filterAction s) = (\<lambda>e. (au_search s = [] \<or> mentions (ae_resourceId e) (au_search s)
      \<or> mentions (ae_resource e) (au_search s)) \<and> au_filterAction s \<in> {[], ae_action e})"
    by (auto simp: fun_eq_iff event_passes_def mentions_includes)
  have spec: "filteredEvents s = filter (event_passes (au_search s) (au_filterAction s)) (or_nil (query_list (au_events s)))"
    by (simp add: filteredEvents_def or_nil_def split: option.split)
  have "audit_inv audit_init" by (simp add: audit_inv_def audit_init_def action_options_def)
  then have "audit_inv s" using audit_m.run_inv [OF assms] by blast
  then have "au_filterAction s \<in> {[], ''create'', ''update'', ''delete'', ''toggle''}"
    by (simp add: audit_inv_def action_options_def)
  then have "list_ex (\<lambda>e. ae_action e \<in> {''register'', ''remove''}) (filteredEvents s) \<longrightarrow> au_filterAction s = []"
    unfolding spec f by (auto simp: ball_if_list_ex)
  then show ?thesis unfolding f [symmetric] by (simp add: spec audit_table_def)
qed

definition demo_event :: "string \<Rightarrow> string \<Rightarrow> AuditEvent" where
  "demo_event act rid = \<lparr>ae_id = ''1'', ae_timestamp = ''2024'', ae_actor = None, ae_action = act, ae_resource = ''flag'',
     ae_resourceId = rid, ae_cluster = None\<rparr>"

definition audit_session :: "audit_event list" where
  "audit_session =
     [ALoaded (QData [demo_event ''create'' ''default/Dark-Mode'', demo_event ''create'' ''default/beta'',
                      demo_event ''delete'' ''default/dark-mode'']),
      AUser (Enter A_Search ''DARK''), AUser (Choose A_Action ''create'')]"

theorem audit_filtered_witness:
  "\<exists>s. exec_events (audit_enabled id) audit_step audit_init audit_session = Some s
     \<and> filteredEvents s = [demo_event ''create'' ''default/Dark-Mode'']
     \<and> audit_table id s = El (map Txt [''Timestamp'', ''Action'', ''Resource'', ''Resource ID'', ''Cluster'']
                              @ map (audit_row id) [demo_event ''create'' ''default/Dark-Mode''])"
proof -
  let ?s = "\<lparr>au_search = ''DARK'', au_filterAction = ''create'',
     au_events = QData [demo_event ''create'' ''default/Dark-Mode'', demo_event ''create'' ''default/beta'',
                      demo_event ''delete'' ''default/dark-mode''], au_loading = False\<rparr>"
  have r: "exec_events (audit_enabled id) audit_step audit_init audit_session = Some ?s" by code_simp
  have f: "filteredEvents ?s = [demo_event ''create'' ''default/Dark-Mode'']" by code_simp
  have "\<not> au_loading ?s \<and> filteredEvents ?s \<noteq> []" unfolding f by simp
  then have "audit_table id ?s = El (map Txt [''Timestamp'', ''Action'', ''Resource'', ''Resource ID'', ''Cluster'']
                              @ map (audit_row id) (filteredEvents ?s))"
    using audit_filtered [OF exec_events_run [OF r]] by blast
  then have d: "filteredEvents ?s = [demo_event ''create'' ''default/Dark-Mode'']
     \<and> audit_table id ?s = El (map Txt [''Timestamp'', ''Action'', ''Resource'', ''Resource ID'', ''Cluster'']
                              @ map (audit_row id) [demo_event ''create'' ''default/Dark-Mode''])"
    unfolding f by (rule conjI [OF refl])
  show ?thesis by (rule exI [of _ ?s], rule conjI [OF r d])
qed

end
