(* ===== verification/Dashboard.thy ===== *)
theory Dashboard
  imports Sidebar Utils FlagsPage
begin

text \<open>
  The dashboard, \<open>web/src/app/page.tsx\<close>: the four counters, the first flags and audit
  events, and the clusters. The page keeps no state of its own; its view is a function of
  three queries and the clock.
\<close>

record dashboard =
  db_flags :: "FeatureFlag list query"
  db_clusters :: "Cluster list query"
  db_audit :: "AuditEvent list query"

text \<open>\<open>data: xs = []\<close> and then \<open>xs?.length ?? 0\<close>, \<open>xs && xs.length > 0\<close>: \<open>null\<close> counts as empty.\<close>

definition flags_of :: "dashboard \<Rightarrow> FeatureFlag list" where
  "flags_of s = or_nil (query_list (db_flags s))"

definition clusters_of :: "dashboard \<Rightarrow> Cluster list" where
  "clusters_of s = or_nil (query_list (db_clusters s))"

definition audit_of :: "dashboard \<Rightarrow> AuditEvent list" where
  "audit_of s = or_nil (query_list (db_audit s))"

section \<open>Counters\<close>

definition is_active :: "FeatureFlag \<Rightarrow> bool" where
  "is_active f \<longleftrightarrow> ff_phase f = Some Active"

definition is_connected :: "Cluster \<Rightarrow> bool" where
  "is_connected c \<longleftrightarrow> cl_status c = Connected"

definition stats :: "dashboard \<Rightarrow> (string \<times> int) list" where
  "stats s =
     [(''Total Flags'', int (length (flags_of s))),
      (''Active Flags'', int (length (filter is_active (flags_of s)))),
      (''Clusters'', int (length (filter is_connected (clusters_of s)))),
      (''Targeted Workloads'', foldl (\<lambda>acc f. acc + ff_targetedWorkloads f) 0 (flags_of s))]"

section \<open>The view\<close>

type_synonym dash_ui = "unit ui"

definition stat_card :: "string \<times> int \<Rightarrow> dash_ui" where
  "stat_card st = El [Txt (show_int (snd st)), Txt (fst st)]"

definition dash_value :: "string \<Rightarrow> string" where
  "dash_value v = (if 20 < length v then take 20 v @ ''...'' else v)"

definition dash_flag :: "FeatureFlag \<Rightarrow> dash_ui" where
  "dash_flag f =
     El [Txt (ff_name f), Txt (ff_namespace f @ '' / '' @ flag_type_str (ff_type f)),
         Txt (dash_value (ff_defaultValue f)), Txt (phase_or_pending f)]"

definition recent_flags :: "dashboard \<Rightarrow> dash_ui" where
  "recent_flags s =
     El [El [Txt ''Feature Flags'', Lnk ''/flags'' [Txt ''View all'']],
         (if flags_of s \<noteq> [] then El (map dash_flag (take 6 (flags_of s)))
          else El [Txt ''No flags yet.'', Lnk ''/flags'' [Txt ''Create your first flag'']])]"

definition dash_event :: "clock \<Rightarrow> AuditEvent \<Rightarrow> dash_ui" where
  "dash_event C e =
     El [Txt (ae_action e), Txt (ae_resource e), Txt (ae_resourceId e),
         Txt (timeAgo (now_ms C) (parse_date C (ae_timestamp e)))]"

definition recent_activity :: "clock \<Rightarrow> dashboard \<Rightarrow> dash_ui" where
  "recent_activity C s =
     El [El [Txt ''Recent Activity'', Lnk ''/audit'' [Txt ''View all'']],
         (if audit_of s \<noteq> [] then El (map (dash_event C) (take 8 (audit_of s)))
          else El [Txt ''No activity yet''])]"

definition dash_cluster :: "Cluster \<Rightarrow> dash_ui" where
  "dash_cluster c =
     El [Txt (cl_displayName c), Txt (cl_id c), Txt (show_int (cl_discoveredWorkloads c)), Txt ''workloads'']"

definition clusters_row :: "dashboard \<Rightarrow> dash_ui" where
  "clusters_row s =
     El [El [Txt ''Connected Clusters'', Lnk ''/clusters'' [Txt ''Manage'']],
         El (map dash_cluster (clusters_of s))]"

definition dashboard_view :: "clock \<Rightarrow> dashboard \<Rightarrow> dash_ui" where
  "dashboard_view C s =
     El ([Txt ''Dashboard'', Txt ''Overview of your feature flags platform'',
          El (map stat_card (stats s)), recent_flags s, recent_activity C s]
         @ show_if (clusters_of s \<noteq> []) [clusters_row s])"

section \<open>Properties\<close>

lemma foldl_add: "foldl (\<lambda>acc f. acc + g f) (a :: int) xs = a + (\<Sum>x\<leftarrow>xs. g x)"
  by (induction xs arbitrary: a) simp_all

lemma length_filter_all: "length (filter P xs) = length xs \<longleftrightarrow> list_all P xs"
  using length_filter_less [of _ xs P] by (fastforce simp: list_all_iff)

lemma dash_parts_offers:
  "\<not> offers (stat_card st) a" "\<not> offers (dash_flag f) a" "\<not> offers (dash_event C e) a" "\<not> offers (dash_cluster c) a"
  by (simp_all add: stat_card_def dash_flag_def dash_event_def dash_cluster_def)

lemma dashboard_offers: "offers (dashboard_view C s) a \<Longrightarrow> a \<in> {Follow ''/flags'', Follow ''/audit'', Follow ''/clusters''}"
  by (auto simp: dashboard_view_def recent_flags_def recent_activity_def clusters_row_def list_ex_map_set
      dash_parts_offers split: if_splits)

text \<open>The phase filter of the flags page and the counter of the dashboard select the same flags.\<close>

lemma active_passes: "flag_passes [] [] ''Active'' f \<longleftrightarrow> is_active f"
proof (cases "ff_phase f")
  case (Some q)
  then show ?thesis by (cases q) (simp_all add: flag_passes_def phase_or_pending_def is_active_def)
qed (simp add: flag_passes_def phase_or_pending_def is_active_def)

lemma active_filtered:
  assumes "fp_flags p = db_flags s" and "fp_search p = []" and "fp_filterType p = []" and "fp_filterPhase p = ''Active''"
  shows "filteredFlags p = filter is_active (flags_of s)"
  using assms by (simp add: filteredFlags_def flags_of_def or_nil_def active_passes [abs_def] split: option.split)


definition two_clusters :: dashboard where
  "two_clusters =
     (let c = \<lparr>cl_id = ''eu'', cl_displayName = ''EU'', cl_apiServer = [], cl_status = Connected,
               cl_kubernetesVersion = None, cl_discoveredWorkloads = 3\<rparr>
      in \<lparr>db_flags = QData [demo_flag, demo_flag\<lparr>ff_name := ''beta'', ff_phase := Some Failed\<rparr>],
          db_clusters = QData [c, c\<lparr>cl_id := ''us'', cl_status := Disconnected\<rparr>], db_audit = QUndef\<rparr>)"

definition stopped_clock :: clock where
  "stopped_clock = \<lparr>now_ms = 0, parse_date = (\<lambda>_. None)\<rparr>"


end
