(* ===== verification/Spec2Isabelle.thy ===== *)
theory Spec2Isabelle
  imports Stack DiscoveryProps Sidebar WorkloadsPage AuditPage Dashboard
begin

text \<open>
  A model of Vexil, a Kubernetes-native feature flag system: its TypeScript code, which is the
  Node SDK (\<open>sdks/node/src/index.ts\<close>) and the dashboard (\<open>web/src\<close>, a Next.js application),
  and the Go programs these talk to: the API server (\<open>internal/apiserver\<close>), the operator
  (\<open>internal/operator\<close>) and the sidecar (\<open>sidecar/main.go\<close>). Paths are relative to \<open>src/\<close>.

  \<^bold>\<open>The program and its parts.\<close> People manage flags, clusters and users in the dashboard. Its
  pages run in the browser and call the API client, the client sends requests to the
  dashboard's own route handler, and that forwards them to the API server. The server keeps
  users, sessions and the audit log in memory, and each flag as a resource \<open>FeatureFlag\<close> of
  one of its clusters. In each cluster the operator reconciles the flags: it writes the
  default value into the variables of deployments or into a ConfigMap, and reports in the
  flag's status. A sidecar in a pod follows the flags of its namespace and serves them over
  HTTP. An application reads a flag through the SDK from its environment, a mounted ConfigMap
  or the sidecar.

  \<^bold>\<open>Foundations.\<close> \<open>Prelude\<close>: results that may be errors, machines with guarded steps
  (\<open>run\<close>, \<open>exec_events\<close>), the interfaces \<open>guarded_machine\<close> (an invariant that every
  enabled step keeps), \<open>logged_machine\<close> (one whose invariant says that every call of its
  log is a permitted one) and \<open>erasure\<close> (steps that commute with erasing data).
  \<open>JsString\<close>, \<open>JsValue\<close>, \<open>Json\<close>: the JavaScript strings, numbers, objects and the
  \<open>JSON\<close> functions the code uses; printing and parsing are inverse. \<open>Http\<close>: requests,
  answers, local storage, form encoding and the parts of a URL. \<open>Ui\<close>: what a component
  renders, as a tree; \<open>offers\<close> says which actions it offers to the user, \<open>displays\<close> which
  texts it shows. \<open>GoLib\<close>: maps, \<open>encoding/json\<close> and the routing of \<open>net/http\<close> as the Go
  programs use them; what they encode, both their decoder and \<open>JSON.parse\<close> read back.

  \<^bold>\<open>The SDK.\<close> \<open>NodeSdk\<close> has one definition per method of \<open>Client\<close>, over a record
  \<open>node_env\<close> of the process environment, the file system and the answers to \<open>fetch\<close>;
  \<open>NodeSdkProps\<close> shows that the getters of the local providers never reject, that listing
  and looking up agree, and where they do not.

  \<^bold>\<open>The dashboard below the pages.\<close> \<open>Types\<close>: \<open>web/src/lib/types.ts\<close>. \<open>ApiClient\<close>:
  \<open>web/src/lib/api-client.ts\<close>, over the browser state. \<open>Proxy\<close>: the route handler
  \<open>web/src/app/api/v1/[...path]/route.ts\<close>. \<open>Auth\<close>: the store \<open>web/src/lib/auth.ts\<close>, the
  guard of \<open>web/src/app/providers.tsx\<close>, the login page. \<open>Utils\<close>: \<open>timeAgo\<close> of
  \<open>web/src/lib/utils.ts\<close>.

  \<^bold>\<open>The pages.\<close> Each is a machine: a record of its \<open>useState\<close> variables and of what its
  queries and mutations have delivered, a view, a handler for the actions the view offers,
  and events for what arrives from outside. Its theory proves an invariant of all
  sessions, by interpreting \<open>guarded_machine\<close>. \<open>Delivery\<close>, \<open>CreateFlag\<close>,
  \<open>CreateFlagProps\<close>: the wizard \<open>CreateFlagModal.tsx\<close>. \<open>EditFlag\<close>, \<open>EditFlagProps\<close>:
  the modal \<open>EditFlagModal.tsx\<close>; its rules are objects shared with the query cache, so
  the state has a store of rule objects. \<open>Confirm\<close>: \<open>ConfirmModal.tsx\<close>. \<open>FlagsPage\<close>,
  \<open>FlagsPageProps\<close>: \<open>app/flags/page.tsx\<close> with both modals as child machines.
  \<open>ClustersPage\<close>: \<open>app/clusters/page.tsx\<close>. \<open>UsersPanel\<close>, \<open>SettingsPage\<close>:
  \<open>app/settings/page.tsx\<close>. \<open>Sidebar\<close>: \<open>components/layout/Sidebar.tsx\<close>.
  \<open>WorkloadsPage\<close>: \<open>app/workloads/page.tsx\<close> and its error boundary. \<open>AuditPage\<close>:
  \<open>app/audit/page.tsx\<close>. \<open>Dashboard\<close>: \<open>app/page.tsx\<close>.

  \<^bold>\<open>The cluster side.\<close> \<open>Kube\<close>: the resource of \<open>pkg/apis/v1alpha1\<close>, its JSON form, and the
  Kubernetes API as a record of functions on an unknown cluster; \<open>kube_laws\<close> states what its
  documentation promises, and \<open>KubeExample\<close> is a small cluster that satisfies it.
  \<open>MemoryStore\<close>: \<open>store/memory.go\<close>. \<open>Multicluster\<close>: \<open>internal/multicluster/manager.go\<close>.
  \<open>Discovery\<close>: \<open>internal/discovery/scanner.go\<close> and the matching of flags to workloads.
  \<open>ApiServer\<close>, \<open>ApiFlags\<close>, \<open>ApiWorkloads\<close>, \<open>ApiRoutes\<close>: the handlers, the table of routes and the
  middleware; \<open>serve\<close> takes a request through all of them. \<open>ApiServerProps\<close> shows who may
  change what, \<open>ApiSessions\<close> the life of a session and the audit log over sequences of
  requests, \<open>ApiFlagProps\<close> that the server implements an abstract map of flags; \<open>ApiExample\<close>
  is a server to compute with. \<open>Operator\<close>, \<open>OperatorProps\<close>:
  \<open>controllers/featureflag_controller.go\<close>, one definition per method of the reconciler, and
  that the status it writes is true; \<open>DiscoveryProps\<close> shows what a scan keeps to itself and
  that it agrees with the operator. \<open>Sidecar\<close>, \<open>SidecarProps\<close>: the store of the sidecar,
  its watcher and routes; that it follows the cluster, what its streams carry, and what the
  SDK reads through it.

  \<^bold>\<open>The whole.\<close> \<open>ServerBodies\<close> reads the bodies the dashboard sends as the server does;
  \<open>Stack\<close> connects the browser, the proxy, the server, the operator and the pod; this theory
  states what holds from one end to the other.

  \<^bold>\<open>How the code is read.\<close> A promise that rejects, a call that throws and a Go error are
  \<open>Inl\<close>; an \<open>async\<close> handler is split at its \<open>await\<close>, and what may happen meanwhile is another
  event of the machine. Calls to the router and to the API are collected in the state. React
  Query is not modelled: a query may deliver any answer at any time after it was asked
  for, a mutation ends once per call. A view is left out of its style classes, icons and
  placeholders; arrows, dashes and ticks of the interface are written in ASCII. A request to
  the API server is served in one step, and the server keeps of a client to a cluster the
  cluster it talks to; the clock, random numbers, bcrypt and the order in which a Go map is
  traversed are arguments. A run of the operator is one step on the cluster.

  \<^bold>\<open>Bounds.\<close> Characters are the 256 of \<open>char\<close>, with the case conversions of Latin-1;
  numbers are decimal fractions, so they do not round, and texts of integers are exact
  below 10 to the 21st. The JSON parser runs on fuel, twice the length of the text plus
  one, which suffices for every text a printed value can be (\<open>json_roundtrip\<close>). There is
  no other fuel; all other definitions are total by construction. An \<open>int32\<close> in a request is
  read only in its range; counters of the Go code (deployments, generations) are unbounded.

  \<^bold>\<open>Not modelled.\<close> \<open>Intl\<close> date formats and the clock (arguments of the views), CSS class
  merging, the library code of React, Next.js, Zustand and React Query, the static layouts
  and the build configuration. Of the Go code: the PostgreSQL store, which \<open>cmd/\<close> selects instead of the
  memory store, and the programs' start-up. The SDKs in other languages. Kubernetes itself,
  beyond \<open>kube_laws\<close> and the law of \<open>Stack\<close> on the environment of a process.
\<close>

section \<open>From the wizard to the application\<close>



text \<open>C1 (wizard_to_pod). From the wizard to the running application: every flag the wizard sends in any session with the delivery by environment variable, once the API server has accepted it and a run of the operator has made it \<open>Active\<close>, is in every container of every deployment of the namespace that carries the labels, under the variable the wizard announces, with the value of the form; and unless a name was chosen for the variable, the Node SDK in such a pod reads exactly that value for the flag, and a boolean flag as true exactly when the value is the text \<open>true\<close>.\<close>

theorem wizard_to_pod:
  assumes "run create_enabled (create_step W) create_init s" and "f \<in> set (cr_sent s)"
    and "cf_deliveryMethod f = M_envVar" and "label_dict ls" and "cf_selectorLabels f = format_labels ls"
    and "in_body (json_init ''POST'' (create_payload f)) = Some (gr_body rq)"
    and "gr_method rq = ''POST''" and "gr_path rq = ''/api/v1/flags''"
    and "serve L rq S = (S1, res)" and "succeeded res" and "kube_laws (sl_kube L)"
    and "GetClient (cf_clusterId f) (sv_clusters S1) = Inr k1"
    and "Reconcile (sl_kube L) now (cf_namespace f) (cf_name f) k1 = (k2, Inr ())"
    and "kube_get_flag (sl_kube L) k2 (cf_namespace f) (cf_name f) = Inr g" and "st_phase (kf_status g) = ''Active''"
  shows "\<exists>ds. kube_list_deployments (sl_kube L) k2 (cf_namespace f) (label_selector ls) = Inr ds
    \<and> (\<forall>d\<in>set ds. \<forall>c\<in>set (dp_containers d).
        map_of (env_vars (co_env c)) (computedEnvVar f) = Some (cf_defaultValue f)
        \<and> (cf_envVarName f = [] \<and> provider cl = ''env'' \<and> pod_gives c E \<and> single_var (computedEnvVar f) c
             \<and> CHR ''$'' \<notin> set (cf_defaultValue f)
           \<longrightarrow> client_string E cl (cf_name f) sd = Inr (JStr (cf_defaultValue f))
             \<and> (cf_type f = Boolean \<longrightarrow> client_bool E cl (cf_name f) bd = Inr (cf_defaultValue f = ''true''))))"
proof -
  have sendable: "sendable f" using create_log.run_log [OF assms(1) create_init_inv] assms(2) by (simp add: list_all_iff)
  then have nm: "list_all name_char (cf_name f)" by (simp add: sendable_def form_ok_def)
  obtain k g1 where "GetClient (cf_clusterId f) (sv_clusters S1) = Inr k"
    and g1k: "kube_get_flag (sl_kube L) k (cf_namespace f) (cf_name f) = Inr g1" and kept: "kept (requested_flag (wizard_request f ls)) g1"
    by (rule wizard_stored [OF assms(11) sendable assms(4-10)])
  then have g1: "kube_get_flag (sl_kube L) k1 (cf_namespace f) (cf_name f) = Inr g1" using assms(12) by simp
  let ?e = "\<lparr>ke_name = cf_envVarName f, ke_selector = label_selector ls\<rparr>"
  have e1: "env_delivery g1 = Some ?e" "sp_default (kf_spec g1) = cf_defaultValue f"
    using kept assms(3)
    by (auto simp: kept_def env_delivery_def requested_flag_def wizard_request_def delivery_for_def dest!: arg_cong [where f = sp_default])
  obtain g' where "kube_get_flag (sl_kube L) k2 (cf_namespace f) (cf_name f) = Inr g'"
    "g'\<lparr>kf_status := kf_status g1\<rparr> = g1" "truthful (sl_kube L) g' k2"
    using operator_truthful_run [OF assms(11) g1 assms(13)] by blast
  then have g: "g\<lparr>kf_status := kf_status g1\<rparr> = g1" "truthful (sl_kube L) g k2" using assms(14) by simp_all
  have same: "kf_spec g = kf_spec g1" "kf_namespace g = kf_namespace g1" "kf_name g = kf_name g1"
    using g(1) by (metis kflag.select_convs kflag.update_convs(6) kflag.surjective)+
  have id: "kf_namespace g = cf_namespace f" "kf_name g = cf_name f"
    using kept same by (simp_all add: kept_def wizard_request_def)
  have "env_delivered (sl_kube L) g ?e (cf_defaultValue f) (st_targeted (kf_status g)) k2"
    using g(2) assms(15) e1 same by (simp add: truthful_def env_delivery_def Let_def)
  then obtain ds where ds: "kube_list_deployments (sl_kube L) k2 (cf_namespace f) (label_selector ls) = Inr ds"
    and v: "\<And>d c. d \<in> set ds \<Longrightarrow> c \<in> set (dp_containers d) \<Longrightarrow> map_of (env_vars (co_env c)) (computedEnvVar f) = Some (cf_defaultValue f)"
    using operator_name [OF nm, of ?e] id by (auto simp: env_delivered_def)
  have read: "client_string E cl (cf_name f) sd = Inr (JStr (cf_defaultValue f))
      \<and> (cf_type f = Boolean \<longrightarrow> client_bool E cl (cf_name f) bd = Inr (cf_defaultValue f = ''true''))"
    if "cf_envVarName f = []" "provider cl = ''env''" "map_of (process_env E) (computedEnvVar f) = Some (cf_defaultValue f)"
    using wizard_variable_read [OF assms(1,2) that] .
  show ?thesis
    using ds v read pod_gives_var by (intro exI [of _ ds] conjI ballI impI) metis+
qed

theorem wizard_to_pod_witness:
  "\<exists>ds. kube_list_deployments mini_kube wizard_cluster ''default'' (label_selector [(''app'', ''web'')]) = Inr ds
    \<and> map dp_containers ds = [[wizard_container]]
    \<and> client_bool (sdk_env (env_vars (co_env wizard_container)))
        (new_client \<lparr>o_provider = ''env'', o_address = None, o_path = None\<rparr>) ''dark-mode'' True = Inr False"
proof -
  let ?c = "new_client \<lparr>o_provider = ''env'', o_address = None, o_path = None\<rparr>" and ?L = "demo_lib 1 []"
  let ?E = "sdk_env (env_vars (co_env wizard_container))" and ?ls = "[(''app'', ''web'')]"
  obtain res where s: "serve ?L wizard_rq (server_with mini_empty)
      = (record_audit ?L (flag_event ''create'' ''default'' ''dark-mode'' ''local'')
           (put_cluster ''local'' wizard_stored_cluster (server_with mini_empty)), res)" "succeeded res"
    by (rule wizard_served)
  have K: "sl_kube ?L = mini_kube" by (simp add: demo_lib_def)
  have f: "cf_name wizard_form = ''dark-mode''" "cf_namespace wizard_form = ''default''" "cf_clusterId wizard_form = ''local''"
    "cf_deliveryMethod wizard_form = M_envVar" "cf_envVarName wizard_form = []" "cf_defaultValue wizard_form = ''false''"
    "cf_type wizard_form = Boolean" "wizard_form \<in> set (cr_sent wizard_pending)"
    "cf_selectorLabels wizard_form = format_labels ?ls"
    by (simp_all add: wizard_form_def empty_form_def wizard_pending_def) code_simp
  have rq: "gr_method wizard_rq = ''POST''" "gr_path wizard_rq = ''/api/v1/flags''"
    "in_body (json_init ''POST'' (create_payload wizard_form)) = Some (gr_body wizard_rq)"
    by (simp_all add: wizard_rq_def demo_rq_def json_init_def create_payload_def)
  have k1: "GetClient ''local'' (sv_clusters (record_audit ?L a (put_cluster ''local'' wizard_stored_cluster (server_with mini_empty))))
      = Inr wizard_stored_cluster" for a
    by (simp add: record_audit_def put_cluster_def put_client_def server_with_def GetClient_def)
  obtain g where g: "kube_get_flag mini_kube wizard_cluster ''default'' ''dark-mode'' = Inr g" "st_phase (kf_status g) = ''Active''"
    using wizard_example(2) by (auto split: sum.splits)
  obtain ds where ds: "kube_list_deployments mini_kube wizard_cluster ''default'' (label_selector ?ls) = Inr ds"
    "map dp_containers ds = [[wizard_container]]"
    using wizard_example(3) by (auto split: sum.splits)
  then obtain d where d: "d \<in> set ds" "wizard_container \<in> set (dp_containers d)" by (cases ds) auto
  have r: "Reconcile mini_kube 2 ''default'' ''dark-mode'' wizard_stored_cluster = (wizard_cluster, Inr ())"
    using wizard_example(1) by (simp add: wizard_cluster_def prod_eq_iff)
  have v: "computedEnvVar wizard_form = ''FLAG_DARK_MODE''" by code_simp
  have p: "pod_gives wizard_container ?E" "single_var (computedEnvVar wizard_form) wizard_container"
    unfolding v by (simp_all add: pod_gives_def single_var_def wizard_container_def sdk_env_def)
  have q: "provider ?c = ''env''" by (simp add: new_client_def Let_def)
  have run: "run create_enabled (create_step stack_env) create_init wizard_pending"
    by (rule exec_events_run [OF wizard_session_runs])
  note w = wizard_to_pod [OF run f(8,4) demo_labels(1) f(9) rq(3,1,2) s(1,2), of wizard_stored_cluster 2 wizard_cluster g ?c ?E _ True,
      unfolded f(1-3) K, OF mini_kube_laws k1 r g]
  note at = in_containers [OF w ds(1) d, THEN conjunct2]
  have "cf_envVarName wizard_form = [] \<and> provider ?c = ''env'' \<and> pod_gives wizard_container ?E
      \<and> single_var (computedEnvVar wizard_form) wizard_container \<and> CHR ''$'' \<notin> set (cf_defaultValue wizard_form)"
    by (intro conjI f(5) q p) (simp add: f(6))
  from at [THEN mp, OF this, THEN conjunct2, THEN mp, OF f(7)]
  have "client_bool ?E ?c ''dark-mode'' True = Inr (cf_defaultValue wizard_form = ''true'')" .
  then have "client_bool ?E ?c ''dark-mode'' True = Inr False" by (simp add: f(6))
  then show ?thesis by (intro exI [of _ ds] conjI ds)
qed

section \<open>From the edit modal to the cluster\<close>



text \<open>C11 (kill_switch). Switching a flag off through the API server does not take it out of the pods: after the update and a run of the operator the flag's phase is \<open>Disabled\<close>, but every deployment is exactly as it was before, with the variable and the value it had, so the SDK of an application that reads its environment still reads the flag as before. Only an application that asks the sidecar gets its default, once the sidecar has seen the flag's new version.\<close>

theorem kill_switch:
  assumes "kube_laws (sl_kube L)" and "path_seg ns" and "path_seg n"
    and "gr_path rq = ''/api/v1/flags/'' @ ns @ ''/'' @ n" and "gr_method rq = ''PUT''"
    and "serve L rq S = (S', res)" and "succeeded res"
    and "Option.bind (go_read (gr_body rq)) read_updates = Some u" and "fu_disabled u = Some True"
    and "GetClient (query_get ''clusterId'' (gr_query rq)) (sv_clusters S) = Inr k"
    and "GetClient (query_get ''clusterId'' (gr_query rq)) (sv_clusters S') = Inr k1"
    and "Reconcile (sl_kube L) now ns n k1 = (k2, Inr ())" and "kube_get_flag (sl_kube L) k2 ns n = Inr g"
  shows "st_phase (kf_status g) = ''Disabled''
    \<and> kube_list_deployments (sl_kube L) k2 = kube_list_deployments (sl_kube L) k
    \<and> (served_by E c ord st \<and> provider c = ''sidecar'' \<and> seg_name n \<and> n \<noteq> ''stream''
         \<and> flagStore_Get n st = Some (resolveFlag g) \<longrightarrow> client_string E c n d = Inr (JStr d))"
proof -
  have e: "endpoint_of rq = Some (Ep_update_flag, [ns, n])" using flag_endpoint(2) [OF assms(2-5)] .
  obtain f g1 where g1: "kube_get_flag (sl_kube L) k1 ns n = Inr g1" "kept (f\<lparr>kf_spec := apply_updates u (kf_spec f)\<rparr>) g1"
    and l: "kube_list_deployments (sl_kube L) k1 = kube_list_deployments (sl_kube L) k"
    by (rule update_done [OF assms(1,6,7) e assms(8,10,11)])
  have "(kf_spec g1)\<lparr>sp_delivery := None\<rparr> = (apply_updates u (kf_spec f))\<lparr>sp_delivery := None\<rparr>"
    using g1(2) by (simp add: kept_def)
  then have "sp_disabled (kf_spec g1) = sp_disabled (apply_updates u (kf_spec f))"
    by (metis kspec.select_convs(6) kspec.surjective kspec.update_convs(5))
  then have off: "sp_disabled (kf_spec g1)" using assms(9) by (simp add: apply_updates_def or_old_def)
  obtain g' where g': "kube_get_flag (sl_kube L) k2 ns n = Inr g'" "g'\<lparr>kf_status := kf_status g1\<rparr> = g1" "truthful (sl_kube L) g' k2"
    using operator_truthful_run [OF assms(1) g1(1) assms(12)] by blast
  then have g: "kf_spec g = kf_spec g1" "truthful (sl_kube L) g k2"
    using assms(13) by (auto simp: kflag.defs) (metis kflag.select_convs(5) kflag.surjective kflag.update_convs(6))
  have "st_phase (kf_status g) = ''Disabled''" using g off by (simp add: truthful_def Let_def)
  moreover have "kube_list_deployments (sl_kube L) k2 = kube_list_deployments (sl_kube L) k"
    using disabled_run(1) [OF assms(1) g1(1) off assms(12)] l by simp
  moreover have "client_string E c n d = Inr (JStr d)"
    if h: "served_by E c ord st" "provider c = ''sidecar''" "seg_name n" "n \<noteq> ''stream''"
      "flagStore_Get n st = Some (resolveFlag g)"
  proof -
    have "sdk_sees (flagStore_Get n st) = None" using h(5) g(1) off by (simp add: sdk_sees_def resolveFlag_def)
    then show ?thesis using sidecar_reads(1) [OF h(1-4)] by simp
  qed
  ultimately show ?thesis by blast
qed

theorem kill_switch_witness:
  "\<exists>g. kube_get_flag mini_kube (fst (Reconcile mini_kube 7 ''default'' ''dark-mode'' off_stored)) ''default'' ''dark-mode'' = Inr g
    \<and> st_phase (kf_status g) = ''Disabled''
    \<and> kube_list_deployments mini_kube (fst (Reconcile mini_kube 7 ''default'' ''dark-mode'' off_stored)) = kube_list_deployments mini_kube mini_after"
proof -
  let ?L = "demo_lib 1 []" and ?k2 = "fst (Reconcile mini_kube 7 ''default'' ''dark-mode'' off_stored)"
  obtain res where s: "serve ?L off_rq (server_with mini_after)
      = (record_audit ?L (flag_event ''update'' ''default'' ''dark-mode'' ''local'') (put_cluster ''local'' off_stored (server_with mini_after)), res)"
    "succeeded res" by (rule off_served)
  have K: "sl_kube ?L = mini_kube" by (simp add: demo_lib_def)
  have k: "kube_laws (sl_kube ?L)" using mini_kube_laws by (simp add: K)
  have rq: "gr_path off_rq = ''/api/v1/flags/'' @ ''default'' @ ''/'' @ ''dark-mode''" "gr_method off_rq = ''PUT''"
    by (simp_all add: off_rq_def demo_rq_def)
  have d: "fu_disabled (edit_updates ''dark-mode'' off_form [(''app'', ''web'')] []) = Some True"
    by (simp add: edit_updates_def off_form_def)
  have c: "GetClient (query_get ''clusterId'' (gr_query off_rq)) (sv_clusters (server_with mini_after)) = Inr mini_after"
    "GetClient (query_get ''clusterId'' (gr_query off_rq)) (sv_clusters (record_audit ?L a (put_cluster ''local'' off_stored (server_with mini_after)))) = Inr off_stored" for a
    by (simp_all add: off_query record_audit_def put_cluster_def put_client_def server_with_def GetClient_def)
  have "snd (Reconcile mini_kube 7 ''default'' ''dark-mode'' off_stored) = Inr ()"
    "\<not> isl (kube_get_flag mini_kube ?k2 ''default'' ''dark-mode'')" by code_simp+
  then obtain g where r: "Reconcile (sl_kube ?L) 7 ''default'' ''dark-mode'' off_stored = (?k2, Inr ())"
    and g: "kube_get_flag (sl_kube ?L) ?k2 ''default'' ''dark-mode'' = Inr g"
    unfolding K by (cases "kube_get_flag mini_kube ?k2 ''default'' ''dark-mode''") (simp_all add: prod_eq_iff)
  note w = kill_switch [OF k off_segs rq s off_read d c r g, unfolded K]
  show ?thesis using g [unfolded K] w [THEN conjunct1] w [THEN conjunct2, THEN conjunct1] by (intro exI [of _ g] conjI)
qed

section \<open>A deletion, from the page to the cluster\<close>

text \<open>C22 (delete_reported_failed). A deletion asked for in the dashboard goes through the client and the proxy to the API server, which removes exactly that flag and answers 204; but the call ends with the error \<open>Failed to connect to API server\<close>, because the proxy cannot pass on an answer without a body, so the page reports a failure, and as it reloads the flags only after a success it keeps displaying the flag that is gone.\<close>

theorem delete_reported_failed:
  assumes "standard_next N" and "public_api_url W = None" and "fetch W = via_proxy N (api_backend L u S) u"
    and "kube_laws (sl_kube L)" and "path_seg (ff_namespace f)" and "path_seg (ff_name f)" and "url_plain (ff_clusterId f)"
    and "serve L (go_request_of u (delete_request W u (ff_namespace f) (ff_name f) (ff_clusterId f) B)) S = (S', res)"
    and "rs_status res = 204"
  shows "flag_map L S' = (flag_map L S)((ff_clusterId f, ff_namespace f, ff_name f) := None)
    \<and> run_flags_call W (CallDelete f) B = (B, Inl (Err ''Failed to connect to API server''))"
proof
  let ?rq = "go_request_of u (delete_request W u (ff_namespace f) (ff_name f) (ff_clusterId f) B)"
  have p: "url_plain (ff_namespace f)" "url_plain (ff_name f)" using assms(5,6) by (simp_all add: path_seg_def)
  note rq = delete_as_go [OF p assms(7), of u W B]
  have e: "endpoint_of ?rq = Some (Ep_delete_flag, [ff_namespace f, ff_name f])"
    using flag_endpoint(1) [OF assms(5,6) rq(2) rq(1)] .
  have "succeeded res" using assms(9) by (simp add: succeeded_def)
  from flags_refine_step [OF assms(4,8) this e] show "flag_map L S' = (flag_map L S)((ff_clusterId f, ff_namespace f, ff_name f) := None)"
    using query_get_plain [OF assms(7)] by (simp add: refines_def rq(3) Let_def)
  have "api_backend L u S (delete_request W u (ff_namespace f) (ff_name f) (ff_clusterId f) B) = Inr res"
    using assms(8) by (simp add: api_backend_def)
  then show "run_flags_call W (CallDelete f) B = (B, Inl (Err ''Failed to connect to API server''))"
    using proxied_delete_fails [OF assms(1-3) p assms(7) _ assms(9)] by blast
qed

theorem delete_reported_failed_witness:
  "let rq = go_request_of None (delete_request ann_env None ''default'' ''dark-mode'' ''local'' ann_browser);
       S' = fst (serve (demo_lib 1 []) rq demo_server)
   in flag_map (demo_lib 1 []) S' (''local'', ''default'', ''dark-mode'') = None
    \<and> snd (run_flags_call ann_env (CallDelete demo_flag) ann_browser) = Inl (Err ''Failed to connect to API server'')"
proof -
  let ?rq = "go_request_of None (delete_request ann_env None ''default'' ''dark-mode'' ''local'' ann_browser)"
  obtain S' res where s: "serve (demo_lib 1 []) ?rq demo_server = (S', res)" by (cases "serve (demo_lib 1 []) ?rq demo_server")
  have "rs_status (snd (serve (demo_lib 1 []) ?rq demo_server)) = 204" by code_simp
  then have st: "rs_status res = 204" using s by simp
  have k: "kube_laws (sl_kube (demo_lib 1 []))" using mini_kube_laws by (simp add: demo_lib_def)
  have f: "ff_namespace demo_flag = ''default''" "ff_name demo_flag = ''dark-mode''" "ff_clusterId demo_flag = ''local''"
    by (simp_all add: demo_flag_def)
  have p: "path_seg (ff_namespace demo_flag)" "path_seg (ff_name demo_flag)" "url_plain (ff_clusterId demo_flag)"
    unfolding f by code_simp+
  have "public_api_url ann_env = None" "fetch ann_env = via_proxy std_next (api_backend (demo_lib 1 []) None demo_server) None"
    by (simp_all add: ann_env_def)
  from delete_reported_failed [OF std_next_standard this k p, unfolded f, OF s st] show ?thesis
    using s by (simp add: Let_def)
qed

section \<open>Pages and roles\<close>



section \<open>No flags at all\<close>



end
